(* ===== verification/Prelude.thy ===== *)
theory Prelude
  imports "HOL-Library.Word"
begin

section \<open>Prelude: outcomes, exceptions, stateful programs\<close>

text \<open>
  The shared base of the development.  A C++ function of the connector that may throw
  and that changes shared state is a HOL function from a state to an outcome and the
  state it leaves.  The state is kept when an exception is thrown, since C++ does not
  roll back.  \<^verbatim>\<open>Undef\<close> stands for the executions the C++ standard, or a library
  precondition, gives no meaning (an out-of-range read, a null dereference).

  This theory holds the exception classes, the outcome type, the sequencing
  combinators with their rewriting rules, and the locale \<^verbatim>\<open>state_order\<close>: what
  follows for a composed program once each of its primitive steps stays inside a
  reflexive and transitive relation on states.
\<close>

type_synonym u64 = "64 word"
type_synonym u32 = "32 word"
type_synonym bytes = string

text \<open>Rewriting rules that run a program, and rules that a program stays in a relation.\<close>

named_theorems run_simps
named_theorems keeps

subsection \<open>Exceptions\<close>

text \<open>
  The exception classes that are declared outside the repository (gradido\_blockchain,
  Poco, the C++ library).  Which of them derives from which is not visible in the
  repository, so the relation is a parameter of type \<^verbatim>\<open>hierarchy\<close>.
\<close>

datatype lib_class =
    GradidoBlockchainException
  | HandleRequestException
  | JwtTokenException
  | SealedBoxesDecryptException
  | DecryptionFailedException
  | MissingKeyException
  | Ed25519SignException
  | Ed25519VerifyException
  | IotaRequestException
  | RequestResponseErrorException
  | RapidjsonParseErrorException
  | RapidjsonMissingMemberException
  | TransactionValidationInvalidInputException
  | TransactionValidationInvalidSignatureException
  | PocoException
  | PocoSignatureVerificationException
  | PocoNullPointerException
  | StdRuntimeError
  | StdException
  | OtherLibClass nat

text \<open>\<^verbatim>\<open>isa D C\<close>: class \<^verbatim>\<open>D\<close> is declared as a (direct or indirect) subclass of \<^verbatim>\<open>C\<close>.\<close>

type_synonym hierarchy = "lib_class \<Rightarrow> lib_class \<Rightarrow> bool"

text \<open>
  One constructor per exception class declared under src/, with the constructor
  arguments of the class, and one for the library classes: the class, its
  \<^verbatim>\<open>what()\<close> and the text its other accessors give
  (\<^verbatim>\<open>getFullString\<close>, \<^verbatim>\<open>displayText\<close>, \<^verbatim>\<open>getKeyName\<close>).
\<close>

datatype exn =
    is_LoginException: LoginException string string string
  | is_SessionException: SessionException string string
  | is_PasswordEncryptionRateLimitException: PasswordEncryptionRateLimitException string
  | is_InvalidPasswordException: InvalidPasswordException string string u64
  | is_RowNotFoundException: RowNotFoundException string string string
  | is_UnknownTableNameException: UnknownTableNameException string string
  | is_MissingMigrationException: MissingMigrationException string string u32
  | is_GradidoNodeRPCException: GradidoNodeRPCException string string
  | is_ApolloDecayException: ApolloDecayException string string string
  | is_LibException: LibException lib_class string string

primrec exn_what :: "exn \<Rightarrow> string" where
  "exn_what (LoginException w _ _) = w"
| "exn_what (SessionException w _) = w"
| "exn_what (PasswordEncryptionRateLimitException w) = w"
| "exn_what (InvalidPasswordException w _ _) = w"
| "exn_what (RowNotFoundException w _ _) = w"
| "exn_what (UnknownTableNameException w _) = w"
| "exn_what (MissingMigrationException w _ _) = w"
| "exn_what (GradidoNodeRPCException w _) = w"
| "exn_what (ApolloDecayException w _ _) = w"
| "exn_what (LibException _ w _) = w"

text \<open>
  A clause \<^verbatim>\<open>catch (C& ex)\<close> for a library class \<^verbatim>\<open>C\<close>: every class declared
  under src/ derives directly from \<^const>\<open>GradidoBlockchainException\<close>.
\<close>

definition instance_of :: "hierarchy \<Rightarrow> lib_class \<Rightarrow> exn \<Rightarrow> bool" where
  "instance_of isa C e =
     (case e of
        LibException D _ _ \<Rightarrow> D = C \<or> isa D C
      | _ \<Rightarrow> C = GradidoBlockchainException \<or> isa GradidoBlockchainException C)"

lemma instance_of_lib [simp]:
  "instance_of isa C (LibException D w t) = (D = C \<or> isa D C)"
  by (simp add: instance_of_def)

lemma instance_of_src [simp]:
  "\<not> is_LibException e \<Longrightarrow>
     instance_of isa C e = (C = GradidoBlockchainException \<or> isa GradidoBlockchainException C)"
  by (cases e) (simp_all add: instance_of_def)

subsection \<open>Decimal numbers as text\<close>

text \<open>\<^verbatim>\<open>std::to_string\<close> on an unsigned number.\<close>

fun to_digits :: "nat \<Rightarrow> string" where
  "to_digits n =
     (if n < 10 then [char_of (48 + n)] else to_digits (n div 10) @ [char_of (48 + n mod 10)])"

declare to_digits.simps [simp del]

lemma to_digits_small: "n < 10 \<Longrightarrow> to_digits n = [char_of (48 + n)]"
  by (subst to_digits.simps) simp

lemma to_digits_not_empty [simp]: "to_digits n \<noteq> []"
  by (subst to_digits.simps) simp

subsection \<open>Outcomes and stateful programs\<close>

datatype 'a outcome = is_Ret: Ret (the_Ret: 'a) | is_Throw: Throw (thrown: exn) | Undef

lemma map_outcome_Ret: "map_outcome f r = Ret y \<longleftrightarrow> (\<exists>x. r = Ret x \<and> y = f x)"
  by (cases r) auto

type_synonym ('s, 'a) m = "'s \<Rightarrow> 'a outcome \<times> 's"

definition ret :: "'a \<Rightarrow> ('s, 'a) m" where
  "ret a = (\<lambda>s. (Ret a, s))"

definition throw :: "exn \<Rightarrow> ('s, 'a) m" where
  "throw e = (\<lambda>s. (Throw e, s))"

definition undef :: "('s, 'a) m" where
  "undef = (\<lambda>s. (Undef, s))"

text \<open>A library call without effect on the state: its outcome.\<close>

definition outcome_of :: "'a outcome \<Rightarrow> ('s, 'a) m" where
  "outcome_of r = (\<lambda>s. (r, s))"

definition gets :: "('s \<Rightarrow> 'a) \<Rightarrow> ('s, 'a) m" where
  "gets f = (\<lambda>s. (Ret (f s), s))"

definition modify :: "('s \<Rightarrow> 's) \<Rightarrow> ('s, unit) m" where
  "modify f = (\<lambda>s. (Ret (), f s))"

text \<open>Sequencing: an exception, or undefined behaviour, skips the rest.\<close>

definition bind_m :: "('s, 'a) m \<Rightarrow> ('a \<Rightarrow> ('s, 'b) m) \<Rightarrow> ('s, 'b) m" where
  "bind_m p f = (\<lambda>s. case p s of
       (Ret a, s') \<Rightarrow> f a s'
     | (Throw e, s') \<Rightarrow> (Throw e, s')
     | (Undef, s') \<Rightarrow> (Undef, s'))"

text \<open>
  \<^verbatim>\<open>try { p } catch ...\<close>: the handler gets the exception and rethrows what no
  clause of it matches.
\<close>

definition try_m :: "('s, 'a) m \<Rightarrow> (exn \<Rightarrow> ('s, 'a) m) \<Rightarrow> ('s, 'a) m" where
  "try_m p h = (\<lambda>s. case p s of
       (Ret a, s') \<Rightarrow> (Ret a, s')
     | (Throw e, s') \<Rightarrow> h e s'
     | (Undef, s') \<Rightarrow> (Undef, s'))"

text \<open>A program on a part of the state.\<close>

definition within :: "('s \<Rightarrow> 't) \<Rightarrow> ('t \<Rightarrow> 's \<Rightarrow> 's) \<Rightarrow> ('t, 'a) m \<Rightarrow> ('s, 'a) m" where
  "within rd wr p = (\<lambda>s. case p (rd s) of (r, t) \<Rightarrow> (r, wr t s))"

text \<open>A loop over a sequence.\<close>

fun each_m :: "('x \<Rightarrow> ('s, unit) m) \<Rightarrow> 'x list \<Rightarrow> ('s, unit) m" where
  "each_m f [] = ret ()"
| "each_m f (x # xs) = bind_m (f x) (\<lambda>_. each_m f xs)"

subsection \<open>Running programs\<close>

lemma run_basic [run_simps, simp]:
  "ret a s = (Ret a, s)"
  "throw e s = (Throw e, s)"
  "undef s = (Undef, s)"
  "outcome_of r s = (r, s)"
  "gets f s = (Ret (f s), s)"
  "modify g s = (Ret (), g s)"
  by (simp_all add: ret_def throw_def undef_def outcome_of_def gets_def modify_def)

lemma bind_run [run_simps]:
  "p s = (Ret a, t) \<Longrightarrow> bind_m p f s = f a t"
  "p s = (Throw e, t) \<Longrightarrow> bind_m p f s = (Throw e, t)"
  "p s = (Undef, t) \<Longrightarrow> bind_m p f s = (Undef, t)"
  by (simp_all add: bind_m_def)

lemma bind_basic [run_simps, simp]:
  "bind_m (ret a) f = f a"
  "bind_m (throw e) f = throw e"
  "bind_m undef f = undef"
  "bind_m (outcome_of (Ret a)) f = f a"
  "bind_m (outcome_of (Throw e)) f = throw e"
  "bind_m (outcome_of Undef) f = undef"
  "bind_m (gets g) f s = f (g s) s"
  "bind_m (modify k) h s = h () (k s)"
  by (simp_all add: bind_m_def fun_eq_iff)

lemma bind_assoc [run_simps]: "bind_m (bind_m p f) g = bind_m p (\<lambda>a. bind_m (f a) g)"
  by (rule ext) (simp add: bind_m_def split: prod.split outcome.split)

lemma bind_if [run_simps]: "bind_m (if b then p else q) f = (if b then bind_m p f else bind_m q f)"
  by simp

lemma try_run [run_simps]:
  "p s = (Ret a, t) \<Longrightarrow> try_m p h s = (Ret a, t)"
  "p s = (Throw e, t) \<Longrightarrow> try_m p h s = h e t"
  "p s = (Undef, t) \<Longrightarrow> try_m p h s = (Undef, t)"
  by (simp_all add: try_m_def)

lemma try_basic [run_simps, simp]:
  "try_m (ret a) h = ret a"
  "try_m (throw e) h = h e"
  "try_m undef h = undef"
  by (simp_all add: try_m_def fun_eq_iff)

lemma runI: "fst x = r \<Longrightarrow> x = (r, snd x)"
  by auto

lemma within_run [run_simps]:
  "p (rd s) = (r, t) \<Longrightarrow> within rd wr p s = (r, wr t s)"
  by (simp add: within_def)

text \<open>How a sequence can have ended: inversion rules, used as rewrite rules on hypotheses.\<close>

lemma bind_Ret_iff:
  "bind_m p f s = (Ret b, u) \<longleftrightarrow> (\<exists>a t. p s = (Ret a, t) \<and> f a t = (Ret b, u))"
  by (auto simp: bind_m_def split: prod.splits outcome.splits)

lemma bind_Throw_iff:
  "bind_m p f s = (Throw e, u) \<longleftrightarrow>
     p s = (Throw e, u) \<or> (\<exists>a t. p s = (Ret a, t) \<and> f a t = (Throw e, u))"
  by (auto simp: bind_m_def split: prod.splits outcome.splits)

lemma try_Ret_iff:
  "try_m p h s = (Ret b, u) \<longleftrightarrow>
     p s = (Ret b, u) \<or> (\<exists>e t. p s = (Throw e, t) \<and> h e t = (Ret b, u))"
  by (auto simp: try_m_def split: prod.splits outcome.splits)

lemma try_Throw_iff:
  "try_m p h s = (Throw e, u) \<longleftrightarrow>
     (\<exists>e' t. p s = (Throw e', t) \<and> h e' t = (Throw e, u))"
  by (auto simp: try_m_def split: prod.splits outcome.splits)

lemma within_iff:
  "within rd wr p s = (r, u) \<longleftrightarrow> (\<exists>t. p (rd s) = (r, t) \<and> u = wr t s)"
  by (auto simp: within_def split: prod.splits)

text \<open>Case distinctions that run, as disjunctions of their cases.\<close>

lemma run_case_iff:
  "(case v of None \<Rightarrow> k | Some z \<Rightarrow> l z) t = R \<longleftrightarrow> v = None \<and> k t = R \<or> (\<exists>z. v = Some z \<and> l z t = R)"
  "(case w of Inl x \<Rightarrow> g x | Inr y \<Rightarrow> h y) t = R \<longleftrightarrow>
     (\<exists>x. w = Inl x \<and> g x t = R) \<or> (\<exists>y. w = Inr y \<and> h y t = R)"
  "(if c then p else q) t = R \<longleftrightarrow> c \<and> p t = R \<or> \<not> c \<and> q t = R"
  by (auto split: option.split sum.split)

text \<open>The rules that take a hypothesis on a successful run apart.\<close>

lemmas ret_iffs = bind_Ret_iff try_Ret_iff run_case_iff

lemmas run_iffs = bind_Ret_iff bind_Throw_iff try_Ret_iff try_Throw_iff within_iff

subsection \<open>Programs that stay inside a relation on states\<close>

definition stays :: "('s \<Rightarrow> 's \<Rightarrow> bool) \<Rightarrow> ('s, 'a) m \<Rightarrow> bool" where
  "stays R p \<longleftrightarrow> (\<forall>s. R s (snd (p s)))"

lemma staysI: "(\<And>s r t. p s = (r, t) \<Longrightarrow> R s t) \<Longrightarrow> stays R p"
  unfolding stays_def by (metis prod.collapse)

lemma staysD: "stays R p \<Longrightarrow> p s = (r, t) \<Longrightarrow> R s t"
  unfolding stays_def by (metis snd_conv)

text \<open>
  The interface between a component that guards part of the state and the programs
  that run over it: the component gives the relation its operations respect, and any
  composition of such operations respects it.
\<close>

locale state_order =
  fixes R :: "'s \<Rightarrow> 's \<Rightarrow> bool"
  assumes order_refl: "R s s"
    and order_trans: "R s t \<Longrightarrow> R t u \<Longrightarrow> R s u"
begin

lemma stays_pure [keeps]:
  "stays R (ret a)" "stays R (throw e)" "stays R undef" "stays R (outcome_of r)" "stays R (gets f)"
  "stays R (Pair r)"
  by (simp_all add: stays_def order_refl)

lemma stays_modify: "(\<And>s. R s (f s)) \<Longrightarrow> stays R (modify f)"
  by (simp add: stays_def)

lemma stays_bind_Ret:
  assumes p: "stays R p" and f: "\<And>s a t. p s = (Ret a, t) \<Longrightarrow> stays R (f a)"
  shows "stays R (bind_m p f)"
proof (rule staysI)
  fix s r u
  assume run: "bind_m p f s = (r, u)"
  obtain r' t where ps: "p s = (r', t)" by fastforce
  from p ps have st: "R s t" by (rule staysD)
  show "R s u"
  proof (cases r')
    case (Ret a)
    with run ps have "f a t = (r, u)" by (simp add: bind_m_def)
    with f [OF ps [unfolded Ret]] have "R t u" by (rule staysD)
    with st show ?thesis by (rule order_trans)
  qed (use run ps st in \<open>simp_all add: bind_m_def\<close>)
qed

lemma stays_bind [keeps]: "stays R p \<Longrightarrow> (\<And>a. stays R (f a)) \<Longrightarrow> stays R (bind_m p f)"
  by (rule stays_bind_Ret)

lemma stays_try [keeps]:
  assumes p: "stays R p" and h: "\<And>e. stays R (h e)"
  shows "stays R (try_m p h)"
proof (rule staysI)
  fix s r u
  assume run: "try_m p h s = (r, u)"
  obtain r' t where ps: "p s = (r', t)" by fastforce
  from p ps have st: "R s t" by (rule staysD)
  show "R s u"
  proof (cases r')
    case (Throw e)
    with run ps have "h e t = (r, u)" by (simp add: try_m_def)
    with h have "R t u" by (rule staysD)
    with st show ?thesis by (rule order_trans)
  qed (use run ps st in \<open>simp_all add: try_m_def\<close>)
qed

lemma stays_each [keeps]: "(\<And>x. stays R (f x)) \<Longrightarrow> stays R (each_m f xs)"
  by (induction xs) (simp_all add: stays_pure stays_bind)

end

lemma stays_if [keeps]:
  "(b \<Longrightarrow> stays R p) \<Longrightarrow> (\<not> b \<Longrightarrow> stays R q) \<Longrightarrow> stays R (if b then p else q)"
  by simp

lemma stays_option [keeps]:
  "stays R p \<Longrightarrow> (\<And>x. stays R (f x)) \<Longrightarrow> stays R (case v of None \<Rightarrow> p | Some x \<Rightarrow> f x)"
  by (cases v) simp_all

lemma stays_sum [keeps]:
  "(\<And>x. stays R (f x)) \<Longrightarrow> (\<And>y. stays R (g y)) \<Longrightarrow> stays R (case v of Inl x \<Rightarrow> f x | Inr y \<Rightarrow> g y)"
  by (cases v) simp_all

lemma stays_prod [keeps]:
  "(\<And>x y. stays R (f x y)) \<Longrightarrow> stays R (case v of (x, y) \<Rightarrow> f x y)"
  by (cases v) simp

text \<open>Two relations every program of a part of the state respects.\<close>

lemma stays_within:
  assumes "\<And>s t. R s (wr t s)"
  shows "stays R (within rd wr p)"
  using assms by (auto intro!: staysI simp: within_def split: prod.splits)

end
