(* ===== verification/Json.thy ===== *)
theory Json
  imports Prelude
begin

section \<open>JSON values and handler answers\<close>

text \<open>
  The values the connector exchanges.  A JSON value is the data format; the accessors
  that presuppose a type (rapidjson asserts it) give \<^verbatim>\<open>Undef\<close> when it is wrong.
  A handler answers with a rapidjson \<^verbatim>\<open>Document\<close>: the null document (which the
  handlers use for "no error so far"), \<^verbatim>\<open>stateError(msg)\<close> with or without
  details, or \<^verbatim>\<open>stateSuccess()\<close> with the members added to it.
\<close>

datatype json =
    JNull
  | JBool bool
  | JInt int
  | JString string
  | JArray "json list"
  | JObject "(string \<times> json) list"

text \<open>A JSON text value made from \<^verbatim>\<open>const char*\<close>: it ends at the first NUL.\<close>

definition c_str :: "string \<Rightarrow> string" where
  "c_str s = takeWhile (\<lambda>c. c \<noteq> CHR 0x00) s"

lemma c_str_id: "CHR 0x00 \<notin> set s \<Longrightarrow> c_str s = s"
  by (auto simp: c_str_def takeWhile_eq_all_conv)

lemma c_str_Nil [simp]: "c_str [] = []"
  by (simp add: c_str_def)

text \<open>\<^verbatim>\<open>HasMember\<close> and \<^verbatim>\<open>operator[]\<close>: defined on objects only.\<close>

fun has_member :: "json \<Rightarrow> string \<Rightarrow> bool outcome" where
  "has_member (JObject ms) k = Ret (k \<in> fst ` set ms)"
| "has_member _ k = Undef"

fun member :: "json \<Rightarrow> string \<Rightarrow> json outcome" where
  "member (JObject ms) k = (case map_of ms k of Some v \<Rightarrow> Ret v | None \<Rightarrow> Undef)"
| "member _ k = Undef"

fun get_string :: "json \<Rightarrow> string outcome" where
  "get_string (JString s) = Ret s"
| "get_string _ = Undef"

fun get_array :: "json \<Rightarrow> json list outcome" where
  "get_array (JArray xs) = Ret xs"
| "get_array _ = Undef"

fun get_uint64 :: "json \<Rightarrow> u64 outcome" where
  "get_uint64 (JInt n) = (if 0 \<le> n \<and> n < 2 ^ 64 then Ret (word_of_int n) else Undef)"
| "get_uint64 _ = Undef"

text \<open>\<^verbatim>\<open>FindMember\<close>: the iterator is \<^verbatim>\<open>MemberEnd()\<close> when the name is absent.\<close>

fun find_member :: "json \<Rightarrow> string \<Rightarrow> json option outcome" where
  "find_member (JObject ms) k = Ret (map_of ms k)"
| "find_member _ k = Undef"

lemma run_array_iff:
  "(case v of JArray xs \<Rightarrow> f xs | _ \<Rightarrow> g) t = R \<longleftrightarrow>
     (\<exists>xs. v = JArray xs \<and> f xs t = R) \<or> (\<forall>xs. v \<noteq> JArray xs) \<and> g t = R"
  by (cases v) simp_all

subsection \<open>Answers\<close>

datatype detail =
    NoDetails
  | DetailText string
  | DetailOf exn
  | DetailJson string

datatype document =
    NullDocument
  | StateError string detail
  | StateSuccess "(string \<times> json) list"

primrec IsObject :: "document \<Rightarrow> bool" where
  "IsObject NullDocument = False"
| "IsObject (StateError _ _) = True"
| "IsObject (StateSuccess _) = True"

text \<open>The error answers.\<close>

primrec is_error :: "document \<Rightarrow> bool" where
  "is_error NullDocument = False"
| "is_error (StateError _ _) = True"
| "is_error (StateSuccess _) = False"

lemma IsObject_error: "is_error d \<Longrightarrow> IsObject d"
  by (cases d) simp_all

lemma IsObject_iff: "IsObject d \<longleftrightarrow> d \<noteq> NullDocument"
  by (cases d) simp_all

abbreviation stateError :: "string \<Rightarrow> document" where
  "stateError msg \<equiv> StateError msg NoDetails"

text \<open>\<^verbatim>\<open>stateSuccess()\<close> followed by one \<^verbatim>\<open>AddMember\<close>.\<close>

definition success_with :: "string \<Rightarrow> json \<Rightarrow> document" where
  "success_with k v = StateSuccess [(k, v)]"

lemma success_with_simps [simp]:
  "\<not> is_error (success_with k v)"
  "IsObject (success_with k v)"
  "success_with k v \<noteq> NullDocument"
  "success_with k v \<noteq> StateError msg d"
  by (simp_all add: success_with_def)

end
