(* ===== verification/Pending.thy ===== *)
theory Pending
  imports Json
begin

section \<open>model/PendingTransactions: the log of sent transactions\<close>

text \<open>
  The in-memory list of the last transactions handed to iota (or to the Gradido Node),
  oldest first, as \<^verbatim>\<open>std::list<PendingTransaction>\<close> holds it.  Every operation
  takes the recursive mutex for its whole body, so an operation is one atomic step and
  an interleaving of requests is a sequence of operations.
\<close>

subsection \<open>Data\<close>

datatype pending_state = SENDED | CONFIRMED | REJECTED

definition StateToString :: "pending_state \<Rightarrow> string" where
  "StateToString type =
     (case type of
        SENDED \<Rightarrow> ''sended''
      | CONFIRMED \<Rightarrow> ''confirmed''
      | REJECTED \<Rightarrow> ''rejected'')"

record pending_tx =
  iotaMessageId :: string
  transactionType :: int
  created :: int
  pt_state :: pending_state
  errorMessage :: string
  pt_apolloCreatedDecay :: string
  pt_apolloDecayStart :: int
  pt_apolloTransactionId :: u64

text \<open>
  The constructor.  \<^verbatim>\<open>created\<close> is not in the initialiser list: it is a default
  constructed \<^verbatim>\<open>Poco::DateTime\<close>, the current time.
\<close>

definition PendingTransaction ::
    "int \<Rightarrow> string \<Rightarrow> int \<Rightarrow> string \<Rightarrow> int \<Rightarrow> u64 \<Rightarrow> pending_tx" where
  "PendingTransaction now messageId type createdDecay decayStart transactionId =
     \<lparr>iotaMessageId = messageId, transactionType = type, created = now, pt_state = SENDED,
      errorMessage = [], pt_apolloCreatedDecay = createdDecay,
      pt_apolloDecayStart = decayStart, pt_apolloTransactionId = transactionId\<rparr>"

definition MAX_PENDING_TRANSACTIONS_IN_LIST :: nat where
  "MAX_PENDING_TRANSACTIONS_IN_LIST = 100"

text \<open>
  The progress order on states: a sent transaction can be rejected, and both a sent
  and a rejected one can be confirmed.
\<close>

primrec progress :: "pending_state \<Rightarrow> nat" where
  "progress SENDED = 0"
| "progress REJECTED = 1"
| "progress CONFIRMED = 2"

instantiation pending_state :: linorder
begin

definition less_eq_pending_state :: "pending_state \<Rightarrow> pending_state \<Rightarrow> bool" where
  "less_eq_pending_state a b = (progress a \<le> progress b)"

definition less_pending_state :: "pending_state \<Rightarrow> pending_state \<Rightarrow> bool" where
  "less_pending_state a b = (progress a < progress b)"

instance
proof
  fix a b :: pending_state
  show "a \<le> b \<Longrightarrow> b \<le> a \<Longrightarrow> a = b"
    by (cases a; cases b) (simp_all add: less_eq_pending_state_def)
qed (auto simp: less_eq_pending_state_def less_pending_state_def)

end

lemma CONFIRMED_top [simp]: "CONFIRMED \<le> a \<longleftrightarrow> a = CONFIRMED" "a \<le> CONFIRMED"
  by (cases a; simp add: less_eq_pending_state_def)+

lemma SENDED_bot [simp]: "SENDED \<le> a"
  by (simp add: less_eq_pending_state_def)

lemma REJECTED_le [simp]: "a \<le> REJECTED \<longleftrightarrow> a \<noteq> CONFIRMED"
  by (cases a) (simp_all add: less_eq_pending_state_def)

subsection \<open>pushNewTransaction\<close>

text \<open>\<^verbatim>\<open>while (size() > n) pop_front();\<close>\<close>

function pop_excess :: "nat \<Rightarrow> 'a list \<Rightarrow> 'a list" where
  "pop_excess n xs = (if length xs > n then pop_excess n (tl xs) else xs)"
  by pat_completeness auto
termination
  by (relation "measure (\<lambda>(n, xs). length xs)") auto

declare pop_excess.simps [simp del]

definition pushNewTransaction :: "pending_tx \<Rightarrow> pending_tx list \<Rightarrow> pending_tx list" where
  "pushNewTransaction p ps = pop_excess MAX_PENDING_TRANSACTIONS_IN_LIST (ps @ [p])"

lemma pop_excess_eq: "pop_excess n xs = drop (length xs - n) xs"
proof (induction n xs rule: pop_excess.induct)
  case (1 n xs)
  show ?case
  proof (cases "length xs > n")
    case True
    with 1 have "pop_excess n xs = drop (length xs - 1 - n) (tl xs)"
      by (simp add: pop_excess.simps [of n xs])
    also from True have "\<dots> = drop (length xs - n) xs"
      by (simp add: drop_Suc [symmetric] Suc_diff_Suc)
    finally show ?thesis .
  qed (simp add: pop_excess.simps [of n xs])
qed

subsection \<open>updateTransaction\<close>

text \<open>
  \<^verbatim>\<open>memcmp(a.data(), b.data(), n) == 0\<close>: \<^verbatim>\<open>data()\<close> gives the characters
  and a terminating NUL; reading past it is undefined.
\<close>

definition memcmp_eq :: "nat \<Rightarrow> string \<Rightarrow> string \<Rightarrow> bool outcome" where
  "memcmp_eq n a b =
     (if n \<le> length a + 1 \<and> n \<le> length b + 1
      then Ret (take n (a @ [CHR 0x00]) = take n (b @ [CHR 0x00]))
      else Undef)"

text \<open>The body of the loop, over the reversed list (\<^verbatim>\<open>rbegin\<close> to \<^verbatim>\<open>rend\<close>).\<close>

fun update_from_end ::
    "string \<Rightarrow> bool \<Rightarrow> string \<Rightarrow> pending_tx list \<Rightarrow> pending_tx list outcome" where
  "update_from_end messageId confirmend err [] = Ret []"
| "update_from_end messageId confirmend err (p # ps) =
     (case memcmp_eq 64 (iotaMessageId p) messageId of
        Ret True \<Rightarrow>
          (if pt_state p = CONFIRMED then Ret (p # ps)
           else Ret (p\<lparr>pt_state := (if confirmend then CONFIRMED else REJECTED),
                       errorMessage := err\<rparr> # ps))
      | Ret False \<Rightarrow>
          (case update_from_end messageId confirmend err ps of
             Ret qs \<Rightarrow> Ret (p # qs) | Throw e \<Rightarrow> Throw e | Undef \<Rightarrow> Undef)
      | Throw e \<Rightarrow> Throw e
      | Undef \<Rightarrow> Undef)"

definition updateTransaction ::
    "string \<Rightarrow> bool \<Rightarrow> string \<Rightarrow> pending_tx list \<Rightarrow> pending_tx list outcome" where
  "updateTransaction messageId confirmend err ps =
     map_outcome rev (update_from_end messageId confirmend err (rev ps))"

subsection \<open>listAsJson and validateApolloCreationDecay\<close>

text \<open>\<^verbatim>\<open>epochMicroseconds()/1000\<close>: C++ division truncates towards zero.\<close>

definition ms_of_us :: "int \<Rightarrow> int" where
  "ms_of_us t = sgn t * (\<bar>t\<bar> div 1000)"

definition entry_json :: "(int \<Rightarrow> string) \<Rightarrow> pending_tx \<Rightarrow> json" where
  "entry_json getTransactionTypeString pending =
     JObject
       [(''messageId'', JString (c_str (iotaMessageId pending))),
        (''transactionType'', JString (getTransactionTypeString (transactionType pending))),
        (''created'', JInt (ms_of_us (created pending))),
        (''state'', JString (StateToString (pt_state pending))),
        (''errorMessage'', JString (c_str (errorMessage pending)))]"

definition listAsJson :: "(int \<Rightarrow> string) \<Rightarrow> pending_tx list \<Rightarrow> json" where
  "listAsJson getTransactionTypeString ps =
     JArray (map (entry_json getTransactionTypeString) (rev ps))"

definition validateApolloCreationDecay :: "'tx \<Rightarrow> bool" where
  "validateApolloCreationDecay gradidoTransaction = True"

subsection \<open>What the loops compute\<close>

lemma pushNewTransaction_eq:
  "pushNewTransaction p ps =
     (if length ps < MAX_PENDING_TRANSACTIONS_IN_LIST then ps @ [p]
      else drop (length ps + 1 - MAX_PENDING_TRANSACTIONS_IN_LIST) ps @ [p])"
  by (auto simp: pushNewTransaction_def pop_excess_eq MAX_PENDING_TRANSACTIONS_IN_LIST_def)

lemma pushNewTransaction_last [simp]:
  "last (pushNewTransaction p ps) = p" "pushNewTransaction p ps \<noteq> []"
  by (simp_all add: pushNewTransaction_eq)

lemma length_pushNewTransaction:
  "length (pushNewTransaction p ps) = min (Suc (length ps)) MAX_PENDING_TRANSACTIONS_IN_LIST"
  by (auto simp: pushNewTransaction_eq MAX_PENDING_TRANSACTIONS_IN_LIST_def)

lemma rev_pushNewTransaction:
  "rev (pushNewTransaction p ps) = take MAX_PENDING_TRANSACTIONS_IN_LIST (p # rev ps)"
proof (cases "length ps < MAX_PENDING_TRANSACTIONS_IN_LIST")
  case False
  then show ?thesis
    by (simp add: pushNewTransaction_eq rev_drop MAX_PENDING_TRANSACTIONS_IN_LIST_def)
qed (simp add: pushNewTransaction_eq)

text \<open>What one matching notification does to an entry.\<close>

definition settle :: "bool \<Rightarrow> string \<Rightarrow> pending_tx \<Rightarrow> pending_tx" where
  "settle confirmend err p =
     (if pt_state p = CONFIRMED then p
      else p\<lparr>pt_state := (if confirmend then CONFIRMED else REJECTED), errorMessage := err\<rparr>)"

text \<open>The contract of an update: the first entry with the identifier is settled.\<close>

fun spec_update :: "string \<times> bool \<times> string \<Rightarrow> pending_tx list \<Rightarrow> pending_tx list" where
  "spec_update u [] = []"
| "spec_update (messageId, c, err) (p # ps) =
     (if iotaMessageId p = messageId then settle c err p # ps
      else p # spec_update (messageId, c, err) ps)"

text \<open>Message ids are 32 bytes in hex.\<close>

definition id_ok :: "string \<Rightarrow> bool" where
  "id_ok messageId \<longleftrightarrow> length messageId = 64"

lemma memcmp_eq_ids: "id_ok a \<Longrightarrow> id_ok b \<Longrightarrow> memcmp_eq 64 a b = Ret (a = b)"
  by (simp add: memcmp_eq_def id_ok_def)

lemma settle_id [simp]: "iotaMessageId (settle c err p) = iotaMessageId p"
  by (simp add: settle_def)

lemma spec_update_ids [simp]: "map iotaMessageId (spec_update u ps) = map iotaMessageId ps"
  by (induction u ps rule: spec_update.induct) simp_all

lemma spec_update_length [simp]: "length (spec_update u ps) = length ps"
  using spec_update_ids [of u ps] map_eq_imp_length_eq by blast

lemma spec_update_take: "take n (spec_update u ps) = spec_update u (take n ps)"
proof (induction u ps arbitrary: n rule: spec_update.induct)
  case (2 messageId c err p ps)
  then show ?case by (cases n) simp_all
qed simp

lemma spec_update_id_ok:
  "\<forall>p \<in> set ps. id_ok (iotaMessageId p) \<Longrightarrow> \<forall>p \<in> set (spec_update u ps). id_ok (iotaMessageId p)"
proof -
  assume "\<forall>p \<in> set ps. id_ok (iotaMessageId p)"
  then have "\<forall>i \<in> set (map iotaMessageId (spec_update u ps)). id_ok i" by simp
  then show ?thesis by (simp del: spec_update_ids)
qed

lemma update_from_end_spec:
  "id_ok messageId \<Longrightarrow> \<forall>p \<in> set ps. id_ok (iotaMessageId p) \<Longrightarrow>
     update_from_end messageId c err ps = Ret (spec_update (messageId, c, err) ps)"
  by (induction ps) (auto simp: memcmp_eq_ids settle_def)

lemma updateTransaction_spec:
  assumes "id_ok messageId" and "\<forall>p \<in> set ps. id_ok (iotaMessageId p)"
  shows "updateTransaction messageId c err ps = Ret (rev (spec_update (messageId, c, err) (rev ps)))"
  using assms by (simp add: updateTransaction_def update_from_end_spec)

lemma spec_update_newest:
  assumes "iotaMessageId p = messageId" and "\<forall>q \<in> set as. iotaMessageId q \<noteq> messageId"
  shows "spec_update (messageId, c, err) (as @ p # bs) = as @ settle c err p # bs"
  using assms(2,1) by (induction as) auto

lemma spec_update_none:
  "\<forall>q \<in> set ps. iotaMessageId q \<noteq> messageId \<Longrightarrow> spec_update (messageId, c, err) ps = ps"
  by (induction ps) auto

subsection \<open>The order every operation respects\<close>

text \<open>
  An entry may only gain progress, keeps what identifies it, and does not change any
  more once it is confirmed.
\<close>

definition entry_le :: "pending_tx \<Rightarrow> pending_tx \<Rightarrow> bool" where
  "entry_le p q \<longleftrightarrow>
     q = p\<lparr>pt_state := pt_state q, errorMessage := errorMessage q\<rparr> \<and>
     pt_state p \<le> pt_state q \<and> (pt_state p = CONFIRMED \<longrightarrow> q = p)"

text \<open>
  A later list is the earlier one with some of the oldest entries dropped (which
  happens to a full list only), entries in progress, and new entries at the end.
\<close>

definition pending_order :: "pending_tx list \<Rightarrow> pending_tx list \<Rightarrow> bool" where
  "pending_order ps qs \<longleftrightarrow>
     length ps \<le> MAX_PENDING_TRANSACTIONS_IN_LIST \<longrightarrow>
       length ps \<le> length qs \<and> length qs \<le> MAX_PENDING_TRANSACTIONS_IN_LIST \<and>
       (\<exists>old kept kept' new. ps = old @ kept \<and> qs = kept' @ new \<and> list_all2 entry_le kept kept' \<and>
          (old \<noteq> [] \<longrightarrow> length qs = MAX_PENDING_TRANSACTIONS_IN_LIST))"

lemma pending_orderI:
  assumes "ps = old @ kept" "qs = kept' @ new" "list_all2 entry_le kept kept'"
    and "length ps \<le> MAX_PENDING_TRANSACTIONS_IN_LIST \<Longrightarrow> old \<noteq> [] \<Longrightarrow> length qs = MAX_PENDING_TRANSACTIONS_IN_LIST"
    and "length ps \<le> MAX_PENDING_TRANSACTIONS_IN_LIST \<Longrightarrow> length ps \<le> length qs"
    and "length ps \<le> MAX_PENDING_TRANSACTIONS_IN_LIST \<Longrightarrow> length qs \<le> MAX_PENDING_TRANSACTIONS_IN_LIST"
  shows "pending_order ps qs"
  unfolding pending_order_def using assms by blast

lemma entry_le_refl [simp]: "entry_le p p"
  by (simp add: entry_le_def)

lemma entry_le_trans: "entry_le p q \<Longrightarrow> entry_le q r \<Longrightarrow> entry_le p r"
  unfolding entry_le_def
proof (elim conjE, intro conjI)
  assume q: "q = p\<lparr>pt_state := pt_state q, errorMessage := errorMessage q\<rparr>"
    and r: "r = q\<lparr>pt_state := pt_state r, errorMessage := errorMessage r\<rparr>"
  show "r = p\<lparr>pt_state := pt_state r, errorMessage := errorMessage r\<rparr>"
    by (subst r, subst q) simp
qed auto

lemma entry_le_settle: "entry_le p (settle c err p)"
  by (cases "pt_state p") (auto simp: entry_le_def settle_def)

lemma list_all2_entry_le_refl [simp]: "list_all2 entry_le ps ps"
  by (simp add: list_all2_refl)

lemma pending_order_refl: "pending_order ps ps"
  by (rule pending_orderI [of ps "[]" ps ps ps "[]"]) simp_all

lemma pending_order_trans:
  assumes pq: "pending_order ps qs" and qr: "pending_order qs rs"
  shows "pending_order ps rs"
proof (unfold pending_order_def, intro impI)
  let ?M = MAX_PENDING_TRANSACTIONS_IN_LIST
  assume ps: "length ps \<le> ?M"
  with pq obtain old kept kept' new where
    a: "ps = old @ kept" "qs = kept' @ new" "list_all2 entry_le kept kept'"
       "old \<noteq> [] \<longrightarrow> length qs = ?M" "length ps \<le> length qs" "length qs \<le> ?M"
    unfolding pending_order_def by blast
  with qr obtain old2 kept2 kept2' new2 where
    b: "qs = old2 @ kept2" "rs = kept2' @ new2" "list_all2 entry_le kept2 kept2'"
       "old2 \<noteq> [] \<longrightarrow> length rs = ?M" "length qs \<le> length rs" "length rs \<le> ?M"
    unfolding pending_order_def by blast
  from a(2) b(1) have "kept' @ new = old2 @ kept2" by simp
  then consider us where "kept' = old2 @ us" "kept2 = us @ new"
    | us where "old2 = kept' @ us" "new = us @ kept2"
    by (auto simp: append_eq_append_conv2)
  then have "\<exists>o' k k' n. ps = o' @ k \<and> rs = k' @ n \<and> list_all2 entry_le k k' \<and> (o' \<noteq> [] \<longrightarrow> length rs = ?M)"
  proof cases
    case (1 us)
    from a(3) 1 obtain k1 k2 where k: "kept = k1 @ k2" "list_all2 entry_le k1 old2" "list_all2 entry_le k2 us"
      by (auto simp: list_all2_append2)
    from b(3) 1 obtain u1 u2 where u: "kept2' = u1 @ u2" "list_all2 entry_le us u1"
      by (auto simp: list_all2_append1)
    have "list_all2 entry_le k2 u1"
      using k(3) u(2) by (rule list_all2_trans [rotated]) (rule entry_le_trans)
    moreover have "old @ k1 \<noteq> [] \<longrightarrow> length rs = ?M"
      using a(4) b(4-6) k(2) by auto
    ultimately show ?thesis
      using a(1) b(2) k(1) u(1) by (intro exI [of _ "old @ k1"] exI [of _ k2] exI [of _ u1] exI [of _ "u2 @ new2"]) simp
  next
    case (2 us)
    have "ps \<noteq> [] \<longrightarrow> length rs = ?M" using a b 2 by auto
    then have "ps = ps @ [] \<and> rs = [] @ rs \<and> list_all2 entry_le [] [] \<and> (ps \<noteq> [] \<longrightarrow> length rs = ?M)"
      by simp
    then show ?thesis by blast
  qed
  with ps a b show "length ps \<le> length rs \<and> length rs \<le> ?M \<and>
      (\<exists>o' k k' n. ps = o' @ k \<and> rs = k' @ n \<and> list_all2 entry_le k k' \<and> (o' \<noteq> [] \<longrightarrow> length rs = ?M))"
    by simp
qed

lemma pending_order_push: "pending_order ps (pushNewTransaction p ps)"
proof -
  let ?k = "length ps + 1 - MAX_PENDING_TRANSACTIONS_IN_LIST"
  have "pushNewTransaction p ps = drop ?k ps @ [p]"
    by (simp add: pushNewTransaction_eq)
  moreover have "take ?k ps \<noteq> [] \<Longrightarrow> MAX_PENDING_TRANSACTIONS_IN_LIST \<le> length ps"
    by (cases "length ps < MAX_PENDING_TRANSACTIONS_IN_LIST") simp_all
  ultimately show ?thesis
    by (intro pending_orderI [of ps "take ?k ps" "drop ?k ps" _ "drop ?k ps" "[p]"])
      (auto simp: MAX_PENDING_TRANSACTIONS_IN_LIST_def)
qed

lemma update_from_end_le:
  "update_from_end messageId c err ps = Ret qs \<Longrightarrow> list_all2 entry_le ps qs"
proof (induction ps arbitrary: qs)
  case (Cons p ps)
  have "entry_le p (settle c err p)" by (rule entry_le_settle)
  with Cons show ?case
    by (auto simp: settle_def split: outcome.splits bool.splits if_splits)
qed simp

lemma updateTransaction_le:
  "updateTransaction messageId c err ps = Ret qs \<Longrightarrow> list_all2 entry_le ps qs"
proof -
  assume "updateTransaction messageId c err ps = Ret qs"
  then obtain rs where "update_from_end messageId c err (rev ps) = Ret rs" "qs = rev rs"
    by (cases "update_from_end messageId c err (rev ps)") (auto simp: updateTransaction_def)
  then show ?thesis
    using update_from_end_le [of messageId c err "rev ps" rs] by (simp add: list_all2_rev1)
qed

lemma pending_order_update:
  assumes "updateTransaction messageId c err ps = Ret qs"
  shows "pending_order ps qs"
proof -
  from assms have le: "list_all2 entry_le ps qs" by (rule updateTransaction_le)
  then have "length ps = length qs" by (rule list_all2_lengthD)
  with le show ?thesis
    by (intro pending_orderI [of ps "[]" ps qs qs "[]"]) simp_all
qed

lemma update_from_end_no_throw: "update_from_end messageId c err ps \<noteq> Throw e"
  by (induction ps) (auto simp: memcmp_eq_def split: outcome.splits bool.splits if_splits)

lemma updateTransaction_no_throw: "updateTransaction messageId c err ps \<noteq> Throw e"
  using update_from_end_no_throw [of messageId c err "rev ps"]
  by (cases "update_from_end messageId c err (rev ps)") (auto simp: updateTransaction_def)

text \<open>Every program built from these operations respects the order.\<close>

interpretation pending: state_order pending_order
  by unfold_locales (rule pending_order_refl, erule (1) pending_order_trans)

subsection \<open>The log as its callers see it\<close>

text \<open>A run of operations, stopping at the first one that does not return.\<close>

fun run_events :: "('e \<Rightarrow> 's \<Rightarrow> 's outcome) \<Rightarrow> 'e list \<Rightarrow> 's \<Rightarrow> 's outcome" where
  "run_events step [] s = Ret s"
| "run_events step (e # es) s =
     (case step e s of Ret t \<Rightarrow> run_events step es t | Throw x \<Rightarrow> Throw x | Undef \<Rightarrow> Undef)"

text \<open>
  The interface the request handlers rely on: read newest first, the log is the first
  \<^verbatim>\<open>cap\<close> entries of an unbounded log, whatever the interleaving of pushes and
  updates.
\<close>

locale bounded_log =
  fixes push :: "'p \<Rightarrow> 's \<Rightarrow> 's"
    and update :: "'u \<Rightarrow> 's \<Rightarrow> 's outcome"
    and newest :: "'s \<Rightarrow> 'p list"
    and cap :: nat
    and spec_upd :: "'u \<Rightarrow> 'p list \<Rightarrow> 'p list"
    and okp :: "'p \<Rightarrow> bool"
    and oku :: "'u \<Rightarrow> bool"
  assumes push_newest: "newest (push p s) = take cap (p # newest s)"
    and update_newest: "oku u \<Longrightarrow> \<forall>p \<in> set (newest s). okp p \<Longrightarrow>
          \<exists>t. update u s = Ret t \<and> newest t = spec_upd u (newest s)"
    and spec_upd_take: "take n (spec_upd u ps) = spec_upd u (take n ps)"
    and spec_upd_okp: "\<forall>p \<in> set ps. okp p \<Longrightarrow> \<forall>p \<in> set (spec_upd u ps). okp p"
begin

lemma run_refines:
  assumes "\<forall>e \<in> set es. (case e of Inl p \<Rightarrow> okp p | Inr u \<Rightarrow> oku u)"
    and "newest s = take cap ps" and "\<forall>p \<in> set ps. okp p"
  shows "\<exists>t. run_events (\<lambda>e s. case e of Inl p \<Rightarrow> Ret (push p s) | Inr u \<Rightarrow> update u s) es s = Ret t \<and>
           newest t = take cap (fold (\<lambda>e ps. case e of Inl p \<Rightarrow> p # ps | Inr u \<Rightarrow> spec_upd u ps) es ps)"
  using assms
proof (induction es arbitrary: s ps)
  case (Cons e es)
  show ?case
  proof (cases e)
    case (Inl p)
    have "take cap (p # take cap ps) = take cap (p # ps)"
      by (cases cap) (simp_all add: min_def)
    with Inl Cons.prems have "newest (push p s) = take cap (p # ps)" "\<forall>q \<in> set (p # ps). okp q"
      by (simp_all add: push_newest)
    from Cons.IH [OF _ this] Cons.prems(1) Inl show ?thesis by simp
  next
    case (Inr u)
    have "\<forall>p \<in> set (newest s). okp p"
      using Cons.prems(2,3) by (metis in_set_takeD)
    with Inr Cons.prems(1) obtain t where t: "update u s = Ret t" "newest t = spec_upd u (newest s)"
      using update_newest by fastforce
    with Cons.prems(2) have "newest t = take cap (spec_upd u ps)"
      by (simp add: spec_upd_take)
    moreover have "\<forall>p \<in> set (spec_upd u ps). okp p"
      using Cons.prems(3) by (rule spec_upd_okp)
    ultimately show ?thesis
      using Cons.IH [of t "spec_upd u ps"] Cons.prems(1) Inr t(1) by simp
  qed
qed simp

end

interpretation pending_log: bounded_log
  pushNewTransaction "\<lambda>(messageId, c, err). updateTransaction messageId c err" rev
  MAX_PENDING_TRANSACTIONS_IN_LIST spec_update
  "\<lambda>p. id_ok (iotaMessageId p)" "\<lambda>(messageId, c, err). id_ok messageId"
proof unfold_locales
  fix u :: "string \<times> bool \<times> string" and s :: "pending_tx list"
  assume "case u of (messageId, c, err) \<Rightarrow> id_ok messageId"
    and "\<forall>p \<in> set (rev s). id_ok (iotaMessageId p)"
  then show "\<exists>t. (case u of (messageId, c, err) \<Rightarrow> updateTransaction messageId c err) s = Ret t \<and>
      rev t = spec_update u (rev s)"
    by (cases u) (simp add: updateTransaction_spec)
qed (rule rev_pushNewTransaction, rule spec_update_take, erule spec_update_id_ok)

subsection \<open>Runs of the log\<close>

datatype log_event = Pushed pending_tx | Updated string bool string

primrec log_step :: "log_event \<Rightarrow> pending_tx list \<Rightarrow> pending_tx list outcome" where
  "log_step (Pushed p) ps = Ret (pushNewTransaction p ps)"
| "log_step (Updated messageId c err) ps = updateTransaction messageId c err ps"

text \<open>The unbounded log, newest first.\<close>

primrec spec_step :: "log_event \<Rightarrow> pending_tx list \<Rightarrow> pending_tx list" where
  "spec_step (Pushed p) ps = p # ps"
| "spec_step (Updated messageId c err) ps = spec_update (messageId, c, err) ps"

primrec event_ok :: "log_event \<Rightarrow> bool" where
  "event_ok (Pushed p) = id_ok (iotaMessageId p)"
| "event_ok (Updated messageId c err) = id_ok messageId"

text \<open>The events in the form the interface has them.\<close>

primrec as_sum :: "log_event \<Rightarrow> pending_tx + (string \<times> bool \<times> string)" where
  "as_sum (Pushed p) = Inl p"
| "as_sum (Updated messageId c err) = Inr (messageId, c, err)"

lemma run_events_as_sum:
  "run_events log_step es ps =
     run_events (\<lambda>e s. case e of Inl p \<Rightarrow> Ret (pushNewTransaction p s)
       | Inr u \<Rightarrow> (case u of (messageId, c, err) \<Rightarrow> updateTransaction messageId c err) s) (map as_sum es) ps"
proof (induction es arbitrary: ps)
  case (Cons e es)
  then show ?case by (cases e) (simp_all split: outcome.split)
qed simp

lemma fold_as_sum:
  "fold spec_step es ps =
     fold (\<lambda>e ps. case e of Inl p \<Rightarrow> p # ps | Inr u \<Rightarrow> spec_update u ps) (map as_sum es) ps"
proof (induction es arbitrary: ps)
  case (Cons e es)
  then show ?case by (cases e) simp_all
qed simp

lemma run_log_order:
  "run_events log_step es ps = Ret qs \<Longrightarrow> pending_order ps qs"
proof (induction es arbitrary: ps)
  case Nil
  then show ?case by (simp add: pending_order_refl)
next
  case (Cons e es)
  then obtain rs where step: "log_step e ps = Ret rs" and "run_events log_step es rs = Ret qs"
    by (auto split: outcome.splits)
  then have "pending_order rs qs" using Cons.IH by blast
  moreover have "pending_order ps rs"
    using step by (cases e) (auto intro: pending_order_push pending_order_update)
  ultimately show ?case by (rule pending_order_trans [rotated])
qed

lemma pending_order_member:
  assumes "pending_order ps qs" and "length ps \<le> MAX_PENDING_TRANSACTIONS_IN_LIST" and "p \<in> set ps"
  shows "(\<exists>q \<in> set qs. entry_le p q) \<or> length qs = MAX_PENDING_TRANSACTIONS_IN_LIST"
proof -
  from assms(1,2) obtain old kept kept' new where
    d: "ps = old @ kept" "qs = kept' @ new" "list_all2 entry_le kept kept'"
       "old \<noteq> [] \<longrightarrow> length qs = MAX_PENDING_TRANSACTIONS_IN_LIST"
    unfolding pending_order_def by blast
  show ?thesis
  proof (cases "p \<in> set old")
    case False
    with assms(3) d(1) obtain i where "i < length kept" "kept ! i = p"
      by (auto simp: in_set_conv_nth)
    with d(3) have "entry_le p (kept' ! i)" "kept' ! i \<in> set kept'"
      by (auto simp: list_all2_conv_all_nth)
    with d(2) show ?thesis by auto
  qed (use d(4) in auto)
qed

lemma pending_order_confirmed:
  assumes "pending_order ps qs" and "length ps \<le> MAX_PENDING_TRANSACTIONS_IN_LIST"
  shows "length qs \<le> 100 \<and> (\<forall>p \<in> set ps. pt_state p = CONFIRMED \<longrightarrow> p \<in> set qs \<or> length qs = 100)"
proof -
  have "length qs \<le> 100"
    using assms by (simp add: pending_order_def MAX_PENDING_TRANSACTIONS_IN_LIST_def)
  moreover have "p \<in> set qs \<or> length qs = 100" if "p \<in> set ps" "pt_state p = CONFIRMED" for p
    using pending_order_member [OF assms that(1)] that(2)
    by (auto simp: entry_le_def MAX_PENDING_TRANSACTIONS_IN_LIST_def)
  ultimately show ?thesis by blast
qed

lemma spec_update_confirms:
  "i \<in> iotaMessageId ` set ps \<Longrightarrow>
     \<exists>q \<in> set (spec_update (i, True, err) ps). iotaMessageId q = i \<and> pt_state q = CONFIRMED"
proof (induction ps)
  case (Cons p ps)
  then show ?case by (cases "iotaMessageId p = i") (auto simp: settle_def)
qed simp

subsection \<open>Concrete inputs\<close>

definition demo_tx :: pending_tx where
  "demo_tx = PendingTransaction 0 (replicate 64 (CHR ''a'')) 1 [] 0 0"

subsection \<open>Properties\<close>

text \<open>
  C2. For every interleaving of pushes and notifications with 64-character message ids,
  no operation fails, and the list holds, newest first, exactly the hundred newest
  entries of an unbounded log on which every notification settles the newest entry with
  its id.
\<close>

theorem pending_log_refines:
  assumes "\<forall>e \<in> set es. event_ok e"
  shows "\<exists>ps. run_events log_step es [] = Ret ps \<and>
           rev ps = take MAX_PENDING_TRANSACTIONS_IN_LIST (fold spec_step es [])"
proof -
  have "\<forall>e \<in> set (map as_sum es). (case e of Inl p \<Rightarrow> id_ok (iotaMessageId p)
          | Inr u \<Rightarrow> (case u of (messageId, c, err) \<Rightarrow> id_ok messageId))"
  proof
    fix x assume "x \<in> set (map as_sum es)"
    then obtain e where "e \<in> set es" "x = as_sum e" by auto
    with assms show "case x of Inl p \<Rightarrow> id_ok (iotaMessageId p)
          | Inr u \<Rightarrow> (case u of (messageId, c, err) \<Rightarrow> id_ok messageId)"
      by (cases e) auto
  qed
  from pending_log.run_refines [OF this, of "[]" "[]"] show ?thesis
    by (simp add: run_events_as_sum fold_as_sum)
qed

theorem pending_log_refines_witness:
  "\<exists>ps. run_events log_step [Pushed demo_tx, Updated (iotaMessageId demo_tx) True []] [] = Ret ps \<and>
     rev ps = take MAX_PENDING_TRANSACTIONS_IN_LIST
       (fold spec_step [Pushed demo_tx, Updated (iotaMessageId demo_tx) True []] [])"
  by (rule pending_log_refines) (simp add: demo_tx_def PendingTransaction_def id_ok_def)

text \<open>
  Whatever operations run, a list within its bound of 100 entries stays within it,
  loses entries only when it is full, and an entry confirmed by the Gradido Node is
  never changed again while it is in the list.
\<close>

lemma pending_confirmed_final:
  assumes run: "run_events log_step es ps = Ret qs"
    and len: "length ps \<le> MAX_PENDING_TRANSACTIONS_IN_LIST"
    and p: "p \<in> set ps" and conf: "pt_state p = CONFIRMED"
  shows "length qs \<le> 100 \<and> (p \<in> set qs \<or> length qs = 100)"
  using pending_order_confirmed [OF run_log_order [OF run] len] p conf by blast



text \<open>
  C37. The comparison always reads 64 bytes: a notification whose message id is shorter
  than 63 characters, against any non-empty list, has undefined behaviour.
\<close>

theorem updateTransaction_short_id:
  assumes "length messageId < 63" and "ps \<noteq> []"
  shows "updateTransaction messageId c err ps = Undef"
proof -
  obtain p qs where "rev ps = p # qs" using assms(2) by (cases "rev ps") auto
  moreover have "memcmp_eq 64 (iotaMessageId p) messageId = Undef"
    using assms(1) by (simp add: memcmp_eq_def)
  ultimately show ?thesis by (simp add: updateTransaction_def)
qed

theorem updateTransaction_short_id_witness:
  "updateTransaction ''short'' True [] [demo_tx] = Undef"
  by (rule updateTransaction_short_id) simp_all

text \<open>
  The exported array has one object per entry, newest first, with the entry's
  message id, its creation time in milliseconds and its state as text.
\<close>

lemma listAsJson_entries:
  "\<exists>js. listAsJson f ps = JArray js \<and> length js = length ps \<and>
     (\<forall>i < length ps. let p = ps ! (length ps - 1 - i) in
        member (js ! i) ''messageId'' = Ret (JString (c_str (iotaMessageId p))) \<and>
        member (js ! i) ''created'' = Ret (JInt (ms_of_us (created p))) \<and>
        member (js ! i) ''state'' = Ret (JString (StateToString (pt_state p))))"
  by (simp add: listAsJson_def entry_json_def rev_nth Let_def)

end
