(* ===== verification/Environment.thy ===== *)
theory Environment
  imports Pending
begin

section \<open>The connector's state and what it calls\<close>

text \<open>
  The shared state of the running server, and the code the connector calls but does not
  contain: gradido\_blockchain, Poco, mpfr, the database, iota and the Gradido Node.
  That code is a parameter of the model, one record of operations per library; nothing
  is assumed of it here.  An operation that can throw has an \<^verbatim>\<open>outcome\<close>, and one
  that talks to a service is a program on the outside world \<^verbatim>\<open>'w\<close>.
\<close>

subsection \<open>Session objects\<close>

text \<open>A key pair is seen through its two byte strings.\<close>

record keypair =
  kpPublic :: bytes
  kpPrivate :: bytes

text \<open>
  \<^verbatim>\<open>class Session\<close>.  The group id is an \<^verbatim>\<open>int\<close>; \<^verbatim>\<open>mEncryptionSecret\<close> is
  the (opaque) derived key, the two pointers are null until they are set.
\<close>

record session =
  mUserName :: string
  mGroupAlias :: string
  mGroupId :: u32
  mClientIp :: string
  mEncryptionSecret :: "bytes option"
  mUserKeyPair :: "keypair option"

definition new_Session :: session where
  "new_Session = \<lparr>mUserName = [], mGroupAlias = [], mGroupId = 0, mClientIp = [],
     mEncryptionSecret = None, mUserKeyPair = None\<rparr>"

text \<open>\<^verbatim>\<open>getPublicKey()\<close>: null without a key pair.\<close>

definition getPublicKey :: "session \<Rightarrow> bytes option" where
  "getPublicKey s = map_option kpPublic (mUserKeyPair s)"

subsection \<open>Shared state\<close>

text \<open>
  The members of the singletons: the limiter's set of running encryptions, the pending
  transactions, the cache of active sessions (a \<^verbatim>\<open>Poco::AccessExpireCache\<close>, of
  opaque type \<^verbatim>\<open>'c\<close>), and everything outside the process.
\<close>

record ('c, 'w) app =
  mRunningEncryptions :: "string set"
  mPendingTransactions :: "pending_tx list"
  mActiveSessions :: 'c
  world :: 'w

subsection \<open>Libraries\<close>

text \<open>
  Conversions and group alias check (DataTypeConverter, MemoryBin, TransactionBase,
  RegisterAddress).  \<^verbatim>\<open>copyFromProtoBytes n bs\<close> is what a buffer of \<^verbatim>\<open>n\<close> bytes holds after
  the copy.
\<close>

datatype address_type = ADDRESS_NONE | ADDRESS_HUMAN | ADDRESS_SUBACCOUNT | ADDRESS_OTHER nat

record conv_lib =
  binToHex :: "bytes \<Rightarrow> string"
  hexToBin :: "string \<Rightarrow> bytes option"
  binToBase64 :: "bytes \<Rightarrow> string"
  base64ToBin :: "string \<Rightarrow> bytes outcome"
  base64ToBinString :: "string \<Rightarrow> bytes outcome"
  copyFromProtoBytes :: "nat \<Rightarrow> bytes \<Rightarrow> bytes"
  isValidGroupAlias :: "string \<Rightarrow> bool"
  getTransactionTypeString :: "int \<Rightarrow> string"
  getAddressTypeFromString :: "string \<Rightarrow> address_type"
  getAddressStringFromType :: "address_type \<Rightarrow> string"

text \<open>SecretKeyCryptography, KeyPairEd25519, SealedBoxes, AuthenticatedEncryption, libsodium.\<close>

record crypto_lib =
  createKey :: "string \<Rightarrow> string \<Rightarrow> bytes outcome"
  getKeyHashed :: "bytes \<Rightarrow> u64"
  decryptWithKey :: "bytes \<Rightarrow> bytes \<Rightarrow> bytes option"
  keyPairFromPrivate :: "bytes \<Rightarrow> keypair"
  keyPairFromPassphrase :: "bytes \<Rightarrow> keypair"
  isTheSame :: "keypair \<Rightarrow> bytes \<Rightarrow> bool"
  getCryptedPrivKey :: "keypair \<Rightarrow> bytes \<Rightarrow> bytes option"
  sealedEncrypt :: "bytes \<Rightarrow> bytes \<Rightarrow> bytes outcome"
  sealedDecrypt :: "bytes option \<Rightarrow> bytes option \<Rightarrow> bytes outcome"
  signBytes :: "keypair \<Rightarrow> bytes \<Rightarrow> bytes outcome"
  verifySign :: "bytes \<Rightarrow> bytes \<Rightarrow> bytes option \<Rightarrow> bool"
  sk_to_pk :: "bytes \<Rightarrow> bytes"
  authEncrypt :: "bytes \<Rightarrow> bytes \<Rightarrow> string \<Rightarrow> bytes outcome"
  authDecrypt :: "bytes \<Rightarrow> bytes \<Rightarrow> bytes \<Rightarrow> bytes option"
  generichash :: "bytes \<Rightarrow> bytes"

text \<open>\<^verbatim>\<open>Poco::JWT\<close>.\<close>

record jwt_token =
  tk_type :: string
  tk_subject :: string
  tk_payload :: "(string \<times> string) list"
  tk_issuedAt :: int
  tk_expiration :: int

record jwt_lib =
  signer_sign :: "string \<Rightarrow> jwt_token \<Rightarrow> string"
  signer_verify :: "string \<Rightarrow> string \<Rightarrow> jwt_token outcome"
  payload_getValue :: "(string \<times> string) list \<Rightarrow> string \<Rightarrow> string outcome"

text \<open>
  \<^verbatim>\<open>JsonRequestHandler\<close>: a parameter is read, or an error answer (an object,
  given by its message and details) is returned and the out variable keeps its value.
\<close>

record param_lib =
  getStringParameter :: "json \<Rightarrow> string \<Rightarrow> (string \<times> detail) + string"
  getUInt64Parameter :: "json \<Rightarrow> string \<Rightarrow> (string \<times> detail) + u64"

text \<open>Dates: microseconds since the epoch.\<close>

record time_lib =
  tzd :: int
  parseDateTime :: "string \<Rightarrow> int \<Rightarrow> int outcome"
  makeLocal :: "int \<Rightarrow> int \<Rightarrow> int"
  dt_month :: "int \<Rightarrow> int"
  dt_year :: "int \<Rightarrow> int"
  formatDateTime :: "int \<Rightarrow> string"
  totalSeconds :: "int \<Rightarrow> int"

text \<open>mpfr numbers of opaque type \<^verbatim>\<open>'n\<close>; a \<^verbatim>\<open>double\<close> literal is given by its text.\<close>

record 'n mpfr_lib =
  mpfr_set_str :: "string \<Rightarrow> 'n option"
  mpfr_add :: "'n \<Rightarrow> 'n \<Rightarrow> 'n"
  mpfr_sub :: "'n \<Rightarrow> 'n \<Rightarrow> 'n"
  mpfr_abs :: "'n \<Rightarrow> 'n"
  mpfr_cmp :: "'n \<Rightarrow> 'n \<Rightarrow> int"
  mpfr_cmp_d :: "'n \<Rightarrow> string \<Rightarrow> int"
  amountToString :: "'n \<Rightarrow> string"
  calculateDecayFactorForDuration :: "int \<Rightarrow> int \<Rightarrow> 'n"
  calculateDecayFast :: "'n \<Rightarrow> 'n \<Rightarrow> 'n"

text \<open>TransactionFactory, CrossGroupTransactionBuilder, GradidoTransaction.\<close>

record 'tx tx_lib =
  createTransactionTransfer :: "bytes option \<Rightarrow> string \<Rightarrow> string \<Rightarrow> bytes option \<Rightarrow> 'tx outcome"
  createTransactionCreation :: "bytes option \<Rightarrow> string \<Rightarrow> int \<Rightarrow> 'tx outcome"
  createRegisterAddress :: "bytes option \<Rightarrow> address_type \<Rightarrow> bytes option \<Rightarrow> bytes option \<Rightarrow> 'tx outcome"
  createOutboundTransaction :: "'tx \<Rightarrow> string \<Rightarrow> 'tx outcome"
  createInboundTransaction :: "'tx \<Rightarrow> string \<Rightarrow> 'tx outcome"
  setParentMessageId :: "'tx \<Rightarrow> bytes option \<Rightarrow> 'tx"
  setMemo :: "'tx \<Rightarrow> string \<Rightarrow> 'tx"
  setCreated :: "'tx \<Rightarrow> int \<Rightarrow> 'tx"
  updateBodyBytes :: "'tx \<Rightarrow> 'tx"
  getBodyBytes :: "'tx \<Rightarrow> bytes outcome"
  addSign :: "'tx \<Rightarrow> bytes option \<Rightarrow> bytes option \<Rightarrow> 'tx outcome"
  validate :: "'tx \<Rightarrow> bool outcome"
  getSerialized :: "'tx \<Rightarrow> bytes"
  tx_toJson :: "'tx \<Rightarrow> string"
  getTransactionType :: "'tx \<Rightarrow> int"
  isCreation :: "'tx \<Rightarrow> bool"
  isTransfer :: "'tx \<Rightarrow> bool"
  isDeferredTransfer :: "'tx \<Rightarrow> bool"
  getRecipientPublicKeyString :: "'tx \<Rightarrow> bytes"
  getSenderPublicKeyString :: "'tx \<Rightarrow> bytes"
  loadTransactionBody :: "bytes \<Rightarrow> 'tx outcome"
  getSignCount :: "'tx \<Rightarrow> nat"
  getMinSignatureCount :: "'tx \<Rightarrow> nat"
  blockMessageIdHex :: "bytes \<Rightarrow> string outcome"

text \<open>
  \<^verbatim>\<open>Poco::AccessExpireCache\<close>, made with the life of an entry in milliseconds.  Reading
  and adding an entry looks at the clock, the first argument: an entry that has not been
  read or added for its life has expired.
\<close>

record 'c cache_lib =
  cache_new :: "int \<Rightarrow> 'c"
  cache_get :: "int \<Rightarrow> string \<Rightarrow> 'c \<Rightarrow> session option \<times> 'c"
  cache_add :: "int \<Rightarrow> string \<Rightarrow> session \<Rightarrow> 'c \<Rightarrow> 'c"

text \<open>
  The services.  A SQL statement is passed as the text the code builds, with the values
  bound to its placeholders; \<^verbatim>\<open>sqlRow\<close> is a statement whose row is read into
  variables (\<^verbatim>\<open>None\<close>: \<^verbatim>\<open>execute()\<close> gave 0 rows), \<^verbatim>\<open>sqlRows\<close> one read
  into a vector.
\<close>

datatype sqlval = SqlInt int | SqlText string

record 'w service_lib =
  clock :: "'w \<Rightarrow> int"
  getConnection :: "('w, unit) m"
  sqlExec :: "string \<Rightarrow> sqlval list \<Rightarrow> ('w, unit) m"
  sqlRow :: "string \<Rightarrow> sqlval list \<Rightarrow> ('w, sqlval list option) m"
  sqlRows :: "string \<Rightarrow> sqlval list \<Rightarrow> ('w, sqlval list list) m"
  nodeRequest :: "string \<Rightarrow> json \<Rightarrow> ('w, json) m"
  iotaSendMessage :: "string \<Rightarrow> string \<Rightarrow> ('w, string) m"
  generatePassphrase :: "('w, bytes) m"

text \<open>The globals of ServerConfig and CryptoConfig the handlers read.\<close>

record config =
  g_JwtVerifySecret :: string
  g_JwtPrivateKey :: "bytes option"
  g_SessionValidDuration :: int
  g_SupportPublicKey :: "bytes option"

text \<open>
  All of it.  \<^verbatim>\<open>yield\<close> is what the other request threads do to the shared state
  while this one sleeps or computes outside the locks.
\<close>

record ('tx, 'n, 'c, 'w) env =
  isa_of :: hierarchy
  conv :: conv_lib
  crypto :: crypto_lib
  jwt :: jwt_lib
  pars :: param_lib
  times :: time_lib
  nums :: "'n mpfr_lib"
  txs :: "'tx tx_lib"
  caches :: "'c cache_lib"
  svc :: "'w service_lib"
  cfg :: config
  cpuCount :: nat
  yield :: "('c, 'w) app \<Rightarrow> ('c, 'w) app"

subsection \<open>Programs on the outside world, and what they leave alone\<close>

definition on_world :: "('w, 'a) m \<Rightarrow> (('c, 'w) app, 'a) m" where
  "on_world p = within world (\<lambda>w s. s\<lparr>world := w\<rparr>) p"

lemma on_world_run [run_simps]:
  "p (world s) = (r, w) \<Longrightarrow> on_world p s = (r, s\<lparr>world := w\<rparr>)"
  by (simp add: on_world_def within_def)

lemma on_world_iff:
  "on_world p s = (r, t) \<longleftrightarrow> (\<exists>w. p (world s) = (r, w) \<and> t = s\<lparr>world := w\<rparr>)"
  by (auto simp: on_world_def within_def split: prod.splits)

text \<open>The pending transactions only evolve in \<^const>\<open>pending_order\<close>.\<close>

definition log_order :: "('c, 'w) app \<Rightarrow> ('c, 'w) app \<Rightarrow> bool" where
  "log_order s t \<longleftrightarrow> pending_order (mPendingTransactions s) (mPendingTransactions t)"

text \<open>The pending transactions are not touched.\<close>

definition same_log :: "('c, 'w) app \<Rightarrow> ('c, 'w) app \<Rightarrow> bool" where
  "same_log s t \<longleftrightarrow> mPendingTransactions s = mPendingTransactions t"

text \<open>Nothing but the outside world is touched.\<close>

definition only_world :: "('c, 'w) app \<Rightarrow> ('c, 'w) app \<Rightarrow> bool" where
  "only_world s t \<longleftrightarrow> t = s\<lparr>world := world t\<rparr>"

interpretation same_log: state_order same_log
  by unfold_locales (auto simp: same_log_def)

interpretation only_world: state_order only_world
proof unfold_locales
  fix s t u :: "('c, 'w) app"
  assume "only_world s t" "only_world t u"
  then have "t = s\<lparr>world := world t\<rparr>" "u = t\<lparr>world := world u\<rparr>"
    by (simp_all add: only_world_def)
  then show "only_world s u" by (simp add: only_world_def, metis app.surjective app.update_convs(4))
qed (simp add: only_world_def)

lemma stays_on_world [keeps]:
  "stays only_world (on_world p)"
  "stays same_log (on_world p)"
  by (auto intro!: staysI simp: on_world_iff only_world_def same_log_def)

lemma only_world_same_log: "stays only_world p \<Longrightarrow> stays same_log p"
  unfolding stays_def only_world_def same_log_def by (metis app.select_convs(2) app.surjective app.update_convs(4))

end
