(* ===== verification/Demo.thy ===== *)
theory Demo
  imports Environment "HOL-Library.AList"
begin

section \<open>A concrete environment\<close>

text \<open>
  One small instance of every library the model leaves open, in which the properties
  are applied to concrete inputs: texts are their own hex form, numbers are integers,
  the outside world is a clock that a write or a send moves on, the cache is a list, the
  database knows one user row per question and the node answers every question alike.
\<close>

definition id64 :: string where
  "id64 = replicate 64 (CHR ''a'')"

definition demo_conv :: conv_lib where
  "demo_conv = \<lparr>binToHex = (\<lambda>b. b), hexToBin = Some, binToBase64 = (\<lambda>b. b), base64ToBin = Ret,
     base64ToBinString = Ret, copyFromProtoBytes = (\<lambda>n b. take n b),
     isValidGroupAlias = (\<lambda>s. s \<noteq> []), getTransactionTypeString = (\<lambda>_. ''TRANSFER''),
     getAddressTypeFromString = (\<lambda>s. if s = ''human'' then ADDRESS_HUMAN else ADDRESS_NONE),
     getAddressStringFromType = (\<lambda>t. if t = ADDRESS_HUMAN then ''HUMAN'' else ''NONE'')\<rparr>"

definition demo_keypair :: "bytes \<Rightarrow> keypair" where
  "demo_keypair b = \<lparr>kpPublic = b, kpPrivate = b\<rparr>"

definition demo_crypto :: crypto_lib where
  "demo_crypto = \<lparr>createKey = (\<lambda>u p. Ret (u @ p)), getKeyHashed = (\<lambda>k. of_nat (length k)),
     decryptWithKey = (\<lambda>k e. Some e), keyPairFromPrivate = demo_keypair, keyPairFromPassphrase = demo_keypair,
     isTheSame = (\<lambda>kp p. kpPublic kp = p), getCryptedPrivKey = (\<lambda>kp k. Some (kpPrivate kp)),
     sealedEncrypt = (\<lambda>k p. Ret p),
     sealedDecrypt = (\<lambda>k c. case c of Some p \<Rightarrow> Ret p
                         | None \<Rightarrow> Throw (LibException SealedBoxesDecryptException ''decrypt'' [])),
     signBytes = (\<lambda>kp b. Ret ''sig''), verifySign = (\<lambda>pk m s. True), sk_to_pk = (\<lambda>b. b),
     authEncrypt = (\<lambda>sk pk m. Ret m), authDecrypt = (\<lambda>sk pk c. Some c), generichash = (\<lambda>b. id64)\<rparr>"

definition demo_jwt :: jwt_lib where
  "demo_jwt = \<lparr>signer_sign = (\<lambda>secret t. case tk_payload t of [] \<Rightarrow> ''connection'' | (k, v) # ps \<Rightarrow> v),
     signer_verify = (\<lambda>secret s. Ret \<lparr>tk_type = ''JWT'', tk_subject = ''login'', tk_payload = [(''name'', s)],
                        tk_issuedAt = 0, tk_expiration = 0\<rparr>),
     payload_getValue = (\<lambda>ps k. case map_of ps k of Some v \<Rightarrow> Ret v
                        | None \<Rightarrow> Throw (LibException PocoException ''Not found'' k))\<rparr>"

fun demo_string :: "json \<Rightarrow> string \<Rightarrow> (string \<times> detail) + string" where
  "demo_string (JObject ms) k =
     (case map_of ms k of Some (JString s) \<Rightarrow> Inr s | _ \<Rightarrow> Inl (''parameter error'', NoDetails))"
| "demo_string _ k = Inl (''parameter error'', NoDetails)"

fun demo_uint64 :: "json \<Rightarrow> string \<Rightarrow> (string \<times> detail) + u64" where
  "demo_uint64 (JObject ms) k =
     (case map_of ms k of Some (JInt n) \<Rightarrow> Inr (word_of_int n) | _ \<Rightarrow> Inl (''parameter error'', NoDetails))"
| "demo_uint64 _ k = Inl (''parameter error'', NoDetails)"

definition demo_times :: time_lib where
  "demo_times = \<lparr>tzd = 0, parseDateTime = (\<lambda>s z. Ret (int (length s))), makeLocal = (\<lambda>t z. t),
     dt_month = (\<lambda>t. 1), dt_year = (\<lambda>t. 2022), formatDateTime = (\<lambda>t. ''date''),
     totalSeconds = (\<lambda>t. t div 1000000)\<rparr>"

definition demo_cmp :: "int \<Rightarrow> int \<Rightarrow> int" where
  "demo_cmp a b = (if a < b then -1 else if a = b then 0 else 1)"

definition demo_nums :: "int mpfr_lib" where
  "demo_nums = \<lparr>mpfr_set_str = (\<lambda>s. if s = ''100'' then Some 100 else if s = ''10'' then Some 10 else None),
     mpfr_add = (+), mpfr_sub = (-), mpfr_abs = abs, mpfr_cmp = demo_cmp,
     mpfr_cmp_d = (\<lambda>n d. if d = ''1000.0'' then demo_cmp n 1000 else demo_cmp n 1),
     amountToString = (\<lambda>n. ''amount''), calculateDecayFactorForDuration = (\<lambda>a b. 0),
     calculateDecayFast = (\<lambda>f n. n)\<rparr>"

text \<open>A transaction is a text; signing it appends a mark.\<close>

definition demo_txs :: "string tx_lib" where
  "demo_txs = \<lparr>createTransactionTransfer = (\<lambda>s a c r. Ret ''transfer''),
     createTransactionCreation = (\<lambda>r a d. Ret ''creation''),
     createRegisterAddress = (\<lambda>u t n s. Ret ''register''),
     createOutboundTransaction = (\<lambda>t g. Ret (''out '' @ t)), createInboundTransaction = (\<lambda>t g. Ret (''in '' @ t)),
     setParentMessageId = (\<lambda>t i. ''child'' @ t), setMemo = (\<lambda>t m. t), setCreated = (\<lambda>t d. t), updateBodyBytes = (\<lambda>t. t),
     getBodyBytes = Ret, addSign = (\<lambda>t k s. Ret (t @ ''+'')), validate = (\<lambda>t. Ret True),
     getSerialized = (\<lambda>t. t), tx_toJson = (\<lambda>t. t), getTransactionType = (\<lambda>t. 1),
     isCreation = (\<lambda>t. False), isTransfer = (\<lambda>t. True), isDeferredTransfer = (\<lambda>t. False),
     getRecipientPublicKeyString = (\<lambda>t. ''keyb''), getSenderPublicKeyString = (\<lambda>t. ''keya''),
     loadTransactionBody = Ret, getSignCount = length, getMinSignatureCount = (\<lambda>t. 0),
     blockMessageIdHex = (\<lambda>b. Ret id64)\<rparr>"

text \<open>A cache of entries with the time of the last access, each living 600 seconds.\<close>

type_synonym demo_cache = "(string \<times> int \<times> session) list"

definition demo_cache_get :: "int \<Rightarrow> string \<Rightarrow> demo_cache \<Rightarrow> session option \<times> demo_cache" where
  "demo_cache_get now k c =
     (case map_of c k of
        Some (t, s) \<Rightarrow> if now - t < 600000000 then (Some s, AList.update k (now, s) c) else (None, AList.delete k c)
      | None \<Rightarrow> (None, c))"

definition demo_caches :: "demo_cache cache_lib" where
  "demo_caches = \<lparr>cache_new = (\<lambda>ms. []), cache_get = demo_cache_get,
     cache_add = (\<lambda>now k s c. AList.update k (now, s) c)\<rparr>"

definition demo_row :: "string \<Rightarrow> sqlval list \<Rightarrow> (int, sqlval list option) m" where
  "demo_row stmt vals = (\<lambda>w. (Ret (Some
     (if vals = [] then [SqlInt 7]
      else if length vals = 1 then [SqlInt 3, SqlText ''group'', SqlText ''gdd1'', SqlText [], SqlInt 0]
      else if take 10 stmt = ''SELECT pas'' then [SqlInt 4, SqlText ''keya'', SqlText ''keya'']
      else [SqlInt 2, SqlText ''bob'', SqlInt 3, SqlInt 4, SqlText ''keyb'', SqlText ''priv''])), w))"

definition demo_answer :: json where
  "demo_answer = JObject [(''result'', JObject
     [(''balance'', JString ''100''), (''addressType'', JString ''HUMAN''), (''transactionNrs'', JArray []),
      (''sum'', JString ''10'')])]"

definition demo_svc :: "int service_lib" where
  "demo_svc = \<lparr>clock = (\<lambda>w. w), getConnection = (\<lambda>w. (Ret (), w)), sqlExec = (\<lambda>s v w. (Ret (), w + 1)),
     sqlRow = demo_row, sqlRows = (\<lambda>s v w. (Ret [], w)), nodeRequest = (\<lambda>f p w. (Ret demo_answer, w)),
     iotaSendMessage = (\<lambda>i msg w. (Ret id64, w + 1)), generatePassphrase = (\<lambda>w. (Ret ''pass'', w))\<rparr>"

definition demo_cfg :: config where
  "demo_cfg = \<lparr>g_JwtVerifySecret = ''secret'', g_JwtPrivateKey = Some ''server'', g_SessionValidDuration = 600000000,
     g_SupportPublicKey = None\<rparr>"

definition demo :: "(string, int, demo_cache, int) env" where
  "demo = \<lparr>isa_of = (\<lambda>D C. False), conv = demo_conv, crypto = demo_crypto, jwt = demo_jwt,
     pars = \<lparr>getStringParameter = demo_string, getUInt64Parameter = demo_uint64\<rparr>, times = demo_times,
     nums = demo_nums, txs = demo_txs, caches = demo_caches, svc = demo_svc, cfg = demo_cfg, cpuCount = 2,
     yield = (\<lambda>s. s)\<rparr>"

text \<open>A session of the user \<^verbatim>\<open>al\<close>, and the state with it.\<close>

definition demo_session :: session where
  "demo_session = \<lparr>mUserName = [], mGroupAlias = ''gdd1'', mGroupId = 3, mClientIp = ''ip'',
     mEncryptionSecret = Some ''alpw'', mUserKeyPair = Some (demo_keypair ''keya'')\<rparr>"

definition demo_state :: "(demo_cache, int) app" where
  "demo_state = \<lparr>mRunningEncryptions = {}, mPendingTransactions = [], mActiveSessions = [(''al'', 1000, demo_session)],
     world = 1000\<rparr>"

definition empty_state :: "(demo_cache, int) app" where
  "empty_state = \<lparr>mRunningEncryptions = {}, mPendingTransactions = [], mActiveSessions = [], world = 1000\<rparr>"

lemmas demo_defs = demo_def demo_conv_def demo_keypair_def demo_crypto_def demo_jwt_def demo_times_def
  demo_cmp_def demo_nums_def demo_txs_def demo_caches_def demo_cache_get_def demo_row_def demo_answer_def demo_svc_def
  demo_cfg_def demo_session_def demo_state_def empty_state_def

end
