(* ===== verification/Tables.thy ===== *)
theory Tables
  imports Demo
begin

section \<open>model/table and ConnectionManager: rows and statements\<close>

text \<open>
  Each table class builds its SQL statement and binds its members to the placeholders;
  the database that runs it is the parameter \<^const>\<open>sqlExec\<close>, \<^const>\<open>sqlRow\<close>,
  \<^const>\<open>sqlRows\<close>.  The statement texts are those of the code, piece by piece.  A row
  whose columns do not have the selected types is outside the model (\<^verbatim>\<open>Undef\<close>).
\<close>

subsection \<open>ConnectionManager\<close>

text \<open>
  The manager: the name of the pool in use, the pools that were added to the library's
  container (key, connection text, least and most sessions) and the kind of database.
\<close>

datatype db_key = MySQL_KEY | SQLite_KEY

record connection_manager =
  mSessionPoolNames :: string
  mSessionPools :: "(db_key \<times> string \<times> nat \<times> nat) list"
  mMySqlite :: bool
  cm_connectors :: "db_key list"

definition new_ConnectionManager :: connection_manager where
  "new_ConnectionManager = \<lparr>mSessionPoolNames = [], mSessionPools = [], mMySqlite = False, cm_connectors = []\<rparr>"

text \<open>\<^verbatim>\<open>uri\<close> is \<^verbatim>\<open>Poco::Data::Session::uri\<close>.\<close>

definition setConnection :: "(db_key \<Rightarrow> string \<Rightarrow> string) \<Rightarrow> string \<Rightarrow> connection_manager \<Rightarrow> connection_manager" where
  "setConnection uri connectionString cm =
     cm\<lparr>mSessionPoolNames := uri MySQL_KEY connectionString,
        mSessionPools := mSessionPools cm @ [(MySQL_KEY, connectionString, 1, 16)]\<rparr>"

definition setConnectionSqlite ::
    "(db_key \<Rightarrow> string \<Rightarrow> string) \<Rightarrow> string \<Rightarrow> connection_manager \<Rightarrow> connection_manager" where
  "setConnectionSqlite uri fileName cm =
     cm\<lparr>mSessionPoolNames := uri SQLite_KEY fileName,
        mSessionPools := mSessionPools cm @ [(SQLite_KEY, fileName, 1, 2)],
        mMySqlite := True\<rparr>"

definition registerConnector :: "db_key \<Rightarrow> connection_manager \<Rightarrow> connection_manager" where
  "registerConnector k cm = cm\<lparr>cm_connectors := cm_connectors cm @ [k]\<rparr>"

text \<open>Decimal text of an \<^verbatim>\<open>int\<close>, as a stream prints it.\<close>

definition show_int :: "int \<Rightarrow> string" where
  "show_int n = (if n < 0 then ''-'' @ to_digits (nat (- n)) else to_digits (nat n))"

text \<open>The configuration: \<^verbatim>\<open>getString\<close> and \<^verbatim>\<open>getInt\<close> with a default.\<close>

record config_reader =
  cfg_getString :: "string \<Rightarrow> string \<Rightarrow> string"
  cfg_getInt :: "string \<Rightarrow> int \<Rightarrow> int"

definition setConnectionsFromConfig ::
    "(db_key \<Rightarrow> string \<Rightarrow> string) \<Rightarrow> config_reader \<Rightarrow> connection_manager \<Rightarrow> bool \<times> connection_manager" where
  "setConnectionsFromConfig uri c cm =
     (let sqlLite = cfg_getString c ''db.sqlite'' [] in
      if sqlLite \<noteq> [] then (True, setConnectionSqlite uri sqlLite (registerConnector SQLite_KEY cm))
      else
        (let dbConfig =
               ''host='' @ cfg_getString c ''db.host'' ''localhost'' @ '';'' @
               ''port='' @ show_int (cfg_getInt c ''db.port'' 3306) @ '';'';
             dbName = cfg_getString c ''db.name'' ''blockchain_connector'';
             dbConfig = dbConfig @ ''db='' @ dbName @ '';'' @
               ''user='' @ cfg_getString c ''db.user'' ''root'' @ '';'' @
               ''password='' @ cfg_getString c ''db.password'' [] @ '';''
         in (True, setConnection uri dbConfig (registerConnector MySQL_KEY cm))))"

definition isSqlite :: "connection_manager \<Rightarrow> bool" where
  "isSqlite cm = mMySqlite cm"

text \<open>
  After the configuration the pool in use is one of the pools, its connector is
  registered, and \<^const>\<open>isSqlite\<close> names its kind.
\<close>

lemma configured_pool:
  assumes "\<not> mMySqlite cm"
  shows "\<exists>k s lo hi. let cm' = snd (setConnectionsFromConfig uri c cm) in
     (k, s, lo, hi) \<in> set (mSessionPools cm') \<and> mSessionPoolNames cm' = uri k s \<and>
     k \<in> set (cm_connectors cm') \<and> isSqlite cm' = (k = SQLite_KEY)"
proof (cases "cfg_getString c ''db.sqlite'' [] = []")
  case True
  with assms show ?thesis
    by (auto simp: setConnectionsFromConfig_def setConnection_def registerConnector_def isSqlite_def Let_def)
next
  case False
  with assms show ?thesis
    by (auto simp: setConnectionsFromConfig_def setConnectionSqlite_def registerConnector_def isSqlite_def Let_def)
qed

text \<open>A database call goes through a connection of the pool.\<close>

definition db_row ::
    "('tx, 'n, 'c, 'w) env \<Rightarrow> string \<Rightarrow> sqlval list \<Rightarrow> (('c, 'w) app, sqlval list option) m" where
  "db_row env stmt vals = on_world (sqlRow (svc env) stmt vals)"

definition db_rows ::
    "('tx, 'n, 'c, 'w) env \<Rightarrow> string \<Rightarrow> sqlval list \<Rightarrow> (('c, 'w) app, sqlval list list) m" where
  "db_rows env stmt vals = on_world (sqlRows (svc env) stmt vals)"

definition db_exec ::
    "('tx, 'n, 'c, 'w) env \<Rightarrow> string \<Rightarrow> sqlval list \<Rightarrow> (('c, 'w) app, unit) m" where
  "db_exec env stmt vals = on_world (sqlExec (svc env) stmt vals)"

definition db_connect :: "('tx, 'n, 'c, 'w) env \<Rightarrow> (('c, 'w) app, unit) m" where
  "db_connect env = on_world (getConnection (svc env))"

lemma db_keeps [keeps]:
  "stays only_world (db_row env stmt vals)" "stays only_world (db_rows env stmt vals)"
  "stays only_world (db_exec env stmt vals)" "stays only_world (db_connect env)"
  "stays same_log (db_row env stmt vals)" "stays same_log (db_rows env stmt vals)"
  "stays same_log (db_exec env stmt vals)" "stays same_log (db_connect env)"
  unfolding db_row_def db_rows_def db_exec_def db_connect_def by (rule keeps)+

subsection \<open>BaseTable\<close>

text \<open>\<^verbatim>\<open>SELECT LAST_INSERT_ID()\<close> into \<^verbatim>\<open>mID\<close>; without a row \<^verbatim>\<open>mID\<close> stays.\<close>

definition last_id_select :: string where
  "last_id_select = ''SELECT LAST_INSERT_ID();''"

definition getLastInsertId :: "('tx, 'n, 'c, 'w) env \<Rightarrow> u64 \<Rightarrow> (('c, 'w) app, u64) m" where
  "getLastInsertId env mID =
     bind_m (db_row env last_id_select []) (\<lambda>row.
       case row of
         None \<Rightarrow> ret mID
       | Some [SqlInt n] \<Rightarrow> ret (word_of_int n)
       | Some _ \<Rightarrow> undef)"

subsection \<open>Group\<close>

record group_row =
  g_ID :: u64
  g_Name :: string
  g_Alias :: string
  g_Description :: string
  g_Created :: int

definition new_Group :: "string \<Rightarrow> string \<Rightarrow> string \<Rightarrow> group_row" where
  "new_Group name alias description =
     \<lparr>g_ID = 0, g_Name = name, g_Alias = alias, g_Description = description, g_Created = 0\<rparr>"

fun group_of_tuple :: "sqlval list \<Rightarrow> group_row option" where
  "group_of_tuple [SqlInt i, SqlText name, SqlText alias, SqlText descr, SqlInt cr] =
     Some \<lparr>g_ID = word_of_int i, g_Name = name, g_Alias = alias, g_Description = descr, g_Created = cr\<rparr>"
| "group_of_tuple _ = None"

definition group_select :: string where
  "group_select = ''SELECT id, name, groupAlias, description, created '' @ '' from `'' @ ''group'' @ ''`''"

definition group_select_alias :: string where
  "group_select_alias = group_select @ '' where groupAlias LIKE ?''"

definition Group_load_alias :: "('tx, 'n, 'c, 'w) env \<Rightarrow> string \<Rightarrow> (('c, 'w) app, group_row) m" where
  "Group_load_alias env alias =
     bind_m (db_connect env) (\<lambda>_.
     bind_m (db_row env group_select_alias [SqlText alias]) (\<lambda>row.
       case row of
         None \<Rightarrow> throw (RowNotFoundException ''couldn't load group'' ''group'' (''where groupAlias LIKE '' @ alias))
       | Some tuple \<Rightarrow> (case group_of_tuple tuple of Some g \<Rightarrow> ret g | None \<Rightarrow> undef)))"

text \<open>
  \<^verbatim>\<open>"where id = " + id\<close> moves the pointer into the literal by \<^verbatim>\<open>id\<close>
  characters; beyond the terminating NUL it is undefined.
\<close>

definition literal_plus :: "string \<Rightarrow> nat \<Rightarrow> string outcome" where
  "literal_plus lit n = (if n \<le> length lit then Ret (drop n lit) else Undef)"

definition Group_load_id :: "('tx, 'n, 'c, 'w) env \<Rightarrow> u64 \<Rightarrow> (('c, 'w) app, group_row) m" where
  "Group_load_id env gid =
     bind_m (db_connect env) (\<lambda>_.
     bind_m (db_row env (group_select @ '' where id = ?'') [SqlInt (uint gid)]) (\<lambda>row.
       case row of
         None \<Rightarrow>
           bind_m (outcome_of (literal_plus ''where id = '' (unat gid))) (\<lambda>cond.
           throw (RowNotFoundException ''couldn't load group'' ''group'' cond))
       | Some tuple \<Rightarrow> (case group_of_tuple tuple of Some g \<Rightarrow> ret g | None \<Rightarrow> undef)))"

definition group_insert :: string where
  "group_insert = ''INSERT INTO `'' @ ''group'' @ ''` (name, groupAlias, description) VALUES(?,?,?);''"

definition Group_save :: "('tx, 'n, 'c, 'w) env \<Rightarrow> group_row \<Rightarrow> (('c, 'w) app, unit) m" where
  "Group_save env g =
     (if g_ID g \<noteq> 0 then
        db_exec env (''UPDATE `'' @ ''group'' @ ''` SET name=?, description=? '' @ ''WHERE id = ?'')
          [SqlText (g_Name g), SqlText (g_Description g), SqlInt (uint (g_ID g))]
      else
        db_exec env group_insert
          [SqlText (g_Name g), SqlText (g_Alias g), SqlText (g_Description g)])"

subsection \<open>User\<close>

record user_row =
  u_ID :: u64
  u_Name :: string
  u_GroupId :: u64
  u_Password :: u64
  u_PublicKey :: bytes
  u_EncryptedPrivateKey :: bytes

definition new_User :: "string \<Rightarrow> u64 \<Rightarrow> u64 \<Rightarrow> bytes \<Rightarrow> bytes \<Rightarrow> user_row" where
  "new_User name groupId password publicKey encryptedPrivateKey =
     \<lparr>u_ID = 0, u_Name = name, u_GroupId = groupId, u_Password = password,
      u_PublicKey = publicKey, u_EncryptedPrivateKey = encryptedPrivateKey\<rparr>"

fun user_of_tuple :: "sqlval list \<Rightarrow> user_row option" where
  "user_of_tuple [SqlInt i, SqlText name, SqlInt gid, SqlInt pw, SqlText pub, SqlText priv] =
     Some \<lparr>u_ID = word_of_int i, u_Name = name, u_GroupId = word_of_int gid, u_Password = word_of_int pw,
           u_PublicKey = pub, u_EncryptedPrivateKey = priv\<rparr>"
| "user_of_tuple _ = None"

definition user_select :: string where
  "user_select = ''SELECT id, name, group_id, password, public_key, encrypted_private_key '' @
     '' from '' @ ''user'' @ '' where name LIKE ? AND group_id = ?''"

text \<open>\<^verbatim>\<open>groupId\<close> is an \<^verbatim>\<open>int\<close>.\<close>

definition User_load :: "('tx, 'n, 'c, 'w) env \<Rightarrow> string \<Rightarrow> u32 \<Rightarrow> (('c, 'w) app, user_row) m" where
  "User_load env name groupId =
     bind_m (db_connect env) (\<lambda>_.
     bind_m (db_row env user_select [SqlText name, SqlInt (sint groupId)]) (\<lambda>row.
       case row of
         None \<Rightarrow> throw (RowNotFoundException ''couldn't load user'' ''user'' (''where name LIKE '' @ name))
       | Some tuple \<Rightarrow> (case user_of_tuple tuple of Some u \<Rightarrow> ret u | None \<Rightarrow> undef)))"

definition user_insert :: string where
  "user_insert = ''INSERT INTO '' @ ''user'' @
     ''(name, group_id, password, public_key, encrypted_private_key) VALUES(?,?,?,?,?);''"

definition User_save :: "('tx, 'n, 'c, 'w) env \<Rightarrow> user_row \<Rightarrow> (('c, 'w) app, unit) m" where
  "User_save env u =
     db_exec env user_insert
       [SqlText (u_Name u), SqlInt (uint (u_GroupId u)), SqlInt (uint (u_Password u)),
        SqlText (u_PublicKey u), SqlText (u_EncryptedPrivateKey u)]"

text \<open>The placeholder list built by the loop over the public keys.\<close>

fun placeholders :: "nat \<Rightarrow> nat \<Rightarrow> string" where
  "placeholders i 0 = []"
| "placeholders i (Suc n) = (if i > 0 then '','' else []) @ ''?'' @ placeholders (Suc i) n"

fun name_pubkey_of_tuple :: "sqlval list \<Rightarrow> (string \<times> string) option" where
  "name_pubkey_of_tuple [SqlText pub, SqlText name] = Some (pub, name)"
| "name_pubkey_of_tuple _ = None"

text \<open>\<^verbatim>\<open>unordered_map::insert\<close> keeps the entry that is already there.\<close>

definition map_insert :: "'k \<times> 'v \<Rightarrow> ('k \<rightharpoonup> 'v) \<Rightarrow> ('k \<rightharpoonup> 'v)" where
  "map_insert kv m = (if fst kv \<in> dom m then m else m(fst kv \<mapsto> snd kv))"

definition loadUserNamesForPubkeys ::
    "('tx, 'n, 'c, 'w) env \<Rightarrow> string list \<Rightarrow> (('c, 'w) app, string \<rightharpoonup> string) m" where
  "loadUserNamesForPubkeys env pubkeysHex =
     bind_m (db_connect env) (\<lambda>_.
     bind_m (db_rows env
         (''SELECT LOWER(HEX(public_key)), name '' @ '' from '' @ ''user'' @
          '' where hex(public_key) IN ('' @ placeholders 0 (length pubkeysHex) @ '') '')
         (map SqlText pubkeysHex)) (\<lambda>rows.
       case those (map name_pubkey_of_tuple rows) of
         None \<Rightarrow> undef
       | Some pairs \<Rightarrow> ret (fold map_insert pairs Map.empty)))"

subsection \<open>UserBackup\<close>

record user_backup_row =
  ub_ID :: u64
  ub_UserId :: u64
  ub_KeyUserId :: u64
  ub_EncryptedPassphrase :: bytes

definition new_UserBackup :: "u64 \<Rightarrow> u64 \<Rightarrow> bytes \<Rightarrow> user_backup_row" where
  "new_UserBackup userId keyUserId encryptedPassphrase =
     \<lparr>ub_ID = 0, ub_UserId = userId, ub_KeyUserId = keyUserId, ub_EncryptedPassphrase = encryptedPassphrase\<rparr>"

definition user_backup_insert :: string where
  "user_backup_insert = ''INSERT INTO '' @ ''user_backup'' @
     ''(user_id, key_user_id, encrypted_passphrase) VALUES(?,?,?);''"

definition UserBackup_save :: "('tx, 'n, 'c, 'w) env \<Rightarrow> user_backup_row \<Rightarrow> (('c, 'w) app, unit) m" where
  "UserBackup_save env b =
     db_exec env user_backup_insert
       [SqlInt (uint (ub_UserId b)), SqlInt (uint (ub_KeyUserId b)), SqlText (ub_EncryptedPassphrase b)]"

subsection \<open>Lemmas on the rows and statements\<close>

lemma table_load_keeps [keeps]:
  "stays only_world (getLastInsertId env mID)"
  "stays only_world (Group_load_alias env alias)" "stays only_world (Group_load_id env gid)"
  "stays only_world (Group_save env g)" "stays only_world (User_load env name groupId)"
  "stays only_world (User_save env u)" "stays only_world (UserBackup_save env b)"
  "stays only_world (loadUserNamesForPubkeys env ks)"
  unfolding getLastInsertId_def Group_load_alias_def Group_load_id_def Group_save_def
    User_load_def User_save_def UserBackup_save_def loadUserNamesForPubkeys_def
  by (intro keeps | auto intro!: keeps split: option.split list.split sqlval.split)+

lemmas table_load_same_log [keeps] = table_load_keeps [THEN only_world_same_log]

lemma map_insert_apply:
  "map_insert p m k = (case m k of Some v \<Rightarrow> Some v | None \<Rightarrow> if k = fst p then Some (snd p) else None)"
  by (auto simp: map_insert_def split: option.split)

text \<open>The loop over the rows builds the first-match map of the list of pairs.\<close>

lemma fold_map_insert:
  "fold map_insert ps m k = (case m k of Some v \<Rightarrow> Some v | None \<Rightarrow> map_of ps k)"
proof (induction ps arbitrary: m)
  case (Cons p ps)
  then show ?case by (cases p) (simp add: map_insert_apply split: option.split)
qed (simp split: option.split)

lemma fold_map_insert_empty: "fold map_insert ps Map.empty = map_of ps"
  by (simp add: fun_eq_iff fold_map_insert)

lemma placeholders_count: "filter (\<lambda>c. c = CHR ''?'') (placeholders i n) = replicate n CHR ''?''"
  by (induction i n rule: placeholders.induct) simp_all

end
