(* ===== verification/Shared.thy ===== *)
theory Shared
  imports Tables "HOL-Library.Signed_Division"
begin

section \<open>What the request threads do to the shared state\<close>

text \<open>
  The server serves every request in a thread of its own.  The threads share the
  members of the singletons, and every access to them is one operation under a lock:
  this theory says which operations there are, as a step relation on the shared state,
  and what holds in every state they reach, in whatever order the threads take them.
  That the code does nothing else is shown for each program where it is modelled, up to
  the whole server in theory Server.
\<close>

subsection \<open>The start\<close>

text \<open>
  The cache is made with \<^verbatim>\<open>totalMilliseconds()\<close> of the configured duration, whose
  unit is the microsecond; an entry lives that long after its last access.
\<close>

definition session_cache_ms :: "('tx, 'n, 'c, 'w) env \<Rightarrow> int" where
  "session_cache_ms env = g_SessionValidDuration (cfg env) sdiv 1000"

definition session_life :: "('tx, 'n, 'c, 'w) env \<Rightarrow> int" where
  "session_life env = session_cache_ms env * 1000"

definition init_app :: "('tx, 'n, 'c, 'w) env \<Rightarrow> 'w \<Rightarrow> ('c, 'w) app" where
  "init_app env w = \<lparr>mRunningEncryptions = {}, mPendingTransactions = [],
     mActiveSessions = cache_new (caches env) (session_cache_ms env), world = w\<rparr>"

subsection \<open>Sessions that belong to their user\<close>

text \<open>The row of a user as the login reads it.\<close>

definition login_select :: string where
  "login_select =
     ''SELECT password, encrypted_private_key, public_key from user where name = ? AND group_id = ?''"

fun login_of_tuple :: "sqlval list \<Rightarrow> (u64 \<times> bytes \<times> bytes) option" where
  "login_of_tuple [SqlInt pw, SqlText enc, SqlText pub] = Some (word_of_int pw, enc, pub)"
| "login_of_tuple _ = None"

text \<open>
  What the code has done when it returns the session of a new user: the key pair comes
  from a passphrase whose private key was encrypted with the derived key, and which was
  sealed for the support key.
\<close>

definition created_with_backup :: "('tx, 'n, 'c, 'w) env \<Rightarrow> bytes \<Rightarrow> session \<Rightarrow> bool" where
  "created_with_backup env secret s \<longleftrightarrow>
     (\<exists>pass priv key enc.
        mUserKeyPair s = Some (keyPairFromPassphrase (crypto env) pass) \<and>
        getCryptedPrivKey (crypto env) (keyPairFromPassphrase (crypto env) pass) secret = Some priv \<and>
        g_SupportPublicKey (cfg env) = Some key \<and> sealedEncrypt (crypto env) key pass = Ret enc)"

text \<open>
  What the code has checked when it opens an existing user: the row read last, in state
  \<^verbatim>\<open>b\<close>, for the user name and the group of the session.
\<close>

definition opened_from_row ::
    "('tx, 'n, 'c, 'w) env \<Rightarrow> string \<Rightarrow> bytes \<Rightarrow> session \<Rightarrow> ('c, 'w) app \<Rightarrow> bool" where
  "opened_from_row env u secret s b \<longleftrightarrow>
     (\<exists>a tuple enc pub priv.
        db_row env login_select [SqlText u, SqlInt (sint (mGroupId s))] a = (Ret (Some tuple), b) \<and>
        login_of_tuple tuple = Some (getKeyHashed (crypto env) secret, enc, pub) \<and>
        decryptWithKey (crypto env) secret enc = Some priv \<and>
        mUserKeyPair s = Some (keyPairFromPrivate (crypto env) priv) \<and>
        isTheSame (crypto env) (keyPairFromPrivate (crypto env) priv) pub)"

text \<open>
  A session as the code makes it: its key was derived for the user's name, from some
  password, and its key pair was opened from the stored row or created with that key.
\<close>

definition session_made :: "('tx, 'n, 'c, 'w) env \<Rightarrow> string \<Rightarrow> session \<Rightarrow> bool" where
  "session_made env u s \<longleftrightarrow>
     mUserKeyPair s \<noteq> None \<and>
     (\<exists>pw secret. createKey (crypto env) u pw = Ret secret \<and> mEncryptionSecret s = Some secret \<and>
        (created_with_backup env secret s \<or> (\<exists>b :: ('c, 'w) app. opened_from_row env u secret s b)))"

subsection \<open>Steps\<close>

text \<open>
  In the order of the rules: the outside world goes on; a derivation is registered and
  removed again in the limiter; a transaction that was sent is pushed; a notification
  settles one; a session is looked up, and a new one is stored.
\<close>

inductive shared_step ::
    "('tx, 'n, 'c, 'w) env \<Rightarrow> ('c, 'w) app \<Rightarrow> ('c, 'w) app \<Rightarrow> bool"
  for env :: "('tx, 'n, 'c, 'w) env" where
  outside: "shared_step env a (a\<lparr>world := w\<rparr>)"
| acquires: "card (mRunningEncryptions a) < cpuCount env \<Longrightarrow> u \<notin> mRunningEncryptions a \<Longrightarrow>
    shared_step env a (a\<lparr>mRunningEncryptions := insert u (mRunningEncryptions a)\<rparr>)"
| releases: "shared_step env a (a\<lparr>mRunningEncryptions := mRunningEncryptions a - {u}\<rparr>)"
| pushes: "pt_state p = SENDED \<Longrightarrow>
    shared_step env a (a\<lparr>mPendingTransactions := pushNewTransaction p (mPendingTransactions a)\<rparr>)"
| settles: "updateTransaction i c err (mPendingTransactions a) = Ret ps \<Longrightarrow>
    shared_step env a (a\<lparr>mPendingTransactions := ps\<rparr>)"
| looks: "cache_get (caches env) (clock (svc env) (world a)) u (mActiveSessions a) = (r, c) \<Longrightarrow>
    shared_step env a (a\<lparr>mActiveSessions := c\<rparr>)"
| stores: "session_made env u s \<Longrightarrow>
    shared_step env a (a\<lparr>mActiveSessions :=
      cache_add (caches env) (clock (svc env) (world a)) u s (mActiveSessions a)\<rparr>)"

abbreviation shared_steps :: "('tx, 'n, 'c, 'w) env \<Rightarrow> ('c, 'w) app \<Rightarrow> ('c, 'w) app \<Rightarrow> bool" where
  "shared_steps env \<equiv> (shared_step env)\<^sup>*\<^sup>*"

text \<open>The states the server reaches, whatever its threads do and however they interleave.\<close>

definition reachable :: "('tx, 'n, 'c, 'w) env \<Rightarrow> ('c, 'w) app \<Rightarrow> bool" where
  "reachable env a \<longleftrightarrow> (\<exists>w. shared_steps env (init_app env w) a)"

interpretation steps: state_order "shared_steps env" for env :: "('tx, 'n, 'c, 'w) env"
  by unfold_locales auto

lemma only_world_steps: "stays only_world p \<Longrightarrow> stays (shared_steps env) p"
  unfolding stays_def only_world_def by (metis outside r_into_rtranclp)

lemmas table_steps [keeps] =
  stays_on_world(1) [THEN only_world_steps] db_keeps(1-4) [THEN only_world_steps]
  table_load_keeps [THEN only_world_steps]

text \<open>
  The other threads run requests too: what they do while this one sleeps or computes is
  a run of steps.
\<close>

definition others_step :: "('tx, 'n, 'c, 'w) env \<Rightarrow> bool" where
  "others_step env \<longleftrightarrow> (\<forall>s. shared_steps env s (yield env s))"

lemma yield_keeps: "others_step env \<Longrightarrow> stays (shared_steps env) (modify (yield env))"
  by (simp add: others_step_def steps.stays_modify)

subsection \<open>What holds in every reachable state\<close>

text \<open>The list of pending transactions only evolves in \<^const>\<open>pending_order\<close>.\<close>

lemma step_log_order: "shared_step env a b \<Longrightarrow> log_order a b"
  by (induction rule: shared_step.induct)
    (auto simp: log_order_def intro: pending_order_refl pending_order_push pending_order_update)

lemma steps_log_order: "shared_steps env a b \<Longrightarrow> log_order a b"
proof (induction rule: rtranclp_induct)
  case (step b c)
  then show ?case
    using step_log_order [OF step(2)] unfolding log_order_def by (blast intro: pending_order_trans)
qed (simp add: log_order_def pending_order_refl)

text \<open>
  The limiter's bound: never more derivations than processors, in the set that is
  guarded by the lock.
\<close>

lemma step_running:
  "shared_step env a b \<Longrightarrow> finite (mRunningEncryptions a) \<and> card (mRunningEncryptions a) \<le> cpuCount env \<Longrightarrow>
     finite (mRunningEncryptions b) \<and> card (mRunningEncryptions b) \<le> cpuCount env"
  by (induction rule: shared_step.induct) (auto simp: card_insert_if card_Diff_singleton_if)

text \<open>
  What the code relies on in the cache: an entry that is read was added before under
  the same name.
\<close>

definition cache_frame :: "('tx, 'n, 'c, 'w) env \<Rightarrow> bool" where
  "cache_frame env \<longleftrightarrow>
     (\<forall>ms now k. fst (cache_get (caches env) now k (cache_new (caches env) ms)) = None) \<and>
     (\<forall>now k c now' k' s.
        fst (cache_get (caches env) now' k' (snd (cache_get (caches env) now k c))) = Some s \<longrightarrow>
        (\<exists>t. fst (cache_get (caches env) t k' c) = Some s)) \<and>
     (\<forall>now k x c now' k' s.
        fst (cache_get (caches env) now' k' (cache_add (caches env) now k x c)) = Some s \<longrightarrow>
        k' = k \<and> s = x \<or> (\<exists>t. fst (cache_get (caches env) t k' c) = Some s))"

definition sessions_ok :: "('tx, 'n, 'c, 'w) env \<Rightarrow> ('c, 'w) app \<Rightarrow> bool" where
  "sessions_ok env a \<longleftrightarrow>
     (\<forall>now u s. fst (cache_get (caches env) now u (mActiveSessions a)) = Some s \<longrightarrow> session_made env u s)"

lemma step_sessions:
  assumes "shared_step env a b" "cache_frame env" "sessions_ok env a"
  shows "sessions_ok env b"
  using assms
proof (induction rule: shared_step.induct)
  case (looks a u r c)
  then have "c = snd (cache_get (caches env) (clock (svc env) (world a)) u (mActiveSessions a))" by simp
  with looks show ?case unfolding sessions_ok_def cache_frame_def by simp blast
next
  case (stores u s a)
  then show ?case unfolding sessions_ok_def cache_frame_def by simp blast
qed (simp_all add: sessions_ok_def)

lemma reachable_start:
  "cache_frame env \<Longrightarrow> sessions_ok env (init_app env w)"
  by (simp add: sessions_ok_def cache_frame_def init_app_def)

lemma reachable_pending:
  assumes "reachable env a"
  shows "length (mPendingTransactions a) \<le> MAX_PENDING_TRANSACTIONS_IN_LIST"
proof -
  from assms obtain w where "shared_steps env (init_app env w) a" by (auto simp: reachable_def)
  then have "pending_order [] (mPendingTransactions a)"
    by (auto dest!: steps_log_order simp: log_order_def init_app_def)
  then show ?thesis
    using pending_order_confirmed [of "[]"] by (simp add: MAX_PENDING_TRANSACTIONS_IN_LIST_def)
qed

lemma reachable_inv:
  assumes "reachable env a" "cache_frame env"
  shows "finite (mRunningEncryptions a) \<and> card (mRunningEncryptions a) \<le> cpuCount env \<and> sessions_ok env a"
proof -
  from assms(1) obtain w where "shared_steps env (init_app env w) a" by (auto simp: reachable_def)
  then have "(finite (mRunningEncryptions a) \<and> card (mRunningEncryptions a) \<le> cpuCount env) \<and> sessions_ok env a"
  proof (induction rule: rtranclp_induct)
    case base
    show ?case using reachable_start [OF assms(2)] by (simp add: init_app_def)
  next
    case (step b c)
    then show ?case using step_running step_sessions assms(2) by blast
  qed
  then show ?thesis by simp
qed

lemma reachable_steps: "reachable env a \<Longrightarrow> shared_steps env a b \<Longrightarrow> reachable env b"
  unfolding reachable_def by (meson rtranclp_trans)

subsection \<open>The demo\<close>

text \<open>The demo's cache obeys the law, and its state with one session is reachable.\<close>

lemma demo_others: "others_step demo"
  by (simp add: others_step_def demo_def)

lemma demo_cache_frame: "cache_frame demo"
proof -
  have sub: "map_of (AList.delete k c) k' = Some x \<Longrightarrow> map_of c k' = Some x" for k k' c and x :: "int \<times> session"
    by (auto simp: AList.delete_conv split: if_splits)
  have old: "map_of c k = Some (t, s) \<Longrightarrow> fst (demo_cache_get t k c) = Some s" for t k c s
    by (simp add: demo_cache_get_def)
  have get: "fst (demo_cache_get now' k' (snd (demo_cache_get now k c))) = Some s \<Longrightarrow>
      \<exists>t. fst (demo_cache_get t k' c) = Some s" for now k c now' k' s
    by (auto simp: demo_cache_get_def update_conv split: option.splits if_splits prod.splits dest!: sub
        intro: exI [of _ "fst (the (map_of c k'))"])
  have add: "fst (demo_cache_get now' k' (AList.update k (now, x) c)) = Some s \<Longrightarrow>
      k' = k \<and> s = x \<or> (\<exists>t. fst (demo_cache_get t k' c) = Some s)" for now k c now' k' s x
    by (auto simp: demo_cache_get_def update_conv split: option.splits if_splits prod.splits
        intro: exI [of _ "fst (the (map_of c k'))"])
  show ?thesis
    unfolding cache_frame_def using get add
    by (simp add: demo_def demo_caches_def) (simp add: demo_cache_get_def)
qed

lemma demo_session_made: "session_made demo ''al'' demo_session"
proof -
  have "db_row demo login_select [SqlText ''al'', SqlInt (sint (mGroupId demo_session))] demo_state =
      (Ret (Some [SqlInt 4, SqlText ''keya'', SqlText ''keya'']), demo_state)"
    "login_of_tuple [SqlInt 4, SqlText ''keya'', SqlText ''keya''] = Some (getKeyHashed (crypto demo) ''alpw'', ''keya'', ''keya'')"
    "decryptWithKey (crypto demo) ''alpw'' ''keya'' = Some ''keya''"
    "mUserKeyPair demo_session = Some (keyPairFromPrivate (crypto demo) ''keya'')"
    "isTheSame (crypto demo) (keyPairFromPrivate (crypto demo) ''keya'') ''keya''" by code_simp+
  then have "opened_from_row demo ''al'' ''alpw'' demo_session demo_state"
    unfolding opened_from_row_def by blast
  moreover have "createKey (crypto demo) ''al'' ''pw'' = Ret ''alpw''" "mEncryptionSecret demo_session = Some ''alpw''"
    "mUserKeyPair demo_session \<noteq> None" by code_simp+
  ultimately show ?thesis unfolding session_made_def by blast
qed

lemma demo_reachable: "reachable demo demo_state"
proof -
  have "shared_step demo (init_app demo 1000) ((init_app demo 1000)\<lparr>mActiveSessions :=
      cache_add (caches demo) (clock (svc demo) (world (init_app demo 1000))) ''al'' demo_session
        (mActiveSessions (init_app demo 1000))\<rparr>)"
    by (rule stores [OF demo_session_made])
  moreover have "(init_app demo 1000)\<lparr>mActiveSessions :=
      cache_add (caches demo) (clock (svc demo) (world (init_app demo 1000))) ''al'' demo_session
        (mActiveSessions (init_app demo 1000))\<rparr> = demo_state"
    by (simp add: init_app_def demo_def demo_caches_def demo_svc_def demo_state_def)
  ultimately show ?thesis unfolding reachable_def by (metis r_into_rtranclp)
qed

end
