(* ===== verification/RateLimiter.thy ===== *)
theory RateLimiter
  imports Shared
begin

section \<open>PasswordEncryptionRateLimiter\<close>

text \<open>
  Deriving the key of a user is expensive, so at most one derivation per processor and
  one per user name runs at a time.  The set of running derivations is guarded by a
  mutex that is released while the key is derived.

  The first part is the code as one thread runs it, the other threads being
  \<^const>\<open>yield\<close>.  The second part is all threads together as a step relation, one step
  per section between two lock operations.
\<close>

subsection \<open>One thread\<close>

definition checkForFreeSlotAndRunEncryption ::
    "('tx, 'n, 'c, 'w) env \<Rightarrow> string \<Rightarrow> string \<Rightarrow> (('c, 'w) app, bytes option) m" where
  "checkForFreeSlotAndRunEncryption env username password =
     bind_m (gets mRunningEncryptions) (\<lambda>running.
       if card running < cpuCount env then
         if username \<notin> running then
           bind_m (modify (\<lambda>s. s\<lparr>mRunningEncryptions := insert username (mRunningEncryptions s)\<rparr>)) (\<lambda>_.
           bind_m (modify (yield env)) (\<lambda>_.
           bind_m (outcome_of (createKey (crypto env) username password)) (\<lambda>key.
           bind_m (modify (\<lambda>s. s\<lparr>mRunningEncryptions := mRunningEncryptions s - {username}\<rparr>)) (\<lambda>_.
           ret (Some key)))))
         else ret None
       else ret None)"

text \<open>
  \<^verbatim>\<open>Profiler timeout\<close> counts from the call; \<^verbatim>\<open>timeout.seconds() > 100\<close> on
  the clock in microseconds.  The loop has no bound of its own, so it takes fuel; the
  lemma \<^verbatim>\<open>wait_loop_fuel\<close> below shows that 501 rounds are enough.
\<close>

fun wait_loop ::
    "('tx, 'n, 'c, 'w) env \<Rightarrow> string \<Rightarrow> string \<Rightarrow> int \<Rightarrow> nat \<Rightarrow> (('c, 'w) app, bytes) m" where
  "wait_loop env username password start 0 = undef"
| "wait_loop env username password start (Suc fuel) =
     bind_m (checkForFreeSlotAndRunEncryption env username password) (\<lambda>r.
       case r of
         Some key \<Rightarrow> ret key
       | None \<Rightarrow>
           bind_m (modify (yield env)) (\<lambda>_.
           bind_m (gets (\<lambda>s. clock (svc env) (world s))) (\<lambda>now.
             if now - start > 100 * 1000000
             then throw (PasswordEncryptionRateLimitException ''cannot get free cpu core for encryption'')
             else wait_loop env username password start fuel)))"

definition waitForFreeSlotAndRunEncryption ::
    "('tx, 'n, 'c, 'w) env \<Rightarrow> string \<Rightarrow> string \<Rightarrow> (('c, 'w) app, bytes) m" where
  "waitForFreeSlotAndRunEncryption env username password =
     bind_m (gets (\<lambda>s. clock (svc env) (world s))) (\<lambda>start.
       wait_loop env username password start 501)"

text \<open>\<^verbatim>\<open>Poco::Thread::sleep(200)\<close>: at least 200 ms pass.\<close>

definition sleeps :: "('tx, 'n, 'c, 'w) env \<Rightarrow> bool" where
  "sleeps env \<longleftrightarrow>
     (\<forall>s. clock (svc env) (world s) + 200000 \<le> clock (svc env) (world (yield env s)))"

lemma check_cases:
  "checkForFreeSlotAndRunEncryption env u pw s =
     (if card (mRunningEncryptions s) < cpuCount env \<and> u \<notin> mRunningEncryptions s
      then (let t = yield env (s\<lparr>mRunningEncryptions := insert u (mRunningEncryptions s)\<rparr>) in
            case createKey (crypto env) u pw of
              Ret key \<Rightarrow> (Ret (Some key), t\<lparr>mRunningEncryptions := mRunningEncryptions t - {u}\<rparr>)
            | Throw e \<Rightarrow> (Throw e, t)
            | Undef \<Rightarrow> (Undef, t))
      else (Ret None, s))"
proof (cases "card (mRunningEncryptions s) < cpuCount env \<and> u \<notin> mRunningEncryptions s")
  case True
  then show ?thesis
    by (cases "createKey (crypto env) u pw")
      (simp_all add: checkForFreeSlotAndRunEncryption_def Let_def)
qed (auto simp: checkForFreeSlotAndRunEncryption_def)

text \<open>Round \<^verbatim>\<open>i\<close> is reached no sooner than \<^verbatim>\<open>i * 200\<close> ms after the call.\<close>

lemma wait_loop_fuel:
  assumes "sleeps env" and "createKey (crypto env) u pw \<noteq> Undef"
    and "start + 200000 * (501 - int fuel) \<le> clock (svc env) (world s)" and "0 < fuel"
  shows "fst (wait_loop env u pw start fuel s) \<noteq> Undef \<and>
         wait_loop env u pw start (fuel + k) s = wait_loop env u pw start fuel s"
  using assms(3,4)
proof (induction fuel arbitrary: s)
  case (Suc fuel)
  let ?t = "yield env s"
  have clk: "start + 200000 * (501 - int fuel) \<le> clock (svc env) (world ?t)"
    using Suc.prems assms(1) by (auto simp: sleeps_def dest: spec [of _ s])
  show ?case
  proof (cases "card (mRunningEncryptions s) < cpuCount env \<and> u \<notin> mRunningEncryptions s")
    case True
    with assms(2) show ?thesis
      by (cases "createKey (crypto env) u pw") (simp_all add: bind_run check_cases Let_def bind_m_def)
  next
    case False
    then have chk: "checkForFreeSlotAndRunEncryption env u pw s = (Ret None, s)"
      unfolding check_cases by (simp only: if_False)
    show ?thesis
    proof (cases "fuel = 0")
      case True
      with clk chk show ?thesis by (simp add: bind_run)
    next
      case False
      with clk chk Suc.IH [of ?t] show ?thesis by (auto simp: bind_run)
    qed
  qed
qed simp

lemma check_keeps:
  assumes "others_step env"
  shows "stays (shared_steps env) (checkForFreeSlotAndRunEncryption env u pw)"
proof (rule staysI)
  fix s r t
  assume run: "checkForFreeSlotAndRunEncryption env u pw s = (r, t)"
  show "shared_steps env s t"
  proof (cases "card (mRunningEncryptions s) < cpuCount env \<and> u \<notin> mRunningEncryptions s")
    case True
    let ?s = "s\<lparr>mRunningEncryptions := insert u (mRunningEncryptions s)\<rparr>"
    have "shared_step env s ?s" using True by (simp add: acquires)
    moreover have "shared_steps env ?s (yield env ?s)" using assms by (simp add: others_step_def)
    ultimately have y: "shared_steps env s (yield env ?s)" by simp
    show ?thesis
      using run True y by (auto simp: check_cases Let_def split: outcome.splits intro: rtranclp.rtrancl_into_rtrancl [OF y releases])
  next
    case False
    with run show ?thesis by (auto simp: check_cases)
  qed
qed

text \<open>The key a wait returns is the key derived for the user and the password.\<close>

lemma wait_loop_key:
  "wait_loop env u pw start fuel a = (Ret key, b) \<Longrightarrow> createKey (crypto env) u pw = Ret key"
proof (induction fuel arbitrary: a)
  case (Suc fuel)
  then show ?case
    by (auto simp: ret_iffs check_cases Let_def split: if_splits outcome.splits option.splits)
qed simp

lemma wait_key:
  "waitForFreeSlotAndRunEncryption env u pw a = (Ret key, b) \<Longrightarrow> createKey (crypto env) u pw = Ret key"
  by (auto simp: waitForFreeSlotAndRunEncryption_def dest: wait_loop_key)

lemma wait_loop_keeps: "others_step env \<Longrightarrow> stays (shared_steps env) (wait_loop env u pw start fuel)"
  by (induction fuel) (auto intro!: keeps check_keeps yield_keeps)

lemma wait_keeps: "others_step env \<Longrightarrow> stays (shared_steps env) (waitForFreeSlotAndRunEncryption env u pw)"
  unfolding waitForFreeSlotAndRunEncryption_def by (intro keeps wait_loop_keeps)

subsection \<open>All threads\<close>

datatype phase = Idle | Polling string | Sleeping string | Encrypting string

record limiter =
  running :: "string set"
  phases :: "nat \<Rightarrow> phase"

definition init_limiter :: limiter where
  "init_limiter = \<lparr>running = {}, phases = (\<lambda>_. Idle)\<rparr>"

text \<open>
  \<^verbatim>\<open>failed\<close> is the exception out of \<^verbatim>\<open>createKey\<close>: no handler stands between
  it and the caller, so the user name stays in the set.
\<close>

inductive limiter_step :: "nat \<Rightarrow> limiter \<Rightarrow> limiter \<Rightarrow> bool" for cpus :: nat where
  call: "phases s t = Idle \<Longrightarrow>
     limiter_step cpus s (s\<lparr>phases := (phases s)(t := Polling u)\<rparr>)"
| acquire: "phases s t = Polling u \<Longrightarrow> card (running s) < cpus \<Longrightarrow> u \<notin> running s \<Longrightarrow>
     limiter_step cpus s (s\<lparr>running := insert u (running s), phases := (phases s)(t := Encrypting u)\<rparr>)"
| busy: "phases s t = Polling u \<Longrightarrow> \<not> (card (running s) < cpus \<and> u \<notin> running s) \<Longrightarrow>
     limiter_step cpus s (s\<lparr>phases := (phases s)(t := Sleeping u)\<rparr>)"
| wake: "phases s t = Sleeping u \<Longrightarrow>
     limiter_step cpus s (s\<lparr>phases := (phases s)(t := Polling u)\<rparr>)"
| timeout: "phases s t = Sleeping u \<Longrightarrow>
     limiter_step cpus s (s\<lparr>phases := (phases s)(t := Idle)\<rparr>)"
| finish: "phases s t = Encrypting u \<Longrightarrow>
     limiter_step cpus s (s\<lparr>running := running s - {u}, phases := (phases s)(t := Idle)\<rparr>)"
| failed: "phases s t = Encrypting u \<Longrightarrow>
     limiter_step cpus s (s\<lparr>phases := (phases s)(t := Idle)\<rparr>)"

inductive limiter_reachable :: "nat \<Rightarrow> limiter \<Rightarrow> limiter \<Rightarrow> bool" for cpus :: nat where
  here: "limiter_reachable cpus s s"
| there: "limiter_reachable cpus s t \<Longrightarrow> limiter_step cpus t u \<Longrightarrow> limiter_reachable cpus s u"

inductive_cases limiter_stepE: "limiter_step cpus s t"

text \<open>
  The threads refine the shared steps: what any of them does to the set is a step of
  \<^const>\<open>shared_step\<close>, or no step at all.
\<close>

lemma limiter_step_simulates:
  assumes "limiter_step (cpuCount env) s t"
  shows "shared_steps env (a\<lparr>mRunningEncryptions := running s\<rparr>) (a\<lparr>mRunningEncryptions := running t\<rparr>)"
  using assms
proof cases
  case (acquire th u)
  then show ?thesis
    using acquires [of "a\<lparr>mRunningEncryptions := running s\<rparr>" env u] by (simp add: r_into_rtranclp)
next
  case (finish th u)
  then show ?thesis
    using releases [of env "a\<lparr>mRunningEncryptions := running s\<rparr>" u] by (simp add: r_into_rtranclp)
qed simp_all

lemma limiter_reachable_simulates:
  assumes "limiter_reachable (cpuCount env) s t"
  shows "shared_steps env (a\<lparr>mRunningEncryptions := running s\<rparr>) (a\<lparr>mRunningEncryptions := running t\<rparr>)"
  using assms
proof induction
  case (there s t u)
  then show ?case using limiter_step_simulates [of env t u a] by (meson rtranclp_trans)
qed simp

text \<open>What the code keeps true: a thread deriving a key owns its name in the set.\<close>

definition limiter_inv :: "nat \<Rightarrow> limiter \<Rightarrow> bool" where
  "limiter_inv cpus s \<longleftrightarrow>
     finite (running s) \<and> card (running s) \<le> cpus \<and>
     (\<forall>t u. phases s t = Encrypting u \<longrightarrow> u \<in> running s) \<and>
     (\<forall>t t' u. phases s t = Encrypting u \<and> phases s t' = Encrypting u \<longrightarrow> t = t')"

lemma limiter_inv_init: "limiter_inv cpus init_limiter"
  by (simp add: limiter_inv_def init_limiter_def)

lemma limiter_inv_step: "limiter_step cpus s t \<Longrightarrow> limiter_inv cpus s \<Longrightarrow> limiter_inv cpus t"
proof (induction rule: limiter_step.induct)
  case (acquire s t u)
  then have "card (insert u (running s)) \<le> cpus" by (simp add: limiter_inv_def)
  with acquire show ?case by (auto simp: limiter_inv_def split: if_splits)
next
  case (finish s t u)
  then have "card (running s - {u}) \<le> cpus"
    by (meson card_Diff1_le le_trans limiter_inv_def)
  with finish show ?case by (auto simp: limiter_inv_def split: if_splits)
qed (auto simp: limiter_inv_def split: if_splits)

lemma limiter_inv_reachable:
  "limiter_reachable cpus s t \<Longrightarrow> limiter_inv cpus s \<Longrightarrow> limiter_inv cpus t"
  by (induction rule: limiter_reachable.induct) (auto intro: limiter_inv_step)

definition encrypting :: "limiter \<Rightarrow> nat set" where
  "encrypting s = {t. \<exists>u. phases s t = Encrypting u}"

lemma encrypting_bound:
  assumes inv: "limiter_inv cpus s"
  shows "finite (encrypting s) \<and> card (encrypting s) \<le> cpus"
proof -
  define f where "f t = (case phases s t of Encrypting u \<Rightarrow> u | _ \<Rightarrow> [])" for t
  have sub: "f ` encrypting s \<subseteq> running s"
    using inv by (auto simp: f_def encrypting_def limiter_inv_def)
  have inj: "inj_on f (encrypting s)"
    using inv by (auto simp: f_def encrypting_def limiter_inv_def inj_on_def)
  have fin: "finite (running s)" "card (running s) \<le> cpus"
    using inv by (simp_all add: limiter_inv_def)
  have "finite (encrypting s)"
    using finite_subset [OF sub fin(1)] inj by (rule finite_imageD)
  moreover have "card (encrypting s) \<le> card (running s)"
    using inj sub fin(1) by (rule card_inj_on_le)
  ultimately show ?thesis using fin(2) by simp
qed

text \<open>A name in the set that no thread owns.\<close>

definition leaked :: "string \<Rightarrow> limiter \<Rightarrow> bool" where
  "leaked u s \<longleftrightarrow> u \<in> running s \<and> (\<forall>t. phases s t \<noteq> Encrypting u)"

lemma leaked_step: "limiter_step cpus s t \<Longrightarrow> leaked u s \<Longrightarrow> leaked u t"
  by (induction rule: limiter_step.induct) (auto simp: leaked_def)

lemma leaked_reachable: "limiter_reachable cpus s t \<Longrightarrow> leaked u s \<Longrightarrow> leaked u t"
  by (induction rule: limiter_reachable.induct) (auto intro: leaked_step)

subsection \<open>Properties\<close>

text \<open>
  C13. In every reachable state, with any number of threads and whatever throws, no more
  threads derive a key than there are processors, and no two of them for the same user.
\<close>

theorem limiter_safe:
  assumes "limiter_reachable cpus init_limiter s"
  shows "finite (encrypting s) \<and> card (encrypting s) \<le> cpus \<and>
         (\<forall>t t' u. phases s t = Encrypting u \<and> phases s t' = Encrypting u \<longrightarrow> t = t')"
proof -
  have "limiter_inv cpus s"
    using assms limiter_inv_init by (rule limiter_inv_reachable)
  with encrypting_bound [of cpus s] show ?thesis by (simp add: limiter_inv_def)
qed

theorem limiter_safe_witness:
  "let s = \<lparr>running = {''u''}, phases = (\<lambda>_. Idle)(0 := Encrypting ''u'')\<rparr> in
   limiter_reachable 1 init_limiter s \<and> card (encrypting s) \<le> 1"
proof -
  let ?a = "\<lparr>running = {}, phases = (\<lambda>_. Idle)(0 := Polling ''u'')\<rparr>"
  let ?b = "\<lparr>running = {''u''}, phases = (\<lambda>_. Idle)(0 := Encrypting ''u'')\<rparr>"
  have "limiter_step 1 init_limiter ?a"
    using limiter_step.call [of init_limiter 0 1 "''u''"] by (simp add: init_limiter_def)
  moreover have "limiter_step 1 ?a ?b"
    using limiter_step.acquire [of ?a 0 "''u''" 1] by simp
  ultimately have "limiter_reachable 1 init_limiter ?b"
    by (blast intro: limiter_reachable.intros)
  then show ?thesis using limiter_safe [of 1 ?b] by (simp add: Let_def)
qed

text \<open>
  C14. When the key derivation of a user throws, the name is never released: from then on
  no thread ever derives a key for that user again, in any later state.
\<close>

theorem limiter_leak_is_permanent:
  assumes reach: "limiter_reachable cpus init_limiter s" and enc: "phases s t = Encrypting u"
    and later: "limiter_reachable cpus (s\<lparr>phases := (phases s)(t := Idle)\<rparr>) s'"
  shows "limiter_step cpus s (s\<lparr>phases := (phases s)(t := Idle)\<rparr>) \<and>
         u \<in> running s' \<and> (\<forall>t'. phases s' t' \<noteq> Encrypting u)"
proof -
  have "limiter_inv cpus s"
    using reach limiter_inv_init by (rule limiter_inv_reachable)
  with enc have "leaked u (s\<lparr>phases := (phases s)(t := Idle)\<rparr>)"
    by (auto simp: leaked_def limiter_inv_def)
  with later have "leaked u s'" by (rule leaked_reachable)
  with limiter_step.failed [OF enc] show ?thesis by (simp add: leaked_def)
qed

theorem limiter_leak_is_permanent_witness:
  "let s' = \<lparr>running = {''u''}, phases = (\<lambda>_. Idle)\<rparr> in
   ''u'' \<in> running s' \<and> (\<forall>t'. phases s' t' \<noteq> Encrypting ''u'')"
proof -
  let ?a = "\<lparr>running = {}, phases = (\<lambda>_. Idle)(0 := Polling ''u'')\<rparr>"
  let ?b = "\<lparr>running = {''u''}, phases = (\<lambda>_. Idle)(0 := Encrypting ''u'')\<rparr>"
  let ?c = "\<lparr>running = {''u''}, phases = (\<lambda>_. Idle)\<rparr>"
  have "limiter_step 1 init_limiter ?a"
    using limiter_step.call [of init_limiter 0 1 "''u''"] by (simp add: init_limiter_def)
  moreover have "limiter_step 1 ?a ?b"
    using limiter_step.acquire [of ?a 0 "''u''" 1] by simp
  ultimately have "limiter_reachable 1 init_limiter ?b"
    by (blast intro: limiter_reachable.intros)
  moreover have "?b\<lparr>phases := (phases ?b)(0 := Idle)\<rparr> = ?c"
    by (simp add: fun_eq_iff)
  ultimately show ?thesis
    using limiter_leak_is_permanent [of 1 ?b 0 "''u''" ?c]
    by (simp add: Let_def limiter_reachable.here)
qed

text \<open>
  C15. Waiting for a slot ends: within 501 rounds of 200 ms it gives the derived key or
  throws, and a loop with more rounds computes the same.
\<close>

theorem waitForFreeSlot_terminates:
  assumes "sleeps env" and "createKey (crypto env) u pw \<noteq> Undef"
  shows "fst (waitForFreeSlotAndRunEncryption env u pw s) \<noteq> Undef \<and>
         wait_loop env u pw (clock (svc env) (world s)) (501 + k) s =
           waitForFreeSlotAndRunEncryption env u pw s"
  using wait_loop_fuel [OF assms, of "clock (svc env) (world s)" 501 s k]
  by (simp add: waitForFreeSlotAndRunEncryption_def)

theorem waitForFreeSlot_terminates_witness:
  "fst (waitForFreeSlotAndRunEncryption (demo\<lparr>yield := \<lambda>s. s\<lparr>world := world s + 200000\<rparr>\<rparr>) ''al'' ''pw'' demo_state) \<noteq> Undef"
  using waitForFreeSlot_terminates [of "demo\<lparr>yield := \<lambda>s. s\<lparr>world := world s + 200000\<rparr>\<rparr>" "''al''" "''pw''" demo_state 0]
  by (simp add: sleeps_def demo_def demo_svc_def demo_crypto_def)

end
