(* ===== verification/Sessions.thy ===== *)
theory Sessions
  imports RateLimiter
begin

section \<open>model/Session: logging a user in, or creating the user\<close>

text \<open>
  A \<^verbatim>\<open>Session\<close> object is built by \<^verbatim>\<open>loginOrCreate\<close>: it derives the key, finds
  or creates the group, and then either checks the stored user and decrypts the private
  key or creates the user.  The object under construction is passed along; when an
  exception is thrown it is dropped, and only the shared state keeps its changes.
\<close>

subsection \<open>Group of the session\<close>

text \<open>
  \<^verbatim>\<open>getGroupId(dbSession)\<close>.  \<^verbatim>\<open>mGroupId\<close> is an \<^verbatim>\<open>int\<close>: the 64-bit id of
  the database is narrowed to 32 bits when it is stored.
\<close>

definition getGroupId_db ::
    "('tx, 'n, 'c, 'w) env \<Rightarrow> session \<Rightarrow> (('c, 'w) app, session) m" where
  "getGroupId_db env s =
     (if mGroupId s \<noteq> 0 then ret s
      else
        try_m
          (bind_m (Group_load_alias env (mGroupAlias s)) (\<lambda>group.
           ret (s\<lparr>mGroupId := ucast (g_ID group)\<rparr>)))
          (\<lambda>e.
             if is_RowNotFoundException e then
               (let newGroup = new_Group (mGroupAlias s) (mGroupAlias s) [] in
                bind_m (Group_save env newGroup) (\<lambda>_.
                bind_m (getLastInsertId env (g_ID newGroup)) (\<lambda>i.
                ret (s\<lparr>mGroupId := ucast i\<rparr>))))
             else throw e))"

subsection \<open>Creating a user\<close>

text \<open>
  The user row is written before the support key is looked at; the conversion of
  \<^verbatim>\<open>mGroupId\<close> to the \<^verbatim>\<open>uint64\<close> member sign-extends.
\<close>

definition createNewUser ::
    "('tx, 'n, 'c, 'w) env \<Rightarrow> string \<Rightarrow> string \<Rightarrow> bytes \<Rightarrow> session \<Rightarrow> (('c, 'w) app, session) m" where
  "createNewUser env userName groupAlias secret s =
     bind_m (on_world (generatePassphrase (svc env))) (\<lambda>passphrase.
     (let keyPair = keyPairFromPassphrase (crypto env) passphrase;
          s = s\<lparr>mUserKeyPair := Some keyPair\<rparr> in
      case getCryptedPrivKey (crypto env) keyPair secret of
        None \<Rightarrow> throw (LibException PocoNullPointerException ''Null pointer'' ''cannot get encrypted private key'')
      | Some cryptedPrivKey \<Rightarrow>
          (let user = new_User userName (scast (mGroupId s)) (getKeyHashed (crypto env) secret)
                        (kpPublic keyPair) cryptedPrivKey in
           bind_m (User_save env user) (\<lambda>_.
           bind_m (getLastInsertId env (u_ID user)) (\<lambda>userId.
           case g_SupportPublicKey (cfg env) of
             None \<Rightarrow> throw (LibException MissingKeyException
                              ''missing key for saving passphrase for new user'' ''crypto.server_admin_public'')
           | Some supportKey \<Rightarrow>
               bind_m (outcome_of (sealedEncrypt (crypto env) supportKey passphrase)) (\<lambda>encryptedPassphrase.
               bind_m (UserBackup_save env (new_UserBackup userId 0 encryptedPassphrase)) (\<lambda>_.
               ret s)))))))"

subsection \<open>loginOrCreate\<close>

text \<open>The user exists: check the password hash, decrypt the key, compare the public key.\<close>

definition openUser ::
    "('tx, 'n, 'c, 'w) env \<Rightarrow> string \<Rightarrow> string \<Rightarrow> bytes \<Rightarrow> session \<Rightarrow> u64 \<times> bytes \<times> bytes \<Rightarrow>
       (('c, 'w) app, session) m" where
  "openUser env userName userPassword secret s row =
     (case row of (password, encryptedPrivateKey, publicKey) \<Rightarrow>
        if password \<noteq> getKeyHashed (crypto env) secret
        then throw (InvalidPasswordException ''login failed'' (c_str userName) (of_nat (length userPassword)))
        else
          (case decryptWithKey (crypto env) secret encryptedPrivateKey of
             None \<Rightarrow> throw (LibException DecryptionFailedException ''cannot decrypt private key'' [])
           | Some privateKey \<Rightarrow>
               (let keyPair = keyPairFromPrivate (crypto env) privateKey in
                if \<not> isTheSame (crypto env) keyPair publicKey
                then throw (LibException DecryptionFailedException ''calculated and stored pubkey mismatch'' [])
                else ret (s\<lparr>mUserKeyPair := Some keyPair\<rparr>))))"

text \<open>A row was found: the user is opened, 1; no row: the user is created, 0.\<close>

definition login_on_row ::
    "('tx, 'n, 'c, 'w) env \<Rightarrow> string \<Rightarrow> string \<Rightarrow> string \<Rightarrow> bytes \<Rightarrow> session \<Rightarrow> sqlval list option \<Rightarrow>
       (('c, 'w) app, int \<times> session) m" where
  "login_on_row env u pw ga secret s row =
     (case row of
        Some tuple \<Rightarrow>
          (case login_of_tuple tuple of
             None \<Rightarrow> undef
           | Some r \<Rightarrow> bind_m (openUser env u pw secret s r) (\<lambda>s. ret (1, s)))
      | None \<Rightarrow> bind_m (createNewUser env u ga secret s) (\<lambda>s. ret (0, s)))"

definition loginOrCreate ::
    "('tx, 'n, 'c, 'w) env \<Rightarrow> string \<Rightarrow> string \<Rightarrow> string \<Rightarrow> string \<Rightarrow> session \<Rightarrow>
       (('c, 'w) app, int \<times> session) m" where
  "loginOrCreate env userName userPassword groupAlias clientIp s =
     (let s = s\<lparr>mClientIp := clientIp, mGroupAlias := groupAlias\<rparr> in
      bind_m (waitForFreeSlotAndRunEncryption env userName userPassword) (\<lambda>secret.
      (let s = s\<lparr>mEncryptionSecret := Some secret\<rparr> in
       bind_m (db_connect env) (\<lambda>_.
       bind_m (getGroupId_db env s) (\<lambda>s.
       bind_m (db_row env login_select [SqlText userName, SqlInt (sint (mGroupId s))]) (\<lambda>row.
       login_on_row env userName userPassword groupAlias secret s row))))))"

subsection \<open>verifyPassword and signTransaction\<close>

text \<open>The secret pointer is dereferenced: null is undefined.\<close>

definition verifyPassword ::
    "('tx, 'n, 'c, 'w) env \<Rightarrow> session \<Rightarrow> string \<Rightarrow> (('c, 'w) app, bool) m" where
  "verifyPassword env s password =
     bind_m (waitForFreeSlotAndRunEncryption env (mUserName s) password) (\<lambda>secret.
       case mEncryptionSecret s of
         None \<Rightarrow> undef
       | Some own \<Rightarrow> ret (getKeyHashed (crypto env) own = getKeyHashed (crypto env) secret))"

text \<open>
  Signs the body bytes and adds the signature with the public key; a signing error
  (\<^verbatim>\<open>Ed25519SignException\<close>) is logged and reported as \<^const>\<open>None\<close>.
\<close>

definition signTransaction ::
    "('tx, 'n, 'c, 'w) env \<Rightarrow> session \<Rightarrow> 'tx \<Rightarrow> (('c, 'w) app, 'tx option) m" where
  "signTransaction env s tx =
     try_m
       (case mUserKeyPair s of
          None \<Rightarrow> undef
        | Some kp \<Rightarrow>
            bind_m (outcome_of (getBodyBytes (txs env) tx)) (\<lambda>body.
            bind_m (outcome_of (signBytes (crypto env) kp body)) (\<lambda>sign.
            bind_m (outcome_of (addSign (txs env) tx (Some (kpPublic kp)) (Some sign))) (\<lambda>tx'.
            ret (Some tx')))))
       (\<lambda>e. if instance_of (isa_of env) Ed25519SignException e then ret None else throw e)"

subsection \<open>What the pieces return\<close>

lemma getGroupId_keeps [keeps]:
  "stays only_world (getGroupId_db env s)"
  unfolding getGroupId_db_def Let_def by (intro keeps)

lemma createNewUser_keeps [keeps]:
  "stays only_world (createNewUser env userName groupAlias secret s)"
  unfolding createNewUser_def Let_def by (intro keeps)

lemma openUser_keeps [keeps]: "stays only_world (openUser env u pw secret s row)"
  unfolding openUser_def Let_def by (intro keeps)

lemmas session_steps [keeps] =
  getGroupId_keeps [THEN only_world_steps] createNewUser_keeps [THEN only_world_steps]
  openUser_keeps [THEN only_world_steps]

lemma loginOrCreate_keeps:
  "others_step env \<Longrightarrow> stays (shared_steps env) (loginOrCreate env u pw ga ip s)"
  unfolding loginOrCreate_def login_on_row_def Let_def by (intro keeps wait_keeps)

text \<open>The parts of the session an operation does not set.\<close>

lemma getGroupId_frame:
  "getGroupId_db env s a = (Ret s', a') \<Longrightarrow>
     mUserName s' = mUserName s \<and> mGroupAlias s' = mGroupAlias s \<and>
     mClientIp s' = mClientIp s \<and> mEncryptionSecret s' = mEncryptionSecret s"
  by (auto simp: getGroupId_db_def run_iffs Let_def split: if_splits)

lemma openUser_frame:
  "openUser env userName userPassword secret s row a = (Ret s', a') \<Longrightarrow>
     a' = a \<and> (\<exists>priv. s' = s\<lparr>mUserKeyPair := Some (keyPairFromPrivate (crypto env) priv)\<rparr> \<and>
       fst row = getKeyHashed (crypto env) secret \<and>
       decryptWithKey (crypto env) secret (fst (snd row)) = Some priv \<and>
       isTheSame (crypto env) (keyPairFromPrivate (crypto env) priv) (snd (snd row)))"
  by (cases row) (auto simp: openUser_def Let_def split: if_splits option.splits)

lemma createNewUser_frame:
  assumes "createNewUser env userName groupAlias secret s a = (Ret s', a')"
  shows "mClientIp s' = mClientIp s \<and> mGroupAlias s' = mGroupAlias s \<and> mUserName s' = mUserName s \<and>
     mEncryptionSecret s' = mEncryptionSecret s \<and> created_with_backup env secret s'"
proof -
  from assms obtain pass priv key enc where
    "s' = s\<lparr>mUserKeyPair := Some (keyPairFromPassphrase (crypto env) pass)\<rparr>"
    "getCryptedPrivKey (crypto env) (keyPairFromPassphrase (crypto env) pass) secret = Some priv"
    "g_SupportPublicKey (cfg env) = Some key" "sealedEncrypt (crypto env) key pass = Ret enc"
    by (auto simp: createNewUser_def Let_def run_iffs split: option.splits)
  then show ?thesis by (auto simp: created_with_backup_def)
qed

text \<open>A login in its parts; the last one works on the row that was found, if any.\<close>

lemma loginOrCreate_eq:
  "loginOrCreate env u pw ga ip s =
     bind_m (waitForFreeSlotAndRunEncryption env u pw) (\<lambda>secret.
     bind_m (db_connect env) (\<lambda>_.
     bind_m (getGroupId_db env (s\<lparr>mClientIp := ip, mGroupAlias := ga, mEncryptionSecret := Some secret\<rparr>)) (\<lambda>s.
     bind_m (db_row env login_select [SqlText u, SqlInt (sint (mGroupId s))]) (login_on_row env u pw ga secret s))))"
  by (simp add: loginOrCreate_def Let_def)

lemma loginOrCreate_parts:
  "loginOrCreate env u pw ga ip s0 a = (Ret r, b) \<Longrightarrow>
     \<exists>secret a1 a2 s2 a3 row a4.
       waitForFreeSlotAndRunEncryption env u pw a = (Ret secret, a1) \<and>
       db_connect env a1 = (Ret (), a2) \<and>
       getGroupId_db env (s0\<lparr>mClientIp := ip, mGroupAlias := ga, mEncryptionSecret := Some secret\<rparr>) a2 = (Ret s2, a3) \<and>
       db_row env login_select [SqlText u, SqlInt (sint (mGroupId s2))] a3 = (Ret row, a4) \<and>
       login_on_row env u pw ga secret s2 row a4 = (Ret r, b)"
  unfolding loginOrCreate_eq by (auto simp: bind_Ret_iff)

text \<open>The two ways a login returns.\<close>

lemma loginOrCreate_Ret:
  assumes "loginOrCreate env u pw ga ip s0 a = (Ret (n, s), b)"
  shows "mClientIp s = ip \<and> mGroupAlias s = ga \<and> mUserName s = mUserName s0 \<and> mUserKeyPair s \<noteq> None \<and>
     (\<exists>secret. createKey (crypto env) u pw = Ret secret \<and> mEncryptionSecret s = Some secret \<and>
        (n = 0 \<and> created_with_backup env secret s \<or> n = 1 \<and> opened_from_row env u secret s b))"
proof -
  let ?s1 = "s0\<lparr>mClientIp := ip, mGroupAlias := ga\<rparr>"
  from loginOrCreate_parts [OF assms] obtain secret a1 a2 s2 a3 row a4 where
    key: "waitForFreeSlotAndRunEncryption env u pw a = (Ret secret, a1)"
    and grp: "getGroupId_db env (?s1\<lparr>mEncryptionSecret := Some secret\<rparr>) a2 = (Ret s2, a3)"
    and db: "db_row env login_select [SqlText u, SqlInt (sint (mGroupId s2))] a3 = (Ret row, a4)"
    and rest: "login_on_row env u pw ga secret s2 row a4 = (Ret (n, s), b)"
    by blast
  have s2: "mClientIp s2 = ip" "mGroupAlias s2 = ga" "mUserName s2 = mUserName s0"
      "mEncryptionSecret s2 = Some secret"
    using getGroupId_frame [OF grp] by simp_all
  show ?thesis
  proof (cases row)
    case None
    with rest obtain "n = 0" "createNewUser env u ga secret s2 a4 = (Ret s, b)"
      by (auto simp: login_on_row_def bind_Ret_iff)
    with createNewUser_frame [of env u ga secret s2 a4 s b] s2 wait_key [OF key] show ?thesis
      by (auto simp: created_with_backup_def)
  next
    case (Some tuple)
    with rest obtain hash enc pub where r: "login_of_tuple tuple = Some (hash, enc, pub)" "n = 1"
        "openUser env u pw secret s2 (hash, enc, pub) a4 = (Ret s, b)"
      by (auto simp: login_on_row_def bind_Ret_iff split: option.splits)
    from openUser_frame [OF r(3)] obtain priv where b: "b = a4"
      and s: "s = s2\<lparr>mUserKeyPair := Some (keyPairFromPrivate (crypto env) priv)\<rparr>"
      and h: "hash = getKeyHashed (crypto env) secret" "decryptWithKey (crypto env) secret enc = Some priv"
             "isTheSame (crypto env) (keyPairFromPrivate (crypto env) priv) pub" by auto
    have "opened_from_row env u secret s b"
      unfolding opened_from_row_def using db Some r(1) b s h by (intro exI [of _ a3]) auto
    with s2 s r(2) wait_key [OF key] show ?thesis by simp
  qed
qed

lemma loginOrCreate_made:
  assumes "loginOrCreate env u pw ga ip s0 a = (Ret (n, s), b)"
  shows "session_made env u s"
  using loginOrCreate_Ret [OF assms] by (auto simp: session_made_def)

subsection \<open>Properties\<close>

text \<open>
  C11. A session that \<^verbatim>\<open>loginOrCreate\<close> gives holds the key derived for the user and
  the password, the client's ip and the given group alias.  For an existing user it
  belongs to the stored row: the hash of the derived key is the stored one, the private
  key was decrypted with the derived key, and its public key is the stored public key.
  For a new user the key pair comes from a passphrase that was sealed for the support
  key, and its private key was encrypted with the derived key.
\<close>

theorem loginOrCreate_sound:
  assumes "loginOrCreate env u pw ga ip s0 a = (Ret (n, s), b)"
  shows "mClientIp s = ip \<and> mGroupAlias s = ga \<and> mUserKeyPair s \<noteq> None \<and>
     (\<exists>secret. createKey (crypto env) u pw = Ret secret \<and> mEncryptionSecret s = Some secret \<and>
        (n = 0 \<and> created_with_backup env secret s \<or> n = 1 \<and> opened_from_row env u secret s b))"
  using loginOrCreate_Ret [OF assms] by simp

theorem loginOrCreate_sound_witness:
  "\<exists>s b. loginOrCreate demo ''al'' ''pw'' ''gdd1'' ''ip'' new_Session demo_state = (Ret (1, s), b) \<and>
     mClientIp s = ''ip'' \<and> mUserKeyPair s \<noteq> None"
proof -
  let ?p = "loginOrCreate demo ''al'' ''pw'' ''gdd1'' ''ip'' new_Session"
  have "fst (?p demo_state) = Ret (1, demo_session)" by code_simp
  from loginOrCreate_sound [OF runI [OF this]] runI [OF this] show ?thesis by blast
qed

text \<open>Without a support key the user's row is already inserted when the exception is thrown.\<close>

lemma createNewUser_missing_key:
  assumes "g_SupportPublicKey (cfg env) = None"
    and "on_world (generatePassphrase (svc env)) a = (Ret pass, a1)"
    and "getCryptedPrivKey (crypto env) (keyPairFromPassphrase (crypto env) pass) secret = Some priv"
    and "User_save env (new_User u (scast (mGroupId s)) (getKeyHashed (crypto env) secret)
           (kpPublic (keyPairFromPassphrase (crypto env) pass)) priv) a1 = (Ret (), a2)"
    and "getLastInsertId env 0 a2 = (Ret uid, a3)"
  shows "createNewUser env u ga secret s a =
           (Throw (LibException MissingKeyException ''missing key for saving passphrase for new user''
                     ''crypto.server_admin_public''), a3)"
  using assms by (simp add: createNewUser_def Let_def bind_run new_User_def)

text \<open>
  No login sets the user name of the session, so a later check of the password of a
  session made by a login derives the key for the empty user name.
\<close>

lemma verifyPassword_uses_empty_name:
  assumes "loginOrCreate env u pw ga ip new_Session a = (Ret (n, s), b)"
  shows "mUserName s = [] \<and>
     verifyPassword env s pw' =
       bind_m (waitForFreeSlotAndRunEncryption env [] pw') (\<lambda>secret.
         ret (getKeyHashed (crypto env) (the (mEncryptionSecret s)) = getKeyHashed (crypto env) secret))"
  using loginOrCreate_Ret [OF assms] by (auto simp: new_Session_def verifyPassword_def)

end
