(* ===== verification/Accounts.thy ===== *)
theory Accounts
  imports Sessions
begin

section \<open>Accounts: creating a user and logging in again\<close>

text \<open>
  What a login leaves in the database, and what the next one finds there.  The tables
  are seen through two maps: the user of a name in a group, with the hash of the key, the
  encrypted private key and the public key, and the id of a group alias.
\<close>

type_synonym account = "int \<times> string \<times> string"

text \<open>
  Documented behaviour of the statements on the MySQL schema, where a name is unique
  within its group: connecting keeps the tables, \<^verbatim>\<open>SELECT\<close> gives the row,
  \<^verbatim>\<open>INSERT\<close> adds a row that was not there, and the id of a new group is the one
  \<^verbatim>\<open>LAST_INSERT_ID()\<close> gives next.  Drawing a passphrase does not touch the tables.
\<close>

definition accounts_db ::
    "('tx, 'n, 'c, 'w) env \<Rightarrow> ('w \<Rightarrow> string \<times> int \<Rightarrow> account option) \<Rightarrow> ('w \<Rightarrow> string \<Rightarrow> int option) \<Rightarrow> bool" where
  "accounts_db env users groups \<longleftrightarrow>
     (\<forall>w. \<exists>w'. getConnection (svc env) w = (Ret (), w') \<and> users w' = users w \<and> groups w' = groups w) \<and>
     (\<forall>w u g. \<exists>w'. sqlRow (svc env) login_select [SqlText u, SqlInt g] w =
          (Ret (map_option (\<lambda>(h, e, p). [SqlInt h, SqlText e, SqlText p]) (users w (u, g))), w') \<and>
        users w' = users w \<and> groups w' = groups w) \<and>
     (\<forall>w u g h p e. users w (u, g) = None \<longrightarrow>
        (\<exists>w'. sqlExec (svc env) user_insert [SqlText u, SqlInt g, SqlInt h, SqlText p, SqlText e] w = (Ret (), w') \<and>
          users w' = (users w)((u, g) \<mapsto> (h, e, p)) \<and> groups w' = groups w)) \<and>
     (\<forall>w ga. \<exists>row w'. sqlRow (svc env) group_select_alias [SqlText ga] w = (Ret row, w') \<and>
        users w' = users w \<and> groups w' = groups w \<and>
        (case groups w ga of
           None \<Rightarrow> row = None
         | Some i \<Rightarrow> \<exists>tuple g. row = Some tuple \<and> group_of_tuple tuple = Some g \<and> g_ID g = word_of_int i)) \<and>
     (\<forall>w n ga d. groups w ga = None \<longrightarrow>
        (\<exists>i w' w''. sqlExec (svc env) group_insert [SqlText n, SqlText ga, SqlText d] w = (Ret (), w') \<and>
          users w' = users w \<and> groups w' = (groups w)(ga \<mapsto> i) \<and>
          sqlRow (svc env) last_id_select [] w' = (Ret (Some [SqlInt i]), w'') \<and>
          users w'' = users w' \<and> groups w'' = groups w')) \<and>
     (\<forall>w. \<exists>i w'. sqlRow (svc env) last_id_select [] w = (Ret (Some [SqlInt i]), w') \<and>
        users w' = users w \<and> groups w' = groups w) \<and>
     (\<forall>w i j p. \<exists>w'. sqlExec (svc env) user_backup_insert [SqlInt i, SqlInt j, SqlText p] w = (Ret (), w') \<and>
        users w' = users w \<and> groups w' = groups w) \<and>
     (\<forall>w. \<exists>pass w'. generatePassphrase (svc env) w = (Ret pass, w') \<and> users w' = users w \<and> groups w' = groups w)"

text \<open>
  What the code relies on in the crypto library: the key that encrypted a private key
  decrypts it, a key pair is determined by its private key, and it is the same as its own
  public key.
\<close>

definition key_law :: "('tx, 'n, 'c, 'w) env \<Rightarrow> bool" where
  "key_law env \<longleftrightarrow>
     (\<forall>kp k e. getCryptedPrivKey (crypto env) kp k = Some e \<longrightarrow> decryptWithKey (crypto env) k e = Some (kpPrivate kp)) \<and>
     (\<forall>pass. keyPairFromPrivate (crypto env) (kpPrivate (keyPairFromPassphrase (crypto env) pass)) =
        keyPairFromPassphrase (crypto env) pass) \<and>
     (\<forall>kp. isTheSame (crypto env) kp (kpPublic kp))"

text \<open>Two states with the same tables.\<close>

definition same_tables ::
    "('w \<Rightarrow> string \<times> int \<Rightarrow> account option) \<Rightarrow> ('w \<Rightarrow> string \<Rightarrow> int option) \<Rightarrow> ('c, 'w) app \<Rightarrow> ('c, 'w) app \<Rightarrow> bool" where
  "same_tables users groups a b \<longleftrightarrow>
     users (world b) = users (world a) \<and> groups (world b) = groups (world a)"

lemma same_tables_trans:
  "same_tables users groups a b \<Longrightarrow> same_tables users groups b c \<Longrightarrow> same_tables users groups a c"
  by (simp add: same_tables_def)

subsection \<open>The operations on the tables\<close>

lemma acc_connect:
  assumes "accounts_db env users groups"
  shows "\<exists>b. db_connect env a = (Ret (), b) \<and> same_tables users groups a b"
proof -
  from assms obtain w where "getConnection (svc env) (world a) = (Ret (), w)"
      "users w = users (world a)" "groups w = groups (world a)"
    unfolding accounts_db_def by meson
  then show ?thesis
    by (intro exI [of _ "a\<lparr>world := w\<rparr>"]) (simp add: db_connect_def on_world_run same_tables_def)
qed

lemma acc_login_select:
  assumes "accounts_db env users groups"
  shows "\<exists>b. db_row env login_select [SqlText u, SqlInt g] a =
       (Ret (map_option (\<lambda>(h, e, p). [SqlInt h, SqlText e, SqlText p]) (users (world a) (u, g))), b) \<and>
     same_tables users groups a b"
proof -
  from assms obtain w where "sqlRow (svc env) login_select [SqlText u, SqlInt g] (world a) =
        (Ret (map_option (\<lambda>(h, e, p). [SqlInt h, SqlText e, SqlText p]) (users (world a) (u, g))), w)"
      "users w = users (world a)" "groups w = groups (world a)"
    unfolding accounts_db_def by meson
  then show ?thesis
    by (intro exI [of _ "a\<lparr>world := w\<rparr>"]) (simp add: db_row_def on_world_run same_tables_def)
qed

lemma acc_user_save:
  assumes "accounts_db env users groups" "users (world a) (u_Name r, uint (u_GroupId r)) = None"
  shows "\<exists>b. User_save env r a = (Ret (), b) \<and> groups (world b) = groups (world a) \<and>
     users (world b) = (users (world a))((u_Name r, uint (u_GroupId r)) \<mapsto>
       (uint (u_Password r), u_EncryptedPrivateKey r, u_PublicKey r))"
proof -
  from assms obtain w where "sqlExec (svc env) user_insert [SqlText (u_Name r), SqlInt (uint (u_GroupId r)),
        SqlInt (uint (u_Password r)), SqlText (u_PublicKey r), SqlText (u_EncryptedPrivateKey r)] (world a) = (Ret (), w)"
      "users w = (users (world a))((u_Name r, uint (u_GroupId r)) \<mapsto>
         (uint (u_Password r), u_EncryptedPrivateKey r, u_PublicKey r))" "groups w = groups (world a)"
    unfolding accounts_db_def by meson
  then show ?thesis
    by (intro exI [of _ "a\<lparr>world := w\<rparr>"]) (simp add: User_save_def db_exec_def on_world_run)
qed

lemma acc_last_id:
  assumes "accounts_db env users groups"
  shows "\<exists>i b. getLastInsertId env n a = (Ret i, b) \<and> same_tables users groups a b"
proof -
  from assms obtain i w where "sqlRow (svc env) last_id_select [] (world a) = (Ret (Some [SqlInt i]), w)"
      "users w = users (world a)" "groups w = groups (world a)"
    unfolding accounts_db_def by meson
  then show ?thesis
    by (intro exI [of _ "word_of_int i"] exI [of _ "a\<lparr>world := w\<rparr>"])
      (simp add: getLastInsertId_def db_row_def on_world_run same_tables_def bind_run)
qed

lemma acc_backup:
  assumes "accounts_db env users groups"
  shows "\<exists>b. UserBackup_save env r a = (Ret (), b) \<and> same_tables users groups a b"
proof -
  from assms obtain w where "sqlExec (svc env) user_backup_insert
        [SqlInt (uint (ub_UserId r)), SqlInt (uint (ub_KeyUserId r)), SqlText (ub_EncryptedPassphrase r)] (world a) = (Ret (), w)"
      "users w = users (world a)" "groups w = groups (world a)"
    unfolding accounts_db_def by meson
  then show ?thesis
    by (intro exI [of _ "a\<lparr>world := w\<rparr>"]) (simp add: UserBackup_save_def db_exec_def on_world_run same_tables_def)
qed

lemma acc_passphrase:
  assumes "accounts_db env users groups"
  shows "\<exists>pass b. on_world (generatePassphrase (svc env)) a = (Ret pass, b) \<and> same_tables users groups a b"
proof -
  from assms obtain pass w where "generatePassphrase (svc env) (world a) = (Ret pass, w)"
      "users w = users (world a)" "groups w = groups (world a)"
    unfolding accounts_db_def by meson
  then show ?thesis
    by (intro exI [of _ pass] exI [of _ "a\<lparr>world := w\<rparr>"]) (simp add: on_world_run same_tables_def)
qed

text \<open>
  The id of the database is narrowed to the 32 bits of \<^verbatim>\<open>mGroupId\<close>, and extended
  with its sign again when a user is written.
\<close>

lemma narrow_id: "(ucast (word_of_int i :: u64) :: u32) = word_of_int i"
  by transfer simp

lemma widen_id:
  assumes "0 \<le> sint (g :: u32)"
  shows "uint (scast g :: u64) = sint g"
proof -
  have "sint g < 2 ^ 31" using sint_lt [of g] by simp
  with assms have "sint g mod 2 ^ 64 = sint g" by (intro mod_pos_pos_trivial) simp_all
  then show ?thesis unfolding scast_eq uint_word_of_int by simp
qed

text \<open>The group is found, or it is created; in both cases the alias has its id afterwards.\<close>

lemma acc_group:
  assumes db: "accounts_db env users groups" and s: "mGroupId s = 0"
  shows "\<exists>i b. getGroupId_db env s a = (Ret (s\<lparr>mGroupId := word_of_int i\<rparr>), b) \<and>
     users (world b) = users (world a) \<and> groups (world b) = (groups (world a))(mGroupAlias s \<mapsto> i) \<and>
     (\<forall>j. groups (world a) (mGroupAlias s) = Some j \<longrightarrow> j = i)"
proof -
  obtain c where c: "db_connect env a = (Ret (), c)" "same_tables users groups a c"
    using acc_connect [OF db] by blast
  obtain row w where row: "sqlRow (svc env) group_select_alias [SqlText (mGroupAlias s)] (world c) = (Ret row, w)"
      "users w = users (world c)" "groups w = groups (world c)"
      "case groups (world c) (mGroupAlias s) of
         None \<Rightarrow> row = None
       | Some i \<Rightarrow> \<exists>tuple g. row = Some tuple \<and> group_of_tuple tuple = Some g \<and> g_ID g = word_of_int i"
    using db unfolding accounts_db_def by meson
  let ?d = "c\<lparr>world := w\<rparr>"
  have sel: "db_row env group_select_alias [SqlText (mGroupAlias s)] c = (Ret row, ?d)"
    using row(1) by (simp add: db_row_def on_world_run)
  show ?thesis
  proof (cases "groups (world c) (mGroupAlias s)")
    case None
    then have load: "Group_load_alias env (mGroupAlias s) a =
        (Throw (RowNotFoundException ''couldn't load group'' ''group'' (''where groupAlias LIKE '' @ mGroupAlias s)), ?d)"
      using row(4) c(1) sel by (simp add: Group_load_alias_def bind_run)
    have "groups w (mGroupAlias s) = None" using None row(3) by simp
    with db obtain i w' w'' where ins: "sqlExec (svc env) group_insert
          [SqlText (mGroupAlias s), SqlText (mGroupAlias s), SqlText []] w = (Ret (), w')"
        "users w' = users w" "groups w' = (groups w)(mGroupAlias s \<mapsto> i)"
        "sqlRow (svc env) last_id_select [] w' = (Ret (Some [SqlInt i]), w'')"
        "users w'' = users w'" "groups w'' = groups w'"
      unfolding accounts_db_def by meson
    have "Group_save env (new_Group (mGroupAlias s) (mGroupAlias s) []) ?d = (Ret (), ?d\<lparr>world := w'\<rparr>)"
      using ins(1) by (simp add: Group_save_def new_Group_def db_exec_def on_world_run)
    moreover have "getLastInsertId env 0 (?d\<lparr>world := w'\<rparr>) = (Ret (word_of_int i), ?d\<lparr>world := w''\<rparr>)"
      using ins(4) by (simp add: getLastInsertId_def db_row_def on_world_run bind_run)
    moreover have "g_ID (new_Group (mGroupAlias s) (mGroupAlias s) []) = 0" by (simp add: new_Group_def)
    ultimately have "getGroupId_db env s a = (Ret (s\<lparr>mGroupId := word_of_int i\<rparr>), ?d\<lparr>world := w''\<rparr>)"
      using s load by (simp add: getGroupId_db_def try_m_def Let_def bind_run bind_m_def [of "Group_load_alias env (mGroupAlias s)"]
          narrow_id)
    with ins row(2,3) c(2) None show ?thesis
      by (intro exI [of _ i] exI [of _ "?d\<lparr>world := w''\<rparr>"]) (simp add: same_tables_def)
  next
    case (Some i)
    with row(4) obtain tuple g where "row = Some tuple" "group_of_tuple tuple = Some g" "g_ID g = word_of_int i" by auto
    then have "getGroupId_db env s a = (Ret (s\<lparr>mGroupId := word_of_int i\<rparr>), ?d)"
      using s c(1) sel by (simp add: getGroupId_db_def Group_load_alias_def bind_run try_m_def narrow_id)
    with Some row(2,3) c(2) show ?thesis
      by (intro exI [of _ i] exI [of _ ?d]) (simp add: same_tables_def fun_upd_idem)
  qed
qed

subsection \<open>What a login leaves and finds\<close>

text \<open>
  The user row that a login for a new user has written: the login looks for it under the
  32-bit group id as a signed number, and writes it under the id extended to 64 bits.
\<close>

definition written_id :: "u32 \<Rightarrow> int" where
  "written_id g = uint (scast g :: u64)"

text \<open>Both ids, by the low 32 bits of the id in the database.\<close>

lemma mod_below: "0 \<le> k \<Longrightarrow> k < n \<Longrightarrow> (k :: int) mod n = k" "n \<le> k \<Longrightarrow> k < 2 * n \<Longrightarrow> k mod n = k - n"
  "- n \<le> k \<Longrightarrow> k < 0 \<Longrightarrow> k mod n = k + n"
proof -
  show "0 \<le> k \<Longrightarrow> k < n \<Longrightarrow> k mod n = k" by (rule mod_pos_pos_trivial)
  show "k mod n = k - n" if "n \<le> k" "k < 2 * n"
    using mod_pos_pos_trivial [of "k - n" n] that by simp
  show "k mod n = k + n" if "- n \<le> k" "k < 0"
    using mod_pos_pos_trivial [of "k + n" n] that by simp
qed

lemma looked_up_id:
  "sint (word_of_int i :: u32) = (if i mod 2 ^ 32 < 2 ^ 31 then i mod 2 ^ 32 else i mod 2 ^ 32 - 2 ^ 32)"
proof -
  define m where "m = i mod 2 ^ 32"
  then have m: "0 \<le> m" "m < 2 ^ 32" by simp_all
  have "sint (word_of_int i :: u32) = (m + 2 ^ 31) mod 2 ^ 32 - 2 ^ 31"
    by (simp add: m_def sint_sbintrunc' signed_take_bit_eq_take_bit_shift take_bit_eq_mod mod_add_left_eq)
  moreover have "(m + 2 ^ 31) mod 2 ^ 32 = (if m < 2 ^ 31 then m + 2 ^ 31 else m + 2 ^ 31 - 2 ^ 32)"
    using m by (simp add: mod_below)
  ultimately show ?thesis unfolding m_def by simp
qed

lemma written_id_eq:
  "written_id (word_of_int i) =
     (if i mod 2 ^ 32 < 2 ^ 31 then i mod 2 ^ 32 else i mod 2 ^ 32 - 2 ^ 32 + 2 ^ 64)"
proof -
  have m: "0 \<le> i mod 2 ^ 32" "i mod 2 ^ 32 < 2 ^ 32" by simp_all
  have "written_id (word_of_int i) = sint (word_of_int i :: u32) mod 2 ^ 64"
    by (simp only: written_id_def scast_eq uint_word_of_int) simp
  then show ?thesis
    using mod_below(1) [of "i mod 2 ^ 32" "2 ^ 64"] mod_below(3) [of "2 ^ 64" "i mod 2 ^ 32 - 2 ^ 32"] m
    by (simp add: looked_up_id)
qed

lemma created_rows:
  assumes db: "accounts_db env users groups" and fresh: "mGroupId s0 = 0"
    and run: "loginOrCreate env u pw ga ip s0 a = (Ret (0, s), b)"
    and key: "waitForFreeSlotAndRunEncryption env u pw a = (Ret secret, a1)"
    and free: "users (world a1) (u, sint (mGroupId s)) = None \<Longrightarrow> users (world a1) (u, written_id (mGroupId s)) = None"
  shows "\<exists>i priv pass.
     mUserKeyPair s = Some (keyPairFromPassphrase (crypto env) pass) \<and>
     getCryptedPrivKey (crypto env) (keyPairFromPassphrase (crypto env) pass) secret = Some priv \<and>
     mGroupId s = word_of_int i \<and> groups (world b) ga = Some i \<and>
     (\<forall>j. groups (world a1) ga = Some j \<longrightarrow> i = j) \<and>
     users (world b) = (users (world a1))((u, written_id (mGroupId s)) \<mapsto>
       (uint (getKeyHashed (crypto env) secret), priv, kpPublic (keyPairFromPassphrase (crypto env) pass)))"
proof -
  let ?s1 = "s0\<lparr>mClientIp := ip, mGroupAlias := ga\<rparr>"
  from loginOrCreate_parts [OF run] key obtain a2 s2 a3 row a4 where
    con: "db_connect env a1 = (Ret (), a2)"
    and grp: "getGroupId_db env (?s1\<lparr>mEncryptionSecret := Some secret\<rparr>) a2 = (Ret s2, a3)"
    and sel: "db_row env login_select [SqlText u, SqlInt (sint (mGroupId s2))] a3 = (Ret row, a4)"
    and rest: "login_on_row env u pw ga secret s2 row a4 = (Ret (0, s), b)"
    by force
  obtain i where i: "s2 = ?s1\<lparr>mEncryptionSecret := Some secret, mGroupId := word_of_int i\<rparr>"
      "groups (world a3) = (groups (world a2))(ga \<mapsto> i)" "users (world a3) = users (world a2)"
      "\<forall>j. groups (world a2) ga = Some j \<longrightarrow> i = j"
    using acc_group [OF db, of "?s1\<lparr>mEncryptionSecret := Some secret\<rparr>" a2] grp fresh by auto
  have t12: "same_tables users groups a1 a2" using acc_connect [OF db, of a1] con by auto
  have new: "row = None" and crt: "createNewUser env u ga secret s2 a4 = (Ret s, b)"
    using rest by (auto simp: login_on_row_def bind_Ret_iff split: option.splits)
  have none: "users (world a4) (u, sint (mGroupId s2)) = None" and t34: "same_tables users groups a3 a4"
    using acc_login_select [OF db, of u "sint (mGroupId s2)" a3] sel new by (auto simp: same_tables_def)
  from crt obtain pass c1 priv c2 where
    pass: "on_world (generatePassphrase (svc env)) a4 = (Ret pass, c1)"
    and s: "s = s2\<lparr>mUserKeyPair := Some (keyPairFromPassphrase (crypto env) pass)\<rparr>"
    and priv: "getCryptedPrivKey (crypto env) (keyPairFromPassphrase (crypto env) pass) secret = Some priv"
    and save: "User_save env (new_User u (scast (mGroupId s2)) (getKeyHashed (crypto env) secret)
        (kpPublic (keyPairFromPassphrase (crypto env) pass)) priv) c1 = (Ret (), c2)"
    and tail: "\<exists>uid c3 sup enc c4. getLastInsertId env 0 c2 = (Ret uid, c3) \<and>
        UserBackup_save env (new_UserBackup uid 0 enc) c3 = (Ret (), b)"
    by (auto simp: createNewUser_def Let_def bind_Ret_iff split: option.splits) (simp add: new_User_def, blast)
  have g: "mGroupId s = mGroupId s2" using s by simp
  have t4: "same_tables users groups a4 c1" using acc_passphrase [OF db, of a4] pass by auto
  have same: "users (world c1) = users (world a1)" using t12 i(3) t34 t4 by (simp add: same_tables_def)
  then have "users (world c1) (u, written_id (mGroupId s)) = None"
    using free none g t4 by (simp add: same_tables_def)
  with acc_user_save [OF db, of c1 "new_User u (scast (mGroupId s2)) (getKeyHashed (crypto env) secret)
        (kpPublic (keyPairFromPassphrase (crypto env) pass)) priv"] save g
  have "users (world c2) = (users (world c1))((u, written_id (mGroupId s)) \<mapsto>
      (uint (getKeyHashed (crypto env) secret), priv, kpPublic (keyPairFromPassphrase (crypto env) pass)))"
    "groups (world c2) = groups (world c1)"
    by (auto simp: new_User_def written_id_def)
  moreover have "same_tables users groups c2 b"
  proof -
    from tail obtain uid c3 enc where "getLastInsertId env 0 c2 = (Ret uid, c3)"
        "UserBackup_save env (new_UserBackup uid 0 enc) c3 = (Ret (), b)" by blast
    with acc_last_id [OF db, of 0 c2] acc_backup [OF db, of "new_UserBackup uid 0 enc" c3]
    show ?thesis by (auto intro: same_tables_trans)
  qed
  ultimately show ?thesis
    using s priv i same t12 t34 t4 by (auto simp: same_tables_def intro!: exI)
qed

lemma created_row:
  assumes db: "accounts_db env users groups" and fresh: "mGroupId s0 = 0"
    and run: "loginOrCreate env u pw ga ip s0 a = (Ret (0, s), b)" and gid: "0 \<le> sint (mGroupId s)"
  shows "\<exists>i secret priv pass. createKey (crypto env) u pw = Ret secret \<and>
     mUserKeyPair s = Some (keyPairFromPassphrase (crypto env) pass) \<and>
     getCryptedPrivKey (crypto env) (keyPairFromPassphrase (crypto env) pass) secret = Some priv \<and>
     mGroupId s = word_of_int i \<and> groups (world b) ga = Some i \<and>
     users (world b) (u, sint (mGroupId s)) =
       Some (uint (getKeyHashed (crypto env) secret), priv, kpPublic (keyPairFromPassphrase (crypto env) pass))"
proof -
  from loginOrCreate_parts [OF run] obtain secret a1 where
    key: "waitForFreeSlotAndRunEncryption env u pw a = (Ret secret, a1)" by blast
  have wide: "written_id (mGroupId s) = sint (mGroupId s)" using widen_id [OF gid] by (simp add: written_id_def)
  then have "users (world a1) (u, sint (mGroupId s)) = None \<Longrightarrow> users (world a1) (u, written_id (mGroupId s)) = None" by simp
  from created_rows [OF db fresh run key this] wait_key [OF key] wide show ?thesis by fastforce
qed

text \<open>A login that finds a row checks it and decrypts the key; the tables only matter here.\<close>

lemma login_finds_row:
  assumes db: "accounts_db env users groups" and fresh: "mGroupId s0 = 0"
    and key: "waitForFreeSlotAndRunEncryption env u pw a = (Ret secret, a1)"
    and grp: "groups (world a1) ga = Some i"
    and row: "users (world a1) (u, sint (word_of_int i :: u32)) = Some (h, e, p)"
  shows "\<exists>b. loginOrCreate env u pw ga ip s0 a =
     bind_m (openUser env u pw secret
       (s0\<lparr>mClientIp := ip, mGroupAlias := ga, mEncryptionSecret := Some secret, mGroupId := word_of_int i\<rparr>)
       (word_of_int h, e, p)) (\<lambda>s. ret (1, s)) b"
proof -
  let ?s = "s0\<lparr>mClientIp := ip, mGroupAlias := ga, mEncryptionSecret := Some secret\<rparr>"
  obtain a2 where con: "db_connect env a1 = (Ret (), a2)" "same_tables users groups a1 a2"
    using acc_connect [OF db] by blast
  obtain j a3 where g: "getGroupId_db env ?s a2 = (Ret (?s\<lparr>mGroupId := word_of_int j\<rparr>), a3)"
      "users (world a3) = users (world a2)" "groups (world a3) = (groups (world a2))(ga \<mapsto> j)" "j = i"
    using acc_group [OF db, of ?s a2] fresh grp con(2) by (auto simp: same_tables_def)
  have t3: "users (world a3) = users (world a1)" using g(2) con(2) by (simp add: same_tables_def)
  obtain a4 where "db_row env login_select [SqlText u, SqlInt (sint (word_of_int i :: u32))] a3 =
      (Ret (Some [SqlInt h, SqlText e, SqlText p]), a4)"
    using acc_login_select [OF db, of u "sint (word_of_int i :: u32)" a3] row unfolding t3 by auto
  then show ?thesis
    using key con(1) g(1,4) by (intro exI [of _ a4]) (simp add: loginOrCreate_eq login_on_row_def bind_run)
qed

subsection \<open>Concrete inputs\<close>

text \<open>A database of two tables, each a list of rows, and the last id given.\<close>

type_synonym acc_world = "((string \<times> int) \<times> account) list \<times> (string \<times> int) list \<times> int"

definition acc_exec :: "string \<Rightarrow> sqlval list \<Rightarrow> (acc_world, unit) m" where
  "acc_exec stmt vals = (\<lambda>(us, gs, n). (Ret (),
     if stmt = user_insert then
       (case vals of
          [SqlText u, SqlInt g, SqlInt h, SqlText p, SqlText e] \<Rightarrow> (((u, g), (h, e, p)) # us, gs, n + 1)
        | _ \<Rightarrow> (us, gs, n))
     else if stmt = group_insert then
       (case vals of [SqlText m, SqlText ga, SqlText d] \<Rightarrow> (us, (ga, n + 1) # gs, n + 1) | _ \<Rightarrow> (us, gs, n))
     else (us, gs, n)))"

definition acc_row :: "string \<Rightarrow> sqlval list \<Rightarrow> (acc_world, sqlval list option) m" where
  "acc_row stmt vals = (\<lambda>(us, gs, n). (Ret
     (if stmt = login_select then
        (case vals of
           [SqlText u, SqlInt g] \<Rightarrow> map_option (\<lambda>(h, e, p). [SqlInt h, SqlText e, SqlText p]) (map_of us (u, g))
         | _ \<Rightarrow> None)
      else if stmt = group_select_alias then
        (case vals of
           [SqlText ga] \<Rightarrow> map_option (\<lambda>i. [SqlInt i, SqlText ga, SqlText ga, SqlText [], SqlInt 0]) (map_of gs ga)
         | _ \<Rightarrow> None)
      else Some [SqlInt n]), (us, gs, n)))"

definition acc_svc :: "acc_world service_lib" where
  "acc_svc = \<lparr>clock = (\<lambda>w. 0), getConnection = (\<lambda>w. (Ret (), w)), sqlExec = acc_exec, sqlRow = acc_row,
     sqlRows = (\<lambda>s v w. (Ret [], w)), nodeRequest = (\<lambda>f p w. (Undef, w)),
     iotaSendMessage = (\<lambda>i m w. (Undef, w)), generatePassphrase = (\<lambda>w. (Ret ''pass'', w))\<rparr>"

definition acc_env :: "bytes option \<Rightarrow> (string, int, demo_cache, acc_world) env" where
  "acc_env support = \<lparr>isa_of = isa_of demo, conv = demo_conv, crypto = demo_crypto, jwt = demo_jwt, pars = pars demo,
     times = demo_times, nums = demo_nums, txs = demo_txs, caches = demo_caches, svc = acc_svc,
     cfg = demo_cfg\<lparr>g_SupportPublicKey := support\<rparr>, cpuCount = 2, yield = (\<lambda>s. s)\<rparr>"

definition acc_state :: "(demo_cache, acc_world) app" where
  "acc_state = \<lparr>mRunningEncryptions = {}, mPendingTransactions = [], mActiveSessions = [], world = ([], [], 0)\<rparr>"

lemma statements_differ:
  "login_select \<noteq> group_select_alias" "last_id_select \<noteq> login_select" "last_id_select \<noteq> group_select_alias"
  "group_insert \<noteq> user_insert" "user_backup_insert \<noteq> user_insert" "user_backup_insert \<noteq> group_insert"
  by code_simp+

lemma acc_db: "accounts_db (acc_env support) (\<lambda>w. map_of (fst w)) (\<lambda>w. map_of (fst (snd w)))"
  unfolding accounts_db_def
  by (auto simp: acc_env_def acc_svc_def acc_exec_def acc_row_def statements_differ statements_differ [symmetric]
      split: option.split)

lemma acc_keys: "key_law (acc_env support)"
  by (simp add: key_law_def acc_env_def demo_crypto_def demo_keypair_def)

subsection \<open>Properties\<close>




text \<open>The state of a database with one group, of the largest 32-bit id.\<close>

definition acc_large :: "(demo_cache, acc_world) app" where
  "acc_large = acc_state\<lparr>world := ([], [(''gdd1'', 4294967295)], 0)\<rparr>"




end
