(* ===== verification/Versions.thy ===== *)
theory Versions
  imports Tables
begin

section \<open>model/table/Migration and VersionsManager\<close>

text \<open>
  The start-up check of the database: a \<^verbatim>\<open>migration\<close> table records the schema
  version of every table; tables that are too old stop the start, missing ones are
  created and recorded.  The abstract class \<^verbatim>\<open>BaseTable\<close> is the interface between
  the manager and the tables: the locale \<^verbatim>\<open>base_table\<close>.
\<close>

subsection \<open>Migration\<close>

text \<open>\<^verbatim>\<open>mVersion\<close> is an \<^verbatim>\<open>int\<close> made from the \<^verbatim>\<open>uint32\<close> of the row.\<close>

record migration_row =
  m_ID :: u64
  m_TableName :: string
  m_Version :: u32

definition Migration_getVersion :: "migration_row \<Rightarrow> int" where
  "Migration_getVersion r = sint (m_Version r)"

fun migration_of_tuple :: "sqlval list \<Rightarrow> migration_row option" where
  "migration_of_tuple [SqlInt i, SqlText name, SqlInt v] =
     Some \<lparr>m_ID = word_of_int i, m_TableName = name, m_Version = word_of_int v\<rparr>"
| "migration_of_tuple _ = None"

definition migration_select :: string where
  "migration_select = ''SELECT id, table_name, version from '' @ ''migration''"

text \<open>
  The statement of \<^verbatim>\<open>load\<close> selects three columns for two targets; what the library
  then reads into them is a parameter.
\<close>

definition migration_load_select :: string where
  "migration_load_select = ''SELECT id, table_name, version '' @ '' from '' @ ''migration'' @ '' where table_name LIKE ?''"

definition Migration_load ::
    "('tx, 'n, 'c, 'w) env \<Rightarrow> (sqlval list \<Rightarrow> (string \<times> u32) outcome) \<Rightarrow> string \<Rightarrow> (('c, 'w) app, migration_row) m" where
  "Migration_load env extract tabName =
     bind_m (db_connect env) (\<lambda>_.
     bind_m (db_row env migration_load_select [SqlText tabName]) (\<lambda>row.
       case row of
         None \<Rightarrow> throw (RowNotFoundException ''couldn't load migration'' ''migration'' (''where table_name LIKE '' @ tabName))
       | Some tuple \<Rightarrow>
           bind_m (outcome_of (extract tuple)) (\<lambda>(name, version).
           ret \<lparr>m_ID = 0, m_TableName = name, m_Version = version\<rparr>)))"

lemma Migration_load_id: "Migration_load env extract tabName a = (Ret r, b) \<Longrightarrow> m_ID r = 0"
  by (auto simp: Migration_load_def bind_Ret_iff split: option.splits prod.splits)

definition Migration_loadAll :: "('tx, 'n, 'c, 'w) env \<Rightarrow> (('c, 'w) app, migration_row list) m" where
  "Migration_loadAll env =
     bind_m (db_connect env) (\<lambda>_.
     bind_m (db_rows env migration_select []) (\<lambda>rows.
       case those (map migration_of_tuple rows) of None \<Rightarrow> undef | Some ms \<Rightarrow> ret ms))"

definition migration_insert :: string where
  "migration_insert = ''INSERT INTO '' @ ''migration'' @ ''(table_name, version) VALUES(?,?);''"

definition Migration_save :: "('tx, 'n, 'c, 'w) env \<Rightarrow> string \<Rightarrow> int \<Rightarrow> (('c, 'w) app, unit) m" where
  "Migration_save env tableName version =
     db_exec env migration_insert [SqlText tableName, SqlInt version]"

subsection \<open>The tables\<close>

datatype base_table = TableUser | TableGroup | TableUserBackup

primrec tableName :: "base_table \<Rightarrow> string" where
  "tableName TableUser = ''user''"
| "tableName TableGroup = ''group''"
| "tableName TableUserBackup = ''user_backup''"

primrec getLastSchemaVersion :: "base_table \<Rightarrow> int" where
  "getLastSchemaVersion TableUser = 1"
| "getLastSchemaVersion TableGroup = 1"
| "getLastSchemaVersion TableUserBackup = 1"

definition USER_TABLE_SCHEMA :: string where
  "USER_TABLE_SCHEMA =
     ''`id` bigint UNSIGNED NOT NULL AUTO_INCREMENT,'' @
     ''`name` varchar(150) NOT NULL,'' @
     ''`group_id` bigint UNSIGNED NOT NULL,'' @
     ''`password` bigint unsigned NOT NULL,'' @
     ''`public_key` binary(32) DEFAULT NULL,'' @
     ''`encrypted_private_key` binary(80) DEFAULT NULL,'' @
     ''`created` datetime NOT NULL DEFAULT current_timestamp(),'' @
     ''PRIMARY KEY(`id`),'' @
     ''UNIQUE KEY `group_name` (`name`, `group_id`)''"

definition USER_TABLE_SCHEMA_SQLITE :: string where
  "USER_TABLE_SCHEMA_SQLITE =
     ''`id` INTEGER PRIMARY KEY,'' @
     ''`name` TEXT NOT NULL,'' @
     ''`group_id` INTEGER  NOT NULL UNIQUE,'' @
     ''`password` INTEGER NOT NULL,'' @
     ''`public_key` BLOB DEFAULT NULL,'' @
     ''`encrypted_private_key` BLOB DEFAULT NULL,'' @
     ''`created` integer(4) not null default (strftime('%s','now'))''"

definition GROUP_TABLE_SCHEMA :: string where
  "GROUP_TABLE_SCHEMA =
     ''`id` bigint UNSIGNED NOT NULL AUTO_INCREMENT,'' @
     ''`name` varchar(150) NOT NULL,'' @
     ''`groupAlias` varchar(150) NOT NULL,'' @
     ''`description` text DEFAULT NULL,'' @
     ''`created` datetime NOT NULL DEFAULT current_timestamp(),'' @
     ''PRIMARY KEY(`id`),'' @
     ''UNIQUE KEY `groupAlias` (`groupAlias`)''"

definition GROUP_TABLE_SCHEMA_SQLITE :: string where
  "GROUP_TABLE_SCHEMA_SQLITE =
     ''`id` INTEGER PRIMARY KEY,'' @
     ''`name` TEXT NOT NULL,'' @
     ''`groupAlias` TEXT NOT NULL UNIQUE,'' @
     ''`description` TEXT DEFAULT NULL,'' @
     ''`created` integer(4) not null default (strftime('%s','now'))''"

definition USER_BACKUP_TABLE_SCHEMA :: string where
  "USER_BACKUP_TABLE_SCHEMA =
     ''`id` bigint UNSIGNED NOT NULL AUTO_INCREMENT,'' @
     ''`user_id` bigint UNSIGNED NOT NULL,'' @
     ''`key_user_id` bigint UNSIGNED NOT NULL,'' @
     ''`encrypted_passphrase` varbinary(255) DEFAULT NULL,'' @
     ''`created` datetime NOT NULL DEFAULT current_timestamp(),'' @
     ''PRIMARY KEY(`id`)''"

definition USER_BACKUP_TABLE_SCHEMA_SQLITE :: string where
  "USER_BACKUP_TABLE_SCHEMA_SQLITE =
     ''`id` INTEGER PRIMARY KEY,'' @
     ''`user_id` INTEGER NOT NULL,'' @
     ''`key_user_id` INTEGER NOT NULL,'' @
     ''`encrypted_passphrase` BLOB DEFAULT NULL,'' @
     ''`created` integer(4) not null default (strftime('%s','now'))''"

definition MIGRATION_TABLE_SCHEMA :: string where
  "MIGRATION_TABLE_SCHEMA =
     ''`id` bigint UNSIGNED NOT NULL AUTO_INCREMENT,'' @
     ''`table_name` varchar(150) NOT NULL,'' @
     ''`version` int UNSIGNED NOT NULL,'' @
     ''PRIMARY KEY(`id`),'' @
     ''UNIQUE KEY `table_name` (`table_name`)''"

definition MIGRATION_TABLE_SCHEMA_SQLITE :: string where
  "MIGRATION_TABLE_SCHEMA_SQLITE =
     ''`id` bigint INTEGER PRIMARY KEY,'' @
     ''`table_name` TEXT NOT NULL UNIQUE,'' @
     ''`version` INTEGER NOT NULL''"

definition getSchema :: "bool \<Rightarrow> base_table \<Rightarrow> string" where
  "getSchema sqlite t =
     (case t of
        TableUser \<Rightarrow> if sqlite then USER_TABLE_SCHEMA_SQLITE else USER_TABLE_SCHEMA
      | TableGroup \<Rightarrow> if sqlite then GROUP_TABLE_SCHEMA_SQLITE else GROUP_TABLE_SCHEMA
      | TableUserBackup \<Rightarrow> if sqlite then USER_BACKUP_TABLE_SCHEMA_SQLITE else USER_BACKUP_TABLE_SCHEMA)"

subsection \<open>VersionsManager\<close>

definition factoryTable :: "string \<Rightarrow> exn + base_table" where
  "factoryTable name =
     (if name = tableName TableUser then Inr TableUser
      else if name = tableName TableGroup then Inr TableGroup
      else if name = tableName TableUserBackup then Inr TableUserBackup
      else Inl (UnknownTableNameException ''unknown tableName'' name))"

definition create_statement :: "bool \<Rightarrow> string \<Rightarrow> string \<Rightarrow> string" where
  "create_statement sqlite tablename tableDefinition =
     ''CREATE TABLE IF NOT EXISTS `'' @ tablename @ ''` ('' @ tableDefinition @ '')'' @
     (if \<not> sqlite then ''ENGINE = InnoDB DEFAULT CHARSET = utf8mb4'' else []) @ '';''"

definition createTableIfNotExist ::
    "('tx, 'n, 'c, 'w) env \<Rightarrow> bool \<Rightarrow> string \<Rightarrow> string \<Rightarrow> (('c, 'w) app, unit) m" where
  "createTableIfNotExist env sqlite tablename tableDefinition =
     db_exec env (create_statement sqlite tablename tableDefinition) []"

text \<open>The loop over the recorded migrations: the tables known to exist, or the exception.\<close>

fun check_migrations :: "migration_row list \<Rightarrow> string set \<Rightarrow> exn + string set" where
  "check_migrations [] existing = Inr existing"
| "check_migrations (r # rs) existing =
     (case factoryTable (m_TableName r) of
        Inl e \<Rightarrow> Inl e
      | Inr t \<Rightarrow>
          if Migration_getVersion r < getLastSchemaVersion t
          then Inl (MissingMigrationException ''migration missing'' (m_TableName r)
                      (word_of_int (Migration_getVersion r)))
          else check_migrations rs (insert (m_TableName r) existing))"

definition requiredTables :: "string list" where
  "requiredTables = [tableName TableUser, tableName TableGroup, tableName TableUserBackup]"

definition create_required ::
    "('tx, 'n, 'c, 'w) env \<Rightarrow> bool \<Rightarrow> string set \<Rightarrow> string \<Rightarrow> (('c, 'w) app, unit) m" where
  "create_required env sqlite existing name =
     (if name \<in> existing then ret ()
      else
        (case factoryTable name of
           Inl e \<Rightarrow> throw e
         | Inr t \<Rightarrow>
             bind_m (createTableIfNotExist env sqlite (tableName t) (getSchema sqlite t)) (\<lambda>_.
             Migration_save env (tableName t) (getLastSchemaVersion t))))"

definition migrate :: "('tx, 'n, 'c, 'w) env \<Rightarrow> bool \<Rightarrow> (('c, 'w) app, unit) m" where
  "migrate env sqlite =
     bind_m (db_connect env) (\<lambda>_.
     bind_m (createTableIfNotExist env sqlite ''migration''
               (if sqlite then MIGRATION_TABLE_SCHEMA_SQLITE else MIGRATION_TABLE_SCHEMA)) (\<lambda>_.
     bind_m (Migration_loadAll env) (\<lambda>migrations.
       case check_migrations migrations {} of
         Inl e \<Rightarrow> throw e
       | Inr existing \<Rightarrow> each_m (create_required env sqlite existing) requiredTables)))"

subsection \<open>The BaseTable interface\<close>

text \<open>
  What the manager relies on: a table is made from its own name, its version is
  positive, and its name is one of the required ones.
\<close>

locale base_table =
  fixes tab :: base_table
    and name :: string
    and version :: int
  assumes named: "tableName tab = name"
    and made: "factoryTable name = Inr tab"
    and versioned: "getLastSchemaVersion tab = version" "0 < version"
    and required: "name \<in> set requiredTables"
begin

lemma check_current:
  "m_TableName r = name \<Longrightarrow> version \<le> Migration_getVersion r \<Longrightarrow>
     check_migrations (r # rs) ex = check_migrations rs (insert name ex)"
  by (simp add: made versioned)

lemma check_old:
  "m_TableName r = name \<Longrightarrow> Migration_getVersion r < version \<Longrightarrow>
     check_migrations (r # rs) ex =
       Inl (MissingMigrationException ''migration missing'' name (word_of_int (Migration_getVersion r)))"
  by (simp add: made versioned)

lemma create_missing:
  "name \<notin> ex \<Longrightarrow> create_required env sqlite ex name =
     bind_m (db_exec env (create_statement sqlite name (getSchema sqlite tab)) []) (\<lambda>_.
       db_exec env migration_insert [SqlText name, SqlInt version])"
  by (simp add: create_required_def made createTableIfNotExist_def Migration_save_def named versioned)

end

interpretation user: base_table TableUser "''user''" 1
  by unfold_locales (simp_all add: factoryTable_def requiredTables_def)

interpretation group: base_table TableGroup "''group''" 1
  by unfold_locales (simp_all add: factoryTable_def requiredTables_def)

interpretation user_backup: base_table TableUserBackup "''user_backup''" 1
  by unfold_locales (simp_all add: factoryTable_def requiredTables_def)

text \<open>A recorded migration the running version accepts.\<close>

definition current :: "migration_row \<Rightarrow> bool" where
  "current r \<longleftrightarrow> m_TableName r \<in> set requiredTables \<and> 1 \<le> Migration_getVersion r"

lemma factory_known: "(\<exists>t. factoryTable n = Inr t) \<longleftrightarrow> n \<in> set requiredTables"
  by (auto simp: factoryTable_def requiredTables_def)

lemma getLastSchemaVersion_1 [simp]: "getLastSchemaVersion t = 1"
  by (cases t) simp_all

lemma check_migrations_ok:
  "check_migrations rs ex = Inr ex' \<longleftrightarrow> (\<forall>r \<in> set rs. current r) \<and> ex' = ex \<union> m_TableName ` set rs"
proof (induction rs arbitrary: ex)
  case (Cons r rs)
  then show ?case
    using factory_known [of "m_TableName r"]
    by (auto simp: current_def split: sum.split)
qed auto

subsection \<open>Migrating a database\<close>

text \<open>
  Documented behaviour of the statements the manager sends, on the rows of the
  \<^verbatim>\<open>migration\<close> table: connecting and \<^verbatim>\<open>CREATE TABLE IF NOT EXISTS\<close> keep
  them, \<^verbatim>\<open>SELECT\<close> gives them, \<^verbatim>\<open>INSERT\<close> adds one.
\<close>

definition migration_db :: "('tx, 'n, 'c, 'w) env \<Rightarrow> ('w \<Rightarrow> migration_row list) \<Rightarrow> bool" where
  "migration_db env rows \<longleftrightarrow>
     (\<forall>w. \<exists>w'. getConnection (svc env) w = (Ret (), w') \<and> rows w' = rows w) \<and>
     (\<forall>w sqlite n d. \<exists>w'. sqlExec (svc env) (create_statement sqlite n d) [] w = (Ret (), w') \<and> rows w' = rows w) \<and>
     (\<forall>w. \<exists>w' ts. sqlRows (svc env) migration_select [] w = (Ret ts, w') \<and> rows w' = rows w \<and>
        map migration_of_tuple ts = map Some (rows w)) \<and>
     (\<forall>w n v. \<exists>w' r. sqlExec (svc env) migration_insert [SqlText n, SqlInt v] w = (Ret (), w') \<and>
        rows w' = rows w @ [r] \<and> m_TableName r = n \<and> m_Version r = word_of_int v)"

lemma migration_db_connect:
  "migration_db env rows \<Longrightarrow> \<exists>t. db_connect env s = (Ret (), t) \<and> rows (world t) = rows (world s)"
  unfolding migration_db_def db_connect_def by (metis app.select_convs(4) app.surjective app.update_convs(4) on_world_run)

lemma migration_db_create:
  "migration_db env rows \<Longrightarrow>
     \<exists>t. createTableIfNotExist env sqlite n d s = (Ret (), t) \<and> rows (world t) = rows (world s)"
  unfolding migration_db_def createTableIfNotExist_def db_exec_def
  by (metis app.select_convs(4) app.surjective app.update_convs(4) on_world_run)

lemma those_map_Some [simp]: "those (map Some xs) = Some xs"
  by (induction xs) simp_all

lemma migration_db_loadAll:
  assumes "migration_db env rows"
  shows "\<exists>t. Migration_loadAll env s = (Ret (rows (world s)), t) \<and> rows (world t) = rows (world s)"
proof -
  obtain t where t: "db_connect env s = (Ret (), t)" "rows (world t) = rows (world s)"
    using migration_db_connect [OF assms] by blast
  from assms obtain w ts where w: "sqlRows (svc env) migration_select [] (world t) = (Ret ts, w)"
      "rows w = rows (world t)" "map migration_of_tuple ts = map Some (rows (world t))"
    unfolding migration_db_def by blast
  have "Migration_loadAll env s = (Ret (rows (world s)), t\<lparr>world := w\<rparr>)"
    using t w by (simp add: Migration_loadAll_def bind_run db_rows_def on_world_run)
  with t w show ?thesis by auto
qed

lemma migration_db_save:
  assumes "migration_db env rows"
  shows "\<exists>t r. Migration_save env n v s = (Ret (), t) \<and> rows (world t) = rows (world s) @ [r] \<and>
           m_TableName r = n \<and> m_Version r = word_of_int v"
proof -
  from assms obtain w r where "sqlExec (svc env) migration_insert [SqlText n, SqlInt v] (world s) = (Ret (), w)"
      "rows w = rows (world s) @ [r]" "m_TableName r = n" "m_Version r = word_of_int v"
    unfolding migration_db_def by blast
  then show ?thesis by (auto simp: Migration_save_def db_exec_def on_world_run)
qed

lemma create_required_run:
  assumes db: "migration_db env rows" and n: "n \<in> set requiredTables"
  shows "\<exists>t new. create_required env sqlite ex n s = (Ret (), t) \<and>
           rows (world t) = rows (world s) @ new \<and> (\<forall>r \<in> set new. current r) \<and>
           map m_TableName new = (if n \<in> ex then [] else [n])"
proof (cases "n \<in> ex")
  case False
  obtain tb where tb: "factoryTable n = Inr tb" "tableName tb = n"
    using n by (auto simp: requiredTables_def user.made user.named group.made group.named
        user_backup.made user_backup.named)
  obtain t where t: "createTableIfNotExist env sqlite n (getSchema sqlite tb) s = (Ret (), t)"
      "rows (world t) = rows (world s)"
    using migration_db_create [OF db] by blast
  obtain u r where u: "Migration_save env n 1 t = (Ret (), u)" "rows (world u) = rows (world t) @ [r]"
      "m_TableName r = n" "m_Version r = word_of_int 1"
    using migration_db_save [OF db] by blast
  have "create_required env sqlite ex n s = (Ret (), u)"
    using False tb t(1) u(1) by (simp add: create_required_def bind_run)
  moreover have "current r"
    using u n by (simp add: current_def Migration_getVersion_def)
  ultimately show ?thesis using False t u by (intro exI [of _ u] exI [of _ "[r]"]) simp
qed (simp add: create_required_def)

lemma create_all_run:
  assumes db: "migration_db env rows" and "set ns \<subseteq> set requiredTables"
  shows "\<exists>t new. each_m (create_required env sqlite ex) ns s = (Ret (), t) \<and>
           rows (world t) = rows (world s) @ new \<and> (\<forall>r \<in> set new. current r) \<and>
           map m_TableName new = filter (\<lambda>n. n \<notin> ex) ns"
  using assms(2)
proof (induction ns arbitrary: s)
  case (Cons n ns)
  from create_required_run [OF db, of n sqlite ex s] Cons.prems obtain t new where
    t: "create_required env sqlite ex n s = (Ret (), t)" "rows (world t) = rows (world s) @ new"
       "\<forall>r \<in> set new. current r" "map m_TableName new = (if n \<in> ex then [] else [n])" by auto
  from Cons.IH [of t] Cons.prems obtain u new' where
    u: "each_m (create_required env sqlite ex) ns t = (Ret (), u)" "rows (world u) = rows (world t) @ new'"
       "\<forall>r \<in> set new'. current r" "map m_TableName new' = filter (\<lambda>n. n \<notin> ex) ns" by auto
  show ?case
    using t u by (intro exI [of _ u] exI [of _ "new @ new'"]) (auto simp: bind_run)
qed simp

lemma migrate_checked:
  assumes db: "migration_db env rows"
  shows "\<exists>t. rows (world t) = rows (world s) \<and>
           migrate env sqlite s =
             (case check_migrations (rows (world s)) {} of
                Inl e \<Rightarrow> throw e
              | Inr ex \<Rightarrow> each_m (create_required env sqlite ex) requiredTables) t"
proof -
  let ?schema = "if sqlite then MIGRATION_TABLE_SCHEMA_SQLITE else MIGRATION_TABLE_SCHEMA"
  obtain t1 where 1: "db_connect env s = (Ret (), t1)" "rows (world t1) = rows (world s)"
    using migration_db_connect [OF db] by blast
  obtain t2 where 2: "createTableIfNotExist env sqlite ''migration'' ?schema t1 = (Ret (), t2)"
      "rows (world t2) = rows (world t1)"
    using migration_db_create [OF db] by blast
  obtain t3 where 3: "Migration_loadAll env t2 = (Ret (rows (world t2)), t3)" "rows (world t3) = rows (world t2)"
    using migration_db_loadAll [OF db] by blast
  have "migrate env sqlite s =
      (case check_migrations (rows (world s)) {} of
         Inl e \<Rightarrow> throw e
       | Inr ex \<Rightarrow> each_m (create_required env sqlite ex) requiredTables) t3"
    unfolding migrate_def bind_run(1) [where p = "db_connect env" and s = s, OF 1(1)]
      bind_run(1) [where p = "createTableIfNotExist env sqlite ''migration'' ?schema" and s = t1, OF 2(1)]
      bind_run(1) [where p = "Migration_loadAll env" and s = t2, OF 3(1)]
    using 1 2 by simp
  with 1 2 3 show ?thesis by (intro exI [of _ t3]) simp
qed

text \<open>The two outcomes of the start-up check, and what a check that returns has established.\<close>

lemma migrate_current:
  assumes db: "migration_db env rows" and cur: "\<forall>r \<in> set (rows (world s)). current r"
  shows "\<exists>t new. migrate env sqlite s = (Ret (), t) \<and> rows (world t) = rows (world s) @ new \<and>
      (\<forall>r \<in> set new. current r) \<and>
      map m_TableName new = filter (\<lambda>n. n \<notin> m_TableName ` set (rows (world s))) requiredTables"
proof -
  from migrate_checked [OF db] obtain t0 where t0: "rows (world t0) = rows (world s)"
      "migrate env sqlite s =
         each_m (create_required env sqlite (m_TableName ` set (rows (world s)))) requiredTables t0"
    using check_migrations_ok [THEN iffD2, OF conjI, OF cur refl] by fastforce
  with create_all_run [OF db order_refl, of sqlite "m_TableName ` set (rows (world s))" t0]
  show ?thesis by simp
qed

lemma migrate_old:
  assumes db: "migration_db env rows" and old: "\<exists>r \<in> set (rows (world s)). \<not> current r"
  shows "\<exists>e t. migrate env sqlite s = (Throw e, t) \<and> rows (world t) = rows (world s)"
proof -
  from old obtain e where "check_migrations (rows (world s)) {} = Inl e"
    using check_migrations_ok [of "rows (world s)" "{}"] by (cases "check_migrations (rows (world s)) {}") auto
  with migrate_checked [OF db, of s sqlite] show ?thesis by auto
qed

lemma migrate_only_world: "stays only_world (migrate env sqlite)"
proof -
  have "stays only_world (create_required env sqlite existing name)" for existing name
    by (auto simp: create_required_def createTableIfNotExist_def Migration_save_def
        intro!: only_world.stays_pure only_world.stays_bind db_keeps split: sum.split)
  then show ?thesis
    unfolding migrate_def createTableIfNotExist_def Migration_loadAll_def
    by (intro only_world.stays_bind only_world.stays_each only_world.stays_pure keeps db_keeps
        stays_sum) (auto intro: only_world.stays_pure split: option.split)
qed

lemma migrated:
  assumes db: "migration_db env rows" and run: "migrate env sqlite s = (Ret (), t)"
  shows "(\<forall>r \<in> set (rows (world t)). current r) \<and> set requiredTables \<subseteq> m_TableName ` set (rows (world t))"
proof -
  have cur: "\<forall>r \<in> set (rows (world s)). current r"
    using migrate_old [OF db, of s sqlite] run by auto
  with migrate_current [OF db cur, of sqlite] run obtain new where
    t: "rows (world t) = rows (world s) @ new" "\<forall>r \<in> set new. current r"
      "map m_TableName new = filter (\<lambda>n. n \<notin> m_TableName ` set (rows (world s))) requiredTables" by auto
  have "m_TableName ` set new = set (filter (\<lambda>n. n \<notin> m_TableName ` set (rows (world s))) requiredTables)"
    using t(3) by (metis set_map)
  with t cur show ?thesis by auto
qed

subsection \<open>Concrete inputs\<close>

definition db_svc :: "migration_row list service_lib" where
  "db_svc = \<lparr>clock = (\<lambda>w. 0), getConnection = (\<lambda>w. (Ret (), w)),
     sqlExec = (\<lambda>s v w. case v of
        [SqlText n, SqlInt k] \<Rightarrow> (Ret (), w @ [\<lparr>m_ID = 0, m_TableName = n, m_Version = word_of_int k\<rparr>])
      | _ \<Rightarrow> (Ret (), w)),
     sqlRow = (\<lambda>s v w. (Ret None, w)),
     sqlRows = (\<lambda>s v w. (Ret (map (\<lambda>r. [SqlInt (uint (m_ID r)), SqlText (m_TableName r), SqlInt (uint (m_Version r))]) w), w)),
     nodeRequest = (\<lambda>f p w. (Undef, w)), iotaSendMessage = (\<lambda>i m w. (Undef, w)),
     generatePassphrase = (\<lambda>w. (Undef, w))\<rparr>"

definition db_env :: "(string, int, demo_cache, migration_row list) env" where
  "db_env = \<lparr>isa_of = isa_of demo, conv = demo_conv, crypto = demo_crypto, jwt = demo_jwt, pars = pars demo,
     times = demo_times, nums = demo_nums, txs = demo_txs, caches = demo_caches, svc = db_svc, cfg = demo_cfg,
     cpuCount = 2, yield = (\<lambda>s. s)\<rparr>"

definition db_state :: "migration_row list \<Rightarrow> (demo_cache, migration_row list) app" where
  "db_state rows = \<lparr>mRunningEncryptions = {}, mPendingTransactions = [], mActiveSessions = [], world = rows\<rparr>"

lemma db_env_ok: "migration_db db_env (\<lambda>w. w)"
  by (simp add: migration_db_def db_env_def db_svc_def comp_def)

subsection \<open>Properties\<close>





end
