(* ===== verification/ExnText.thy ===== *)
theory ExnText
  imports Prelude
begin

section \<open>getFullString of the exception classes\<close>

text \<open>
  The text each exception class of the repository gives for the log and for the details
  of an answer, and the virtual call that selects among them by the dynamic class.
\<close>

definition LoginException_getFullString :: "string \<Rightarrow> string \<Rightarrow> string \<Rightarrow> string" where
  "LoginException_getFullString w username clientIp = w @ '', user: '' @ username @ '' with ip: '' @ clientIp"

definition SessionException_getFullString :: "string \<Rightarrow> string \<Rightarrow> string" where
  "SessionException_getFullString w username = w @ '', user: '' @ username"

definition PasswordEncryptionRateLimitException_getFullString :: "string \<Rightarrow> string" where
  "PasswordEncryptionRateLimitException_getFullString w = w"

definition InvalidPasswordException_getFullString :: "string \<Rightarrow> string \<Rightarrow> u64 \<Rightarrow> string" where
  "InvalidPasswordException_getFullString w username passwordSize =
     w @ '', username: '' @ username @ '', password size: '' @ to_digits (unat passwordSize)"

definition RowNotFoundException_getFullString :: "string \<Rightarrow> string \<Rightarrow> string \<Rightarrow> string" where
  "RowNotFoundException_getFullString w table cond = w @ '', table: '' @ table @ '', condition: '' @ cond"

definition UnknownTableNameException_getFullString :: "string \<Rightarrow> string \<Rightarrow> string" where
  "UnknownTableNameException_getFullString w table = w @ '', table name: '' @ table"

definition MissingMigrationException_getFullString :: "string \<Rightarrow> string \<Rightarrow> u32 \<Rightarrow> string" where
  "MissingMigrationException_getFullString w table version =
     w @ '', table name: '' @ table @ '', version: '' @ to_digits (unat version)"

definition GradidoNodeRPCException_getFullString :: "string \<Rightarrow> string \<Rightarrow> string" where
  "GradidoNodeRPCException_getFullString w details =
     (if details \<noteq> [] then w @ '', details: '' @ details else w)"

definition ApolloDecayException_getFullString :: "string \<Rightarrow> string \<Rightarrow> string \<Rightarrow> string" where
  "ApolloDecayException_getFullString w startBalance decay =
     w @ '', startBalance: '' @ startBalance @ '', decay: '' @ decay"

text \<open>A library exception carries its own text.\<close>

primrec getFullString :: "exn \<Rightarrow> string" where
  "getFullString (LoginException w u ip) = LoginException_getFullString w u ip"
| "getFullString (SessionException w u) = SessionException_getFullString w u"
| "getFullString (PasswordEncryptionRateLimitException w) = PasswordEncryptionRateLimitException_getFullString w"
| "getFullString (InvalidPasswordException w u n) = InvalidPasswordException_getFullString w u n"
| "getFullString (RowNotFoundException w t c) = RowNotFoundException_getFullString w t c"
| "getFullString (UnknownTableNameException w t) = UnknownTableNameException_getFullString w t"
| "getFullString (MissingMigrationException w t v) = MissingMigrationException_getFullString w t v"
| "getFullString (GradidoNodeRPCException w d) = GradidoNodeRPCException_getFullString w d"
| "getFullString (ApolloDecayException w s d) = ApolloDecayException_getFullString w s d"
| "getFullString (LibException _ _ text) = text"

text \<open>The full string of every class of the repository starts with its message.\<close>

lemma getFullString_prefix: "\<not> is_LibException e \<Longrightarrow> take (length (exn_what e)) (getFullString e) = exn_what e"
  by (cases e) (simp_all add: LoginException_getFullString_def SessionException_getFullString_def
      PasswordEncryptionRateLimitException_getFullString_def InvalidPasswordException_getFullString_def
      RowNotFoundException_getFullString_def UnknownTableNameException_getFullString_def
      MissingMigrationException_getFullString_def GradidoNodeRPCException_getFullString_def
      ApolloDecayException_getFullString_def)

end
