(* ===== verification/NodeRPC.thy ===== *)
theory NodeRPC
  imports Shared ExnText
begin

section \<open>gradidoNodeRPC: questions to the Gradido Node\<close>

text \<open>
  Each call sends one JSON-RPC request and takes one member out of the \<^verbatim>\<open>result\<close>
  object of the answer.  A missing member is an exception; every exception on the way
  goes through \<^verbatim>\<open>handleGradidoNodeRpcException\<close>.
\<close>

definition handleGradidoNodeRpcException ::
    "('tx, 'n, 'c, 'w) env \<Rightarrow> exn \<Rightarrow> (('c, 'w) app, 'a) m" where
  "handleGradidoNodeRpcException env e =
     (if instance_of (isa_of env) RequestResponseErrorException e then throw e
      else if instance_of (isa_of env) GradidoBlockchainException e
      then throw (GradidoNodeRPCException ''gradido blockchain exception'' (getFullString e))
      else if instance_of (isa_of env) PocoException e
      then throw (GradidoNodeRPCException ''Poco exception'' (getFullString e))
      else if instance_of (isa_of env) StdException e
      then throw (GradidoNodeRPCException ''std exception'' (exn_what e))
      else throw e)"

definition missing :: "string \<Rightarrow> string \<Rightarrow> (('c, 'w) app, 'a) m" where
  "missing what member_name = throw (LibException RapidjsonMissingMemberException what member_name)"

text \<open>The request, and the member of the result object.\<close>

definition rpc_request ::
    "('tx, 'n, 'c, 'w) env \<Rightarrow> string \<Rightarrow> (string \<times> json) list \<Rightarrow> (('c, 'w) app, json) m" where
  "rpc_request env method rpcParams = on_world (nodeRequest (svc env) method (JObject rpcParams))"

definition rpc_member ::
    "json \<Rightarrow> string \<Rightarrow> string \<Rightarrow> string \<Rightarrow> (('c, 'w) app, json) m" where
  "rpc_member result missing_result missing_member key =
     bind_m (outcome_of (has_member result ''result'')) (\<lambda>b.
       if \<not> b then missing missing_result ''result''
       else
         bind_m (outcome_of (member result ''result'')) (\<lambda>r.
         bind_m (outcome_of (has_member r key)) (\<lambda>b'.
           if \<not> b' then missing missing_member key
           else outcome_of (member r key))))"

definition getAddressBalance ::
    "('tx, 'n, 'c, 'w) env \<Rightarrow> string \<Rightarrow> string \<Rightarrow> string \<Rightarrow> string \<Rightarrow> (('c, 'w) app, string) m" where
  "getAddressBalance env pubkeyHex dateString groupAlias coinGroupId =
     try_m
       (bind_m (rpc_request env ''getaddressbalance''
                  [(''coinGroupId'', JString (c_str coinGroupId)), (''date'', JString (c_str dateString)),
                   (''pubkey'', JString (c_str pubkeyHex)), (''groupAlias'', JString (c_str groupAlias))]) (\<lambda>result.
        bind_m (rpc_member result ''missing result from getaddressbalance''
                  ''missing in result from getaddressbalance'' ''balance'') (\<lambda>v.
        bind_m (outcome_of (get_string v)) (\<lambda>s. ret (c_str s)))))
       (handleGradidoNodeRpcException env)"

definition getAddressType ::
    "('tx, 'n, 'c, 'w) env \<Rightarrow> string \<Rightarrow> string \<Rightarrow> (('c, 'w) app, string) m" where
  "getAddressType env pubkeyHex groupAlias =
     try_m
       (bind_m (rpc_request env ''getaddresstype''
                  [(''pubkey'', JString (c_str pubkeyHex)), (''groupAlias'', JString (c_str groupAlias))]) (\<lambda>result.
        bind_m (rpc_member result ''missing result from getaddresstype''
                  ''missing in result from getaddressbalance'' ''addressType'') (\<lambda>v.
        bind_m (outcome_of (get_string v)) (\<lambda>s. ret (c_str s)))))
       (handleGradidoNodeRpcException env)"

text \<open>The loop that reads the array of transaction numbers.\<close>

fun read_uint64s :: "json list \<Rightarrow> u64 list outcome" where
  "read_uint64s [] = Ret []"
| "read_uint64s (v # vs) =
     (case get_uint64 v of
        Ret n \<Rightarrow> map_outcome ((#) n) (read_uint64s vs)
      | Throw e \<Rightarrow> Throw e
      | Undef \<Rightarrow> Undef)"

definition getAddressTxids ::
    "('tx, 'n, 'c, 'w) env \<Rightarrow> string \<Rightarrow> string \<Rightarrow> (('c, 'w) app, u64 list) m" where
  "getAddressTxids env pubkeyHex groupAlias =
     try_m
       (bind_m (rpc_request env ''getaddresstxids''
                  [(''pubkey'', JString (c_str pubkeyHex)), (''groupAlias'', JString (c_str groupAlias))]) (\<lambda>result.
        bind_m (rpc_member result ''missing result from getaddresstxids''
                  ''missing in result from getaddresstxids'' ''transactionNrs'') (\<lambda>v.
        bind_m (outcome_of (get_array v)) (\<lambda>vs. outcome_of (read_uint64s vs)))))
       (handleGradidoNodeRpcException env)"

definition getCreationSumForMonth ::
    "('tx, 'n, 'c, 'w) env \<Rightarrow> string \<Rightarrow> int \<Rightarrow> int \<Rightarrow> string \<Rightarrow> string \<Rightarrow> (('c, 'w) app, string) m" where
  "getCreationSumForMonth env pubkeyHex month year startDateString groupAlias =
     try_m
       (bind_m (rpc_request env ''getcreationsumformonth''
                  [(''pubkey'', JString (c_str pubkeyHex)), (''month'', JInt month), (''year'', JInt year),
                   (''startSearchDate'', JString (c_str startDateString)),
                   (''groupAlias'', JString (c_str groupAlias))]) (\<lambda>result.
        bind_m (rpc_member result ''missing result from getcreationsumformonth''
                  ''missing in result from getcreationsumformonth'' ''sum'') (\<lambda>v.
        bind_m (outcome_of (get_string v)) (\<lambda>s. ret (c_str s)))))
       (handleGradidoNodeRpcException env)"

definition putTransaction ::
    "('tx, 'n, 'c, 'w) env \<Rightarrow> string \<Rightarrow> u64 \<Rightarrow> string \<Rightarrow> (('c, 'w) app, unit) m" where
  "putTransaction env base64Transaction transactionNr groupAlias =
     try_m
       (bind_m (rpc_request env ''puttransaction''
                  [(''transaction'', JString (c_str base64Transaction)),
                   (''transactionNr'', JInt (uint transactionNr)),
                   (''groupAlias'', JString (c_str groupAlias))]) (\<lambda>result.
        bind_m (outcome_of (has_member result ''result'')) (\<lambda>b.
          if \<not> b then missing ''missing result from puttransaction'' ''result'' else ret ())))
       (handleGradidoNodeRpcException env)"

subsection \<open>Lemmas\<close>

lemma missing_keeps [keeps]: "stays only_world (missing w k)"
  unfolding missing_def by (intro keeps)

lemma rpc_keeps [keeps]:
  "stays only_world (handleGradidoNodeRpcException env e)"
  "stays only_world (rpc_request env method ps)"
  "stays only_world (rpc_member result mr mm key)"
  unfolding handleGradidoNodeRpcException_def rpc_request_def rpc_member_def
  by (intro keeps)+

lemma node_keeps [keeps]:
  "stays only_world (getAddressBalance env p d g c)"
  "stays only_world (getAddressType env p g)"
  "stays only_world (getAddressTxids env p g)"
  "stays only_world (getCreationSumForMonth env p mo y d g)"
  "stays only_world (putTransaction env t n g)"
  unfolding getAddressBalance_def getAddressType_def getAddressTxids_def
    getCreationSumForMonth_def putTransaction_def
  by (intro keeps)+

lemmas node_same_log [keeps] = node_keeps [THEN only_world_same_log]
lemmas node_steps [keeps] = node_keeps [THEN only_world_steps]

lemma handleNode_no_Ret [simp]: "handleGradidoNodeRpcException env e s \<noteq> (Ret a, t)"
  by (simp add: handleGradidoNodeRpcException_def)

text \<open>What may leave a call to the node.\<close>

definition node_exn :: "('tx, 'n, 'c, 'w) env \<Rightarrow> exn \<Rightarrow> bool" where
  "node_exn env e \<longleftrightarrow>
     is_GradidoNodeRPCException e \<or>
     instance_of (isa_of env) RequestResponseErrorException e \<or>
     \<not> instance_of (isa_of env) GradidoBlockchainException e \<and>
     \<not> instance_of (isa_of env) PocoException e \<and> \<not> instance_of (isa_of env) StdException e"

lemma handleNode_throws:
  "handleGradidoNodeRpcException env e s = (Throw e', t) \<Longrightarrow> node_exn env e' \<and> t = s"
  by (auto simp: handleGradidoNodeRpcException_def node_exn_def split: if_splits)

lemma try_node_throws:
  "try_m p (handleGradidoNodeRpcException env) s = (Throw e, t) \<Longrightarrow> node_exn env e"
  by (auto simp: try_Throw_iff dest: handleNode_throws)

lemma try_node_Ret:
  "try_m p (handleGradidoNodeRpcException env) s = (Ret a, t) \<longleftrightarrow> p s = (Ret a, t)"
  by (auto simp: try_Ret_iff)

subsection \<open>Concrete inputs\<close>

definition node_down :: "(string, int, demo_cache, int) env" where
  "node_down = demo\<lparr>svc := demo_svc\<lparr>nodeRequest := (\<lambda>f p w. (Throw (LibException StdException ''down'' []), w))\<rparr>\<rparr>"

subsection \<open>Properties\<close>

text \<open>
  C35. Whatever goes wrong in a call to the Gradido Node, the caller sees a node
  exception, a response error, or an exception that is none of gradido\_blockchain,
  Poco or \<^verbatim>\<open>std::exception\<close>; and a call changes nothing but the outside world.
\<close>

theorem node_calls_throw_node_exceptions:
  "(getAddressBalance env p d g c s = (Throw e, t) \<longrightarrow> node_exn env e \<and> only_world s t) \<and>
   (getAddressType env p g s = (Throw e, t) \<longrightarrow> node_exn env e \<and> only_world s t) \<and>
   (getAddressTxids env p g s = (Throw e, t) \<longrightarrow> node_exn env e \<and> only_world s t) \<and>
   (getCreationSumForMonth env p mo y d g s = (Throw e, t) \<longrightarrow> node_exn env e \<and> only_world s t) \<and>
   (putTransaction env tx n g s = (Throw e, t) \<longrightarrow> node_exn env e \<and> only_world s t)"
  using staysD [OF node_keeps(1), of env p d g c s "Throw e" t]
    staysD [OF node_keeps(2), of env p g s "Throw e" t]
    staysD [OF node_keeps(3), of env p g s "Throw e" t]
    staysD [OF node_keeps(4), of env p mo y d g s "Throw e" t]
    staysD [OF node_keeps(5), of env tx n g s "Throw e" t]
  by (auto simp: getAddressBalance_def getAddressType_def getAddressTxids_def
      getCreationSumForMonth_def putTransaction_def dest: try_node_throws)

theorem node_calls_throw_node_exceptions_witness:
  "\<exists>e t. getAddressBalance node_down ''k'' ''d'' ''g'' [] demo_state = (Throw e, t) \<and> node_exn node_down e \<and>
     only_world demo_state t"
proof -
  have "fst (getAddressBalance node_down ''k'' ''d'' ''g'' [] demo_state) =
      Throw (GradidoNodeRPCException ''std exception'' ''down'')" by code_simp
  note run = runI [OF this]
  with node_calls_throw_node_exceptions [THEN conjunct1, rule_format, OF run] show ?thesis by blast
qed

text \<open>
  The balance a call returns is the member \<^verbatim>\<open>balance\<close> of the \<^verbatim>\<open>result\<close>
  object in the answer to a request with exactly the given key, date, group and coin
  group.
\<close>

lemma getAddressBalance_reads_answer:
  assumes "nodeRequest (svc env) ''getaddressbalance''
             (JObject [(''coinGroupId'', JString (c_str c)), (''date'', JString (c_str d)),
                       (''pubkey'', JString (c_str p)), (''groupAlias'', JString (c_str g))]) (world s) = (Ret answer, w)"
    and "member answer ''result'' = Ret r" and "member r ''balance'' = Ret (JString v)"
  shows "getAddressBalance env p d g c s = (Ret (c_str v), s\<lparr>world := w\<rparr>)"
proof -
  have has: "has_member j k = Ret True" if "member j k = Ret x" for j k x
    using that by (cases j) (auto split: option.splits dest: map_of_SomeD simp: rev_image_eqI)
  show ?thesis
    using assms has [OF assms(2)] has [OF assms(3)]
    by (simp add: getAddressBalance_def try_node_Ret rpc_request_def on_world_run bind_run rpc_member_def)
qed

end
