(* ===== verification/SessionManager.thy ===== *)
theory SessionManager
  imports Sessions
begin

section \<open>SessionManager: login tokens and active sessions\<close>

text \<open>
  The active sessions live in an expiring cache under the user name; a login answers
  with a signed token whose payload carries the name and the public key, and later
  requests are matched to a session through the token.
\<close>

definition sessions_get :: "('tx, 'n, 'c, 'w) env \<Rightarrow> string \<Rightarrow> (('c, 'w) app, session option) m" where
  "sessions_get env k =
     bind_m (gets (\<lambda>a. clock (svc env) (world a))) (\<lambda>now.
     within mActiveSessions (\<lambda>c a. a\<lparr>mActiveSessions := c\<rparr>)
       (\<lambda>c. case cache_get (caches env) now k c of (r, c') \<Rightarrow> (Ret r, c')))"

definition sessions_add :: "('tx, 'n, 'c, 'w) env \<Rightarrow> string \<Rightarrow> session \<Rightarrow> (('c, 'w) app, unit) m" where
  "sessions_add env k s =
     bind_m (gets (\<lambda>a. clock (svc env) (world a))) (\<lambda>now.
     modify (\<lambda>a. a\<lparr>mActiveSessions := cache_add (caches env) now k s (mActiveSessions a)\<rparr>))"

subsection \<open>login\<close>

text \<open>The key size of \<^verbatim>\<open>KeyPairEd25519::getPublicKeySize()\<close> is 32 bytes.\<close>

definition login_token :: "('tx, 'n, 'c, 'w) env \<Rightarrow> string \<Rightarrow> bytes \<Rightarrow> int \<Rightarrow> jwt_token" where
  "login_token env username publicKey now =
     \<lparr>tk_type = ''JWT'', tk_subject = ''login'',
      tk_payload = [(''name'', username),
        (''pubkey'', take (32 * 2) (binToHex (conv env) publicKey))],
      tk_issuedAt = now, tk_expiration = now + g_SessionValidDuration (cfg env)\<rparr>"

text \<open>The active session of the name, or a new one that is logged in and added.\<close>

definition open_session ::
    "('tx, 'n, 'c, 'w) env \<Rightarrow> string \<Rightarrow> string \<Rightarrow> string \<Rightarrow> string \<Rightarrow> (('c, 'w) app, session) m" where
  "open_session env username password groupAlias clientIp =
     bind_m (sessions_get env username) (\<lambda>found.
       case found of
         Some session \<Rightarrow> ret session
       | None \<Rightarrow>
           bind_m (loginOrCreate env username password groupAlias clientIp new_Session) (\<lambda>r.
           bind_m (sessions_add env username (snd r)) (\<lambda>_.
           ret (snd r))))"

definition login ::
    "('tx, 'n, 'c, 'w) env \<Rightarrow> string \<Rightarrow> string \<Rightarrow> string \<Rightarrow> string \<Rightarrow> (('c, 'w) app, string) m" where
  "login env username password groupAlias clientIp =
     bind_m (open_session env username password groupAlias clientIp) (\<lambda>session.
     if mClientIp session \<noteq> clientIp then throw (LoginException ''invalid ip'' username clientIp)
     else
       (case getPublicKey session of
          None \<Rightarrow> throw (LoginException ''no public key'' username clientIp)
        | Some publicKey \<Rightarrow>
            bind_m (gets (\<lambda>a. clock (svc env) (world a))) (\<lambda>now.
            ret (signer_sign (jwt env) (g_JwtVerifySecret (cfg env))
                   (login_token env username publicKey now)))))"

subsection \<open>getSession\<close>

text \<open>\<^verbatim>\<open>catch (Poco::JWT::SignatureVerificationException&)\<close> around the whole body.\<close>

definition signature_guard ::
    "('tx, 'n, 'c, 'w) env \<Rightarrow> string \<Rightarrow> (('c, 'w) app, 'a) m \<Rightarrow> (('c, 'w) app, 'a) m" where
  "signature_guard env serializedJwtToken p =
     try_m p (\<lambda>e.
       if instance_of (isa_of env) PocoSignatureVerificationException e
       then throw (LibException JwtTokenException ''invalid jwtToken'' serializedJwtToken)
       else throw e)"

definition session_for ::
    "('tx, 'n, 'c, 'w) env \<Rightarrow> string \<Rightarrow> string \<Rightarrow> (('c, 'w) app, session) m" where
  "session_for env name clientIp =
     bind_m (sessions_get env name) (\<lambda>found.
       case found of
         None \<Rightarrow> throw (SessionException ''no session found'' name)
       | Some session \<Rightarrow>
           if mClientIp session \<noteq> clientIp then throw (LoginException ''invalid ip'' name clientIp)
           else ret session)"

definition getSession ::
    "('tx, 'n, 'c, 'w) env \<Rightarrow> string \<Rightarrow> string \<Rightarrow> (('c, 'w) app, session) m" where
  "getSession env serializedJwtToken clientIp =
     signature_guard env serializedJwtToken
       (bind_m (outcome_of (signer_verify (jwt env) (g_JwtVerifySecret (cfg env)) serializedJwtToken)) (\<lambda>token.
        bind_m (outcome_of (payload_getValue (jwt env) (tk_payload token) ''name'')) (\<lambda>name.
        session_for env name clientIp)))"

text \<open>The overload for a connection token, which names the user itself.\<close>

definition getSession_username ::
    "('tx, 'n, 'c, 'w) env \<Rightarrow> string \<Rightarrow> string \<Rightarrow> string \<Rightarrow> (('c, 'w) app, session) m" where
  "getSession_username env serializedJwtToken username clientIp =
     signature_guard env serializedJwtToken
       (bind_m (outcome_of (signer_verify (jwt env) (g_JwtVerifySecret (cfg env)) serializedJwtToken)) (\<lambda>token.
        if tk_subject token \<noteq> ''openConnection''
        then throw (SessionException ''wrong token'' (tk_subject token))
        else session_for env username clientIp))"

subsection \<open>Lemmas\<close>

text \<open>The lookup at the time of the state.\<close>

abbreviation lookup_session ::
    "('tx, 'n, 'c, 'w) env \<Rightarrow> string \<Rightarrow> ('c, 'w) app \<Rightarrow> session option \<times> 'c" where
  "lookup_session env k a \<equiv> cache_get (caches env) (clock (svc env) (world a)) k (mActiveSessions a)"

lemma sessions_get_run [run_simps]:
  "lookup_session env k a = (r, c) \<Longrightarrow> sessions_get env k a = (Ret r, a\<lparr>mActiveSessions := c\<rparr>)"
  by (simp add: sessions_get_def within_def)

lemma sessions_get_iff:
  "sessions_get env k a = (r, b) \<longleftrightarrow>
     (\<exists>f c. lookup_session env k a = (f, c) \<and> r = Ret f \<and> b = a\<lparr>mActiveSessions := c\<rparr>)"
  by (auto simp: sessions_get_def within_def split: prod.splits)

lemma sessions_add_run [run_simps]:
  "sessions_add env k s a =
     (Ret (), a\<lparr>mActiveSessions := cache_add (caches env) (clock (svc env) (world a)) k s (mActiveSessions a)\<rparr>)"
  by (simp add: sessions_add_def)

lemma sessions_keeps [keeps]:
  "stays same_log (sessions_get env k)" "stays same_log (sessions_add env k s)"
  "stays (shared_steps env) (sessions_get env k)"
  by (auto intro!: staysI r_into_rtranclp looks simp: sessions_get_iff sessions_add_run same_log_def)

lemma sessions_add_keeps: "session_made env k s \<Longrightarrow> stays (shared_steps env) (sessions_add env k s)"
  by (auto intro!: staysI r_into_rtranclp stores simp: sessions_add_run)

lemma session_for_keeps [keeps]:
  "stays same_log (session_for env name ip)"
  "stays (shared_steps env) (session_for env name ip)"
  unfolding session_for_def by (intro keeps)+

lemma getSession_keeps [keeps]:
  "stays same_log (getSession env tok ip)"
  "stays same_log (getSession_username env tok u ip)"
  "stays (shared_steps env) (getSession env tok ip)"
  "stays (shared_steps env) (getSession_username env tok u ip)"
  unfolding getSession_def getSession_username_def signature_guard_def by (intro keeps)+

lemma open_session_keeps:
  assumes "others_step env"
  shows "stays (shared_steps env) (open_session env u pw ga ip)"
proof -
  have new: "stays (shared_steps env)
      (bind_m (loginOrCreate env u pw ga ip new_Session) (\<lambda>r.
       bind_m (sessions_add env u (snd r)) (\<lambda>_. ret (snd r))))"
    by (rule steps.stays_bind_Ret [OF loginOrCreate_keeps [OF assms]])
      (force intro: keeps sessions_add_keeps loginOrCreate_made)
  show ?thesis
    unfolding open_session_def by (rule steps.stays_bind [OF sessions_keeps(3)]) (auto intro: keeps new split: option.split)
qed

lemma login_keeps: "others_step env \<Longrightarrow> stays (shared_steps env) (login env u pw ga ip)"
  unfolding login_def by (intro keeps open_session_keeps)

lemma session_for_Ret:
  "session_for env name ip a = (Ret s, b) \<longleftrightarrow>
     (\<exists>c. lookup_session env name a = (Some s, c) \<and> mClientIp s = ip \<and>
        b = a\<lparr>mActiveSessions := c\<rparr>)"
  by (auto simp: session_for_def bind_Ret_iff sessions_get_iff split: option.splits if_splits)

lemma signature_guard_Ret: "signature_guard env tok p a = (Ret s, b) \<longleftrightarrow> p a = (Ret s, b)"
  by (auto simp: signature_guard_def try_Ret_iff split: if_splits)

lemma outcome_of_iff: "outcome_of r a = (x, b) \<longleftrightarrow> r = x \<and> b = a"
  by auto

text \<open>
  What the code relies on in the two libraries: the cache gives back an entry exactly as
  long as it has lived less than its life since it was added or last read, and a login
  token that was signed is verified, carries its name and is a text without NUL (JWT is
  base64url text).
\<close>

definition cache_law :: "('tx, 'n, 'c, 'w) env \<Rightarrow> bool" where
  "cache_law env \<longleftrightarrow>
     (\<forall>u s c t t'. t \<le> t' \<longrightarrow>
        fst (cache_get (caches env) t' u (cache_add (caches env) t u s c)) =
          (if t' < t + session_life env then Some s else None)) \<and>
     (\<forall>u s c c' t t'. cache_get (caches env) t u c = (Some s, c') \<and> t \<le> t' \<longrightarrow>
        fst (cache_get (caches env) t' u c') = (if t' < t + session_life env then Some s else None))"

definition token_law :: "('tx, 'n, 'c, 'w) env \<Rightarrow> bool" where
  "token_law env \<longleftrightarrow>
     (\<forall>t. CHR 0x00 \<notin> set (signer_sign (jwt env) (g_JwtVerifySecret (cfg env)) t)) \<and>
     (\<forall>u pk now. \<exists>t.
        signer_verify (jwt env) (g_JwtVerifySecret (cfg env))
          (signer_sign (jwt env) (g_JwtVerifySecret (cfg env)) (login_token env u pk now)) = Ret t \<and>
        payload_getValue (jwt env) (tk_payload t) ''name'' = Ret u)"

text \<open>What is stored under the name when the login or the opening of its session returns.\<close>

definition stored_until_expiry :: "('tx, 'n, 'c, 'w) env \<Rightarrow> string \<Rightarrow> session \<Rightarrow> ('c, 'w) app \<Rightarrow> bool" where
  "stored_until_expiry env u s b \<longleftrightarrow>
     (\<forall>w. clock (svc env) (world b) \<le> clock (svc env) w \<longrightarrow>
        fst (lookup_session env u (b\<lparr>world := w\<rparr>)) =
          (if clock (svc env) w < clock (svc env) (world b) + session_life env then Some s else None))"

lemma open_session_stores:
  assumes "open_session env u pw ga ip a = (Ret s, b)" and "cache_law env"
  shows "stored_until_expiry env u s b"
  using assms unfolding cache_law_def stored_until_expiry_def
  by (auto simp: open_session_def bind_Ret_iff sessions_get_iff sessions_add_run split: option.splits)

lemma login_stores_session:
  assumes login: "login env u pw ga ip a = (Ret tok, b)" and "cache_law env"
  shows "\<exists>s pk now. stored_until_expiry env u s b \<and> mClientIp s = ip \<and> getPublicKey s = Some pk \<and>
     tok = signer_sign (jwt env) (g_JwtVerifySecret (cfg env)) (login_token env u pk now)"
proof -
  from login obtain s pk now where
    "open_session env u pw ga ip a = (Ret s, b)" "mClientIp s = ip" "getPublicKey s = Some pk"
    "tok = signer_sign (jwt env) (g_JwtVerifySecret (cfg env)) (login_token env u pk now)"
    by (auto simp: login_def bind_Ret_iff split: if_splits option.splits)
  with open_session_stores [OF _ assms(2)] show ?thesis by blast
qed

text \<open>A login returns for a session that was active, or one it has just opened or created.\<close>

lemma login_session:
  assumes "login env u pw ga ip a = (Ret tok, b)"
  shows "\<exists>s. mClientIp s = ip \<and> getPublicKey s \<noteq> None \<and>
     ((\<exists>c. lookup_session env u a = (Some s, c)) \<or>
      (\<exists>secret n c. createKey (crypto env) u pw = Ret secret \<and>
         (created_with_backup env secret s \<or> opened_from_row env u secret s c)))"
proof -
  from assms obtain s where ses: "open_session env u pw ga ip a = (Ret s, b)" "mClientIp s = ip" "getPublicKey s \<noteq> None"
    by (auto simp: login_def bind_Ret_iff split: if_splits option.splits)
  then show ?thesis
    by (fastforce simp: open_session_def bind_Ret_iff sessions_get_iff split: option.splits
        dest!: loginOrCreate_Ret)
qed

subsection \<open>Properties\<close>

text \<open>
  C19. A request gets a session only with a token that verifies under the server's
  secret, and then it is the active session stored under the name in the token, opened
  from the same ip; nothing but the access times of the cache changes.
\<close>

theorem getSession_sound:
  "getSession env tok ip a = (Ret s, b) \<longleftrightarrow>
     (\<exists>token name c.
        signer_verify (jwt env) (g_JwtVerifySecret (cfg env)) tok = Ret token \<and>
        payload_getValue (jwt env) (tk_payload token) ''name'' = Ret name \<and>
        lookup_session env name a = (Some s, c) \<and>
        mClientIp s = ip \<and> b = a\<lparr>mActiveSessions := c\<rparr>)"
  by (auto simp: getSession_def signature_guard_Ret bind_Ret_iff session_for_Ret)

text \<open>
  The expiration, the issue time, the subject and the type of a token play no part
  in matching a request to a session: a token that verifies gives the same session
  whatever they are.
\<close>

lemma getSession_ignores_expiration:
  assumes "signer_verify (jwt env) (g_JwtVerifySecret (cfg env)) tok = Ret token"
    and "signer_verify (jwt env) (g_JwtVerifySecret (cfg env)) tok' = Ret token'"
    and "tk_payload token' = tk_payload token"
  shows "getSession env tok ip a = (Ret s, b) \<longleftrightarrow> getSession env tok' ip a = (Ret s, b)"
  using assms by (simp add: getSession_def signature_guard_Ret)

text \<open>
  C30. While a session is active under a user name, a login under that name from the
  session's ip succeeds with any password and any group alias, and gives a token for the
  key of the active session.
\<close>

theorem login_active_ignores_password:
  assumes "lookup_session env u a = (Some s, c)"
    and "mClientIp s = ip" and "getPublicKey s = Some pk"
  shows "login env u pw ga ip a =
           (Ret (signer_sign (jwt env) (g_JwtVerifySecret (cfg env))
                  (login_token env u pk (clock (svc env) (world a)))), a\<lparr>mActiveSessions := c\<rparr>)"
  using assms by (simp add: login_def open_session_def bind_run sessions_get_run)

theorem login_active_ignores_password_witness:
  "login demo ''al'' ''any'' ''other'' ''ip'' demo_state = (Ret ''al'', demo_state)"
proof -
  have 1: "lookup_session demo ''al'' demo_state = (Some demo_session, mActiveSessions demo_state)"
    by code_simp
  have 2: "mClientIp demo_session = ''ip''" "getPublicKey demo_session = Some ''keya''" by code_simp+
  have 3: "signer_sign (jwt demo) (g_JwtVerifySecret (cfg demo))
      (login_token demo ''al'' ''keya'' (clock (svc demo) (world demo_state))) = ''al''" by code_simp
  from login_active_ignores_password [OF 1 2, of "''any''" "''other''"] 3 show ?thesis by simp
qed

end
