(* ===== verification/Transactions.thy ===== *)
theory Transactions
  imports NodeRPC SessionManager
begin

section \<open>JsonTransaction: the base of the transaction handlers\<close>

text \<open>
  The request handlers that build and send a transaction read the shared parameters and
  find the session first, and sign, validate, send and record the transaction last.
  The handler object lives for one request; its members are the record
  \<^verbatim>\<open>json_transaction\<close>, passed along.
\<close>

record request =
  rq_params :: json
  rq_jwtToken :: string
  rq_clientIp :: string

record json_transaction =
  mMemo :: string
  mCreated :: int
  mApolloTransactionId :: u64
  mApolloCreatedDecay :: string
  mApolloDecayStart :: int
  mArchiveTransaction :: bool
  mTransactionNr :: u64
  mSession :: "session option"

text \<open>The constructor; the dates are default constructed, at the current time.\<close>

definition new_JsonTransaction :: "int \<Rightarrow> json_transaction" where
  "new_JsonTransaction now = \<lparr>mMemo = [], mCreated = now, mApolloTransactionId = 0,
     mApolloCreatedDecay = [], mApolloDecayStart = now, mArchiveTransaction = False,
     mTransactionNr = 0, mSession = None\<rparr>"

text \<open>An optional parameter: the error answer is dropped and the variable keeps its value.\<close>

definition optString :: "('tx, 'n, 'c, 'w) env \<Rightarrow> json \<Rightarrow> string \<Rightarrow> string \<Rightarrow> string" where
  "optString env params name old =
     (case getStringParameter (pars env) params name of Inl _ \<Rightarrow> old | Inr v \<Rightarrow> v)"

definition optUInt64 :: "('tx, 'n, 'c, 'w) env \<Rightarrow> json \<Rightarrow> string \<Rightarrow> u64 \<Rightarrow> u64" where
  "optUInt64 env params name old =
     (case getUInt64Parameter (pars env) params name of Inl _ \<Rightarrow> old | Inr v \<Rightarrow> v)"

text \<open>The error answer of a parameter that is needed.\<close>

definition answer_of :: "string \<times> detail \<Rightarrow> document" where
  "answer_of e = StateError (fst e) (snd e)"

lemma answer_of_simps [simp]:
  "IsObject (answer_of e)" "answer_of e \<noteq> NullDocument" "is_error (answer_of e)"
  by (simp_all add: answer_of_def)

subsection \<open>readSharedParameter\<close>

text \<open>
  \<^verbatim>\<open>try { parse } catch (Poco::Exception&)\<close>: the date, or the answer.
\<close>

definition parse_date ::
    "('tx, 'n, 'c, 'w) env \<Rightarrow> string \<Rightarrow> string \<Rightarrow> (('c, 'w) app, document + int) m" where
  "parse_date env msg text =
     try_m
       (bind_m (outcome_of (parseDateTime (times env) text (tzd (times env)))) (\<lambda>t. ret (Inr t)))
       (\<lambda>e. if instance_of (isa_of env) PocoException e
            then ret (Inl (StateError msg (DetailText (exn_what e)))) else throw e)"

text \<open>\<^verbatim>\<open>Timespan(DateTime() - mCreated).totalSeconds() > 60 * 60 * 60 && mTransactionNr\<close>.\<close>

definition is_archive :: "('tx, 'n, 'c, 'w) env \<Rightarrow> int \<Rightarrow> json_transaction \<Rightarrow> bool" where
  "is_archive env now jt \<longleftrightarrow>
     totalSeconds (times env) (now - mCreated jt) > 60 * 60 * 60 \<and> mTransactionNr jt \<noteq> 0"

text \<open>The session of the request, or the answer for the three exceptions that are caught.\<close>

definition find_session ::
    "('tx, 'n, 'c, 'w) env \<Rightarrow> request \<Rightarrow> (('c, 'w) app, document + session) m" where
  "find_session env rq =
     try_m
       (bind_m (getSession env (rq_jwtToken rq) (rq_clientIp rq)) (\<lambda>s. ret (Inr s)))
       (\<lambda>e. if instance_of (isa_of env) JwtTokenException e then ret (Inl (stateError ''invalid jwt token''))
            else if is_LoginException e then ret (Inl (stateError (exn_what e)))
            else if is_SessionException e then ret (Inl (stateError (exn_what e)))
            else throw e)"

text \<open>Answers with the null document when nothing is wrong.\<close>

definition readSharedParameter ::
    "('tx, 'n, 'c, 'w) env \<Rightarrow> request \<Rightarrow> json_transaction \<Rightarrow>
       (('c, 'w) app, document \<times> json_transaction) m" where
  "readSharedParameter env rq jt =
     (let params = rq_params rq;
          jt = jt\<lparr>mMemo := optString env params ''memo'' (mMemo jt)\<rparr>;
          apollo_decay_start_string = optString env params ''apolloDecayStart'' [] in
      case getStringParameter (pars env) params ''created'' of
        Inl paramError \<Rightarrow> ret (answer_of paramError, jt)
      | Inr created_string \<Rightarrow>
          bind_m (parse_date env ''cannot parse created'' created_string) (\<lambda>r.
          case r of
            Inl err \<Rightarrow> ret (err, jt)
          | Inr t \<Rightarrow>
              (let jt = jt\<lparr>mCreated := t\<rparr> in
               bind_m (if apollo_decay_start_string \<noteq> []
                       then parse_date env ''cannot parse apollo decay start'' apollo_decay_start_string
                       else ret (Inr (mApolloDecayStart jt))) (\<lambda>r.
               case r of
                 Inl err \<Rightarrow> ret (err, jt)
               | Inr d \<Rightarrow>
                   (let jt = jt\<lparr>mApolloDecayStart := d,
                               mApolloTransactionId := optUInt64 env params ''apolloTransactionId'' (mApolloTransactionId jt),
                               mTransactionNr := optUInt64 env params ''transactionNr'' (mTransactionNr jt),
                               mApolloCreatedDecay := optString env params ''apolloCreatedDecay'' (mApolloCreatedDecay jt)\<rparr> in
                    bind_m (gets (\<lambda>a. clock (svc env) (world a))) (\<lambda>now.
                    (let jt = (if is_archive env now jt then jt\<lparr>mArchiveTransaction := True\<rparr> else jt) in
                     bind_m (find_session env rq) (\<lambda>r.
                     case r of
                       Inl err \<Rightarrow> ret (err, jt)
                     | Inr session \<Rightarrow> ret (NullDocument, jt\<lparr>mSession := Some session\<rparr>)))))))))"

subsection \<open>validateApolloDecay\<close>

definition decay_pubkey :: "('tx, 'n, 'c, 'w) env \<Rightarrow> 'tx \<Rightarrow> string option" where
  "decay_pubkey env tx =
     (if isCreation (txs env) tx then Some (binToHex (conv env) (getRecipientPublicKeyString (txs env) tx))
      else if isTransfer (txs env) tx \<or> isDeferredTransfer (txs env) tx
      then Some (binToHex (conv env) (getSenderPublicKeyString (txs env) tx))
      else None)"

definition validateApolloDecay ::
    "('tx, 'n, 'c, 'w) env \<Rightarrow> json_transaction \<Rightarrow> 'tx \<Rightarrow> (('c, 'w) app, bool) m" where
  "validateApolloDecay env jt tx =
     (case decay_pubkey env tx of
        None \<Rightarrow> ret True
      | Some pubkeyHex \<Rightarrow>
          (case mSession jt of
             None \<Rightarrow> undef
           | Some session \<Rightarrow>
               bind_m (getAddressBalance env pubkeyHex
                         (formatDateTime (times env) (mApolloDecayStart jt)) (mGroupAlias session) []) (\<lambda>startBalanceString.
               case mpfr_set_str (nums env) startBalanceString of
                 None \<Rightarrow> throw (GradidoNodeRPCException (c_str (''invalid balance string '' @ startBalanceString)) [])
               | Some startBalance \<Rightarrow>
                   (let decayFactor = calculateDecayFactorForDuration (nums env) (mApolloDecayStart jt) (mCreated jt);
                        endBalance = calculateDecayFast (nums env) decayFactor startBalance;
                        nodeDecay = mpfr_sub (nums env) startBalance endBalance in
                    case mpfr_set_str (nums env) (mApolloCreatedDecay jt) of
                      None \<Rightarrow> throw (LibException TransactionValidationInvalidInputException
                                ''cannot parse to number'' ''apolloCreatedDecay'')
                    | Some apolloDecay \<Rightarrow>
                        (let diff = mpfr_abs (nums env) (mpfr_sub (nums env) apolloDecay nodeDecay) in
                         if mpfr_cmp_d (nums env) diff ''0.00001'' \<ge> 0
                         then throw (ApolloDecayException
                                ''apollo decay deviates more than 0.00001 from Gradido Node decay''
                                startBalanceString (amountToString (nums env) apolloDecay))
                         else ret True)))))"

subsection \<open>signAndSendTransaction\<close>

text \<open>
  The text of a library exception made here is the field it names.  Sending: an archive
  transaction goes to the Gradido Node directly, under the hash of its bytes as message
  id; any other goes to iota.
\<close>

definition send_raw ::
    "('tx, 'n, 'c, 'w) env \<Rightarrow> json_transaction \<Rightarrow> bytes \<Rightarrow> string \<Rightarrow> (('c, 'w) app, string) m" where
  "send_raw env jt raw_message groupAlias =
     (if mArchiveTransaction jt then
        (let message_id = binToHex (conv env) (generichash (crypto env) raw_message) in
         bind_m (putTransaction env (binToBase64 (conv env) raw_message) (mTransactionNr jt) groupAlias) (\<lambda>_.
         ret message_id))
      else
        (let hex_message = binToHex (conv env) raw_message;
             index = ''GRADIDO.'' @ groupAlias in
         on_world (iotaSendMessage (svc env) (binToHex (conv env) index) hex_message)))"

definition pushNew ::
    "('tx, 'n, 'c, 'w) env \<Rightarrow> json_transaction \<Rightarrow> 'tx \<Rightarrow> string \<Rightarrow> (('c, 'w) app, unit) m" where
  "pushNew env jt tx messageId =
     modify (\<lambda>a. a\<lparr>mPendingTransactions :=
       pushNewTransaction
         (PendingTransaction (clock (svc env) (world a)) messageId (getTransactionType (txs env) tx)
            (mApolloCreatedDecay jt) (mApolloDecayStart jt) (mApolloTransactionId jt))
         (mPendingTransactions a)\<rparr>)"

definition signAndSendTransaction ::
    "('tx, 'n, 'c, 'w) env \<Rightarrow> json_transaction \<Rightarrow> 'tx \<Rightarrow> string \<Rightarrow> (('c, 'w) app, string) m" where
  "signAndSendTransaction env jt tx groupAlias =
     (let tx = updateBodyBytes (txs env) (setCreated (txs env) (setMemo (txs env) tx (mMemo jt)) (mCreated jt)) in
      case mSession jt of
        None \<Rightarrow> undef
      | Some session \<Rightarrow>
          bind_m (signTransaction env session tx) (\<lambda>signed.
          case signed of
            None \<Rightarrow> throw (LibException Ed25519SignException ''cannot sign transaction'' [])
          | Some tx \<Rightarrow>
              bind_m (outcome_of (validate (txs env) tx)) (\<lambda>_.
              if \<not> isValidGroupAlias (conv env) groupAlias
              then throw (LibException TransactionValidationInvalidInputException ''invalid group alias'' ''groupAlias'')
              else
                bind_m (if mApolloCreatedDecay jt \<noteq> [] then validateApolloDecay env jt tx else ret True) (\<lambda>_.
                bind_m (send_raw env jt (getSerialized (txs env) tx) groupAlias) (\<lambda>iotaMessageId.
                bind_m (pushNew env jt tx iotaMessageId) (\<lambda>_.
                ret iotaMessageId))))))"

subsection \<open>The answer for an exception\<close>

definition handleSignAndSendTransactionExceptions ::
    "('tx, 'n, 'c, 'w) env \<Rightarrow> exn \<Rightarrow> (('c, 'w) app, document) m" where
  "handleSignAndSendTransactionExceptions env e =
     (if instance_of (isa_of env) TransactionValidationInvalidSignatureException e
      then ret (stateError ''Internal Server Error'')
      else if instance_of (isa_of env) TransactionValidationInvalidInputException e
      then ret (StateError ''transaction validation failed'' (DetailOf e))
      else if instance_of (isa_of env) IotaRequestException e
      then ret (StateError ''error by calling iota'' (DetailOf e))
      else if instance_of (isa_of env) RequestResponseErrorException e
      then ret (StateError ''request response exception'' (DetailOf e))
      else if instance_of (isa_of env) RapidjsonParseErrorException e
      then ret (StateError ''error by calling iota'' (DetailOf e))
      else if instance_of (isa_of env) Ed25519SignException e
      then ret (stateError ''Internal Server Error'')
      else if is_GradidoNodeRPCException e
      then ret (StateError ''error by requesting Gradido Node'' (DetailText (getFullString e)))
      else if is_ApolloDecayException e
      then ret (StateError ''error with apollo decay'' (DetailOf e))
      else throw e)"

text \<open>The details of a decay exception in the answer.\<close>

definition ApolloDecayException_getDetails :: "string \<Rightarrow> string \<Rightarrow> string \<Rightarrow> json" where
  "ApolloDecayException_getDetails w startBalance decay =
     JObject [(''what'', JString (c_str w)), (''startBalance'', JString (c_str startBalance)),
              (''decay'', JString (c_str decay))]"

subsection \<open>Memos\<close>

definition encryptMemo ::
    "('tx, 'n, 'c, 'w) env \<Rightarrow> string \<Rightarrow> bytes \<Rightarrow> bytes \<Rightarrow> (('c, 'w) app, string) m" where
  "encryptMemo env memo ed25519Pubkey ed25519Privkey =
     bind_m (outcome_of (authEncrypt (crypto env) ed25519Privkey ed25519Pubkey memo)) (\<lambda>encryptedMemoBin.
     ret (binToBase64 (conv env) encryptedMemoBin))"

definition decryptMemo ::
    "('tx, 'n, 'c, 'w) env \<Rightarrow> string \<Rightarrow> bytes \<Rightarrow> bytes \<Rightarrow> (('c, 'w) app, string) m" where
  "decryptMemo env base64EncodedEncryptedMemo ed25519Pubkey ed25519Privkey =
     bind_m (outcome_of (base64ToBin (conv env) base64EncodedEncryptedMemo)) (\<lambda>encryptedMemoBin.
     case authDecrypt (crypto env) ed25519Privkey ed25519Pubkey encryptedMemoBin of
       None \<Rightarrow> ret []
     | Some clearMemo \<Rightarrow> ret clearMemo)"

subsection \<open>Two groups\<close>

text \<open>
  A transaction that moves between groups is sent twice: the outbound half to the group
  it leaves, then the inbound half, with the message id of the first as its parent, to
  the group it enters.
\<close>

definition send_cross_group ::
    "('tx, 'n, 'c, 'w) env \<Rightarrow> json_transaction \<Rightarrow> 'tx \<Rightarrow> string \<Rightarrow> string \<Rightarrow> (('c, 'w) app, string) m" where
  "send_cross_group env jt baseTransaction leaving entering =
     bind_m (outcome_of (createOutboundTransaction (txs env) baseTransaction entering)) (\<lambda>outbound.
     bind_m (signAndSendTransaction env jt outbound leaving) (\<lambda>lastIotaMessageId.
     bind_m (outcome_of (createInboundTransaction (txs env) baseTransaction leaving)) (\<lambda>inbound.
     signAndSendTransaction env jt
       (setParentMessageId (txs env) inbound (hexToBin (conv env) lastIotaMessageId)) entering)))"

subsection \<open>Lemmas\<close>

lemma shared_keeps [keeps]:
  "stays same_log (parse_date env msg t)"
  "stays same_log (find_session env rq)"
  "stays same_log (readSharedParameter env rq jt)"
  "stays (shared_steps env) (parse_date env msg t)"
  "stays (shared_steps env) (find_session env rq)"
  "stays (shared_steps env) (readSharedParameter env rq jt)"
  unfolding parse_date_def find_session_def readSharedParameter_def Let_def
  by (intro keeps)+

lemma sign_keeps [keeps]:
  "stays only_world (signTransaction env s tx)"
  "stays only_world (validateApolloDecay env jt tx)"
  "stays only_world (send_raw env jt raw ga)"
  "stays only_world (handleSignAndSendTransactionExceptions env e)"
  "stays only_world (encryptMemo env memo pk sk)"
  "stays only_world (decryptMemo env memo pk sk)"
  unfolding signTransaction_def validateApolloDecay_def send_raw_def
    handleSignAndSendTransactionExceptions_def encryptMemo_def decryptMemo_def Let_def
  by (intro keeps)+

lemmas sign_same_log [keeps] = sign_keeps [THEN only_world_same_log]
lemmas sign_steps [keeps] = sign_keeps [THEN only_world_steps]

lemma pushNew_run [run_simps]:
  "pushNew env jt tx i a =
     (Ret (), a\<lparr>mPendingTransactions :=
       pushNewTransaction
         (PendingTransaction (clock (svc env) (world a)) i (getTransactionType (txs env) tx)
            (mApolloCreatedDecay jt) (mApolloDecayStart jt) (mApolloTransactionId jt))
         (mPendingTransactions a)\<rparr>)"
  by (simp add: pushNew_def)

lemma pushNew_keeps [keeps]: "stays (shared_steps env) (pushNew env jt tx i)"
  by (rule staysI) (auto simp: pushNew_run PendingTransaction_def intro!: r_into_rtranclp pushes)

lemma signAndSend_keeps [keeps]: "stays (shared_steps env) (signAndSendTransaction env jt tx ga)"
  unfolding signAndSendTransaction_def Let_def by (intro keeps)

text \<open>The transaction that is signed: with the memo and the date of the request.\<close>

definition prepared :: "('tx, 'n, 'c, 'w) env \<Rightarrow> json_transaction \<Rightarrow> 'tx \<Rightarrow> 'tx" where
  "prepared env jt tx = updateBodyBytes (txs env) (setCreated (txs env) (setMemo (txs env) tx (mMemo jt)) (mCreated jt))"

text \<open>The check of the decay the caller computed, when there is one.\<close>

definition decay_check :: "('tx, 'n, 'c, 'w) env \<Rightarrow> json_transaction \<Rightarrow> 'tx \<Rightarrow> (('c, 'w) app, bool) m" where
  "decay_check env jt tx = (if mApolloCreatedDecay jt \<noteq> [] then validateApolloDecay env jt tx else ret True)"

text \<open>Everything up to the message id; what follows only records it.\<close>

definition sending ::
    "('tx, 'n, 'c, 'w) env \<Rightarrow> json_transaction \<Rightarrow> 'tx \<Rightarrow> string \<Rightarrow> (('c, 'w) app, 'tx \<times> string) m" where
  "sending env jt tx groupAlias =
     (case mSession jt of
        None \<Rightarrow> undef
      | Some session \<Rightarrow>
          bind_m (signTransaction env session (prepared env jt tx)) (\<lambda>signed.
          case signed of
            None \<Rightarrow> throw (LibException Ed25519SignException ''cannot sign transaction'' [])
          | Some tx \<Rightarrow>
              bind_m (outcome_of (validate (txs env) tx)) (\<lambda>_.
              if \<not> isValidGroupAlias (conv env) groupAlias
              then throw (LibException TransactionValidationInvalidInputException ''invalid group alias'' ''groupAlias'')
              else
                bind_m (decay_check env jt tx) (\<lambda>_.
                bind_m (send_raw env jt (getSerialized (txs env) tx) groupAlias) (\<lambda>i. ret (tx, i))))))"

lemma signAndSend_eq:
  "signAndSendTransaction env jt tx ga =
     bind_m (sending env jt tx ga) (\<lambda>(tx, i). bind_m (pushNew env jt tx i) (\<lambda>_. ret i))"
  by (rule ext) (simp add: signAndSendTransaction_def sending_def decay_check_def prepared_def Let_def bind_m_def
      split: option.split prod.split outcome.split)

lemma decay_check_keeps [keeps]: "stays only_world (decay_check env jt tx)"
  unfolding decay_check_def by (intro keeps)

lemma sending_keeps [keeps]: "stays only_world (sending env jt tx ga)"
  unfolding sending_def by (intro keeps)

lemma sending_Ret:
  "sending env jt tx ga a = (Ret (stx, i), f) \<longleftrightarrow>
     (\<exists>session v c d e.
        mSession jt = Some session \<and>
        signTransaction env session (prepared env jt tx) a = (Ret (Some stx), c) \<and>
        validate (txs env) stx = Ret v \<and> isValidGroupAlias (conv env) ga \<and>
        decay_check env jt stx c = (Ret d, e) \<and>
        send_raw env jt (getSerialized (txs env) stx) ga e = (Ret i, f))"
  by (fastforce simp: sending_def bind_Ret_iff split: option.splits if_splits)

lemma send_cross_group_keeps [keeps]: "stays (shared_steps env) (send_cross_group env jt base leaving entering)"
  unfolding send_cross_group_def by (intro keeps)

lemma only_world_log: "only_world s t \<Longrightarrow> mPendingTransactions t = mPendingTransactions s"
  unfolding only_world_def by (metis app.select_convs(2) app.surjective app.update_convs(4))

lemma handleSign_error:
  "handleSignAndSendTransactionExceptions env e s = (Ret d, t) \<Longrightarrow> is_error d \<and> t = s"
  by (auto simp: handleSignAndSendTransactionExceptions_def split: if_splits)

lemma handleSign_rethrows:
  "handleSignAndSendTransactionExceptions env e s = (Throw e', t) \<Longrightarrow> e' = e \<and> t = s"
  by (auto simp: handleSignAndSendTransactionExceptions_def split: if_splits)

lemma handleSign_not_undef: "handleSignAndSendTransactionExceptions env e s \<noteq> (Undef, t)"
  by (simp add: handleSignAndSendTransactionExceptions_def)

lemma parse_date_Ret:
  "parse_date env msg text a = (Ret (Inr t), b) \<longleftrightarrow>
     parseDateTime (times env) text (tzd (times env)) = Ret t \<and> b = a"
  by (auto simp: parse_date_def run_iffs split: if_splits)

lemma parse_date_run [run_simps]:
  "parseDateTime (times env) text (tzd (times env)) = Ret t \<Longrightarrow> parse_date env msg text a = (Ret (Inr t), a)"
  by (simp add: parse_date_Ret)

lemma parse_date_Inl:
  "parse_date env msg text a = (Ret (Inl d), b) \<Longrightarrow> is_error d \<and> b = a"
  by (auto simp: parse_date_def run_iffs split: if_splits)

lemma find_session_Inr:
  "find_session env rq a = (Ret (Inr s), b) \<longleftrightarrow> getSession env (rq_jwtToken rq) (rq_clientIp rq) a = (Ret s, b)"
  by (auto simp: find_session_def run_iffs split: if_splits)

lemma find_session_Inl:
  "find_session env rq a = (Ret (Inl d), b) \<Longrightarrow> is_error d"
  by (auto simp: find_session_def run_iffs split: if_splits)

lemma readShared_error:
  "readSharedParameter env rq jt a = (Ret (d, jt'), b) \<Longrightarrow> d = NullDocument \<or> is_error d"
  by (auto simp: readSharedParameter_def Let_def ret_iffs split: sum.split_asm if_split_asm
      dest: parse_date_Inl find_session_Inl)

text \<open>Which service each step asks: replacing another one makes no difference.\<close>

lemma iota_not_used:
  fixes env :: "('tx, 'n, 'c, 'w) env"
  defines "env' f \<equiv> env\<lparr>svc := (svc env)\<lparr>iotaSendMessage := f\<rparr>\<rparr>"
  shows "signTransaction (env' f) s tx = signTransaction env s tx"
    "validateApolloDecay (env' f) jt tx = validateApolloDecay env jt tx"
    "pushNew (env' f) jt tx i = pushNew env jt tx i"
    "mArchiveTransaction jt \<Longrightarrow> send_raw (env' f) jt raw ga = send_raw env jt raw ga"
  by (simp_all add: env'_def signTransaction_def validateApolloDecay_def decay_pubkey_def pushNew_def
      getAddressBalance_def rpc_request_def send_raw_def putTransaction_def
      handleGradidoNodeRpcException_def [abs_def] Let_def cong: option.case_cong if_cong)

lemma node_put_not_used:
  fixes env :: "('tx, 'n, 'c, 'w) env"
  defines "env' g \<equiv> env\<lparr>svc := (svc env)\<lparr>nodeRequest := (nodeRequest (svc env))(''puttransaction'' := g)\<rparr>\<rparr>"
  shows "signTransaction (env' g) s tx = signTransaction env s tx"
    "validateApolloDecay (env' g) jt tx = validateApolloDecay env jt tx"
    "pushNew (env' g) jt tx i = pushNew env jt tx i"
    "\<not> mArchiveTransaction jt \<Longrightarrow> send_raw (env' g) jt raw ga = send_raw env jt raw ga"
  by (simp_all add: env'_def signTransaction_def validateApolloDecay_def decay_pubkey_def pushNew_def
      getAddressBalance_def rpc_request_def send_raw_def putTransaction_def
      handleGradidoNodeRpcException_def [abs_def] Let_def cong: option.case_cong if_cong)

subsection \<open>Concrete inputs\<close>

definition demo_jt :: json_transaction where
  "demo_jt = (new_JsonTransaction 1000)\<lparr>mSession := Some demo_session\<rparr>"

definition demo_request :: request where
  "demo_request = \<lparr>rq_params = JObject [(''memo'', JString ''hello''), (''created'', JString ''2022''),
     (''recipientName'', JString ''bob''), (''amount'', JString ''10''), (''targetDate'', JString ''2022''),
     (''addressType'', JString ''human'')], rq_jwtToken = ''al'', rq_clientIp = ''ip''\<rparr>"

subsection \<open>Properties\<close>

text \<open>
  C7. When a transaction is signed and sent, the signed transaction has passed the
  validation call, the group alias is valid, the message id is the one the transport
  gave, and the pending transactions have become the old ones with exactly one new entry
  pushed: state SENDED, that message id, that transaction's type.
\<close>

theorem signAndSendTransaction_success:
  assumes "signAndSendTransaction env jt tx ga a = (Ret i, b)"
  shows "\<exists>session stx v c d e f.
     mSession jt = Some session \<and>
     signTransaction env session (prepared env jt tx) a = (Ret (Some stx), c) \<and>
     validate (txs env) stx = Ret v \<and>
     isValidGroupAlias (conv env) ga \<and>
     decay_check env jt stx c = (Ret d, e) \<and>
     send_raw env jt (getSerialized (txs env) stx) ga e = (Ret i, f) \<and>
     only_world a f \<and>
     (\<exists>p. b = f\<lparr>mPendingTransactions := pushNewTransaction p (mPendingTransactions a)\<rparr> \<and>
          iotaMessageId p = i \<and> pt_state p = SENDED \<and>
          transactionType p = getTransactionType (txs env) stx)"
proof -
  from assms obtain stx f where send: "sending env jt tx ga a = (Ret (stx, i), f)"
    and push: "pushNew env jt stx i f = (Ret (), b)"
    by (auto simp: signAndSend_eq bind_Ret_iff split: prod.splits)
  have world: "only_world a f" using send by (rule staysD [OF sending_keeps])
  then have log: "mPendingTransactions f = mPendingTransactions a" by (rule only_world_log)
  have "\<exists>p. b = f\<lparr>mPendingTransactions := pushNewTransaction p (mPendingTransactions a)\<rparr> \<and>
          iotaMessageId p = i \<and> pt_state p = SENDED \<and>
          transactionType p = getTransactionType (txs env) stx"
    using push log by (intro exI conjI) (auto simp: pushNew_run PendingTransaction_def)
  with send world show ?thesis unfolding sending_Ret by blast
qed

theorem signAndSendTransaction_success_witness:
  "\<exists>b p. signAndSendTransaction demo demo_jt ''transfer'' ''gdd1'' demo_state = (Ret id64, b) \<and>
     mPendingTransactions b = [p] \<and> iotaMessageId p = id64 \<and> pt_state p = SENDED"
proof -
  have "fst (signAndSendTransaction demo demo_jt ''transfer'' ''gdd1'' demo_state) = Ret id64" by code_simp
  note run = runI [OF this]
  from signAndSendTransaction_success [OF run] obtain f p where
    "snd (signAndSendTransaction demo demo_jt ''transfer'' ''gdd1'' demo_state) =
       f\<lparr>mPendingTransactions := pushNewTransaction p (mPendingTransactions demo_state)\<rparr>"
    "iotaMessageId p = id64" "pt_state p = SENDED" by blast
  with run show ?thesis
    by (intro exI conjI) (auto simp: pushNewTransaction_eq demo_state_def MAX_PENDING_TRANSACTIONS_IN_LIST_def)
qed

text \<open>
  C29. When signing, validating or sending fails with an exception, no pending
  transaction is recorded: nothing but the outside world has changed.
\<close>

theorem signAndSendTransaction_failure:
  assumes "signAndSendTransaction env jt tx ga a = (Throw e, b)"
  shows "only_world a b"
proof -
  from assms have "sending env jt tx ga a = (Throw e, b)"
    by (auto simp: signAndSend_eq bind_Throw_iff pushNew_run)
  then show ?thesis by (rule staysD [OF sending_keeps])
qed

theorem signAndSendTransaction_failure_witness:
  "\<exists>b. signAndSendTransaction demo demo_jt ''transfer'' [] demo_state =
       (Throw (LibException TransactionValidationInvalidInputException ''invalid group alias'' ''groupAlias''), b) \<and>
     only_world demo_state b"
proof -
  have "fst (signAndSendTransaction demo demo_jt ''transfer'' [] demo_state) =
      Throw (LibException TransactionValidationInvalidInputException ''invalid group alias'' ''groupAlias'')" by code_simp
  note run = runI [OF this]
  with signAndSendTransaction_failure [OF run] show ?thesis by blast
qed

text \<open>
  C28. The decay check succeeds exactly when the transaction moves no decaying balance,
  or when the node answers with a balance that parses, the given decay parses, and the
  two decays differ by less than 0.00001: the difference between the start balance and
  what is left of it at the transaction's date is compared with the given decay.
\<close>

theorem validateApolloDecay_accepts:
  "validateApolloDecay env jt tx a = (Ret r, b) \<longleftrightarrow>
     r \<and>
     (decay_pubkey env tx = None \<and> b = a \<or>
      (\<exists>pubkey session balance start given.
         decay_pubkey env tx = Some pubkey \<and> mSession jt = Some session \<and>
         getAddressBalance env pubkey (formatDateTime (times env) (mApolloDecayStart jt))
           (mGroupAlias session) [] a = (Ret balance, b) \<and>
         mpfr_set_str (nums env) balance = Some start \<and>
         mpfr_set_str (nums env) (mApolloCreatedDecay jt) = Some given \<and>
         mpfr_cmp_d (nums env)
           (mpfr_abs (nums env) (mpfr_sub (nums env) given
              (mpfr_sub (nums env) start
                 (calculateDecayFast (nums env)
                    (calculateDecayFactorForDuration (nums env) (mApolloDecayStart jt) (mCreated jt)) start))))
           ''0.00001'' < 0))"
  by (auto simp: validateApolloDecay_def Let_def bind_Ret_iff split: option.split) force+

text \<open>
  An archive transaction never reaches iota, whatever iota would do, and a
  transaction that is not an archive transaction never reaches the node's
  \<^verbatim>\<open>puttransaction\<close>, whatever that would do.
\<close>

lemma transport_selection:
  "(mArchiveTransaction jt \<longrightarrow>
      signAndSendTransaction (env\<lparr>svc := (svc env)\<lparr>iotaSendMessage := f\<rparr>\<rparr>) jt tx ga =
      signAndSendTransaction env jt tx ga) \<and>
   (\<not> mArchiveTransaction jt \<longrightarrow>
      signAndSendTransaction
        (env\<lparr>svc := (svc env)\<lparr>nodeRequest := (nodeRequest (svc env))(''puttransaction'' := g)\<rparr>\<rparr>) jt tx ga =
      signAndSendTransaction env jt tx ga)"
  by (simp add: signAndSendTransaction_def Let_def iota_not_used node_put_not_used cong: option.case_cong if_cong)

text \<open>
  C27. When the shared parameters are read without an error answer, the request has the
  session its token and ip give, the date \<^verbatim>\<open>created\<close> parses to the transaction's
  date, and the transaction has become an archive transaction exactly when it has a
  transaction number and is more than 216000 seconds (60 hours) old.
\<close>

theorem readSharedParameter_ok:
  assumes "readSharedParameter env rq jt a = (Ret (NullDocument, jt'), b)"
  shows "\<exists>session created.
     getSession env (rq_jwtToken rq) (rq_clientIp rq) a = (Ret session, b) \<and> mSession jt' = Some session \<and>
     getStringParameter (pars env) (rq_params rq) ''created'' = Inr created \<and>
     parseDateTime (times env) created (tzd (times env)) = Ret (mCreated jt') \<and>
     (mArchiveTransaction jt' \<longleftrightarrow>
        mArchiveTransaction jt \<or>
        totalSeconds (times env) (clock (svc env) (world a) - mCreated jt') > 216000 \<and> mTransactionNr jt' \<noteq> 0)"
  using assms unfolding readSharedParameter_def Let_def ret_iffs
  by (auto simp: ret_iffs parse_date_Ret find_session_Inr is_archive_def dest!: parse_date_Inl find_session_Inl)

theorem readSharedParameter_ok_witness:
  "\<exists>jt. readSharedParameter demo demo_request (new_JsonTransaction 1000) demo_state = (Ret (NullDocument, jt), demo_state) \<and>
     mSession jt = Some demo_session \<and> \<not> mArchiveTransaction jt"
proof -
  let ?jt = "demo_jt\<lparr>mMemo := ''hello'', mCreated := 4\<rparr>"
  have run: "readSharedParameter demo demo_request (new_JsonTransaction 1000) demo_state = (Ret (NullDocument, ?jt), demo_state)"
    by code_simp
  have tot: "\<not> totalSeconds (times demo) (clock (svc demo) (world demo_state) - mCreated ?jt) > 216000" by code_simp
  have ses: "getSession demo (rq_jwtToken demo_request) (rq_clientIp demo_request) demo_state = (Ret demo_session, demo_state)"
    by code_simp
  from readSharedParameter_ok [OF run] ses tot
  have "mSession ?jt = Some demo_session \<and> \<not> mArchiveTransaction ?jt" by (auto simp: new_JsonTransaction_def)
  with run show ?thesis by blast
qed

end
