(* ===== verification/Handlers.thy ===== *)
theory Handlers
  imports Transactions
begin

section \<open>The interface of a request handler\<close>

text \<open>
  The server calls a handler with one request; what it relies on is stated here once.
  A handler answers with an object, never with the null document the shared code uses
  for "no error", and all it does to the shared state is a run of \<^const>\<open>shared_step\<close>s.  A
  transaction handler moreover succeeds only for a request with a session, and then the
  answer carries the id of the newest pending transaction.
\<close>

locale json_handler =
  fixes handle :: "request \<Rightarrow> (('c, 'w) app, document) m"
    and env :: "('tx, 'n, 'c, 'w) env"
  assumes answers: "handle rq a = (Ret d, b) \<Longrightarrow> IsObject d"
    and respects: "stays (shared_steps env) (handle rq)"
begin

lemma serve_keeps:
  "stays (shared_steps env) (each_m (\<lambda>rq. try_m (bind_m (handle rq) (\<lambda>_. ret ())) (\<lambda>_. ret ())) rqs)"
  by (intro steps.stays_each steps.stays_try steps.stays_bind steps.stays_pure respects)

lemma never_null: "handle rq a \<noteq> (Ret NullDocument, b)"
  using answers by force

text \<open>A confirmed entry stays confirmed, or leaves the list, whatever the request does.\<close>

lemma confirmed_stays:
  assumes "handle rq a = (r, b)"
  shows "pending_order (mPendingTransactions a) (mPendingTransactions b)"
  using staysD [OF respects assms] by (auto dest: steps_log_order simp: log_order_def)

end

locale transaction_handler = json_handler handle env
  for handle :: "request \<Rightarrow> (('c, 'w) app, document) m" and env :: "('tx, 'n, 'c, 'w) env" +
  assumes needs_session: "handle rq a = (Ret (StateSuccess ms), b) \<Longrightarrow>
      \<exists>s c. getSession env (rq_jwtToken rq) (rq_clientIp rq) a = (Ret s, c)"
    and records: "handle rq a = (Ret (StateSuccess ms), b) \<Longrightarrow>
      \<exists>ps p. mPendingTransactions b = pushNewTransaction p ps \<and>
        ms = [(''iotaMessageId'', JString (iotaMessageId p))] \<and> pt_state p = SENDED"
begin

text \<open>Without a session that fits the token and the ip there is no success.\<close>

lemma no_session_no_success:
  assumes "\<And>s c. getSession env (rq_jwtToken rq) (rq_clientIp rq) a \<noteq> (Ret s, c)"
  shows "handle rq a \<noteq> (Ret (StateSuccess ms), b)"
  using assms needs_session by blast

lemma newest_entry:
  assumes "handle rq a = (Ret (StateSuccess ms), b)"
  shows "mPendingTransactions b \<noteq> [] \<and>
     ms = [(''iotaMessageId'', JString (iotaMessageId (last (mPendingTransactions b))))] \<and>
     pt_state (last (mPendingTransactions b)) = SENDED"
  using records [OF assms] by (metis pushNewTransaction_last)

end

text \<open>
  What the interpretations have in common: the message id a sending program returns is
  that of the entry it pushed.
\<close>

definition pushes_id :: "(('c, 'w) app, string) m \<Rightarrow> bool" where
  "pushes_id p \<longleftrightarrow>
     (\<forall>a i b. p a = (Ret i, b) \<longrightarrow>
        (\<exists>ps q. mPendingTransactions b = pushNewTransaction q ps \<and> iotaMessageId q = i \<and> pt_state q = SENDED))"

lemma pushes_idD:
  "pushes_id p \<Longrightarrow> p a = (Ret i, b) \<Longrightarrow>
     \<exists>ps q. mPendingTransactions b = pushNewTransaction q ps \<and> iotaMessageId q = i \<and> pt_state q = SENDED"
  by (simp add: pushes_id_def)

lemma pushes_id_bind [intro]: "(\<And>x. pushes_id (f x)) \<Longrightarrow> pushes_id (bind_m p f)"
  by (auto simp: pushes_id_def bind_Ret_iff)

lemma pushes_id_if [intro]: "pushes_id p \<Longrightarrow> pushes_id q \<Longrightarrow> pushes_id (if b then p else q)"
  by simp

lemma signAndSend_pushes_id [intro, simp]: "pushes_id (signAndSendTransaction env jt tx ga)"
  unfolding signAndSend_eq pushes_id_def
  by (fastforce simp: bind_Ret_iff pushNew_run PendingTransaction_def split: prod.splits)

lemma send_cross_group_pushes_id [intro, simp]: "pushes_id (send_cross_group env jt base leaving entering)"
  unfolding send_cross_group_def by (intro pushes_id_bind signAndSend_pushes_id)

lemmas signAndSend_pushed = pushes_idD [OF signAndSend_pushes_id]
lemmas send_cross_group_pushed = pushes_idD [OF send_cross_group_pushes_id]

lemma readShared_session:
  "readSharedParameter env rq jt a = (Ret (NullDocument, jt'), b) \<Longrightarrow>
     \<exists>s c. getSession env (rq_jwtToken rq) (rq_clientIp rq) a = (Ret s, c)"
  by (auto simp: readSharedParameter_def Let_def ret_iffs parse_date_Ret find_session_Inr
      dest!: parse_date_Inl find_session_Inl)

end
