(* ===== verification/Creation.thy ===== *)
theory Creation
  imports Handlers
begin

section \<open>JsonCreationTransaction\<close>

text \<open>
  The handler of \<^verbatim>\<open>/creation\<close>: the parameters, the recipient, the checks with the
  Gradido Node (address type, at most 1000 in a month), and then sign and send.
\<close>

text \<open>The block \<^verbatim>\<open>if (!mArchiveTransaction)\<close>: an answer that ends the call, or None.\<close>

definition creation_checks ::
    "('tx, 'n, 'c, 'w) env \<Rightarrow> json_transaction \<Rightarrow> session \<Rightarrow> string \<Rightarrow> string \<Rightarrow> int \<Rightarrow>
       (('c, 'w) app, document option) m" where
  "creation_checks env jt session pubkeyHex amountString targetDate =
     bind_m (getAddressType env pubkeyHex (mGroupAlias session)) (\<lambda>addressType.
     if addressType \<noteq> getAddressStringFromType (conv env) ADDRESS_HUMAN then
       (if addressType = getAddressStringFromType (conv env) ADDRESS_NONE
        then ret (Some (stateError ''address isn't registered on blockchain''))
        else ret (Some (stateError ''address has the wrong type for creation'')))
     else
       bind_m (getCreationSumForMonth env pubkeyHex (dt_month (times env) targetDate) (dt_year (times env) targetDate)
                 (formatDateTime (times env) (mCreated jt)) (mGroupAlias session)) (\<lambda>sumString.
       case mpfr_set_str (nums env) sumString of
         None \<Rightarrow> throw (GradidoNodeRPCException (c_str (''cannot parse sum from Gradido Node: %s'' @ sumString)) [])
       | Some monthSum \<Rightarrow>
           (case mpfr_set_str (nums env) amountString of
              None \<Rightarrow> throw (LibException TransactionValidationInvalidInputException
                        ''amount cannot be parsed to a number'' ''amount'')
            | Some amount \<Rightarrow>
                if mpfr_cmp_d (nums env) (mpfr_add (nums env) monthSum amount) ''1000.0'' > 0
                then throw (LibException TransactionValidationInvalidInputException
                        ''creation more than 1.000 GDD per month not allowed'' ''amount'')
                else ret None)))"

text \<open>The second \<^verbatim>\<open>try\<close> block.\<close>

definition creation_send ::
    "('tx, 'n, 'c, 'w) env \<Rightarrow> json_transaction \<Rightarrow> session \<Rightarrow> bytes \<Rightarrow> string \<Rightarrow> string \<Rightarrow> int \<Rightarrow>
       (('c, 'w) app, document) m" where
  "creation_send env jt session publicKeyBin pubkeyHex amountString targetDate =
     bind_m (if \<not> mArchiveTransaction jt
             then creation_checks env jt session pubkeyHex amountString targetDate else ret None) (\<lambda>answer.
     case answer of
       Some d \<Rightarrow> ret d
     | None \<Rightarrow>
         bind_m (outcome_of (createTransactionCreation (txs env) (Some publicKeyBin) amountString targetDate)) (\<lambda>creation.
         bind_m (signAndSendTransaction env jt creation (mGroupAlias session)) (\<lambda>iotaMessageId.
         ret (success_with ''iotaMessageId'' (JString iotaMessageId)))))"

text \<open>
  The loading of the recipient throws when there is no row, so the null check after it
  has no case here.
\<close>

definition JsonCreationTransaction_handle ::
    "('tx, 'n, 'c, 'w) env \<Rightarrow> request \<Rightarrow> (('c, 'w) app, document) m" where
  "JsonCreationTransaction_handle env rq =
     bind_m (gets (\<lambda>a. clock (svc env) (world a))) (\<lambda>now.
     bind_m (readSharedParameter env rq (new_JsonTransaction now)) (\<lambda>r.
     case r of (paramError, jt) \<Rightarrow>
       if IsObject paramError then ret paramError
       else
         (case (mSession jt, getStringParameter (pars env) (rq_params rq) ''recipientName'') of
            (None, _) \<Rightarrow> undef
          | (Some _, Inl e) \<Rightarrow> ret (answer_of e)
          | (Some session, Inr recipientName) \<Rightarrow>
              (case getStringParameter (pars env) (rq_params rq) ''amount'' of
                 Inl e \<Rightarrow> ret (answer_of e)
               | Inr amountString \<Rightarrow>
                   (case getStringParameter (pars env) (rq_params rq) ''targetDate'' of
                      Inl e \<Rightarrow> ret (answer_of e)
                    | Inr targetDateString \<Rightarrow>
                        bind_m (parse_date env ''cannot parse targetDate'' targetDateString) (\<lambda>d.
                        case d of
                          Inl err \<Rightarrow> ret err
                        | Inr parsed \<Rightarrow>
                            bind_m (User_load env recipientName (mGroupId session)) (\<lambda>recipientUser.
                            (let targetDate = makeLocal (times env) parsed (tzd (times env));
                                 publicKeyBin = copyFromProtoBytes (conv env) 32 (u_PublicKey recipientUser);
                                 pubkeyHex = binToHex (conv env) publicKeyBin in
                             case mUserKeyPair session of
                               None \<Rightarrow> undef
                             | Some keyPair \<Rightarrow>
                                 bind_m (encryptMemo env (mMemo jt) publicKeyBin (kpPrivate keyPair)) (\<lambda>memo.
                                 try_m (creation_send env (jt\<lparr>mMemo := memo\<rparr>) session publicKeyBin pubkeyHex
                                          amountString targetDate)
                                   (handleSignAndSendTransactionExceptions env))))))))))"

subsection \<open>Lemmas\<close>

lemma creation_keeps [keeps]:
  "stays only_world (creation_checks env jt session pubkeyHex amountString targetDate)"
  "stays (shared_steps env) (creation_send env jt session pk pubkeyHex amountString targetDate)"
  "stays (shared_steps env) (JsonCreationTransaction_handle env rq)"
proof -
  show checks: "stays only_world (creation_checks env jt session pubkeyHex amountString targetDate)"
    for jt session pubkeyHex amountString targetDate
    unfolding creation_checks_def by (intro keeps)
  note keeps' = checks [THEN only_world_steps] keeps
  show send: "stays (shared_steps env) (creation_send env jt session pk pubkeyHex amountString targetDate)"
    for jt session pk pubkeyHex amountString targetDate
    unfolding creation_send_def by (intro keeps')
  show "stays (shared_steps env) (JsonCreationTransaction_handle env rq)"
    unfolding JsonCreationTransaction_handle_def Let_def prod.case_eq_if
    by (intro keeps send)
qed

lemma creation_checks_answer:
  "creation_checks env jt session pubkeyHex amountString targetDate a = (Ret (Some d), b) \<Longrightarrow>
     d = stateError ''address isn't registered on blockchain'' \<or>
     d = stateError ''address has the wrong type for creation''"
  by (auto simp: creation_checks_def bind_Ret_iff split: if_splits option.splits)

text \<open>
  The rule the checks enforce: the node says that the address is of type human, and the
  sum of the creations in the month of the target date and the amount is at most 1000.
\<close>

definition within_month_limit ::
    "('tx, 'n, 'c, 'w) env \<Rightarrow> json_transaction \<Rightarrow> session \<Rightarrow> string \<Rightarrow> string \<Rightarrow> int \<Rightarrow>
       ('c, 'w) app \<Rightarrow> ('c, 'w) app \<Rightarrow> bool" where
  "within_month_limit env jt session pubkeyHex amountString targetDate a b \<longleftrightarrow>
     (\<exists>s c monthSum amount.
        getAddressType env pubkeyHex (mGroupAlias session) a =
          (Ret (getAddressStringFromType (conv env) ADDRESS_HUMAN), c) \<and>
        getCreationSumForMonth env pubkeyHex (dt_month (times env) targetDate) (dt_year (times env) targetDate)
          (formatDateTime (times env) (mCreated jt)) (mGroupAlias session) c = (Ret s, b) \<and>
        mpfr_set_str (nums env) s = Some monthSum \<and> mpfr_set_str (nums env) amountString = Some amount \<and>
        mpfr_cmp_d (nums env) (mpfr_add (nums env) monthSum amount) ''1000.0'' \<le> 0)"

lemma creation_checks_None:
  "creation_checks env jt session pubkeyHex amountString targetDate a = (Ret None, b) \<longleftrightarrow>
     within_month_limit env jt session pubkeyHex amountString targetDate a b"
  by (simp add: creation_checks_def within_month_limit_def ret_iffs not_less, blast)

text \<open>What a successful send block has done.\<close>

lemma creation_send_success:
  "creation_send env jt session pk pubkeyHex amountString targetDate a = (Ret (StateSuccess ms), b) \<longleftrightarrow>
     (\<exists>c tx i.
        (if mArchiveTransaction jt then c = a
         else creation_checks env jt session pubkeyHex amountString targetDate a = (Ret None, c)) \<and>
        createTransactionCreation (txs env) (Some pk) amountString targetDate = Ret tx \<and>
        signAndSendTransaction env jt tx (mGroupAlias session) c = (Ret i, b) \<and>
        ms = [(''iotaMessageId'', JString i)])"
  by (auto simp: creation_send_def ret_iffs success_with_def
      dest!: creation_checks_answer)

lemma creation_send_answers:
  "creation_send env jt session pk pubkeyHex amountString targetDate a = (Ret d, b) \<Longrightarrow> IsObject d"
  by (auto simp: creation_send_def ret_iffs split: if_splits dest!: creation_checks_answer)

text \<open>The inversion of the handler: how it can answer.\<close>

lemma creation_Ret:
  assumes "JsonCreationTransaction_handle env rq a = (Ret d, b)"
  shows "IsObject d \<and>
     (is_error d \<or>
      (\<exists>jt c session name user amountString dateText parsed e kp memo pk.
         readSharedParameter env rq (new_JsonTransaction (clock (svc env) (world a))) a = (Ret (NullDocument, jt), c) \<and>
         mSession jt = Some session \<and>
         getStringParameter (pars env) (rq_params rq) ''recipientName'' = Inr name \<and>
         getStringParameter (pars env) (rq_params rq) ''amount'' = Inr amountString \<and>
         getStringParameter (pars env) (rq_params rq) ''targetDate'' = Inr dateText \<and>
         parseDateTime (times env) dateText (tzd (times env)) = Ret parsed \<and>
         User_load env name (mGroupId session) c = (Ret user, e) \<and>
         pk = copyFromProtoBytes (conv env) 32 (u_PublicKey user) \<and>
         mUserKeyPair session = Some kp \<and>
         (\<exists>f. encryptMemo env (mMemo jt) pk (kpPrivate kp) e = (Ret memo, f) \<and>
         creation_send env (jt\<lparr>mMemo := memo\<rparr>) session pk (binToHex (conv env) pk) amountString
           (makeLocal (times env) parsed (tzd (times env))) f = (Ret d, b))))"
  using assms
  apply (simp only: JsonCreationTransaction_handle_def Let_def bind_basic)
  apply (clarsimp simp: bind_Ret_iff [of "readSharedParameter _ _ _"])
  subgoal for err jt c
    by (auto simp: ret_iffs parse_date_Ret IsObject_error
      dest: readShared_error parse_date_Inl handleSign_error creation_send_answers
      split: if_splits option.splits sum.splits)
  done

text \<open>The handler as a transaction handler.\<close>

interpretation creation: transaction_handler "JsonCreationTransaction_handle env" env for env :: "('tx, 'n, 'c, 'w) env"
proof unfold_locales
  fix rq d and a b :: "('c, 'w) app"
  assume "JsonCreationTransaction_handle env rq a = (Ret d, b)"
  then show "IsObject d" by (rule creation_Ret [THEN conjunct1])
next
  show "stays (shared_steps env) (JsonCreationTransaction_handle env rq)" for rq by (rule creation_keeps)
next
  fix rq ms and a b :: "('c, 'w) app"
  assume run: "JsonCreationTransaction_handle env rq a = (Ret (StateSuccess ms), b)"
  show "\<exists>s c. getSession env (rq_jwtToken rq) (rq_clientIp rq) a = (Ret s, c)"
    using creation_Ret [OF run] by (auto dest: readShared_session)
  show "\<exists>ps p. mPendingTransactions b = pushNewTransaction p ps \<and>
        ms = [(''iotaMessageId'', JString (iotaMessageId p))] \<and> pt_state p = SENDED"
    using creation_Ret [OF run] by (auto simp: creation_send_success dest!: signAndSend_pushed)
qed

subsection \<open>Concrete inputs\<close>

definition nobody :: "(string, int, demo_cache, int) env" where
  "nobody = demo\<lparr>svc := demo_svc\<lparr>sqlRow := (\<lambda>s v w. (Ret None, w))\<rparr>\<rparr>"

subsection \<open>Properties\<close>



text \<open>
  An unknown recipient does not give an answer: the exception of the failed load
  leaves the handler, and nothing is recorded.
\<close>

lemma creation_unknown_recipient:
  assumes "readSharedParameter env rq (new_JsonTransaction (clock (svc env) (world a))) a = (Ret (NullDocument, jt), c)"
    and "mSession jt = Some session"
    and "getStringParameter (pars env) (rq_params rq) ''recipientName'' = Inr name"
    and "getStringParameter (pars env) (rq_params rq) ''amount'' = Inr amountString"
    and "getStringParameter (pars env) (rq_params rq) ''targetDate'' = Inr dateText"
    and "parseDateTime (times env) dateText (tzd (times env)) = Ret parsed"
    and "User_load env name (mGroupId session) c = (Throw (RowNotFoundException w t cond), e)"
  shows "JsonCreationTransaction_handle env rq a = (Throw (RowNotFoundException w t cond), e) \<and>
     mPendingTransactions e = mPendingTransactions a"
proof -
  have "same_log a c" using assms(1) by (rule staysD [OF shared_keeps(3)])
  moreover have "only_world c e" using assms(7) by (rule staysD [OF table_load_keeps(5)])
  ultimately have "mPendingTransactions e = mPendingTransactions a"
    by (simp add: same_log_def only_world_log)
  with assms show ?thesis
    by (simp add: JsonCreationTransaction_handle_def bind_run parse_date_run Let_def)
qed

end
