(* ===== verification/Transfers.thy ===== *)
theory Transfers
  imports Handlers
begin

section \<open>JsonTransferTransaction\<close>

text \<open>
  The handler of \<^verbatim>\<open>/transfer\<close>: the recipient's group and row, the checks of address and
  balance with the Gradido Node, and then one transaction, or two when the groups differ.
\<close>

text \<open>
  The group of the recipient and its alias: the one the request names, or the session's.
  An alias without a row is answered; the 64-bit id is narrowed to an \<^verbatim>\<open>int\<close>.
\<close>

definition transfer_group ::
    "('tx, 'n, 'c, 'w) env \<Rightarrow> session \<Rightarrow> string \<Rightarrow> (('c, 'w) app, document + u32 \<times> string) m" where
  "transfer_group env session recipientGroupAlias =
     (if recipientGroupAlias \<noteq> [] then
        try_m
          (bind_m (Group_load_alias env recipientGroupAlias) (\<lambda>group.
           ret (Inr (ucast (g_ID group), recipientGroupAlias))))
          (\<lambda>e. if is_RowNotFoundException e then ret (Inl (stateError ''recipientGroupAlias not found'')) else throw e)
      else ret (Inr (mGroupId session, mGroupAlias session)))"

text \<open>The first \<^verbatim>\<open>try\<close> block: an answer that ends the call, or None.\<close>

definition transfer_checks ::
    "('tx, 'n, 'c, 'w) env \<Rightarrow> json \<Rightarrow> json_transaction \<Rightarrow> session \<Rightarrow> keypair \<Rightarrow> bytes \<Rightarrow> string \<Rightarrow> string \<Rightarrow> string \<Rightarrow>
       (('c, 'w) app, document option) m" where
  "transfer_checks env params jt session keyPair recipientPublicKey recipientGroupAlias amountString coinGroupId =
     try_m
       (if \<not> mArchiveTransaction jt then
          (let recipientPubkeyHex = binToHex (conv env) recipientPublicKey in
           bind_m (getAddressType env recipientPubkeyHex recipientGroupAlias) (\<lambda>addressType.
           if addressType = getAddressStringFromType (conv env) ADDRESS_NONE
           then ret (Some (stateError ''address isn't registered on blockchain''))
           else
             (let created = optString env params ''created'' [] in
              bind_m (getAddressBalance env (binToHex (conv env) (kpPublic keyPair)) created
                        (mGroupAlias session) coinGroupId) (\<lambda>balanceString.
              case mpfr_set_str (nums env) balanceString of
                None \<Rightarrow> ret (Some (stateError ''error by requesting Gradido Node''))
              | Some balance \<Rightarrow>
                  (case mpfr_set_str (nums env) amountString of
                     None \<Rightarrow> ret (Some (stateError ''cannot parse amount to number''))
                   | Some amount \<Rightarrow>
                       if mpfr_cmp (nums env) amount balance > 0
                       then ret (Some (stateError ''insufficient balance''))
                       else ret None)))))
        else ret None)
       (\<lambda>e. if is_GradidoNodeRPCException e
            then ret (Some (stateError ''error by requesting Gradido Node'')) else throw e)"

text \<open>The second \<^verbatim>\<open>try\<close> block; its \<^verbatim>\<open>catch (...)\<close> rethrows.\<close>

definition transfer_send ::
    "('tx, 'n, 'c, 'w) env \<Rightarrow> json_transaction \<Rightarrow> session \<Rightarrow> bytes \<Rightarrow> bytes \<Rightarrow> string \<Rightarrow> string \<Rightarrow> string \<Rightarrow>
       (('c, 'w) app, document) m" where
  "transfer_send env jt session senderPublicKey recipientPublicKey recipientGroupAlias amountString coinGroupId =
     try_m
       (bind_m (outcome_of (createTransactionTransfer (txs env) (Some senderPublicKey) amountString coinGroupId
                  (Some recipientPublicKey))) (\<lambda>baseTransaction.
        bind_m (if recipientGroupAlias \<noteq> [] \<and> recipientGroupAlias \<noteq> mGroupAlias session
                then send_cross_group env jt baseTransaction (mGroupAlias session) recipientGroupAlias
                else signAndSendTransaction env jt baseTransaction (mGroupAlias session)) (\<lambda>lastIotaMessageId.
        ret (success_with ''iotaMessageId'' (JString lastIotaMessageId)))))
       throw"

definition JsonTransferTransaction_handle ::
    "('tx, 'n, 'c, 'w) env \<Rightarrow> request \<Rightarrow> (('c, 'w) app, document) m" where
  "JsonTransferTransaction_handle env rq =
     bind_m (gets (\<lambda>a. clock (svc env) (world a))) (\<lambda>now.
     bind_m (readSharedParameter env rq (new_JsonTransaction now)) (\<lambda>r.
     case r of (paramError, jt) \<Rightarrow>
       if IsObject paramError then ret paramError
       else
         (case (mSession jt, getStringParameter (pars env) (rq_params rq) ''recipientName'') of
            (None, _) \<Rightarrow> undef
          | (Some _, Inl e) \<Rightarrow> ret (answer_of e)
          | (Some session, Inr recipientName) \<Rightarrow>
              bind_m (transfer_group env session (optString env (rq_params rq) ''recipientGroupAlias'' [])) (\<lambda>g.
              case g of
                Inl err \<Rightarrow> ret err
              | Inr (targetGroupId, recipientGroupAlias) \<Rightarrow>
                  (case getStringParameter (pars env) (rq_params rq) ''amount'' of
                     Inl e \<Rightarrow> ret (answer_of e)
                   | Inr amountString \<Rightarrow>
                       bind_m (User_load env recipientName targetGroupId) (\<lambda>recipientUser.
                       case mUserKeyPair session of
                         None \<Rightarrow> undef
                       | Some keyPair \<Rightarrow>
                           (let coinGroupId = optString env (rq_params rq) ''coinGroupId'' [];
                                senderPublicKey = kpPublic keyPair;
                                recipientPublicKey = copyFromProtoBytes (conv env) 32 (u_PublicKey recipientUser) in
                            bind_m (encryptMemo env (mMemo jt) recipientPublicKey (kpPrivate keyPair)) (\<lambda>memo.
                            bind_m (transfer_checks env (rq_params rq) (jt\<lparr>mMemo := memo\<rparr>) session keyPair
                                      recipientPublicKey recipientGroupAlias amountString coinGroupId) (\<lambda>answer.
                            case answer of
                              Some d \<Rightarrow> ret d
                            | None \<Rightarrow>
                                transfer_send env (jt\<lparr>mMemo := memo\<rparr>) session senderPublicKey recipientPublicKey
                                  recipientGroupAlias amountString coinGroupId))))))))) "

subsection \<open>Lemmas\<close>

lemma transfer_keeps [keeps]:
  "stays only_world (transfer_group env session alias)"
  "stays only_world (transfer_checks env params jt session kp pk ga amount coin)"
  "stays (shared_steps env) (transfer_send env jt session spk rpk ga amount coin)"
  unfolding transfer_group_def transfer_checks_def transfer_send_def Let_def
  by (intro keeps)+

lemmas transfer_steps [keeps] =
  transfer_keeps(1,2) [THEN only_world_steps]

lemma transfer_handle_keeps [keeps]: "stays (shared_steps env) (JsonTransferTransaction_handle env rq)"
  unfolding JsonTransferTransaction_handle_def Let_def prod.case_eq_if by (intro keeps)

lemma transfer_group_Inl:
  "transfer_group env session alias a = (Ret (Inl d), b) \<Longrightarrow> is_error d"
  by (auto simp: transfer_group_def ret_iffs)

lemma transfer_checks_Some:
  "transfer_checks env params jt session kp pk ga amount coin a = (Ret (Some d), b) \<Longrightarrow> is_error d"
  by (auto simp: transfer_checks_def Let_def ret_iffs)

lemma transfer_send_Ret:
  "transfer_send env jt session spk rpk ga amount coin a = (Ret d, b) \<longleftrightarrow>
     (\<exists>base i. createTransactionTransfer (txs env) (Some spk) amount coin (Some rpk) = Ret base \<and>
        d = success_with ''iotaMessageId'' (JString i) \<and>
        (if ga \<noteq> [] \<and> ga \<noteq> mGroupAlias session
         then send_cross_group env jt base (mGroupAlias session) ga a = (Ret i, b)
         else signAndSendTransaction env jt base (mGroupAlias session) a = (Ret i, b)))"
  by (auto simp: transfer_send_def ret_iffs)

lemma transfer_send_IsObject:
  "transfer_send env jt session spk rpk ga amount coin a = (Ret d, b) \<Longrightarrow> IsObject d"
  by (auto simp: transfer_send_Ret)

lemma transfer_checks_None:
  "transfer_checks env params jt session kp pk ga amountString coin a = (Ret None, b) \<Longrightarrow>
     \<not> mArchiveTransaction jt \<Longrightarrow>
     \<exists>s c balance amount.
        getAddressBalance env (binToHex (conv env) (kpPublic kp)) (optString env params ''created'' [])
          (mGroupAlias session) coin c = (Ret s, b) \<and>
        mpfr_set_str (nums env) s = Some balance \<and> mpfr_set_str (nums env) amountString = Some amount \<and>
        mpfr_cmp (nums env) amount balance \<le> 0"
  by (auto simp: transfer_checks_def Let_def ret_iffs not_less)

lemma transfer_Ret:
  assumes "JsonTransferTransaction_handle env rq a = (Ret d, b)"
  shows "IsObject d \<and>
     (is_error d \<or>
      (\<exists>jt c session kp name gid ga g amountString user h memo e f coin.
         readSharedParameter env rq (new_JsonTransaction (clock (svc env) (world a))) a = (Ret (NullDocument, jt), c) \<and>
         mSession jt = Some session \<and> mUserKeyPair session = Some kp \<and>
         getStringParameter (pars env) (rq_params rq) ''amount'' = Inr amountString \<and>
         coin = optString env (rq_params rq) ''coinGroupId'' [] \<and>
         getStringParameter (pars env) (rq_params rq) ''recipientName'' = Inr name \<and>
         transfer_group env session (optString env (rq_params rq) ''recipientGroupAlias'' []) c = (Ret (Inr (gid, ga)), g) \<and>
         User_load env name gid g = (Ret user, h) \<and>
         encryptMemo env (mMemo jt) (copyFromProtoBytes (conv env) 32 (u_PublicKey user)) (kpPrivate kp) h = (Ret memo, e) \<and>
         transfer_checks env (rq_params rq) (jt\<lparr>mMemo := memo\<rparr>) session kp
           (copyFromProtoBytes (conv env) 32 (u_PublicKey user)) ga amountString coin e = (Ret None, f) \<and>
         transfer_send env (jt\<lparr>mMemo := memo\<rparr>) session (kpPublic kp)
           (copyFromProtoBytes (conv env) 32 (u_PublicKey user)) ga amountString coin f = (Ret d, b)))"
  using assms
  apply (simp only: JsonTransferTransaction_handle_def Let_def bind_basic)
  apply (clarsimp simp: bind_Ret_iff [of "readSharedParameter _ _ _"])
  subgoal for err jt c
    by (auto simp: ret_iffs IsObject_error
      dest: readShared_error transfer_group_Inl transfer_checks_Some transfer_send_IsObject
      split: if_splits option.splits sum.splits)
  done

text \<open>The handler as a transaction handler.\<close>

interpretation transfer: transaction_handler "JsonTransferTransaction_handle env" env
  for env :: "('tx, 'n, 'c, 'w) env"
proof unfold_locales
  fix rq d and a b :: "('c, 'w) app"
  assume "JsonTransferTransaction_handle env rq a = (Ret d, b)"
  then show "IsObject d" by (rule transfer_Ret [THEN conjunct1])
next
  show "stays (shared_steps env) (JsonTransferTransaction_handle env rq)" for rq by (rule transfer_handle_keeps)
next
  fix rq ms and a b :: "('c, 'w) app"
  assume run: "JsonTransferTransaction_handle env rq a = (Ret (StateSuccess ms), b)"
  show "\<exists>s c. getSession env (rq_jwtToken rq) (rq_clientIp rq) a = (Ret s, c)"
    using transfer_Ret [OF run] by (auto dest: readShared_session)
  show "\<exists>ps p. mPendingTransactions b = pushNewTransaction p ps \<and>
        ms = [(''iotaMessageId'', JString (iotaMessageId p))] \<and> pt_state p = SENDED"
    using transfer_Ret [OF run]
    by (auto simp: transfer_send_Ret success_with_def dest!: signAndSend_pushed send_cross_group_pushed
        split: if_splits)
qed

subsection \<open>Concrete inputs\<close>

definition no_inbound :: "(string, int, demo_cache, int) env" where
  "no_inbound = demo\<lparr>txs := demo_txs\<lparr>validate := (\<lambda>t. if take 5 t = ''child''
     then Throw (LibException TransactionValidationInvalidSignatureException ''bad'' []) else Ret True)\<rparr>\<rparr>"

subsection \<open>Properties\<close>



text \<open>
  C23. A move between two groups is two sends without a rollback: the inbound half has
  the id of the outbound half as its parent, and when it fails the outbound half stays
  recorded as the newest pending transaction, SENDED, while the caller sees the
  exception.
\<close>

theorem cross_group_outbound_stays:
  assumes "createOutboundTransaction (txs env) base entering = Ret outbound"
    and "signAndSendTransaction env jt outbound leaving a = (Ret i, b)"
    and "createInboundTransaction (txs env) base leaving = Ret inbound"
    and "signAndSendTransaction env jt (setParentMessageId (txs env) inbound (hexToBin (conv env) i)) entering b
           = (Throw e, c)"
  shows "send_cross_group env jt base leaving entering a = (Throw e, c) \<and>
     iotaMessageId (last (mPendingTransactions c)) = i \<and> pt_state (last (mPendingTransactions c)) = SENDED"
proof -
  have "mPendingTransactions c = mPendingTransactions b"
    using assms(4) by (auto simp: signAndSend_eq bind_Throw_iff pushNew_run
        intro!: only_world_log dest: staysD [OF sending_keeps])
  moreover have "send_cross_group env jt base leaving entering a = (Throw e, c)"
    using assms by (simp add: send_cross_group_def bind_run)
  ultimately show ?thesis
    using signAndSend_pushed [OF assms(2)] by auto
qed

theorem cross_group_outbound_stays_witness:
  "\<exists>c. send_cross_group no_inbound demo_jt ''transfer'' ''gdd1'' ''gdd2'' demo_state =
       (Throw (LibException TransactionValidationInvalidSignatureException ''bad'' []), c) \<and>
     iotaMessageId (last (mPendingTransactions c)) = id64 \<and> pt_state (last (mPendingTransactions c)) = SENDED"
proof -
  let ?first = "signAndSendTransaction no_inbound demo_jt ''out transfer'' ''gdd1'' demo_state"
  let ?second = "signAndSendTransaction no_inbound demo_jt ''childin transfer'' ''gdd2'' (snd ?first)"
  have 1: "createOutboundTransaction (txs no_inbound) ''transfer'' ''gdd2'' = Ret ''out transfer''" by code_simp
  have "fst ?first = Ret id64" by code_simp
  note 2 = runI [OF this]
  have 3: "createInboundTransaction (txs no_inbound) ''transfer'' ''gdd1'' = Ret ''in transfer''" by code_simp
  have par: "setParentMessageId (txs no_inbound) ''in transfer'' (hexToBin (conv no_inbound) id64) = ''childin transfer''"
    by code_simp
  have "fst ?second = Throw (LibException TransactionValidationInvalidSignatureException ''bad'' [])" by code_simp
  note 4 = runI [OF this, folded par]
  from cross_group_outbound_stays [OF 1 2 3 4] show ?thesis by blast
qed

end
