(* ===== verification/Register.thy ===== *)
theory Register
  imports Handlers
begin

section \<open>JsonRegisterAddressTransaction\<close>

text \<open>
  The handler of \<^verbatim>\<open>/registerAddress\<close>: it registers the key of the session, in its group
  or moving from one group to another, unless the node already knows the address.
\<close>

text \<open>The first \<^verbatim>\<open>try\<close> block: an answer that ends the call, or None.\<close>

definition register_checks ::
    "('tx, 'n, 'c, 'w) env \<Rightarrow> json_transaction \<Rightarrow> bytes \<Rightarrow> string \<Rightarrow> (('c, 'w) app, document option) m" where
  "register_checks env jt userRootPubkey groupAlias =
     try_m
       (if \<not> mArchiveTransaction jt then
          bind_m (getAddressTxids env (binToHex (conv env) userRootPubkey) groupAlias) (\<lambda>addressTxids.
          if addressTxids \<noteq> []
          then ret (Some (stateError ''cannot register address because it already exist'')) else ret None)
        else ret None)
       (\<lambda>e. if is_GradidoNodeRPCException e
            then ret (Some (stateError ''error by requesting Gradido Node'')) else throw e)"

text \<open>The second \<^verbatim>\<open>try\<close> block.\<close>

definition register_send ::
    "('tx, 'n, 'c, 'w) env \<Rightarrow> json_transaction \<Rightarrow> session \<Rightarrow> bytes \<Rightarrow> address_type \<Rightarrow> bool \<Rightarrow> string \<Rightarrow> string \<Rightarrow>
       (('c, 'w) app, document) m" where
  "register_send env jt session userRootPubkey addressType movingAddress currentGroupAlias newGroupAlias =
     bind_m (outcome_of (createRegisterAddress (txs env) (Some userRootPubkey) addressType None None)) (\<lambda>baseTransaction.
     bind_m (if movingAddress then send_cross_group env jt baseTransaction currentGroupAlias newGroupAlias
             else signAndSendTransaction env jt baseTransaction (mGroupAlias session)) (\<lambda>lastIotaMessageId.
     ret (success_with ''iotaMessageId'' (JString lastIotaMessageId))))"

definition JsonRegisterAddressTransaction_handle ::
    "('tx, 'n, 'c, 'w) env \<Rightarrow> request \<Rightarrow> (('c, 'w) app, document) m" where
  "JsonRegisterAddressTransaction_handle env rq =
     bind_m (gets (\<lambda>a. clock (svc env) (world a))) (\<lambda>now.
     bind_m (readSharedParameter env rq (new_JsonTransaction now)) (\<lambda>r.
     case r of (paramError, jt) \<Rightarrow>
       if IsObject paramError then ret paramError
       else
         (case getStringParameter (pars env) (rq_params rq) ''addressType'' of
            Inl e \<Rightarrow> ret (answer_of e)
          | Inr addressTypeString \<Rightarrow>
              (let addressType = getAddressTypeFromString (conv env) addressTypeString;
                   currentGroupAlias = optString env (rq_params rq) ''currentGroupAlias'' [];
                   newGroupAlias = optString env (rq_params rq) ''newGroupAlias'' [] in
               if addressType = ADDRESS_SUBACCOUNT
               then ret (stateError ''subaccount address type currently not supported from this function'')
               else if currentGroupAlias \<noteq> [] \<and> \<not> isValidGroupAlias (conv env) currentGroupAlias
               then ret (stateError ''invalid character in currentGroupAlias, only ascii allowed'')
               else if newGroupAlias \<noteq> [] \<and> \<not> isValidGroupAlias (conv env) newGroupAlias
               then ret (stateError ''invalid character in newGroupAlias, only ascii allowed'')
               else
                 (let movingAddress = currentGroupAlias \<noteq> [] \<and> newGroupAlias \<noteq> [] \<and>
                                      currentGroupAlias \<noteq> newGroupAlias in
                  case mSession jt of
                    None \<Rightarrow> undef
                  | Some session \<Rightarrow>
                      (case mUserKeyPair session of
                         None \<Rightarrow> undef
                       | Some keyPair \<Rightarrow>
                           (let userRootPubkey = kpPublic keyPair in
                            bind_m (register_checks env jt userRootPubkey
                                      (if movingAddress then newGroupAlias else mGroupAlias session)) (\<lambda>answer.
                            case answer of
                              Some d \<Rightarrow> ret d
                            | None \<Rightarrow>
                                try_m (register_send env jt session userRootPubkey addressType movingAddress
                                         currentGroupAlias newGroupAlias)
                                  (handleSignAndSendTransactionExceptions env)))))))))"

subsection \<open>Lemmas\<close>

lemma register_checks_keeps: "stays only_world (register_checks env jt pk ga)"
  unfolding register_checks_def by (intro keeps)

lemmas register_checks_steps [keeps] = register_checks_keeps [THEN only_world_steps]

lemma register_keeps [keeps]:
  "stays (shared_steps env) (register_send env jt session pk ty moving cur new)"
  "stays (shared_steps env) (JsonRegisterAddressTransaction_handle env rq)"
  unfolding register_send_def JsonRegisterAddressTransaction_handle_def Let_def prod.case_eq_if
  by (intro keeps)+

lemma register_checks_Some:
  "register_checks env jt pk ga a = (Ret (Some d), b) \<Longrightarrow> is_error d"
  by (auto simp: register_checks_def ret_iffs)

lemma register_checks_None:
  "register_checks env jt pk ga a = (Ret None, b) \<longleftrightarrow>
     (if mArchiveTransaction jt then b = a
      else getAddressTxids env (binToHex (conv env) pk) ga a = (Ret [], b))"
  by (auto simp: register_checks_def ret_iffs)

lemma register_send_Ret:
  "register_send env jt session pk ty moving cur new a = (Ret d, b) \<longleftrightarrow>
     (\<exists>base i. createRegisterAddress (txs env) (Some pk) ty None None = Ret base \<and>
        d = success_with ''iotaMessageId'' (JString i) \<and>
        (if moving then send_cross_group env jt base cur new a = (Ret i, b)
         else signAndSendTransaction env jt base (mGroupAlias session) a = (Ret i, b)))"
  by (auto simp: register_send_def ret_iffs)

lemma register_send_IsObject:
  "register_send env jt session pk ty moving cur new a = (Ret d, b) \<Longrightarrow> IsObject d"
  by (auto simp: register_send_Ret)

text \<open>Whether the request moves the address to another group.\<close>

definition moving :: "string \<Rightarrow> string \<Rightarrow> bool" where
  "moving cur new \<longleftrightarrow> cur \<noteq> [] \<and> new \<noteq> [] \<and> cur \<noteq> new"

lemma register_Ret:
  assumes "JsonRegisterAddressTransaction_handle env rq a = (Ret d, b)"
  shows "IsObject d \<and>
     (is_error d \<or>
      (\<exists>jt c session kp tyText e cur new.
         readSharedParameter env rq (new_JsonTransaction (clock (svc env) (world a))) a = (Ret (NullDocument, jt), c) \<and>
         mSession jt = Some session \<and> mUserKeyPair session = Some kp \<and>
         getStringParameter (pars env) (rq_params rq) ''addressType'' = Inr tyText \<and>
         getAddressTypeFromString (conv env) tyText \<noteq> ADDRESS_SUBACCOUNT \<and>
         cur = optString env (rq_params rq) ''currentGroupAlias'' [] \<and>
         new = optString env (rq_params rq) ''newGroupAlias'' [] \<and>
         register_checks env jt (kpPublic kp) (if moving cur new then new else mGroupAlias session) c = (Ret None, e) \<and>
         register_send env jt session (kpPublic kp) (getAddressTypeFromString (conv env) tyText)
           (moving cur new) cur new e = (Ret d, b)))"
  using assms
  apply (simp only: JsonRegisterAddressTransaction_handle_def Let_def bind_basic moving_def [symmetric])
  apply (clarsimp simp: bind_Ret_iff [of "readSharedParameter _ _ _"])
  subgoal for err jt c
    by (auto simp: ret_iffs IsObject_error
      dest: readShared_error register_checks_Some handleSign_error register_send_IsObject
      split: if_splits option.splits sum.splits)
  done

text \<open>The handler as a transaction handler.\<close>

interpretation register: transaction_handler "JsonRegisterAddressTransaction_handle env" env
  for env :: "('tx, 'n, 'c, 'w) env"
proof unfold_locales
  fix rq d and a b :: "('c, 'w) app"
  assume "JsonRegisterAddressTransaction_handle env rq a = (Ret d, b)"
  then show "IsObject d" by (rule register_Ret [THEN conjunct1])
next
  show "stays (shared_steps env) (JsonRegisterAddressTransaction_handle env rq)" for rq by (rule register_keeps)
next
  fix rq ms and a b :: "('c, 'w) app"
  assume run: "JsonRegisterAddressTransaction_handle env rq a = (Ret (StateSuccess ms), b)"
  show "\<exists>s c. getSession env (rq_jwtToken rq) (rq_clientIp rq) a = (Ret s, c)"
    using register_Ret [OF run] by (auto dest: readShared_session)
  show "\<exists>ps p. mPendingTransactions b = pushNewTransaction p ps \<and>
        ms = [(''iotaMessageId'', JString (iotaMessageId p))] \<and> pt_state p = SENDED"
    using register_Ret [OF run]
    by (auto simp: register_send_Ret success_with_def dest!: signAndSend_pushed send_cross_group_pushed
        split: if_splits)
qed

subsection \<open>Properties\<close>

text \<open>
  C25. A registration that succeeds and is not an archive transaction is for an address
  the node has no transactions of, in the new group when the address moves and else in
  the group of the session; the address type is not SUBACCOUNT.
\<close>

theorem register_only_new_addresses:
  assumes "JsonRegisterAddressTransaction_handle env rq a = (Ret (StateSuccess ms), b)"
  shows "\<exists>jt c session kp tyText cur new.
     readSharedParameter env rq (new_JsonTransaction (clock (svc env) (world a))) a = (Ret (NullDocument, jt), c) \<and>
     mSession jt = Some session \<and> mUserKeyPair session = Some kp \<and>
     getStringParameter (pars env) (rq_params rq) ''addressType'' = Inr tyText \<and>
     getAddressTypeFromString (conv env) tyText \<noteq> ADDRESS_SUBACCOUNT \<and>
     cur = optString env (rq_params rq) ''currentGroupAlias'' [] \<and>
     new = optString env (rq_params rq) ''newGroupAlias'' [] \<and>
     (mArchiveTransaction jt \<or>
      (\<exists>d. getAddressTxids env (binToHex (conv env) (kpPublic kp))
         (if moving cur new then new else mGroupAlias session) c = (Ret [], d)))"
  using register_Ret [OF assms]
  by (auto simp: register_checks_None if_bool_eq_disj split del: if_split)

theorem register_only_new_addresses_witness:
  "\<exists>b ms tyText. JsonRegisterAddressTransaction_handle demo demo_request demo_state = (Ret (StateSuccess ms), b) \<and>
     getStringParameter (pars demo) (rq_params demo_request) ''addressType'' = Inr tyText \<and>
     getAddressTypeFromString (conv demo) tyText \<noteq> ADDRESS_SUBACCOUNT"
proof -
  have "fst (JsonRegisterAddressTransaction_handle demo demo_request demo_state) =
      Ret (StateSuccess [(''iotaMessageId'', JString id64)])" by code_simp
  note run = runI [OF this]
  with register_only_new_addresses [OF run] show ?thesis by blast
qed

end
