(* ===== verification/Notify.thy ===== *)
theory Notify
  imports Handlers
begin

section \<open>JsonTransactionListener, JsonGetPendingTransactions, JsonSendTransactionIota, JsonUnknown\<close>

text \<open>
  The handlers that need no session: the node's notification of a processed
  transaction, the list of pending transactions, the (unfinished) sending of a packed
  transaction, and the answer for any other path.
\<close>

subsection \<open>JsonTransactionListener\<close>

text \<open>\<^verbatim>\<open>updateTransaction\<close> on the shared list.\<close>

definition update_pending :: "string \<Rightarrow> bool \<Rightarrow> string \<Rightarrow> (('c, 'w) app, unit) m" where
  "update_pending messageId confirmend err =
     bind_m (gets mPendingTransactions) (\<lambda>ps.
     bind_m (outcome_of (updateTransaction messageId confirmend err ps)) (\<lambda>qs.
     modify (\<lambda>a. a\<lparr>mPendingTransactions := qs\<rparr>)))"

definition JsonTransactionListener_handle ::
    "('tx, 'n, 'c, 'w) env \<Rightarrow> request \<Rightarrow> (('c, 'w) app, document) m" where
  "JsonTransactionListener_handle env rq =
     (let transactionBase64 = optString env (rq_params rq) ''transactionBase64'' [];
          err = optString env (rq_params rq) ''error'' [];
          messageId = optString env (rq_params rq) ''messageId'' [] in
      bind_m
        (if transactionBase64 \<noteq> [] then
           bind_m (outcome_of (base64ToBinString (conv env) transactionBase64)) (\<lambda>bin.
           if err \<noteq> [] then update_pending messageId False err
           else
             bind_m (outcome_of (blockMessageIdHex (txs env) bin)) (\<lambda>blockMessageId.
             update_pending blockMessageId True []))
         else ret ()) (\<lambda>_.
      ret (StateSuccess [])))"

subsection \<open>JsonGetPendingTransactions and JsonUnknown\<close>

definition JsonGetPendingTransactions_handle ::
    "('tx, 'n, 'c, 'w) env \<Rightarrow> request \<Rightarrow> (('c, 'w) app, document) m" where
  "JsonGetPendingTransactions_handle env rq =
     bind_m (gets mPendingTransactions) (\<lambda>ps.
     ret (success_with ''pendingTransactions'' (listAsJson (getTransactionTypeString (conv env)) ps)))"

definition JsonUnknown_handle :: "request \<Rightarrow> (('c, 'w) app, document) m" where
  "JsonUnknown_handle rq = ret (stateError ''unknown call'')"

subsection \<open>JsonSendTransactionIota\<close>

text \<open>The loop over the signature pairs: the transaction with them added, or an answer.\<close>

fun add_signatures :: "('tx, 'n, 'c, 'w) env \<Rightarrow> json list \<Rightarrow> 'tx \<Rightarrow> (('c, 'w) app, document + 'tx) m" where
  "add_signatures env [] tx = ret (Inr tx)"
| "add_signatures env (it # its) tx =
     (case getStringParameter (pars env) it ''pubkey'' of
        Inl e \<Rightarrow> ret (Inl (answer_of e))
      | Inr pubkeyHexString \<Rightarrow>
          (case getStringParameter (pars env) it ''signature'' of
             Inl e \<Rightarrow> ret (Inl (answer_of e))
           | Inr signatureHexString \<Rightarrow>
               bind_m (outcome_of (addSign (txs env) tx (hexToBin (conv env) pubkeyHexString)
                                     (hexToBin (conv env) signatureHexString))) (\<lambda>tx'.
               add_signatures env its tx')))"

text \<open>
  \<^verbatim>\<open>FindMember\<close> on parameters that are not an object is undefined.  The serialized message
  and its index are computed and dropped: the call that sends them is commented out.
\<close>

definition JsonSendTransactionIota_handle ::
    "('tx, 'n, 'c, 'w) env \<Rightarrow> request \<Rightarrow> (('c, 'w) app, document) m" where
  "JsonSendTransactionIota_handle env rq =
     (case getStringParameter (pars env) (rq_params rq) ''bodyBytesBase64'' of
        Inl e \<Rightarrow> ret (answer_of e)
      | Inr bodyBytesBase64String \<Rightarrow>
          (let groupAlias = optString env (rq_params rq) ''groupAlias'' [] in
           bind_m (outcome_of (find_member (rq_params rq) ''signaturePairs'')) (\<lambda>signaturePairsIt.
           case signaturePairsIt of
             None \<Rightarrow> ret (stateError ''signaturePairs not found'')
           | Some (JArray pairs) \<Rightarrow>
               bind_m (outcome_of (base64ToBinString (conv env) bodyBytesBase64String)) (\<lambda>body.
               bind_m (outcome_of (loadTransactionBody (txs env) body)) (\<lambda>transaction.
               bind_m (add_signatures env pairs transaction) (\<lambda>s.
               case s of
                 Inl err \<Rightarrow> ret err
               | Inr signedTx \<Rightarrow>
                   bind_m (outcome_of (validate (txs env) signedTx)) (\<lambda>_.
                   if getSignCount (txs env) signedTx < getMinSignatureCount (txs env) signedTx
                   then ret (stateError ''missing signatures'')
                   else if \<not> isValidGroupAlias (conv env) groupAlias
                   then ret (stateError ''invalid group alias'')
                   else ret (StateSuccess [])))))
           | Some _ \<Rightarrow> ret (stateError ''signaturePairs isn't a array''))))"

subsection \<open>Lemmas\<close>

lemma update_pending_run:
  "update_pending messageId c err a =
     (case updateTransaction messageId c err (mPendingTransactions a) of
        Ret qs \<Rightarrow> (Ret (), a\<lparr>mPendingTransactions := qs\<rparr>)
      | Throw e \<Rightarrow> (Throw e, a) | Undef \<Rightarrow> (Undef, a))"
  by (simp add: update_pending_def split: outcome.split)

lemma update_pending_keeps [keeps]: "stays (shared_steps env) (update_pending messageId c err)"
  by (rule staysI) (auto simp: update_pending_run split: outcome.splits intro!: r_into_rtranclp settles)

lemma add_signatures_Inl:
  "add_signatures env its tx a = (Ret (Inl d), b) \<Longrightarrow> is_error d"
  by (induction env its tx arbitrary: a rule: add_signatures.induct) (auto simp: ret_iffs split: sum.splits)

lemma add_signatures_same:
  "add_signatures env its tx a = (r, b) \<Longrightarrow> b = a"
  by (induction env its tx arbitrary: a rule: add_signatures.induct)
    (auto simp: bind_m_def split: sum.splits prod.splits outcome.splits)

lemma add_signatures_keeps [keeps]: "stays (shared_steps env) (add_signatures env its tx)"
  by (rule staysI) (auto dest: add_signatures_same)

lemma sendIota_Ret:
  "JsonSendTransactionIota_handle env rq a = (Ret d, b) \<Longrightarrow> b = a \<and> (is_error d \<or> d = StateSuccess [])"
  by (auto simp: JsonSendTransactionIota_handle_def Let_def ret_iffs run_array_iff
      dest: add_signatures_Inl add_signatures_same)

lemma listed_newest:
  assumes "mPendingTransactions b \<noteq> []" "p = last (mPendingTransactions b)"
  shows "\<exists>es. JsonGetPendingTransactions_handle env rq b =
     (Ret (success_with ''pendingTransactions''
        (JArray (entry_json (getTransactionTypeString (conv env)) p # es))), b)"
proof -
  from assms obtain ps where "mPendingTransactions b = ps @ [p]" by (metis append_butlast_last_id)
  then show ?thesis by (auto simp: JsonGetPendingTransactions_handle_def listAsJson_def)
qed

interpretation listener: json_handler "JsonTransactionListener_handle env" env
  for env :: "('tx, 'n, 'c, 'w) env"
proof unfold_locales
  show "IsObject d" if "JsonTransactionListener_handle env rq a = (Ret d, b)"
    for rq d and a b :: "('c, 'w) app"
    using that by (auto simp: JsonTransactionListener_handle_def Let_def ret_iffs)
  show "stays (shared_steps env) (JsonTransactionListener_handle env rq)" for rq
    unfolding JsonTransactionListener_handle_def Let_def by (intro keeps)
qed

interpretation get_pending: json_handler "JsonGetPendingTransactions_handle env" env
  for env :: "('tx, 'n, 'c, 'w) env"
proof unfold_locales
  show "IsObject d" if "JsonGetPendingTransactions_handle env rq a = (Ret d, b)"
    for rq d and a b :: "('c, 'w) app"
    using that by (auto simp: JsonGetPendingTransactions_handle_def)
  show "stays (shared_steps env) (JsonGetPendingTransactions_handle env rq)" for rq
    unfolding JsonGetPendingTransactions_handle_def by (intro keeps)
qed

interpretation unknown: json_handler JsonUnknown_handle env
  for env :: "('tx, 'n, 'c, 'w) env"
  by unfold_locales (auto simp: JsonUnknown_handle_def intro: keeps)

interpretation send_iota: json_handler "JsonSendTransactionIota_handle env" env
  for env :: "('tx, 'n, 'c, 'w) env"
proof unfold_locales
  show "IsObject d" if "JsonSendTransactionIota_handle env rq a = (Ret d, b)"
    for rq d and a b :: "('c, 'w) app"
    using sendIota_Ret [OF that] by (auto simp: IsObject_error)
  show "stays (shared_steps env) (JsonSendTransactionIota_handle env rq)" for rq
    unfolding JsonSendTransactionIota_handle_def Let_def
    by (auto intro!: keeps split: option.split json.split)
qed

subsection \<open>Concrete inputs\<close>

definition demo_pending :: "(demo_cache, int) app" where
  "demo_pending = demo_state\<lparr>mPendingTransactions := [PendingTransaction 0 id64 1 [] 0 0]\<rparr>"

definition demo_notify :: request where
  "demo_notify = \<lparr>rq_params = JObject [(''transactionBase64'', JString ''block'')], rq_jwtToken = [], rq_clientIp = []\<rparr>"

definition demo_send :: request where
  "demo_send = \<lparr>rq_params = JObject [(''bodyBytesBase64'', JString ''body''), (''groupAlias'', JString ''gdd1''),
      (''signaturePairs'', JArray [JObject [(''pubkey'', JString ''keya''), (''signature'', JString ''sig'')]])],
      rq_jwtToken = [], rq_clientIp = []\<rparr>"

subsection \<open>Properties\<close>



text \<open>
  The handler for a packed transaction never sends it: whatever it answers, nothing
  has changed, no call of iota has been made, and a success has no message id.
\<close>

lemma sendTransactionIota_sends_nothing:
  "JsonSendTransactionIota_handle (env\<lparr>svc := other\<rparr>) rq = JsonSendTransactionIota_handle env rq \<and>
   (JsonSendTransactionIota_handle env rq a = (Ret d, b) \<longrightarrow>
      b = a \<and> (\<forall>ms. d = StateSuccess ms \<longrightarrow> ms = []))"
proof -
  have sigs: "add_signatures (env\<lparr>svc := other\<rparr>) its tx = add_signatures env its tx" for its tx
  proof (induction its arbitrary: tx)
    case (Cons it its)
    then have "add_signatures (env\<lparr>svc := other\<rparr>) its = add_signatures env its" by (rule ext)
    then show ?case by (simp cong: sum.case_cong)
  qed simp
  have "JsonSendTransactionIota_handle (env\<lparr>svc := other\<rparr>) rq = JsonSendTransactionIota_handle env rq"
    by (simp add: JsonSendTransactionIota_handle_def optString_def sigs cong: sum.case_cong option.case_cong json.case_cong if_cong)
  moreover have "b = a \<and> (\<forall>ms. d = StateSuccess ms \<longrightarrow> ms = [])"
    if "JsonSendTransactionIota_handle env rq a = (Ret d, b)"
    using sendIota_Ret [OF that] by auto
  ultimately show ?thesis by blast
qed

end
