(* ===== verification/Pack.thy ===== *)
theory Pack
  imports Handlers
begin

section \<open>JsonPackTransaction\<close>

text \<open>
  The handler of \<^verbatim>\<open>/packTransaction\<close>: it builds an unsigned transaction from its details,
  or two for a move between groups, and answers with their serialized bodies.  It needs
  no session and sends nothing.
\<close>

text \<open>
  \<^verbatim>\<open>readCoinGroupId\<close>: absent, a string, or an exception.  The transaction class takes the
  text up to the first NUL (\<^verbatim>\<open>GetString()\<close>).
\<close>

definition readCoinGroupId :: "json \<Rightarrow> (('c, 'w) app, string) m" where
  "readCoinGroupId params =
     bind_m (outcome_of (find_member params ''coinGroupId'')) (\<lambda>groupId.
     case groupId of
       None \<Rightarrow> ret []
     | Some (JString s) \<Rightarrow> ret (c_str s)
     | Some _ \<Rightarrow> throw (LibException HandleRequestException ''groupId has unknown type'' []))"

subsection \<open>resultBase64Transactions\<close>

definition pack_entry :: "('tx, 'n, 'c, 'w) env \<Rightarrow> string \<Rightarrow> bytes \<Rightarrow> json" where
  "pack_entry env groupAlias body =
     JObject ((if groupAlias \<noteq> [] then [(''groupAlias'', JString (c_str groupAlias))] else []) @
              [(''bodyBytesBase64'', JString (binToBase64 (conv env) body))])"

text \<open>The loop, with the array built so far.\<close>

fun resultBase64Transactions ::
    "('tx, 'n, 'c, 'w) env \<Rightarrow> string \<Rightarrow> int \<Rightarrow> ('tx \<times> string) list \<Rightarrow> json list \<Rightarrow> (('c, 'w) app, document) m" where
  "resultBase64Transactions env memo createdAt [] entries =
     ret (success_with ''transactions'' (JArray entries))"
| "resultBase64Transactions env memo createdAt ((tx, groupAlias) # ts) entries =
     (let tx = setCreated (txs env) (setMemo (txs env) tx memo) createdAt in
      bind_m (outcome_of (validate (txs env) tx)) (\<lambda>valid.
      if \<not> valid then ret (StateError ''invalid transaction'' (DetailJson (tx_toJson (txs env) tx)))
      else
        bind_m
          (try_m (bind_m (outcome_of (getBodyBytes (txs env) tx)) (\<lambda>body. ret (Inr body)))
             (\<lambda>e. if instance_of (isa_of env) PocoException e
                  then ret (Inl (StateError ''exception in serializing'' (DetailText (exn_what e)))) else throw e)) (\<lambda>r.
        case r of
          Inl err \<Rightarrow> ret err
        | Inr body \<Rightarrow> resultBase64Transactions env memo createdAt ts (entries @ [pack_entry env groupAlias body]))))"

subsection \<open>The three kinds\<close>

definition JsonPackTransaction_transfer ::
    "('tx, 'n, 'c, 'w) env \<Rightarrow> json \<Rightarrow> string \<Rightarrow> int \<Rightarrow> (('c, 'w) app, document) m" where
  "JsonPackTransaction_transfer env params memo createdAt =
     (case getStringParameter (pars env) params ''senderPubkey'' of
        Inl e \<Rightarrow> ret (answer_of e)
      | Inr senderPubkey \<Rightarrow>
     (case getStringParameter (pars env) params ''recipientPubkey'' of
        Inl e \<Rightarrow> ret (answer_of e)
      | Inr recipientPubkey \<Rightarrow>
     (case getStringParameter (pars env) params ''amount'' of
        Inl e \<Rightarrow> ret (answer_of e)
      | Inr amount \<Rightarrow>
     (let senderGroupAlias = optString env params ''senderGroupAlias'' [];
          recipientGroupAlias = optString env params ''recipientGroupAlias'' [] in
      bind_m (readCoinGroupId params) (\<lambda>coinGroupId.
      bind_m (outcome_of (createTransactionTransfer (txs env) (hexToBin (conv env) senderPubkey) amount coinGroupId
                (hexToBin (conv env) recipientPubkey))) (\<lambda>baseTransaction.
      if senderGroupAlias \<noteq> [] \<and> recipientGroupAlias \<noteq> [] then
        bind_m (outcome_of (createOutboundTransaction (txs env) baseTransaction recipientGroupAlias)) (\<lambda>outbound.
        bind_m (outcome_of (createInboundTransaction (txs env) baseTransaction senderGroupAlias)) (\<lambda>inbound.
        resultBase64Transactions env memo createdAt
          [(outbound, senderGroupAlias), (inbound, recipientGroupAlias)] []))
      else resultBase64Transactions env memo createdAt [(baseTransaction, [])] []))))))"

definition JsonPackTransaction_creation ::
    "('tx, 'n, 'c, 'w) env \<Rightarrow> json \<Rightarrow> string \<Rightarrow> int \<Rightarrow> (('c, 'w) app, document) m" where
  "JsonPackTransaction_creation env params memo createdAt =
     (case getStringParameter (pars env) params ''recipientPubkey'' of
        Inl e \<Rightarrow> ret (answer_of e)
      | Inr recipientPubkey \<Rightarrow>
     (case getStringParameter (pars env) params ''amount'' of
        Inl e \<Rightarrow> ret (answer_of e)
      | Inr amount \<Rightarrow>
     (case getStringParameter (pars env) params ''targetDate'' of
        Inl e \<Rightarrow> ret (answer_of e)
      | Inr targetDateString \<Rightarrow>
          bind_m (parse_date env ''cannot parse targetDate'' targetDateString) (\<lambda>d.
          case d of
            Inl err \<Rightarrow> ret err
          | Inr parsed \<Rightarrow>
              bind_m (outcome_of (createTransactionCreation (txs env) (hexToBin (conv env) recipientPubkey) amount
                        (makeLocal (times env) parsed (tzd (times env))))) (\<lambda>creation.
              resultBase64Transactions env memo createdAt [(creation, [])] [])))))"

text \<open>An optional key is only converted when its text is there.\<close>

definition optBin :: "('tx, 'n, 'c, 'w) env \<Rightarrow> string \<Rightarrow> bytes option" where
  "optBin env hex = (if hex \<noteq> [] then hexToBin (conv env) hex else None)"

definition JsonPackTransaction_registerAddress ::
    "('tx, 'n, 'c, 'w) env \<Rightarrow> json \<Rightarrow> string \<Rightarrow> int \<Rightarrow> (('c, 'w) app, document) m" where
  "JsonPackTransaction_registerAddress env params memo createdAt =
     (let userRootPubkeyHex = optString env params ''userRootPubkey'' [] in
      case getStringParameter (pars env) params ''addressType'' of
        Inl e \<Rightarrow> ret (answer_of e)
      | Inr addressTypeString \<Rightarrow>
          (let addressType = getAddressTypeFromString (conv env) addressTypeString;
               nameHashHex = optString env params ''nameHash'' [];
               subaccountPubkeyHex = optString env params ''subaccountPubkey'' [] in
           if userRootPubkeyHex = [] \<and> subaccountPubkeyHex = []
           then ret (stateError ''userRootPubkey or subaccountPubkey must be given'')
           else
             (let currentGroupAlias = optString env params ''currentGroupAlias'' [];
                  newGroupAlias = optString env params ''newGroupAlias'' [] in
              bind_m (outcome_of (createRegisterAddress (txs env) (optBin env userRootPubkeyHex) addressType
                        (optBin env nameHashHex) (optBin env subaccountPubkeyHex))) (\<lambda>baseTransaction.
              if currentGroupAlias \<noteq> [] \<and> newGroupAlias \<noteq> [] then
                bind_m (outcome_of (createOutboundTransaction (txs env) baseTransaction newGroupAlias)) (\<lambda>outbound.
                bind_m (outcome_of (createInboundTransaction (txs env) baseTransaction currentGroupAlias)) (\<lambda>inbound.
                resultBase64Transactions env memo createdAt
                  [(outbound, currentGroupAlias), (inbound, newGroupAlias)] []))
              else resultBase64Transactions env memo createdAt [(baseTransaction, [])] []))))"

text \<open>The date is parsed with a time zone differential of 0 here.\<close>

definition pack_date :: "('tx, 'n, 'c, 'w) env \<Rightarrow> string \<Rightarrow> (('c, 'w) app, document + int) m" where
  "pack_date env created_string =
     try_m (bind_m (outcome_of (parseDateTime (times env) created_string 0)) (\<lambda>t. ret (Inr t)))
       (\<lambda>e. if instance_of (isa_of env) PocoException e
            then ret (Inl (StateError ''cannot parse created'' (DetailText (exn_what e)))) else throw e)"

definition JsonPackTransaction_handle ::
    "('tx, 'n, 'c, 'w) env \<Rightarrow> request \<Rightarrow> (('c, 'w) app, document) m" where
  "JsonPackTransaction_handle env rq =
     (let params = rq_params rq in
      case getStringParameter (pars env) params ''transactionType'' of
        Inl e \<Rightarrow> ret (answer_of e)
      | Inr kind \<Rightarrow>
          (let memo = optString env params ''memo'' [] in
           case getStringParameter (pars env) params ''created'' of
             Inl e \<Rightarrow> ret (answer_of e)
           | Inr created_string \<Rightarrow>
               bind_m (pack_date env created_string) (\<lambda>r.
               case r of
                 Inl err \<Rightarrow> ret err
               | Inr createdAt \<Rightarrow>
                   if kind = ''transfer'' then JsonPackTransaction_transfer env params memo createdAt
                   else if kind = ''creation'' then JsonPackTransaction_creation env params memo createdAt
                   else if kind = ''registerAddress''
                   then JsonPackTransaction_registerAddress env params memo createdAt
                   else ret (stateError ''transaction_type unknown''))))"

subsection \<open>Lemmas\<close>

text \<open>The contract of an entry: a transaction that is valid, with the bytes of its body.\<close>

definition packed :: "('tx, 'n, 'c, 'w) env \<Rightarrow> string \<Rightarrow> int \<Rightarrow> 'tx \<times> string \<Rightarrow> json \<Rightarrow> bool" where
  "packed env memo createdAt t e \<longleftrightarrow>
     (let tx = setCreated (txs env) (setMemo (txs env) (fst t) memo) createdAt in
      validate (txs env) tx = Ret True \<and>
      (\<exists>body. getBodyBytes (txs env) tx = Ret body \<and> e = pack_entry env (snd t) body))"

lemma resultBase64_Ret:
  "resultBase64Transactions env memo createdAt ts es a = (Ret d, b) \<Longrightarrow>
     b = a \<and> (is_error d \<or>
       (\<exists>es'. d = success_with ''transactions'' (JArray (es @ es')) \<and> list_all2 (packed env memo createdAt) ts es'))"
proof (induction env memo createdAt ts es arbitrary: a rule: resultBase64Transactions.induct)
  case (2 env memo createdAt tx groupAlias ts entries)
  let ?tx = "setCreated (txs env) (setMemo (txs env) tx memo) createdAt"
  from "2.prems" consider
      (invalid) "b = a" "is_error d"
    | (entry) body where "validate (txs env) ?tx = Ret True" "getBodyBytes (txs env) ?tx = Ret body"
        "resultBase64Transactions env memo createdAt ts (entries @ [pack_entry env groupAlias body]) a = (Ret d, b)"
    by (auto simp: Let_def ret_iffs bind_Throw_iff)
  then show ?case
  proof cases
    case entry
    then have "packed env memo createdAt (tx, groupAlias) (pack_entry env groupAlias body)"
      by (simp add: packed_def)
    with "2.IH" [OF refl _ entry(3)] show ?thesis by fastforce
  qed simp
qed simp

text \<open>Which transactions a call packs: one without a group, or the two halves of a move.\<close>

definition pack_list :: "('tx, 'n, 'c, 'w) env \<Rightarrow> ('tx \<times> string) list \<Rightarrow> bool" where
  "pack_list env ts \<longleftrightarrow>
     (\<exists>base. ts = [(base, [])]) \<or>
     (\<exists>base out inb leaving entering. leaving \<noteq> [] \<and> entering \<noteq> [] \<and>
        createOutboundTransaction (txs env) base entering = Ret out \<and>
        createInboundTransaction (txs env) base leaving = Ret inb \<and>
        ts = [(out, leaving), (inb, entering)])"

definition packs :: "('tx, 'n, 'c, 'w) env \<Rightarrow> string \<Rightarrow> int \<Rightarrow> (('c, 'w) app, document) m \<Rightarrow> bool" where
  "packs env memo createdAt p \<longleftrightarrow>
     (\<forall>a d b. p a = (Ret d, b) \<longrightarrow>
        b = a \<and> (is_error d \<or>
          (\<exists>ts es. d = success_with ''transactions'' (JArray es) \<and> pack_list env ts \<and>
             list_all2 (packed env memo createdAt) ts es)))"

lemma packsD:
  "packs env memo createdAt p \<Longrightarrow> p a = (Ret d, b) \<Longrightarrow>
     b = a \<and> (is_error d \<or>
       (\<exists>ts es. d = success_with ''transactions'' (JArray es) \<and> pack_list env ts \<and>
          list_all2 (packed env memo createdAt) ts es))"
  by (simp add: packs_def)

lemma packs_result:
  "pack_list env ts \<Longrightarrow> packs env memo createdAt (resultBase64Transactions env memo createdAt ts [])"
  unfolding packs_def by (fastforce dest: resultBase64_Ret)

text \<open>The three kinds, and the handler, pack what they are given.\<close>

declare resultBase64Transactions.simps [simp del]

lemma packs_bind: "(\<And>x s t. p s = (Ret x, t) \<Longrightarrow> packs env memo createdAt (f x)) \<Longrightarrow>
    (\<And>s r t. p s = (r, t) \<Longrightarrow> t = s) \<Longrightarrow> packs env memo createdAt (bind_m p f)"
  unfolding packs_def by (fastforce simp: bind_Ret_iff)

lemma pack_list_one [simp]: "pack_list env [(base, [])]"
  by (simp add: pack_list_def)

lemma pack_list_two:
  "leaving \<noteq> [] \<Longrightarrow> entering \<noteq> [] \<Longrightarrow> createOutboundTransaction (txs env) base entering = Ret out \<Longrightarrow>
     createInboundTransaction (txs env) base leaving = Ret inb \<Longrightarrow> pack_list env [(out, leaving), (inb, entering)]"
  by (auto simp: pack_list_def)

lemma packs_error [simp]: "is_error d \<Longrightarrow> packs env memo createdAt (ret d)"
  by (simp add: packs_def)

lemma readCoinGroupId_same: "readCoinGroupId params a = (r, b) \<Longrightarrow> b = a"
  by (auto simp: readCoinGroupId_def bind_m_def split: prod.splits outcome.splits option.splits json.splits)

lemma parse_date_same: "parse_date env msg text a = (r, b) \<Longrightarrow> b = a"
  by (auto simp: parse_date_def bind_m_def try_m_def split: prod.splits outcome.splits if_splits)

lemma pack_keeps: "stays (shared_steps env) (JsonPackTransaction_handle env rq)"
proof -
  have result: "stays (shared_steps env) (resultBase64Transactions env memo createdAt ts es)" for memo createdAt ts es
    by (induction env memo createdAt ts es rule: resultBase64Transactions.induct)
      (auto simp: resultBase64Transactions.simps Let_def intro!: keeps)
  have coin: "stays (shared_steps env) (readCoinGroupId params)" for params
    by (rule staysI) (auto dest: readCoinGroupId_same)
  show ?thesis
    unfolding JsonPackTransaction_handle_def JsonPackTransaction_transfer_def JsonPackTransaction_creation_def
      pack_date_def JsonPackTransaction_registerAddress_def Let_def
    by (intro keeps result coin)
qed

lemma packs_kinds:
  "packs env memo createdAt (JsonPackTransaction_transfer env params memo createdAt)"
  "packs env memo createdAt (JsonPackTransaction_creation env params memo createdAt)"
  "packs env memo createdAt (JsonPackTransaction_registerAddress env params memo createdAt)"
  unfolding JsonPackTransaction_transfer_def JsonPackTransaction_creation_def
    JsonPackTransaction_registerAddress_def Let_def
  by (auto intro!: packs_bind packs_result pack_list_two packs_error
      dest: readCoinGroupId_same parse_date_same parse_date_Inl split: sum.split)

lemma pack_handle_Ret:
  assumes "JsonPackTransaction_handle env rq a = (Ret d, b)"
  shows "b = a \<and> (is_error d \<or>
     (\<exists>memo createdAt ts es. d = success_with ''transactions'' (JArray es) \<and> pack_list env ts \<and>
        memo = optString env (rq_params rq) ''memo'' [] \<and>
        list_all2 (packed env memo createdAt) ts es))"
proof -
  have date: "pack_date env str a = (Ret r, b) \<Longrightarrow> b = a \<and> (\<forall>e. r = Inl e \<longrightarrow> is_error e)" for str r a b
    by (auto simp: pack_date_def ret_iffs bind_Throw_iff)
  show ?thesis
    using assms
    by (auto simp: JsonPackTransaction_handle_def Let_def ret_iffs
        dest!: date packs_kinds [THEN packsD] split: sum.splits)
qed

interpretation pack: json_handler "JsonPackTransaction_handle env" env
  for env :: "('tx, 'n, 'c, 'w) env"
proof unfold_locales
  show "IsObject d" if "JsonPackTransaction_handle env rq a = (Ret d, b)"
    for rq d and a b :: "('c, 'w) app"
    using pack_handle_Ret [OF that] by (auto simp: IsObject_error)
  show "stays (shared_steps env) (JsonPackTransaction_handle env rq)" for rq
    by (rule pack_keeps)
qed

subsection \<open>Concrete inputs\<close>

definition demo_move :: request where
  "demo_move = \<lparr>rq_params = JObject [(''transactionType'', JString ''transfer''), (''created'', JString ''2022''),
      (''senderPubkey'', JString ''keya''), (''recipientPubkey'', JString ''keyb''), (''amount'', JString ''10''),
      (''senderGroupAlias'', JString ''gdd1''), (''recipientGroupAlias'', JString ''gdd2'')],
      rq_jwtToken = [], rq_clientIp = []\<rparr>"

subsection \<open>Properties\<close>



end
