(* ===== verification/Logins.thy ===== *)
theory Logins
  imports Handlers
begin

section \<open>JsonLogin and JsonOpenConnection\<close>

text \<open>
  The two handlers that answer a whole HTTP request.  The library call that reads and
  parses the body is the parameter \<^verbatim>\<open>parseJson\<close> of each; any method other than POST is
  answered with the null document.
\<close>

record http_request =
  http_method :: string
  http_body :: string
  http_client :: string

type_synonym json_parser = "string \<Rightarrow> json outcome"

subsection \<open>JsonLogin\<close>

definition JsonLogin_try ::
    "('tx, 'n, 'c, 'w) env \<Rightarrow> json_parser \<Rightarrow> http_request \<Rightarrow> (('c, 'w) app, document) m" where
  "JsonLogin_try env parseJson request =
     bind_m (outcome_of (parseJson (http_body request))) (\<lambda>params.
     (let username = optString env params ''name'' [];
          encryptedPasswordHex = optString env params ''password'' [];
          groupAlias = optString env params ''groupAlias'' [] in
      if username = [] \<or> encryptedPasswordHex = [] \<or> groupAlias = []
      then throw (LibException HandleRequestException ''parameter error'' [])
      else if \<not> isValidGroupAlias (conv env) groupAlias
      then throw (LibException HandleRequestException ''invalid group alias'' [])
      else
        bind_m (outcome_of (sealedDecrypt (crypto env) (g_JwtPrivateKey (cfg env))
                  (hexToBin (conv env) encryptedPasswordHex))) (\<lambda>password.
        bind_m (login env username password groupAlias (http_client request)) (\<lambda>jwtToken.
        ret (success_with ''token'' (JString (c_str jwtToken)))))))"

text \<open>The catch clauses, in their order; a missing key names itself in its second text.\<close>

definition JsonLogin_catch :: "('tx, 'n, 'c, 'w) env \<Rightarrow> exn \<Rightarrow> (('c, 'w) app, document) m" where
  "JsonLogin_catch env e =
     (if instance_of (isa_of env) SealedBoxesDecryptException e then ret (stateError ''cannot decrypt password'')
      else if is_InvalidPasswordException e then ret (stateError (exn_what e))
      else if instance_of (isa_of env) MissingKeyException e
      then ret (stateError (c_str (getFullString e @ '' is missing from config'')))
      else if instance_of (isa_of env) DecryptionFailedException e then ret (stateError ''Internal Server Error'')
      else if instance_of (isa_of env) GradidoBlockchainException e then ret (stateError (exn_what e))
      else if instance_of (isa_of env) PocoException e then ret (stateError ''Internal Server Error'')
      else if instance_of (isa_of env) StdRuntimeError e then ret (stateError ''Internal Server Error'')
      else throw e)"

definition JsonLogin_handleRequest ::
    "('tx, 'n, 'c, 'w) env \<Rightarrow> json_parser \<Rightarrow> http_request \<Rightarrow> (('c, 'w) app, document) m" where
  "JsonLogin_handleRequest env parseJson request =
     (if http_method request = ''POST''
      then try_m (JsonLogin_try env parseJson request) (JsonLogin_catch env)
      else ret NullDocument)"

subsection \<open>JsonOpenConnection\<close>

text \<open>
  The caller signs the server's public key.  A key that is not hex makes a null pointer
  that is dereferenced, and so does a missing server key.
\<close>

definition JsonOpenConnection_try ::
    "('tx, 'n, 'c, 'w) env \<Rightarrow> json_parser \<Rightarrow> http_request \<Rightarrow> (('c, 'w) app, document) m" where
  "JsonOpenConnection_try env parseJson request =
     bind_m (outcome_of (parseJson (http_body request))) (\<lambda>params.
     (let communityPubkeyHex = optString env params ''community-key-A'' [];
          signatureHex = optString env params ''signature'' [] in
      if communityPubkeyHex = [] \<or> signatureHex = []
      then throw (LibException HandleRequestException ''parameter error'' [])
      else
        (case (hexToBin (conv env) communityPubkeyHex, g_JwtPrivateKey (cfg env)) of
           (Some communityPubkey, Some privateKey) \<Rightarrow>
             (let serverPubkey = sk_to_pk (crypto env) privateKey in
              if \<not> verifySign (crypto env) communityPubkey serverPubkey (hexToBin (conv env) signatureHex)
              then throw (LibException Ed25519VerifyException ''cannot verify signature''
                            (binToHex (conv env) serverPubkey))
              else
                bind_m (gets (\<lambda>a. clock (svc env) (world a))) (\<lambda>now.
                ret (success_with ''token'' (JString (c_str
                  (signer_sign (jwt env) (g_JwtVerifySecret (cfg env))
                    \<lparr>tk_type = ''JWT'', tk_subject = ''openConnection'', tk_payload = [],
                     tk_issuedAt = now, tk_expiration = now + g_SessionValidDuration (cfg env)\<rparr>))))))
         | _ \<Rightarrow> undef)))"

definition JsonOpenConnection_catch :: "('tx, 'n, 'c, 'w) env \<Rightarrow> exn \<Rightarrow> (('c, 'w) app, document) m" where
  "JsonOpenConnection_catch env e =
     (if instance_of (isa_of env) Ed25519VerifyException e then ret (StateError (exn_what e) (DetailOf e))
      else if instance_of (isa_of env) GradidoBlockchainException e then ret (stateError (exn_what e))
      else if instance_of (isa_of env) PocoException e then ret (stateError ''Internal Server Error'')
      else if instance_of (isa_of env) StdRuntimeError e then ret (stateError ''Internal Server Error'')
      else throw e)"

definition JsonOpenConnection_handleRequest ::
    "('tx, 'n, 'c, 'w) env \<Rightarrow> json_parser \<Rightarrow> http_request \<Rightarrow> (('c, 'w) app, document) m" where
  "JsonOpenConnection_handleRequest env parseJson request =
     (if http_method request = ''POST''
      then try_m (JsonOpenConnection_try env parseJson request) (JsonOpenConnection_catch env)
      else ret NullDocument)"

subsection \<open>Lemmas\<close>

lemma login_catch_Ret:
  "JsonLogin_catch env e a = (Ret d, b) \<Longrightarrow> is_error d \<and> b = a"
  by (auto simp: JsonLogin_catch_def split: if_splits)

lemma open_catch_Ret:
  "JsonOpenConnection_catch env e a = (Ret d, b) \<Longrightarrow> is_error d \<and> b = a"
  by (auto simp: JsonOpenConnection_catch_def split: if_splits)

text \<open>What a catch chain lets through is none of the three families it ends with.\<close>

lemma login_catch_Throw:
  "JsonLogin_catch env e a = (Throw e', b) \<Longrightarrow>
     e' = e \<and> \<not> instance_of (isa_of env) GradidoBlockchainException e \<and>
     \<not> instance_of (isa_of env) PocoException e \<and> \<not> instance_of (isa_of env) StdRuntimeError e"
  by (auto simp: JsonLogin_catch_def split: if_splits)

lemma open_catch_Throw:
  "JsonOpenConnection_catch env e a = (Throw e', b) \<Longrightarrow>
     e' = e \<and> \<not> instance_of (isa_of env) GradidoBlockchainException e \<and>
     \<not> instance_of (isa_of env) PocoException e \<and> \<not> instance_of (isa_of env) StdRuntimeError e"
  by (auto simp: JsonOpenConnection_catch_def split: if_splits)

lemma login_request_keeps:
  "others_step env \<Longrightarrow> stays (shared_steps env) (JsonLogin_handleRequest env parseJson request)"
  unfolding JsonLogin_handleRequest_def JsonLogin_try_def JsonLogin_catch_def Let_def
  by (intro keeps login_keeps)

lemma open_request_keeps [keeps]: "stays (shared_steps env) (JsonOpenConnection_handleRequest env parseJson request)"
  unfolding JsonOpenConnection_handleRequest_def JsonOpenConnection_try_def JsonOpenConnection_catch_def Let_def
  by (auto intro!: keeps split: prod.split option.split)

lemma login_request_null:
  "JsonLogin_handleRequest env parseJson request a = (Ret d, b) \<Longrightarrow>
     (d = NullDocument \<longleftrightarrow> http_method request \<noteq> ''POST'') \<and> (d = NullDocument \<longrightarrow> b = a)"
  by (auto simp: JsonLogin_handleRequest_def JsonLogin_try_def Let_def ret_iffs dest: login_catch_Ret)

lemma open_request_null:
  "JsonOpenConnection_handleRequest env parseJson request a = (Ret d, b) \<Longrightarrow>
     (d = NullDocument \<longleftrightarrow> http_method request \<noteq> ''POST'') \<and> (d = NullDocument \<longrightarrow> b = a)"
  by (auto simp: JsonOpenConnection_handleRequest_def JsonOpenConnection_try_def Let_def ret_iffs
      dest: open_catch_Ret split: option.splits)

lemma login_request_throws:
  "JsonLogin_handleRequest env parseJson request a = (Throw e, b) \<Longrightarrow>
     \<not> instance_of (isa_of env) GradidoBlockchainException e \<and>
     \<not> instance_of (isa_of env) PocoException e \<and> \<not> instance_of (isa_of env) StdRuntimeError e"
  by (auto simp: JsonLogin_handleRequest_def try_Throw_iff dest: login_catch_Throw split: if_splits)

lemma open_request_throws:
  "JsonOpenConnection_handleRequest env parseJson request a = (Throw e, b) \<Longrightarrow>
     \<not> instance_of (isa_of env) GradidoBlockchainException e \<and>
     \<not> instance_of (isa_of env) PocoException e \<and> \<not> instance_of (isa_of env) StdRuntimeError e"
  by (auto simp: JsonOpenConnection_handleRequest_def try_Throw_iff dest: open_catch_Throw split: if_splits)

lemma success_with_eq: "success_with k v = StateSuccess ms \<longleftrightarrow> ms = [(k, v)]"
  by (auto simp: success_with_def)

lemma login_request_login:
  assumes "JsonLogin_handleRequest env parseJson request a = (Ret (StateSuccess ms), b)"
  shows "\<exists>params u pw ga tok.
     parseJson (http_body request) = Ret params \<and> u = optString env params ''name'' [] \<and>
     sealedDecrypt (crypto env) (g_JwtPrivateKey (cfg env))
       (hexToBin (conv env) (optString env params ''password'' [])) = Ret pw \<and>
     login env u pw ga (http_client request) a = (Ret tok, b) \<and> ms = [(''token'', JString (c_str tok))]"
  using assms by (auto simp: JsonLogin_handleRequest_def JsonLogin_try_def Let_def ret_iffs success_with_eq
      dest: login_catch_Ret)

subsection \<open>Concrete inputs\<close>

definition demo_parse :: json_parser where
  "demo_parse body = Ret (JObject [(''name'', JString ''al''), (''password'', JString body), (''groupAlias'', JString ''gdd1'')])"

subsection \<open>Properties\<close>

text \<open>
  A login request succeeds exactly when it is a POST whose body parses, with a
  name, a password and a valid group alias, whose password decrypts with the server's
  key, and whose login returns a token; the answer is that token.
\<close>

lemma login_request_success:
  "JsonLogin_handleRequest env parseJson request a = (Ret (StateSuccess ms), b) \<longleftrightarrow>
     http_method request = ''POST'' \<and>
     (\<exists>params username hex groupAlias password tok.
        parseJson (http_body request) = Ret params \<and>
        username = optString env params ''name'' [] \<and> username \<noteq> [] \<and>
        hex = optString env params ''password'' [] \<and> hex \<noteq> [] \<and>
        groupAlias = optString env params ''groupAlias'' [] \<and> groupAlias \<noteq> [] \<and>
        isValidGroupAlias (conv env) groupAlias \<and>
        sealedDecrypt (crypto env) (g_JwtPrivateKey (cfg env)) (hexToBin (conv env) hex) = Ret password \<and>
        login env username password groupAlias (http_client request) a = (Ret tok, b) \<and>
        ms = [(''token'', JString (c_str tok))])"
  by (auto simp: JsonLogin_handleRequest_def JsonLogin_try_def Let_def ret_iffs success_with_eq
      dest: login_catch_Ret)





text \<open>
  An open connection request succeeds exactly when it is a POST with a hex key and
  a signature that verifies, under that key, for the public key of the server; any key
  will do, the answer is a token for the connection without a user name, and nothing
  is changed.
\<close>

lemma openConnection_success:
  "JsonOpenConnection_handleRequest env parseJson request a = (Ret (StateSuccess ms), b) \<longleftrightarrow>
     http_method request = ''POST'' \<and> b = a \<and>
     (\<exists>params communityPubkey privateKey.
        parseJson (http_body request) = Ret params \<and>
        optString env params ''community-key-A'' [] \<noteq> [] \<and> optString env params ''signature'' [] \<noteq> [] \<and>
        hexToBin (conv env) (optString env params ''community-key-A'' []) = Some communityPubkey \<and>
        g_JwtPrivateKey (cfg env) = Some privateKey \<and>
        verifySign (crypto env) communityPubkey (sk_to_pk (crypto env) privateKey)
          (hexToBin (conv env) (optString env params ''signature'' [])) \<and>
        ms = [(''token'', JString (c_str (signer_sign (jwt env) (g_JwtVerifySecret (cfg env))
               \<lparr>tk_type = ''JWT'', tk_subject = ''openConnection'', tk_payload = [],
                tk_issuedAt = clock (svc env) (world a),
                tk_expiration = clock (svc env) (world a) + g_SessionValidDuration (cfg env)\<rparr>)))])"
  by (auto simp: JsonOpenConnection_handleRequest_def JsonOpenConnection_try_def Let_def ret_iffs success_with_eq
      dest: open_catch_Ret split: option.splits)

end
