(* ===== verification/ListTransactions.thy ===== *)
theory ListTransactions
  imports Handlers
begin

section \<open>JsonListTransactions\<close>

text \<open>
  The handler of \<^verbatim>\<open>/listTransactions\<close> passes the question on to the Gradido Node and
  rewrites the answer in place: the public key of the other user gives way to the name
  the database has for it, and an encrypted memo to its text.
\<close>

subsection \<open>Members of an object, as rapidjson changes them\<close>

text \<open>\<^verbatim>\<open>RemoveMember\<close>: the last member takes the place of the first one with the name.\<close>

fun remove_member :: "string \<Rightarrow> (string \<times> json) list \<Rightarrow> (string \<times> json) list" where
  "remove_member k [] = []"
| "remove_member k (m # ms) =
     (if fst m = k then (if ms = [] then [] else last ms # butlast ms) else m # remove_member k ms)"

definition add_member :: "string \<Rightarrow> json \<Rightarrow> (string \<times> json) list \<Rightarrow> (string \<times> json) list" where
  "add_member k v ms = ms @ [(k, v)]"

text \<open>A change of the value an iterator from \<^verbatim>\<open>FindMember\<close> points to.\<close>

fun set_member :: "string \<Rightarrow> json \<Rightarrow> (string \<times> json) list \<Rightarrow> (string \<times> json) list" where
  "set_member k v [] = []"
| "set_member k v (m # ms) = (if fst m = k then (k, v) # ms else m # set_member k v ms)"

fun get_object :: "json \<Rightarrow> (string \<times> json) list outcome" where
  "get_object (JObject ms) = Ret ms"
| "get_object _ = Undef"

subsection \<open>The memo filter\<close>

text \<open>
  \<^verbatim>\<open>g_base64RegExp\<close>: groups of four letters of the base64 alphabet, then nothing, or a
  last group with one to three padding signs.  \<^verbatim>\<open>match\<close> asks for a match of the whole,
  nonempty subject.
\<close>

definition base64_char :: "char \<Rightarrow> bool" where
  "base64_char c \<longleftrightarrow>
     (let n = (of_char c :: nat) in
      97 \<le> n \<and> n \<le> 122 \<or> 65 \<le> n \<and> n \<le> 90 \<or> 48 \<le> n \<and> n \<le> 57 \<or> c = CHR ''+'' \<or> c = CHR ''/'')"

fun base64_groups :: "string \<Rightarrow> bool" where
  "base64_groups [] = True"
| "base64_groups (a # b # c # d # s) =
     ((base64_char a \<and> base64_char b \<and> base64_char c \<and> base64_char d \<and> base64_groups s) \<or>
      (s = [] \<and> base64_char a \<and>
        (base64_char b \<and> base64_char c \<and> d = CHR ''='' \<or>
         base64_char b \<and> c = CHR ''='' \<and> d = CHR ''='' \<or>
         b = CHR ''='' \<and> c = CHR ''='' \<and> d = CHR ''='')))"
| "base64_groups _ = False"

definition base64_match :: "string \<Rightarrow> bool" where
  "base64_match s \<longleftrightarrow> s \<noteq> [] \<and> base64_groups s"

subsection \<open>One transaction\<close>

text \<open>The first loop: the distinct nonempty public keys, in the order they come.\<close>

definition linked_pubkey :: "json \<Rightarrow> string outcome" where
  "linked_pubkey it =
     (case member it ''linkedUser'' of
        Ret u \<Rightarrow> (case member u ''pubkey'' of Ret v \<Rightarrow> get_string v | Throw e \<Rightarrow> Throw e | Undef \<Rightarrow> Undef)
      | Throw e \<Rightarrow> Throw e | Undef \<Rightarrow> Undef)"

fun collect_pubkeys :: "json list \<Rightarrow> string list \<Rightarrow> string list outcome" where
  "collect_pubkeys [] pubkeys = Ret pubkeys"
| "collect_pubkeys (it # its) pubkeys =
     (case linked_pubkey it of
        Ret pubkeyString \<Rightarrow>
          collect_pubkeys its
            (if pubkeyString \<noteq> [] \<and> pubkeyString \<notin> set pubkeys then pubkeys @ [pubkeyString] else pubkeys)
      | Throw e \<Rightarrow> Throw e
      | Undef \<Rightarrow> Undef)"

text \<open>
  The linked user without the key, and with the name of the database as first name,
  unless the transaction is a creation.
\<close>

definition rename_user ::
    "(string \<rightharpoonup> string) \<Rightarrow> string \<Rightarrow> json option \<Rightarrow> (string \<times> json) list \<Rightarrow> (string \<times> json) list outcome" where
  "rename_user names pubkeyHex typeId user =
     (let user = remove_member ''pubkey'' user in
      case names pubkeyHex of
        None \<Rightarrow> Ret user
      | Some name \<Rightarrow>
          (let renamed = add_member ''firstName'' (JString (c_str name)) (remove_member ''firstName'' user) in
           case typeId of
             None \<Rightarrow> Ret renamed
           | Some t \<Rightarrow>
               map_outcome (\<lambda>ty. if c_str ty = ''CREATE'' then user else renamed) (get_string t)))"

text \<open>The memo, when it looks encrypted and decrypts to something.\<close>

definition clear_memo ::
    "('tx, 'n, 'c, 'w) env \<Rightarrow> session \<Rightarrow> string \<Rightarrow> json option \<Rightarrow> (string \<times> json) list \<Rightarrow>
       (('c, 'w) app, (string \<times> json) list) m" where
  "clear_memo env session pubkeyHex typeId ms =
     (case (map_of ms ''memo'', typeId) of
        (Some memoValue, Some t) \<Rightarrow>
          bind_m (outcome_of (get_string memoValue)) (\<lambda>memoText.
          bind_m (outcome_of (get_string t)) (\<lambda>_.
          (let memo = c_str memoText in
           if base64_match memo then
             (case hexToBin (conv env) pubkeyHex of
                None \<Rightarrow> ret ms
              | Some pubkey \<Rightarrow>
                  (case mUserKeyPair session of
                     None \<Rightarrow> undef
                   | Some kp \<Rightarrow>
                       bind_m (decryptMemo env memo pubkey (kpPrivate kp)) (\<lambda>clearMemo.
                       ret (if clearMemo \<noteq> []
                            then add_member ''memo'' (JString (c_str clearMemo)) (remove_member ''memo'' ms) else ms))))
           else ret ms)))
      | _ \<Rightarrow> ret ms)"

text \<open>The second loop.\<close>

definition rewrite_transaction ::
    "('tx, 'n, 'c, 'w) env \<Rightarrow> session \<Rightarrow> (string \<rightharpoonup> string) \<Rightarrow> json \<Rightarrow> (('c, 'w) app, json) m" where
  "rewrite_transaction env session names it =
     bind_m (outcome_of (linked_pubkey it)) (\<lambda>pubkeyStringHex.
     bind_m (outcome_of (get_object it)) (\<lambda>ms.
     bind_m (outcome_of (member it ''linkedUser'')) (\<lambda>linkedUser.
     bind_m (outcome_of (get_object linkedUser)) (\<lambda>user.
     (let typeId = map_of ms ''typeId'' in
      bind_m (outcome_of (rename_user names pubkeyStringHex typeId user)) (\<lambda>user'.
      bind_m (clear_memo env session pubkeyStringHex typeId (set_member ''linkedUser'' (JObject user') ms)) (\<lambda>ms'.
      ret (JObject ms'))))))))"

fun rewrite_all ::
    "('tx, 'n, 'c, 'w) env \<Rightarrow> session \<Rightarrow> (string \<rightharpoonup> string) \<Rightarrow> json list \<Rightarrow> (('c, 'w) app, json list) m" where
  "rewrite_all env session names [] = ret []"
| "rewrite_all env session names (it # its) =
     bind_m (rewrite_transaction env session names it) (\<lambda>it'.
     bind_m (rewrite_all env session names its) (\<lambda>its'.
     ret (it' # its')))"

subsection \<open>The handler\<close>

text \<open>The question: all members of the parameters, then the key and the group of the session.\<close>

definition list_question :: "('tx, 'n, 'c, 'w) env \<Rightarrow> session \<Rightarrow> bytes \<Rightarrow> (string \<times> json) list \<Rightarrow> json" where
  "list_question env session publicKey ps =
     JObject (add_member ''groupAlias'' (JString (c_str (mGroupAlias session)))
       (add_member ''pubkey'' (JString (c_str (binToHex (conv env) publicKey))) ps))"

definition JsonListTransactions_handle ::
    "('tx, 'n, 'c, 'w) env \<Rightarrow> request \<Rightarrow> (('c, 'w) app, document) m" where
  "JsonListTransactions_handle env rq =
     bind_m (getSession env (rq_jwtToken rq) (rq_clientIp rq)) (\<lambda>session.
     bind_m (outcome_of (get_object (rq_params rq))) (\<lambda>ps.
     case getPublicKey session of
       None \<Rightarrow> undef
     | Some publicKey \<Rightarrow>
         bind_m
           (try_m
             (bind_m (on_world (nodeRequest (svc env) ''listtransactions'' (list_question env session publicKey ps)))
                (\<lambda>j. ret (Inr j)))
             (\<lambda>e. if instance_of (isa_of env) GradidoBlockchainException e
                  then ret (Inl (stateError ''error by requesting Gradido Node'')) else throw e)) (\<lambda>r.
         case r of
           Inl err \<Rightarrow> ret err
         | Inr jsonAnswear \<Rightarrow>
             bind_m (outcome_of (member jsonAnswear ''result'')) (\<lambda>result.
             bind_m (outcome_of (member result ''transactionList'')) (\<lambda>transactionList.
             bind_m (outcome_of (get_object transactionList)) (\<lambda>ls.
             bind_m (outcome_of (member transactionList ''transactions'')) (\<lambda>v.
             bind_m (outcome_of (get_array v)) (\<lambda>transactions.
             bind_m (outcome_of (collect_pubkeys transactions [])) (\<lambda>pubkeys.
             bind_m
               (if pubkeys \<noteq> [] then
                  bind_m (loadUserNamesForPubkeys env pubkeys) (\<lambda>names.
                  rewrite_all env session names transactions)
                else ret transactions) (\<lambda>transactions'.
             ret (success_with ''transactionList''
                    (JObject (set_member ''transactions'' (JArray transactions') ls)))))))))))))"

subsection \<open>Lemmas\<close>

lemma rewrite_keeps [keeps]:
  "stays (shared_steps env) (clear_memo env session pk ty ms)"
  "stays (shared_steps env) (rewrite_transaction env session names it)"
  "stays (shared_steps env) (rewrite_all env session names its)"
proof -
  show memo: "stays (shared_steps env) (clear_memo env session pk ty ms)" for pk ty ms
    unfolding clear_memo_def Let_def by (auto intro!: keeps split: option.split prod.split)
  show tx: "stays (shared_steps env) (rewrite_transaction env session names it)" for it
    unfolding rewrite_transaction_def Let_def by (intro keeps memo)
  show "stays (shared_steps env) (rewrite_all env session names its)"
    by (induction its) (auto intro!: keeps tx)
qed

lemma list_keeps: "stays (shared_steps env) (JsonListTransactions_handle env rq)"
  unfolding JsonListTransactions_handle_def by (intro keeps)

lemma list_Ret: "JsonListTransactions_handle env rq a = (Ret d, b) \<Longrightarrow> IsObject d"
  by (auto simp: JsonListTransactions_handle_def ret_iffs)

interpretation list_transactions: json_handler "JsonListTransactions_handle env" env
  for env :: "('tx, 'n, 'c, 'w) env"
  by unfold_locales (auto dest: list_Ret intro: list_keeps)

text \<open>Names in an object.\<close>

lemma remove_member_set:
  "distinct (map fst ms) \<Longrightarrow>
     set (remove_member k ms) = {m \<in> set ms. fst m \<noteq> k} \<and> distinct (map fst (remove_member k ms))"
proof (induction ms)
  case (Cons m ms)
  show ?case
  proof (cases "fst m = k")
    case True
    have k: "\<forall>x \<in> set ms. fst x \<noteq> k"
    proof
      fix x assume "x \<in> set ms"
      then have "fst x \<in> fst ` set ms" by (rule imageI)
      moreover have "k \<notin> fst ` set ms" using Cons.prems True by simp
      ultimately show "fst x \<noteq> k" by metis
    qed
    from Cons.prems have d: "distinct (map fst ms)" by simp
    show ?thesis
    proof (cases ms rule: rev_cases)
      case (snoc ns n)
      with True k d show ?thesis by auto
    qed (use True in simp)
  next
    case False
    with Cons show ?thesis by auto
  qed
qed simp

lemma map_of_remove_member:
  assumes "distinct (map fst ms)"
  shows "map_of (remove_member k ms) = (map_of ms)(k := None)"
proof
  fix j
  note r = remove_member_set [OF assms, of k]
  show "map_of (remove_member k ms) j = ((map_of ms)(k := None)) j"
  proof (cases "map_of (remove_member k ms) j")
    case None
    with r have "j = k \<or> j \<notin> fst ` set ms" by (auto simp: map_of_eq_None_iff image_iff)
    with None show ?thesis by (cases "j = k") (simp_all, metis map_of_eq_None_iff)
  next
    case (Some v)
    with r have "(j, v) \<in> set ms" "j \<noteq> k" by (auto dest!: map_of_SomeD)
    with Some assms show ?thesis by simp
  qed
qed

lemma map_of_add_member: "map_of (add_member k v ms) = map_of [(k, v)] ++ map_of ms"
  by (simp add: add_member_def map_of_append)

lemma set_member_names [simp]: "map fst (set_member k v ms) = map fst ms"
  by (induction ms) auto

lemma map_of_set_member:
  "map_of ms k \<noteq> None \<Longrightarrow> map_of (set_member k v ms) = (map_of ms)(k \<mapsto> v)"
  by (induction ms) (auto simp: fun_eq_iff)

text \<open>What one rewriting does, member by member.\<close>

lemma rename_user_effect:
  assumes "rename_user names pk ty user = Ret user'" and "distinct (map fst user)"
  shows "map_of user' ''pubkey'' = None \<and>
    (\<forall>k. k \<noteq> ''pubkey'' \<and> k \<noteq> ''firstName'' \<longrightarrow> map_of user' k = map_of user k) \<and>
    (case names pk of
       None \<Rightarrow> map_of user' ''firstName'' = map_of user ''firstName''
     | Some name \<Rightarrow>
         map_of user' ''firstName'' =
           (if \<exists>s. ty = Some (JString s) \<and> c_str s = ''CREATE'' then map_of user ''firstName''
            else Some (JString (c_str name))))"
proof -
  note r = remove_member_set [OF assms(2), of "''pubkey''"]
  note maps = map_of_remove_member [OF assms(2)] map_of_remove_member [OF conjunct2 [OF r]]
  have str: "get_string t = Ret s \<longleftrightarrow> t = JString s" for t s by (cases t) auto
  show ?thesis
  proof (cases "names pk")
    case None
    with assms(1) have "user' = remove_member ''pubkey'' user" by (simp add: rename_user_def)
    with None show ?thesis by (simp add: maps)
  next
    case (Some name)
    let ?user = "remove_member ''pubkey'' user"
    have "user' = (if \<exists>s. ty = Some (JString s) \<and> c_str s = ''CREATE'' then ?user
        else add_member ''firstName'' (JString (c_str name)) (remove_member ''firstName'' ?user))"
      using assms(1) Some by (auto simp: rename_user_def Let_def map_outcome_Ret str split: option.splits)
    with Some show ?thesis by (auto simp: maps map_of_add_member map_add_def split: option.split)
  qed
qed

lemma clear_memo_effect:
  assumes "clear_memo env session pk ty ms a = (Ret ms', b)" and "distinct (map fst ms)"
  shows "(\<forall>k. k \<noteq> ''memo'' \<longrightarrow> map_of ms' k = map_of ms k) \<and>
    (map_of ms' ''memo'' = map_of ms ''memo'' \<or>
     (\<exists>memo key kp t c.
        map_of ms ''memo'' = Some (JString memo) \<and> base64_match (c_str memo) \<and>
        hexToBin (conv env) pk = Some key \<and> mUserKeyPair session = Some kp \<and>
        decryptMemo env (c_str memo) key (kpPrivate kp) a = (Ret t, c) \<and> t \<noteq> [] \<and>
        map_of ms' ''memo'' = Some (JString (c_str t))))"
proof -
  have str: "get_string v = Ret s \<longleftrightarrow> v = JString s" for v s by (cases v) auto
  have maps: "map_of (add_member ''memo'' v (remove_member ''memo'' ms)) = (map_of ms)(''memo'' \<mapsto> v)" for v
    by (simp add: map_of_add_member map_of_remove_member [OF assms(2)] fun_eq_iff map_add_def split: option.split)
  show ?thesis
    using assms(1)
    by (auto simp: clear_memo_def Let_def ret_iffs str maps split: option.splits if_splits)
qed

text \<open>The filter, declaratively.\<close>

definition padded :: "string \<Rightarrow> bool" where
  "padded s \<longleftrightarrow> (\<exists>k \<le> 3. \<exists>t. s = t @ replicate k CHR ''='' \<and> list_all base64_char t)"

lemma padded_Nil [simp]: "padded []"
  by (auto simp: padded_def)

lemma padded_Cons:
  "padded (a # s) \<longleftrightarrow> base64_char a \<and> padded s \<or> a = CHR ''='' \<and> (\<exists>k < 3. s = replicate k CHR ''='')"
proof
  assume "padded (a # s)"
  then obtain k t where k: "k \<le> 3" "a # s = t @ replicate k CHR ''=''" "list_all base64_char t"
    by (auto simp: padded_def)
  show "base64_char a \<and> padded s \<or> a = CHR ''='' \<and> (\<exists>k < 3. s = replicate k CHR ''='')"
  proof (cases t)
    case Nil
    with k show ?thesis by (cases k) auto
  qed (use k in \<open>auto simp: padded_def\<close>)
next
  assume "base64_char a \<and> padded s \<or> a = CHR ''='' \<and> (\<exists>k < 3. s = replicate k CHR ''='')"
  then show "padded (a # s)"
  proof
    assume "base64_char a \<and> padded s"
    then obtain k t where "k \<le> 3" "s = t @ replicate k CHR ''=''" "list_all base64_char (a # t)"
      by (auto simp: padded_def)
    then show ?thesis unfolding padded_def by (metis append_Cons)
  next
    assume "a = CHR ''='' \<and> (\<exists>k < 3. s = replicate k CHR ''='')"
    then obtain k where "Suc k \<le> 3" "a # s = [] @ replicate (Suc k) CHR ''=''" by auto
    then show ?thesis unfolding padded_def by (metis list.pred_inject(1))
  qed
qed

lemma ex_less_3: "(\<exists>k < 3. P k) \<longleftrightarrow> P (0::nat) \<or> P 1 \<or> P 2"
  by (auto simp: less_Suc_eq numeral_3_eq_3 numeral_2_eq_2)

lemma small_dvd: "\<not> (4::nat) dvd Suc 0" "\<not> (4::nat) dvd Suc (Suc 0)" "\<not> (4::nat) dvd Suc (Suc (Suc 0))"
  by presburger+

lemma base64_groups_iff: "base64_groups s \<longleftrightarrow> 4 dvd length s \<and> padded s"
proof (induction s rule: base64_groups.induct)
  case (2 a b c d s)
  have len: "4 dvd length (a # b # c # d # s) \<longleftrightarrow> 4 dvd length s" by simp presburger
  show ?case
  proof (cases "s = []")
    case True
    have "(4::nat) dvd Suc (Suc (Suc (Suc 0)))" by presburger
    with True show ?thesis
      by (auto simp: padded_Cons ex_less_3 numeral_2_eq_2)
  next
    case False
    have "(\<exists>k < 3. x # y # z # s = replicate k CHR ''='') \<longleftrightarrow> False" for x y z
      by (auto simp: ex_less_3 numeral_2_eq_2)
    moreover have "4 dvd length s \<Longrightarrow> (\<exists>k < 3. ys @ s = replicate k CHR ''='') \<longleftrightarrow> False" for ys
    proof -
      assume "4 dvd length s"
      with False have "4 \<le> length s" by (simp add: dvd_imp_le)
      then show "(\<exists>k < 3. ys @ s = replicate k CHR ''='') \<longleftrightarrow> False"
        by (auto dest!: arg_cong [where f = length])
    qed
    note this [of "[]"] this [of "[_]"] this [of "[_, _]"]
    ultimately show ?thesis
      using 2 False len by (auto simp: padded_Cons [of _ "_ # _"] padded_Cons [of _ s])
  qed
qed (auto simp: padded_Cons small_dvd)

lemma base64_match_no_nul: "base64_match s \<Longrightarrow> CHR 0x00 \<notin> set s"
proof
  assume "base64_match s" and nul: "CHR 0x00 \<in> set s"
  then obtain k t where "s = t @ replicate k CHR ''=''" "list_all base64_char t"
    by (auto simp: base64_match_def base64_groups_iff padded_def)
  with nul have "base64_char (CHR 0x00)" by (auto simp: list_all_iff)
  then show False by code_simp
qed

subsection \<open>Concrete inputs\<close>

definition demo_listed :: "(string \<times> json) list" where
  "demo_listed = [(''linkedUser'', JObject [(''pubkey'', JString ''keyb''), (''firstName'', JString ''unknown'')]),
     (''typeId'', JString ''SEND''), (''memo'', JString ''QUJD'')]"

subsection \<open>Properties\<close>

text \<open>
  C36. The filter for encrypted memos accepts exactly the nonempty texts of a length
  divisible by four that are letters of the base64 alphabet followed by at most three
  padding signs.
\<close>

theorem base64_match_spec:
  "base64_match s \<longleftrightarrow>
     s \<noteq> [] \<and> 4 dvd length s \<and>
     (\<exists>k \<le> 3. \<exists>t. s = t @ replicate k CHR ''='' \<and> list_all base64_char t)"
  by (simp add: base64_match_def base64_groups_iff padded_def)



end
