(* ===== verification/Server.thy ===== *)
theory Server
  imports Versions Creation Transfers Register Notify Pack Logins ListTransactions
begin

section \<open>JsonRequestHandlerFactory: a request from its path to its answer\<close>

text \<open>
  How a request finds its handler, and the run of one request and of many.  The request
  log is not modelled.
\<close>

subsection \<open>JsonRequestHandlerFactory\<close>

datatype handler_class =
    JsonPackTransaction | JsonSendTransactionIota | JsonCreationTransaction | JsonTransferTransaction
  | JsonRegisterAddressTransaction | JsonLogin | JsonOpenConnection | JsonTransactionListener
  | JsonListTransactions | JsonGetPendingTransactions | JsonUnknown

text \<open>\<^verbatim>\<open>^/([a-zA-Z0-9_-]*)\<close>: \<^verbatim>\<open>extract\<close> gives the matched text, or the empty text.\<close>

definition url_char :: "char \<Rightarrow> bool" where
  "url_char c \<longleftrightarrow>
     (let n = (of_char c :: nat) in
      97 \<le> n \<and> n \<le> 122 \<or> 65 \<le> n \<and> n \<le> 90 \<or> 48 \<le> n \<and> n \<le> 57 \<or> c = CHR ''_'' \<or> c = CHR ''-'')"

fun extract_first_part :: "string \<Rightarrow> string" where
  "extract_first_part [] = []"
| "extract_first_part (c # cs) = (if c = CHR ''/'' then c # takeWhile url_char cs else [])"

definition handler_for :: "string \<Rightarrow> handler_class" where
  "handler_for url_first_part =
     (if url_first_part = ''/packTransaction'' then JsonPackTransaction
      else if url_first_part = ''/sendTransactionIota'' then JsonSendTransactionIota
      else if url_first_part = ''/creation'' then JsonCreationTransaction
      else if url_first_part = ''/transfer'' then JsonTransferTransaction
      else if url_first_part = ''/registerAddress'' then JsonRegisterAddressTransaction
      else if url_first_part = ''/login'' then JsonLogin
      else if url_first_part = ''/openCommunication'' then JsonOpenConnection
      else if url_first_part = ''/notify'' then JsonTransactionListener
      else if url_first_part = ''/listTransactions'' then JsonListTransactions
      else if url_first_part = ''/listPending'' then JsonGetPendingTransactions
      else JsonUnknown)"

text \<open>
  The forwarded address of the header \<^verbatim>\<open>X-Real-IP\<close>, or else the client's, is parsed and
  then not used; a header that is not an address ends the request here.  The cookie is
  read in a \<^verbatim>\<open>try\<close> that drops every exception, and its value is not used either.
\<close>

definition createRequestHandler ::
    "(string \<Rightarrow> unit outcome) \<Rightarrow> string \<Rightarrow> string option \<Rightarrow> string \<Rightarrow> handler_class outcome" where
  "createRequestHandler parseIP uri realIp clientHost =
     (let client_host_string = (case realIp of Some ip \<Rightarrow> ip | None \<Rightarrow> clientHost) in
      map_outcome (\<lambda>_. handler_for (extract_first_part uri)) (parseIP client_host_string))"

text \<open>
  The virtual call \<^verbatim>\<open>handle\<close>.  The two login classes answer the whole HTTP request
  instead.
\<close>

definition virtual_handle ::
    "('tx, 'n, 'c, 'w) env \<Rightarrow> handler_class \<Rightarrow> (request \<Rightarrow> (('c, 'w) app, document) m) option" where
  "virtual_handle env c =
     (case c of
        JsonPackTransaction \<Rightarrow> Some (JsonPackTransaction_handle env)
      | JsonSendTransactionIota \<Rightarrow> Some (JsonSendTransactionIota_handle env)
      | JsonCreationTransaction \<Rightarrow> Some (JsonCreationTransaction_handle env)
      | JsonTransferTransaction \<Rightarrow> Some (JsonTransferTransaction_handle env)
      | JsonRegisterAddressTransaction \<Rightarrow> Some (JsonRegisterAddressTransaction_handle env)
      | JsonTransactionListener \<Rightarrow> Some (JsonTransactionListener_handle env)
      | JsonListTransactions \<Rightarrow> Some (JsonListTransactions_handle env)
      | JsonGetPendingTransactions \<Rightarrow> Some (JsonGetPendingTransactions_handle env)
      | JsonUnknown \<Rightarrow> Some JsonUnknown_handle
      | JsonLogin \<Rightarrow> None
      | JsonOpenConnection \<Rightarrow> None)"

text \<open>
  One request as the HTTP server hands it over: its line and headers, and its body, as
  the JSON and token the library's base class passes to \<^verbatim>\<open>handle\<close>, and as text for
  the two classes that read the body themselves.
\<close>

record incoming =
  in_uri :: string
  in_realIp :: "string option"
  in_host :: string
  in_request :: request
  in_http :: http_request

definition serve ::
    "('tx, 'n, 'c, 'w) env \<Rightarrow> (string \<Rightarrow> unit outcome) \<Rightarrow> json_parser \<Rightarrow> incoming \<Rightarrow> (('c, 'w) app, document) m" where
  "serve env parseIP parseJson rq =
     bind_m (outcome_of (createRequestHandler parseIP (in_uri rq) (in_realIp rq) (in_host rq))) (\<lambda>c.
     case virtual_handle env c of
       Some handle \<Rightarrow> handle (in_request rq)
     | None \<Rightarrow>
         if c = JsonLogin then JsonLogin_handleRequest env parseJson (in_http rq)
         else JsonOpenConnection_handleRequest env parseJson (in_http rq))"

text \<open>Requests one after the other; an exception ends the request it comes from only.\<close>

definition serve_all ::
    "('tx, 'n, 'c, 'w) env \<Rightarrow> (string \<Rightarrow> unit outcome) \<Rightarrow> json_parser \<Rightarrow> incoming list \<Rightarrow> (('c, 'w) app, unit) m" where
  "serve_all env parseIP parseJson =
     each_m (\<lambda>rq. try_m (bind_m (serve env parseIP parseJson rq) (\<lambda>_. ret ())) (\<lambda>_. ret ()))"

subsection \<open>Lemmas\<close>

lemma takeWhile_url_append:
  "list_all url_char cs \<Longrightarrow> \<not> url_char d \<Longrightarrow> takeWhile url_char (cs @ d # ds) = cs"
  by (induction cs) auto

lemma virtual_handle_json:
  assumes "virtual_handle env c = Some h"
  shows "(h rq a = (Ret d, b) \<longrightarrow> IsObject d) \<and> stays (shared_steps env) (h rq)"
  using assms
  by (auto simp: virtual_handle_def split: handler_class.splits
      dest: pack.answers send_iota.answers creation.answers transfer.answers register.answers
        listener.answers list_transactions.answers get_pending.answers unknown.answers
      intro: pack.respects send_iota.respects creation.respects transfer.respects register.respects
        listener.respects list_transactions.respects get_pending.respects unknown.respects)

lemma virtual_handle_keeps: "virtual_handle env c = Some h \<Longrightarrow> stays (shared_steps env) (h rq)"
  using virtual_handle_json by blast

lemma virtual_handle_answers: "virtual_handle env c = Some h \<Longrightarrow> h rq a = (Ret d, b) \<Longrightarrow> d \<noteq> NullDocument"
  using virtual_handle_json IsObject_iff by blast

lemma virtual_handle_None: "virtual_handle env c = None \<longleftrightarrow> c = JsonLogin \<or> c = JsonOpenConnection"
  by (cases c) (simp_all add: virtual_handle_def)

text \<open>What follows for a request and for a run of requests.\<close>

lemma request_steps:
  assumes "others_step env"
  shows "stays (shared_steps env) (serve env parseIP parseJson rq)"
  unfolding serve_def
  by (intro steps.stays_bind steps.stays_pure)
    (auto intro: virtual_handle_keeps login_request_keeps [OF assms] open_request_keeps split: option.split)

lemma requests_steps:
  "others_step env \<Longrightarrow> stays (shared_steps env) (serve_all env parseIP parseJson rqs)"
  unfolding serve_all_def
  by (intro steps.stays_each steps.stays_try steps.stays_bind steps.stays_pure request_steps)

lemma serve_Ret:
  "serve env parseIP parseJson rq a = (Ret d, b) \<longleftrightarrow>
     (\<exists>c. createRequestHandler parseIP (in_uri rq) (in_realIp rq) (in_host rq) = Ret c \<and>
        (case virtual_handle env c of
           Some handle \<Rightarrow> handle (in_request rq) a = (Ret d, b)
         | None \<Rightarrow>
             (if c = JsonLogin then JsonLogin_handleRequest env parseJson (in_http rq) a = (Ret d, b)
              else JsonOpenConnection_handleRequest env parseJson (in_http rq) a = (Ret d, b))))"
  by (simp add: serve_def bind_Ret_iff split: option.split)

lemma serve_class:
  "serve env parseIP parseJson rq a = (Ret d, b) \<longleftrightarrow>
     parseIP (case in_realIp rq of Some ip \<Rightarrow> ip | None \<Rightarrow> in_host rq) = Ret () \<and>
     (case virtual_handle env (handler_for (extract_first_part (in_uri rq))) of
        Some handle \<Rightarrow> handle (in_request rq) a = (Ret d, b)
      | None \<Rightarrow>
          (if handler_for (extract_first_part (in_uri rq)) = JsonLogin
           then JsonLogin_handleRequest env parseJson (in_http rq) a = (Ret d, b)
           else JsonOpenConnection_handleRequest env parseJson (in_http rq) a = (Ret d, b)))"
  by (auto simp: serve_Ret createRequestHandler_def Let_def map_outcome_Ret)

text \<open>The three classes that send a transaction for a session.\<close>

definition sends_transaction :: "handler_class \<Rightarrow> bool" where
  "sends_transaction c \<longleftrightarrow>
     c \<in> {JsonCreationTransaction, JsonTransferTransaction, JsonRegisterAddressTransaction}"

lemma sender_success:
  assumes "sends_transaction c" "virtual_handle env c = Some h" "h rq a = (Ret (StateSuccess ms), b)"
  shows "(\<exists>s c. getSession env (rq_jwtToken rq) (rq_clientIp rq) a = (Ret s, c)) \<and>
     mPendingTransactions b \<noteq> [] \<and>
     ms = [(''iotaMessageId'', JString (iotaMessageId (last (mPendingTransactions b))))] \<and>
     pt_state (last (mPendingTransactions b)) = SENDED"
  using assms
  by (auto simp: sends_transaction_def virtual_handle_def
      dest: creation.newest_entry transfer.newest_entry register.newest_entry
        creation.needs_session transfer.needs_session register.needs_session)

lemma served_sender:
  assumes "serve env parseIP parseJson rq a = (Ret (StateSuccess ms), b)"
    and "sends_transaction (handler_for (extract_first_part (in_uri rq)))"
  shows "(\<exists>s c. getSession env (rq_jwtToken (in_request rq)) (rq_clientIp (in_request rq)) a = (Ret s, c)) \<and>
     mPendingTransactions b \<noteq> [] \<and>
     ms = [(''iotaMessageId'', JString (iotaMessageId (last (mPendingTransactions b))))] \<and>
     pt_state (last (mPendingTransactions b)) = SENDED"
proof -
  obtain h where "virtual_handle env (handler_for (extract_first_part (in_uri rq))) = Some h"
    using assms(2) by (auto simp: sends_transaction_def virtual_handle_def)
  with assms show ?thesis by (auto simp: serve_class dest: sender_success)
qed

lemma log_order_member:
  assumes "log_order a b" "length (mPendingTransactions a) \<le> MAX_PENDING_TRANSACTIONS_IN_LIST"
    and "length (mPendingTransactions b) < MAX_PENDING_TRANSACTIONS_IN_LIST"
    and "p \<in> set (mPendingTransactions a)"
  shows "iotaMessageId p \<in> iotaMessageId ` set (mPendingTransactions b)"
proof -
  obtain q where "q \<in> set (mPendingTransactions b)" "entry_le p q"
    using assms pending_order_member [of "mPendingTransactions a" "mPendingTransactions b" p]
    by (auto simp: log_order_def)
  moreover from this(2) have "iotaMessageId q = iotaMessageId p"
    unfolding entry_le_def by (metis pending_tx.select_convs(1) pending_tx.surjective pending_tx.update_convs(4,5))
  ultimately show ?thesis by (metis imageI)
qed

subsection \<open>Routing\<close>

text \<open>
  Only the first segment of the path selects the handler: whatever follows it, a
  query or further segments, makes no difference, and every path outside the ten known
  ones gets the handler that answers "unknown call".
\<close>

lemma routing_by_first_segment:
  assumes "list_all url_char seg" and "\<not> url_char d" and "parseIP clientHost = Ret ()"
  shows "createRequestHandler parseIP (CHR ''/'' # seg @ d # rest) None clientHost =
           createRequestHandler parseIP (CHR ''/'' # seg) None clientHost \<and>
     (createRequestHandler parseIP (CHR ''/'' # seg) None clientHost = Ret JsonUnknown \<longleftrightarrow>
        seg \<notin> {''packTransaction'', ''sendTransactionIota'', ''creation'', ''transfer'', ''registerAddress'', ''login'',
          ''openCommunication'', ''notify'', ''listTransactions'', ''listPending''})"
proof -
  have "extract_first_part (CHR ''/'' # seg) = CHR ''/'' # seg"
    using assms(1) by (simp add: takeWhile_eq_all_conv list_all_iff)
  moreover have "extract_first_part (CHR ''/'' # seg @ d # rest) = CHR ''/'' # seg"
    using assms(1,2) by (simp add: takeWhile_url_append)
  ultimately show ?thesis
    using assms(3) by (simp add: createRequestHandler_def handler_for_def del: extract_first_part.simps)
qed

end
