(* ===== verification/ServerConfig.thy ===== *)
theory ServerConfig
  imports Tables
begin

section \<open>ServerConfig: the configuration the server runs with\<close>

text \<open>
  The globals of the namespace \<^verbatim>\<open>ServerConfig\<close> and the functions that fill, use and
  release them: the keys and the session's duration from the configuration, the context
  for outgoing TLS connections, the database, and the writer of log texts.
\<close>

subsection \<open>State\<close>

datatype server_setup_type = SERVER_TYPE_TEST | SERVER_TYPE_STAGING | SERVER_TYPE_PRODUCTION

definition getServerSetupTypeFromString :: "string \<Rightarrow> server_setup_type" where
  "getServerSetupTypeFromString s =
     (if s = ''test'' then SERVER_TYPE_TEST
      else if s = ''staging'' then SERVER_TYPE_STAGING
      else if s = ''production'' then SERVER_TYPE_PRODUCTION
      else SERVER_TYPE_PRODUCTION)"

text \<open>
  A \<^verbatim>\<open>Poco::Net::Context\<close> is known by the arguments it was made with, the handler
  for invalid certificates by its argument (\<^verbatim>\<open>false\<close>: it sits on the client's side).
\<close>

datatype context_usage = CLIENT_USE

datatype verification_mode = VERIFY_RELAXED

record tls_context =
  tls_usage :: context_usage
  tls_privateKeyFile :: string
  tls_certificateFile :: string
  tls_caLocation :: string
  tls_verificationMode :: verification_mode
  tls_verificationDepth :: int
  tls_loadDefaultCAs :: bool
  tls_cipherList :: string

datatype certificate_handler = RejectCertificateHandler bool

text \<open>
  The globals, and the client half of the library's \<^verbatim>\<open>SSLManager\<close>
  (\<^verbatim>\<open>sc_sslManager\<close>).  A URI is kept as the text it was parsed from.
\<close>

record server_config =
  sc_SSL_CLient_Context :: "tls_context option"
  sc_GradidoNodeUri :: string
  sc_versionString :: string
  sc_ServerSetupType :: server_setup_type
  sc_CryptoAppSecret :: "bytes option"
  sc_ApolloJwtPublicKey :: "bytes option"
  sc_JwtPrivateKey :: "bytes option"
  sc_JwtVerifySecret :: string
  sc_SessionValidDuration :: int
  sc_sslManager :: "(certificate_handler \<times> tls_context) option"

text \<open>The initial values of the globals; durations are in microseconds.\<close>

definition initial_server_config :: server_config where
  "initial_server_config = \<lparr>sc_SSL_CLient_Context = None, sc_GradidoNodeUri = [], sc_versionString = [],
     sc_ServerSetupType = SERVER_TYPE_PRODUCTION, sc_CryptoAppSecret = None,
     sc_ApolloJwtPublicKey = None, sc_JwtPrivateKey = None, sc_JwtVerifySecret = [],
     sc_SessionValidDuration = 600 * 1000000, sc_sslManager = None\<rparr>"

subsection \<open>Keys\<close>

text \<open>
  \<^verbatim>\<open>hex2bin n\<close> is libsodium's \<^verbatim>\<open>sodium_hex2bin\<close> into a buffer of \<^verbatim>\<open>n\<close> bytes;
  \<^verbatim>\<open>crypto_shorthash_KEYBYTES\<close> is 16 and \<^verbatim>\<open>crypto_sign_SECRETKEYBYTES\<close> 64.
\<close>

definition initServerCrypto ::
    "(nat \<Rightarrow> string \<Rightarrow> bytes option) \<Rightarrow> (string \<Rightarrow> bytes option) \<Rightarrow> config_reader \<Rightarrow> server_config \<Rightarrow>
       bool \<times> server_config" where
  "initServerCrypto hex2bin toBin c sc =
     (let serverKey = cfg_getString c ''crypto.server_key'' ''a51ef8ac7ef1abf162fb7a65261acd7a'' in
      case hex2bin 16 serverKey of
        None \<Rightarrow> (False, sc)
      | Some key \<Rightarrow>
          if length key \<noteq> 16 then (False, sc)
          else
            (let sc = sc\<lparr>sc_ServerSetupType :=
                   getServerSetupTypeFromString (cfg_getString c ''server_setup_type'' [])\<rparr>;
                 app_secret_string = cfg_getString c ''crypto.app_secret'' ''21ffbbc616fe'';
                 sc = (if app_secret_string \<noteq> [] then sc\<lparr>sc_CryptoAppSecret := toBin app_secret_string\<rparr> else sc);
                 apolloPublicKeyString = cfg_getString c ''crypto.jwt.apollo_public'' [];
                 sc = (if apolloPublicKeyString \<noteq> []
                       then sc\<lparr>sc_ApolloJwtPublicKey := toBin apolloPublicKeyString\<rparr> else sc);
                 privateKeyString = cfg_getString c ''crypto.jwt.private'' [];
                 sc = (if privateKeyString \<noteq> [] then sc\<lparr>sc_JwtPrivateKey := toBin privateKeyString\<rparr> else sc)
             in
             case sc_JwtPrivateKey sc of
               None \<Rightarrow> (False, sc)
             | Some privateKey \<Rightarrow>
                 if length privateKey \<noteq> 64 then (False, sc)
                 else
                   (True, sc\<lparr>sc_JwtVerifySecret := cfg_getString c ''verify.jwt'' [],
                             sc_SessionValidDuration := cfg_getInt c ''session.duration_seconds'' 600 * 1000000\<rparr>)))"

text \<open>\<^verbatim>\<open>MemoryManager::releaseMemory\<close> has no effect on values.\<close>

definition unload :: "server_config \<Rightarrow> server_config" where
  "unload sc = sc\<lparr>sc_CryptoAppSecret := None, sc_ApolloJwtPublicKey := None, sc_JwtPrivateKey := None\<rparr>"

subsection \<open>TLS and the database\<close>

text \<open>
  The branch for systems other than Windows.  \<^verbatim>\<open>newContext\<close> is the outcome of the
  context's constructor, \<^verbatim>\<open>home\<close> is \<^verbatim>\<open>Poco::Path::home()\<close>; the \<^verbatim>\<open>try\<close>
  surrounds the constructor only.
\<close>

definition client_context :: "string \<Rightarrow> tls_context" where
  "client_context home = \<lparr>tls_usage = CLIENT_USE, tls_privateKeyFile = [], tls_certificateFile = [],
     tls_caLocation = home @ ''.gradido/cacert.pem'', tls_verificationMode = VERIFY_RELAXED,
     tls_verificationDepth = 9, tls_loadDefaultCAs = True,
     tls_cipherList = ''ALL:!ADH:!LOW:!EXP:!MD5:@STRENGTH''\<rparr>"

definition initSSLClientContext ::
    "hierarchy \<Rightarrow> (tls_context \<Rightarrow> unit outcome) \<Rightarrow> string \<Rightarrow> (server_config, bool) m" where
  "initSSLClientContext isa newContext home =
     (let pCert = RejectCertificateHandler False; ctx = client_context home in
      bind_m
        (try_m
          (bind_m (outcome_of (newContext ctx)) (\<lambda>_.
           bind_m (modify (\<lambda>sc. sc\<lparr>sc_SSL_CLient_Context := Some ctx\<rparr>)) (\<lambda>_. ret True)))
          (\<lambda>ex. if instance_of isa PocoException ex then ret False else throw ex))
        (\<lambda>made.
         if \<not> made then ret False
         else bind_m (modify (\<lambda>sc. sc\<lparr>sc_sslManager := Some (pCert, ctx)\<rparr>)) (\<lambda>_. ret True)))"

definition initMysql ::
    "(db_key \<Rightarrow> string \<Rightarrow> string) \<Rightarrow> config_reader \<Rightarrow> connection_manager \<Rightarrow> bool \<times> connection_manager" where
  "initMysql uri c cm = (True, snd (setConnectionsFromConfig uri c cm))"

subsection \<open>writeToFile\<close>

text \<open>
  The static mutex, seen from the calling thread (how often it holds the lock, which is
  recursive), and the texts of the files.  \<^verbatim>\<open>openFile\<close> is the outcome of the stream's
  constructor, with \<^verbatim>\<open>good()\<close>; writing to a stream that is good appends.
\<close>

record log_files =
  lf_locked :: nat
  lf_text :: "string \<Rightarrow> string"

abbreviation newline :: char where
  "newline \<equiv> CHR 0x0A"

text \<open>\<^verbatim>\<open>while (std::getline(datas, line))\<close>: the lines, the last one with or without an end.\<close>

fun getlines :: "string \<Rightarrow> string list" where
  "getlines [] = []"
| "getlines (c # cs) =
     (if c = newline then [] # getlines cs
      else (case getlines cs of [] \<Rightarrow> [[c]] | l # ls \<Rightarrow> (c # l) # ls))"

definition append_line :: "string \<Rightarrow> string \<Rightarrow> (log_files, unit) m" where
  "append_line f line = modify (\<lambda>s. s\<lparr>lf_text := (lf_text s)(f := lf_text s f @ line @ [newline])\<rparr>)"

definition lock_file :: "(log_files, unit) m" where
  "lock_file = modify (\<lambda>s. s\<lparr>lf_locked := lf_locked s + 1\<rparr>)"

definition unlock_file :: "(log_files, unit) m" where
  "unlock_file = modify (\<lambda>s. s\<lparr>lf_locked := lf_locked s - 1\<rparr>)"

definition writeToFile ::
    "(string \<Rightarrow> bool outcome) \<Rightarrow> string \<Rightarrow> string \<Rightarrow> string \<Rightarrow> (log_files, unit) m" where
  "writeToFile openFile dateTimeStr datas fileName =
     bind_m lock_file (\<lambda>_.
     bind_m (outcome_of (openFile fileName)) (\<lambda>good.
     if \<not> good then unlock_file
     else
       bind_m (append_line fileName dateTimeStr) (\<lambda>_.
       bind_m (each_m (append_line fileName) (getlines datas)) (\<lambda>_.
       bind_m (append_line fileName []) (\<lambda>_.
       unlock_file)))))"

subsection \<open>Lemmas\<close>

lemma initServerCrypto_config:
  "initServerCrypto hex2bin toBin c sc = (True, sc') \<Longrightarrow>
     \<exists>key. sc_JwtPrivateKey sc' = Some key \<and> length key = 64 \<and>
       sc_JwtVerifySecret sc' = cfg_getString c ''verify.jwt'' [] \<and>
       sc_SessionValidDuration sc' = cfg_getInt c ''session.duration_seconds'' 600 * 1000000"
  by (auto simp: initServerCrypto_def Let_def split: option.splits if_splits)

text \<open>
  The configuration is accepted exactly when the server key is 32 hex digits (16
  bytes) and the private key for the tokens is 64 bytes; then the session duration and
  the token secret are the configured ones.
\<close>

lemma initServerCrypto_accepts:
  "fst (initServerCrypto hex2bin toBin c sc) \<longleftrightarrow>
     (\<exists>key. hex2bin 16 (cfg_getString c ''crypto.server_key'' ''a51ef8ac7ef1abf162fb7a65261acd7a'') = Some key \<and>
        length key = 16) \<and>
     (\<exists>privateKey. length privateKey = 64 \<and>
        (if cfg_getString c ''crypto.jwt.private'' [] \<noteq> []
         then toBin (cfg_getString c ''crypto.jwt.private'' []) = Some privateKey
         else sc_JwtPrivateKey sc = Some privateKey))"
  by (auto simp: initServerCrypto_def Let_def split: option.splits)

text \<open>TLS is set up exactly when the context can be made; nothing else of the globals changes.\<close>

lemma initSSLClientContext_run:
  "initSSLClientContext isa newContext home sc =
     (case newContext (client_context home) of
        Ret _ \<Rightarrow> (Ret True, sc\<lparr>sc_SSL_CLient_Context := Some (client_context home),
                    sc_sslManager := Some (RejectCertificateHandler False, client_context home)\<rparr>)
      | Throw ex \<Rightarrow> (if instance_of isa PocoException ex then Ret False else Throw ex, sc)
      | Undef \<Rightarrow> (Undef, sc))"
  by (simp add: initSSLClientContext_def Let_def bind_m_def try_m_def split: outcome.split)

lemma getlines_empty: "getlines s = [] \<longleftrightarrow> s = []"
  by (cases s) (auto split: list.splits)

lemma getlines_text:
  "concat (map (\<lambda>l. l @ [newline]) (getlines s)) = (if s = [] \<or> last s = newline then s else s @ [newline])"
proof (induction s)
  case (Cons c cs)
  then show ?case using getlines_empty [of cs] by (auto split: list.splits if_splits)
qed simp

lemma getlines_no_newline: "l \<in> set (getlines s) \<Longrightarrow> newline \<notin> set l"
  by (induction s arbitrary: l) (auto split: if_splits list.splits)

lemma append_line_run:
  "append_line f line st = (Ret (), st\<lparr>lf_text := (lf_text st)(f := lf_text st f @ line @ [newline])\<rparr>)"
  by (simp add: append_line_def)

lemma append_lines_run:
  "each_m (append_line f) ls st =
     (Ret (), st\<lparr>lf_text := (lf_text st)(f := lf_text st f @ concat (map (\<lambda>l. l @ [newline]) ls))\<rparr>)"
proof (induction ls arbitrary: st)
  case (Cons l ls)
  show ?case by (simp add: bind_run(1) [OF append_line_run] Cons cong: if_cong)
qed simp

text \<open>
  Writing appends the date, the whole text and an empty line to that file only, and
  gives the lock back; so does a file that cannot be written.  When the stream's
  constructor throws, the lock stays taken.
\<close>

lemma writeToFile_appends:
  "openFile f = Ret True \<Longrightarrow>
     writeToFile openFile now datas f st =
       (Ret (), st\<lparr>lf_text := (lf_text st)(f := lf_text st f @ now @ [newline] @
          (if datas = [] \<or> last datas = newline then datas else datas @ [newline]) @ [newline])\<rparr>)"
  "openFile f = Ret False \<Longrightarrow> writeToFile openFile now datas f st = (Ret (), st)"
  "openFile f = Throw e \<Longrightarrow>
     writeToFile openFile now datas f st = (Throw e, st\<lparr>lf_locked := lf_locked st + 1\<rparr>)"
  by (simp_all add: writeToFile_def lock_file_def unlock_file_def bind_run(1) [OF append_lines_run]
      bind_run(1) [OF append_line_run] getlines_text)

end
