(* ===== verification/Connector.thy ===== *)
theory Connector
  imports Server ServerConfig
begin

section \<open>GradidoBlockchainConnector and main: the process\<close>

text \<open>
  The whole run of the process: the options, the logging channels, the configuration, the
  checks before the start, the server, and the end.  The handlers of theory Server read
  the globals the start has set; \<^verbatim>\<open>live_env\<close> is where they meet.
\<close>

subsection \<open>Options\<close>

text \<open>The base class sees every option but the path of the configuration file.\<close>

record app_options =
  opt_helpRequested :: bool
  opt_ConfigPath :: string

definition handleOption :: "string \<Rightarrow> string \<Rightarrow> app_options \<Rightarrow> app_options" where
  "handleOption name value self =
     (if name = ''config'' then self\<lparr>opt_ConfigPath := value\<rparr>
      else if name = ''help'' then self\<lparr>opt_helpRequested := True\<rparr> else self)"

text \<open>
  The option for the configuration file, added to those of the base class; its callback is
  \<^const>\<open>handleOption\<close>.
\<close>

record option_def =
  od_fullName :: string
  od_shortName :: string
  od_description :: string
  od_required :: bool
  od_repeatable :: bool
  od_argument :: "string \<times> bool"

definition defineOptions :: "option_def list \<Rightarrow> option_def list" where
  "defineOptions options =
     options @ [\<lparr>od_fullName = ''config'', od_shortName = ''c'',
       od_description = ''use non default config file (default is ~/.gradido/blockchain_connector.properties)'',
       od_required = False, od_repeatable = False, od_argument = (''Gradido_LoginServer.properties'', True)\<rparr>]"

definition config_file :: "string \<Rightarrow> app_options \<Rightarrow> string" where
  "config_file home self =
     (let cfg_Path = home @ ''.gradido/'' in
      if opt_ConfigPath self \<noteq> [] then opt_ConfigPath self
      else cfg_Path @ ''blockchain_connector.properties'')"

text \<open>The directory of the logs, on a system that is not Windows.\<close>

definition log_path :: "app_options \<Rightarrow> string" where
  "log_path self =
     (let log_Path = ''/var/log/gradido/'' in
      if opt_ConfigPath self \<noteq> [] then ''./'' else log_Path)"

text \<open>The port is an \<^verbatim>\<open>int\<close> cut down to an \<^verbatim>\<open>unsigned short\<close>.\<close>

definition json_port :: "config_reader \<Rightarrow> 16 word" where
  "json_port c = word_of_int (cfg_getInt c ''json_server.port'' 1271)"

subsection \<open>Loggers\<close>

text \<open>
  The channels of the logging library as they are put together, with the properties set
  on them; a logger is known by its channel and level, and found by its name.
\<close>

datatype channel =
    ConsoleChannel
  | FileChannel string "(string \<times> string) list"
  | SplitterChannel "channel list"
  | AsyncChannel channel

record logger =
  lg_channel :: channel
  lg_level :: string

type_synonym loggers = "(string \<times> logger) list"

definition createConsoleFileAsyncLogger :: "string \<Rightarrow> string \<Rightarrow> loggers \<Rightarrow> loggers" where
  "createConsoleFileAsyncLogger name filePath loggers =
     (let logConsoleChannel = ConsoleChannel;
          logFileChannel = FileChannel filePath
            [(''rotation'', ''500 K''), (''compress'', ''true''), (''archive'', ''timestamp'')];
          logSplitter = SplitterChannel [logConsoleChannel, logFileChannel];
          logAsyncChannel = AsyncChannel logSplitter
      in AList.update name \<lparr>lg_channel = logAsyncChannel, lg_level = ''information''\<rparr> loggers)"

definition createFileLogger :: "string \<Rightarrow> string \<Rightarrow> loggers \<Rightarrow> loggers" where
  "createFileLogger name filePath loggers =
     (let logFileChannel = FileChannel filePath [(''rotation'', ''500 K''), (''archive'', ''timestamp'')]
      in AList.update name \<lparr>lg_channel = logFileChannel, lg_level = ''information''\<rparr> loggers)"

subsection \<open>The process\<close>

text \<open>
  The state of the process: the shared state of the handlers, the configuration of the
  application, the loggers, the globals of ServerConfig, the ConnectionManager, the
  support key of CryptoConfig, whether the TLS library is initialised, and the port the
  HTTP server listens on.
\<close>

record ('c, 'w) process =
  pr_app :: "('c, 'w) app"
  pr_configuration :: config_reader
  pr_loggers :: loggers
  pr_server :: server_config
  pr_connections :: connection_manager
  pr_supportKey :: "bytes option"
  pr_ssl :: bool
  pr_listening :: "16 word option"

text \<open>
  The library calls of the start.  Loading a configuration file is a program on the
  configuration; the others are given by their outcomes.
\<close>

record startup =
  st_home :: string
  st_loadDefaultConfiguration :: "(config_reader, unit) m"
  st_baseInitialize :: "unit outcome"
  st_loadConfiguration :: "string \<Rightarrow> (config_reader, unit) m"
  st_mapEnvironment :: "config_reader \<Rightarrow> config_reader"
  st_hex2bin :: "nat \<Rightarrow> string \<Rightarrow> bytes option"
  st_loadMnemonicWordLists :: "bool outcome"
  st_loadCryptoKeys :: "config_reader \<Rightarrow> bytes option outcome"
  st_newContext :: "tls_context \<Rightarrow> unit outcome"
  st_uri :: "db_key \<Rightarrow> string \<Rightarrow> string"
  st_initIota :: "config_reader \<Rightarrow> unit outcome"
  st_parseUri :: "string \<Rightarrow> unit outcome"
  st_readUnsecureFlags :: "config_reader \<Rightarrow> unit outcome"
  st_openSocket :: "16 word \<Rightarrow> unit outcome"

text \<open>The globals and the shared state as parts of the process.\<close>

definition on_server :: "(server_config, 'a) m \<Rightarrow> (('c, 'w) process, 'a) m" where
  "on_server p = within pr_server (\<lambda>x s. s\<lparr>pr_server := x\<rparr>) p"

definition on_app :: "(('c, 'w) app, 'a) m \<Rightarrow> (('c, 'w) process, 'a) m" where
  "on_app p = within pr_app (\<lambda>x s. s\<lparr>pr_app := x\<rparr>) p"

definition on_configuration :: "(config_reader, 'a) m \<Rightarrow> (('c, 'w) process, 'a) m" where
  "on_configuration p = within pr_configuration (\<lambda>x s. s\<lparr>pr_configuration := x\<rparr>) p"

definition on_connections :: "(connection_manager \<Rightarrow> bool \<times> connection_manager) \<Rightarrow> (('c, 'w) process, bool) m" where
  "on_connections f =
     within pr_connections (\<lambda>x s. s\<lparr>pr_connections := x\<rparr>) (\<lambda>cm. (Ret (fst (f cm)), snd (f cm)))"

datatype exit_code = EXIT_OK | EXIT_CONFIG

text \<open>The default files of the configuration, before the options are read.\<close>

definition initialize :: "startup \<Rightarrow> (('c, 'w) process, unit) m" where
  "initialize st =
     bind_m (on_configuration (st_loadDefaultConfiguration st)) (\<lambda>_. outcome_of (st_baseInitialize st))"

text \<open>The logs and the configuration file; a file that cannot be loaded is only logged.\<close>

definition open_logs :: "app_options \<Rightarrow> (('c, 'w) process, unit) m" where
  "open_logs self =
     modify (\<lambda>s. s\<lparr>pr_loggers :=
       createConsoleFileAsyncLogger ''errorLog'' (log_path self @ ''errorLog.txt'')
         (createConsoleFileAsyncLogger ''requestLog'' (log_path self @ ''requestLog.txt'') (pr_loggers s))\<rparr>)"

definition load_config :: "hierarchy \<Rightarrow> startup \<Rightarrow> app_options \<Rightarrow> (('c, 'w) process, unit) m" where
  "load_config isa st self =
     try_m (on_configuration (st_loadConfiguration st (config_file (st_home st) self)))
       (\<lambda>ex. if instance_of isa PocoException ex then ret () else throw ex)"

text \<open>
  From the logs to the moment the HTTP server listens.  \<^verbatim>\<open>None\<close>: it listens;
  \<^verbatim>\<open>Some\<close>: \<^verbatim>\<open>main\<close> returns that code early.
\<close>

definition configure :: "('tx, 'n, 'c, 'w) env \<Rightarrow> startup \<Rightarrow> config_reader \<Rightarrow> (('c, 'w) process, exit_code option) m" where
  "configure env st configMapped =
     bind_m (on_server (\<lambda>sc.
       case initServerCrypto (st_hex2bin st) (hexToBin (conv env)) configMapped sc of (ok, sc) \<Rightarrow> (Ret ok, sc))) (\<lambda>ok.
     if \<not> ok then ret (Some EXIT_CONFIG)
     else
       bind_m (outcome_of (st_loadMnemonicWordLists st)) (\<lambda>loaded.
       if \<not> loaded then ret (Some EXIT_CONFIG)
       else
         bind_m (outcome_of (st_loadCryptoKeys st configMapped)) (\<lambda>supportKey.
         bind_m (modify (\<lambda>s. s\<lparr>pr_supportKey := supportKey, pr_ssl := True\<rparr>)) (\<lambda>_.
         bind_m (on_server (initSSLClientContext (isa_of env) (st_newContext st) (st_home st))) (\<lambda>ok.
         if \<not> ok then ret (Some EXIT_CONFIG) else ret None)))))"

definition connect_services :: "startup \<Rightarrow> config_reader \<Rightarrow> (('c, 'w) process, unit) m" where
  "connect_services st configMapped =
     bind_m (on_connections (initMysql (st_uri st) configMapped)) (\<lambda>_.
     bind_m (outcome_of (st_initIota st configMapped)) (\<lambda>_.
     (let uri = cfg_getString configMapped ''gradido_node'' ''http://127.0.0.1:8340'' in
      bind_m (outcome_of (st_parseUri st uri)) (\<lambda>_.
      bind_m (on_server (modify (\<lambda>sc. sc\<lparr>sc_GradidoNodeUri := uri\<rparr>))) (\<lambda>_.
      outcome_of (st_readUnsecureFlags st configMapped))))))"

definition start_server ::
    "('tx, 'n, 'c, 'w) env \<Rightarrow> startup \<Rightarrow> app_options \<Rightarrow> (('c, 'w) process, exit_code option) m" where
  "start_server env st self =
     bind_m (open_logs self) (\<lambda>_.
     bind_m (load_config (isa_of env) st self) (\<lambda>_.
     bind_m (gets (\<lambda>s. st_mapEnvironment st (pr_configuration s))) (\<lambda>configMapped.
     (let port = json_port configMapped in
      bind_m (configure env st configMapped) (\<lambda>early.
      case early of
        Some code \<Rightarrow> ret (Some code)
      | None \<Rightarrow>
          bind_m (connect_services st configMapped) (\<lambda>_.
          bind_m (gets (\<lambda>s. isSqlite (pr_connections s))) (\<lambda>sqlite.
          bind_m (on_app (migrate env sqlite)) (\<lambda>_.
          bind_m (outcome_of (st_openSocket st port)) (\<lambda>_.
          bind_m (modify (\<lambda>s. s\<lparr>pr_listening := Some port\<rparr>)) (\<lambda>_.
          ret None))))))))))"

text \<open>
  What the handlers find in the globals.  The session cache is made when the
  SessionManager is first used, with the duration the start has set.
\<close>

definition live_cfg :: "('c, 'w) process \<Rightarrow> config" where
  "live_cfg s = \<lparr>g_JwtVerifySecret = sc_JwtVerifySecret (pr_server s), g_JwtPrivateKey = sc_JwtPrivateKey (pr_server s),
     g_SessionValidDuration = sc_SessionValidDuration (pr_server s), g_SupportPublicKey = pr_supportKey s\<rparr>"

definition live_env :: "('tx, 'n, 'c, 'w) env \<Rightarrow> ('c, 'w) process \<Rightarrow> ('tx, 'n, 'c, 'w) env" where
  "live_env env s = env\<lparr>cfg := live_cfg s\<rparr>"

definition serve_requests ::
    "('tx, 'n, 'c, 'w) env \<Rightarrow> (string \<Rightarrow> unit outcome) \<Rightarrow> json_parser \<Rightarrow> incoming list \<Rightarrow> (('c, 'w) process, unit) m" where
  "serve_requests env parseIP parseJson rqs = (\<lambda>s.
     (let env = live_env env s in
      on_app
        (bind_m (modify (\<lambda>a. a\<lparr>mActiveSessions := cache_new (caches env) (session_cache_ms env)\<rparr>)) (\<lambda>_.
         serve_all env parseIP parseJson rqs)) s))"

text \<open>After the wait for the end: the server stops, the keys and the TLS library are released.\<close>

definition stop_server :: "(('c, 'w) process, unit) m" where
  "stop_server =
     bind_m (modify (\<lambda>s. s\<lparr>pr_listening := None\<rparr>)) (\<lambda>_.
     bind_m (on_server (modify unload)) (\<lambda>_.
     modify (\<lambda>s. s\<lparr>pr_ssl := False\<rparr>)))"

definition GradidoBlockchainConnector_main ::
    "('tx, 'n, 'c, 'w) env \<Rightarrow> startup \<Rightarrow> (string \<Rightarrow> unit outcome) \<Rightarrow> json_parser \<Rightarrow> app_options \<Rightarrow> incoming list \<Rightarrow>
       (('c, 'w) process, exit_code) m" where
  "GradidoBlockchainConnector_main env st parseIP parseJson self rqs =
     (if opt_helpRequested self then ret EXIT_OK
      else
        bind_m (start_server env st self) (\<lambda>early.
        case early of
          Some code \<Rightarrow> ret code
        | None \<Rightarrow>
            bind_m (serve_requests env parseIP parseJson rqs) (\<lambda>_.
            bind_m stop_server (\<lambda>_.
            ret EXIT_OK))))"

text \<open>
  The process: the crypto library must initialise, the build date must parse, and a Poco
  exception out of the application ends the process with -1.  \<^verbatim>\<open>run\<close> is the
  library's \<^verbatim>\<open>Application::run\<close> on the application.
\<close>

definition main_process ::
    "hierarchy \<Rightarrow> int \<Rightarrow> string outcome \<Rightarrow> (('c, 'w) process, int) m \<Rightarrow> (('c, 'w) process, int) m" where
  "main_process isa sodium_init version run =
     (if sodium_init < 0 then ret (-1)
      else
        bind_m (outcome_of version) (\<lambda>v.
        bind_m (on_server (modify (\<lambda>sc. sc\<lparr>sc_versionString := v\<rparr>))) (\<lambda>_.
        try_m run (\<lambda>ex. if instance_of isa PocoException ex then ret (-1) else throw ex))))"

subsection \<open>Lemmas\<close>

lemma json_port_fits:
  "0 \<le> cfg_getInt c ''json_server.port'' 1271 \<Longrightarrow> cfg_getInt c ''json_server.port'' 1271 < 65536 \<Longrightarrow>
     uint (json_port c) = cfg_getInt c ''json_server.port'' 1271"
  by (simp add: json_port_def uint_word_of_int)

lemma config_option_last_wins:
  "config_file home (handleOption ''config'' path self) = (if path \<noteq> [] then path else config_file home (self\<lparr>opt_ConfigPath := []\<rparr>))"
  by (simp add: config_file_def handleOption_def)

text \<open>Parts of the process: what a program on one of them leaves alone.\<close>

definition idle :: "('c, 'w) process \<Rightarrow> ('c, 'w) process \<Rightarrow> bool" where
  "idle s t \<longleftrightarrow> pr_app t = pr_app s \<and> pr_listening t = pr_listening s"

definition deaf :: "('c, 'w) process \<Rightarrow> ('c, 'w) process \<Rightarrow> bool" where
  "deaf s t \<longleftrightarrow> pr_listening t = pr_listening s"

interpretation idle: state_order idle
  by unfold_locales (auto simp: idle_def)

interpretation deaf: state_order deaf
  by unfold_locales (auto simp: deaf_def)

lemma idle_deaf: "stays idle p \<Longrightarrow> stays deaf p"
  by (simp add: stays_def idle_def deaf_def)

lemma part_keeps [keeps]:
  "stays idle (on_server p)" "stays idle (on_configuration q)" "stays idle (on_connections f)"
  "stays deaf (on_app r)"
  by (auto simp: on_server_def on_configuration_def on_connections_def on_app_def idle_def deaf_def
      intro!: stays_within)

lemma part_Ret:
  "on_server p s = (Ret x, t) \<longleftrightarrow> (\<exists>u. p (pr_server s) = (Ret x, u) \<and> t = s\<lparr>pr_server := u\<rparr>)"
  "on_app r s = (Ret x, t) \<longleftrightarrow> (\<exists>u. r (pr_app s) = (Ret x, u) \<and> t = s\<lparr>pr_app := u\<rparr>)"
  by (auto simp: on_server_def on_app_def within_def split: prod.splits)

lemma open_logs_keeps [keeps]: "stays idle (open_logs self)"
  unfolding open_logs_def by (rule idle.stays_modify) (simp add: idle_def)

lemma load_config_keeps [keeps]: "stays idle (load_config isa st self)"
  unfolding load_config_def by (intro keeps idle.stays_try idle.stays_pure)

lemma configure_keeps [keeps]: "stays idle (configure env st c)"
  unfolding configure_def
  by (intro idle.stays_bind idle.stays_pure keeps idle.stays_modify) (simp_all add: idle_def)

lemma connect_services_keeps [keeps]: "stays idle (connect_services st c)"
  unfolding connect_services_def Let_def by (intro idle.stays_bind idle.stays_pure keeps)

lemma initialize_keeps [keeps]: "stays idle (initialize st)"
  unfolding initialize_def by (intro idle.stays_bind idle.stays_pure keeps)

text \<open>The start keeps everything but what it says, and refuses without a trace.\<close>

lemma start_deaf:
  assumes "start_server env st self p = (r, q)" and "r \<noteq> Ret None"
  shows "deaf p q"
  using assms unfolding start_server_def Let_def
  by (auto simp: bind_m_def split: prod.splits outcome.splits option.splits
      dest!: staysD [OF open_logs_keeps [THEN idle_deaf]] staysD [OF load_config_keeps [THEN idle_deaf]]
        staysD [OF configure_keeps [THEN idle_deaf]] staysD [OF connect_services_keeps [THEN idle_deaf]]
        staysD [OF part_keeps(4)])
    (simp_all add: deaf_def)

lemma configure_codes: "configure env st c p = (Ret (Some code), q) \<Longrightarrow> code = EXIT_CONFIG"
  by (auto simp: configure_def bind_Ret_iff split: if_splits)

lemma start_refused:
  assumes "start_server env st self p = (Ret (Some code), q)"
  shows "code = EXIT_CONFIG \<and> pr_app q = pr_app p"
proof -
  from assms obtain p1 p2 c where "open_logs self p = (Ret (), p1)" "load_config (isa_of env) st self p1 = (Ret (), p2)"
      "configure env st c p2 = (Ret (Some code), q)"
    by (auto simp: start_server_def Let_def bind_Ret_iff split: option.splits)
  then have "idle p p1" "idle p1 p2" "idle p2 q" "code = EXIT_CONFIG"
    by (auto dest: staysD [OF open_logs_keeps] staysD [OF load_config_keeps] staysD [OF configure_keeps] configure_codes)
  then show ?thesis by (simp add: idle_def)
qed

lemma configure_ready:
  assumes "configure env st c p = (Ret None, q)"
  shows "pr_configuration q = pr_configuration p \<and> pr_connections q = pr_connections p \<and> pr_ssl q \<and>
     st_loadCryptoKeys st c = Ret (pr_supportKey q) \<and>
     sc_sslManager (pr_server q) = Some (RejectCertificateHandler False, client_context (st_home st)) \<and>
     (\<exists>key. sc_JwtPrivateKey (pr_server q) = Some key \<and> length key = 64) \<and>
     sc_JwtVerifySecret (pr_server q) = cfg_getString c ''verify.jwt'' [] \<and>
     sc_SessionValidDuration (pr_server q) = cfg_getInt c ''session.duration_seconds'' 600 * 1000000"
proof -
  from assms obtain sc k sv where "initServerCrypto (st_hex2bin st) (hexToBin (conv env)) c (pr_server p) = (True, sc)"
      "st_loadCryptoKeys st c = Ret k"
      "initSSLClientContext (isa_of env) (st_newContext st) (st_home st) sc = (Ret True, sv)"
      "q = p\<lparr>pr_server := sv, pr_supportKey := k, pr_ssl := True\<rparr>"
    by (auto simp: configure_def bind_Ret_iff part_Ret split: if_splits prod.splits)
  moreover from this(3) have "sv = sc\<lparr>sc_SSL_CLient_Context := Some (client_context (st_home st)),
      sc_sslManager := Some (RejectCertificateHandler False, client_context (st_home st))\<rparr>"
    by (auto simp: initSSLClientContext_run split: outcome.splits if_splits)
  ultimately show ?thesis by (auto dest!: initServerCrypto_config)
qed

lemma connect_ready:
  "connect_services st c p = (Ret (), q) \<Longrightarrow>
     q = p\<lparr>pr_connections := snd (setConnectionsFromConfig (st_uri st) c (pr_connections p)),
           pr_server := (pr_server p)\<lparr>sc_GradidoNodeUri := cfg_getString c ''gradido_node'' ''http://127.0.0.1:8340''\<rparr>\<rparr>"
  by (auto simp: connect_services_def Let_def bind_Ret_iff part_Ret on_connections_def within_def initMysql_def)

text \<open>
  What holds when the server listens.  \<^verbatim>\<open>c\<close> is the configuration as it was loaded,
  with the environment's variables.
\<close>

lemma start_listens:
  assumes "start_server env st self p = (Ret None, q)" and c: "c = st_mapEnvironment st (pr_configuration q)"
  shows "pr_listening q = Some (json_port c) \<and> pr_ssl q \<and>
     sc_sslManager (pr_server q) = Some (RejectCertificateHandler False, client_context (st_home st)) \<and>
     (\<exists>key. sc_JwtPrivateKey (pr_server q) = Some key \<and> length key = 64) \<and>
     sc_JwtVerifySecret (pr_server q) = cfg_getString c ''verify.jwt'' [] \<and>
     sc_SessionValidDuration (pr_server q) = cfg_getInt c ''session.duration_seconds'' 600 * 1000000 \<and>
     st_loadCryptoKeys st c = Ret (pr_supportKey q) \<and>
     (\<exists>cm. pr_connections q = snd (setConnectionsFromConfig (st_uri st) c cm)) \<and>
     migrate env (isSqlite (pr_connections q)) (pr_app p) = (Ret (), pr_app q)"
proof -
  from assms(1) obtain p1 p2 p3 p4 a c' where
    runs: "open_logs self p = (Ret (), p1)" "load_config (isa_of env) st self p1 = (Ret (), p2)"
    and c': "c' = st_mapEnvironment st (pr_configuration p2)"
    and ready: "configure env st c' p2 = (Ret None, p3)" "connect_services st c' p3 = (Ret (), p4)"
    and mig: "migrate env (isSqlite (pr_connections p4)) (pr_app p4) = (Ret (), a)"
    and q: "q = p4\<lparr>pr_app := a, pr_listening := Some (json_port c')\<rparr>"
    by (auto simp: start_server_def Let_def bind_Ret_iff part_Ret split: option.splits)
  have "idle p p1" "idle p1 p2" "idle p2 p3" "idle p3 p4"
    using runs ready by (auto dest: staysD [OF open_logs_keeps] staysD [OF load_config_keeps]
        staysD [OF configure_keeps] staysD [OF connect_services_keeps])
  then have "pr_app p4 = pr_app p" by (simp add: idle_def)
  moreover note p4 = connect_ready [OF ready(2)]
  moreover have "c' = c" using q c c' p4 configure_ready [OF ready(1)] by simp
  ultimately show ?thesis using q mig configure_ready [OF ready(1)] by auto
qed

text \<open>The end: nothing listens, and no key is left.\<close>

lemma stop_server_run:
  "stop_server s = (Ret (), s\<lparr>pr_listening := None, pr_server := unload (pr_server s), pr_ssl := False\<rparr>)"
  by (simp add: stop_server_def on_server_def within_def bind_run(1) [where p = "within _ _ _"] bind_m_def)

text \<open>The requests of a run start from the state without sessions and make only shared steps.\<close>

lemma serve_requests_steps:
  assumes "others_step (live_env env s)" and "serve_requests env parseIP parseJson rqs s = (r, t)"
  shows "\<exists>a. t = s\<lparr>pr_app := a\<rparr> \<and>
     shared_steps (live_env env s) ((pr_app s)\<lparr>mActiveSessions :=
       cache_new (caches env) (session_cache_ms (live_env env s))\<rparr>) a"
proof -
  obtain a where a: "serve_all (live_env env s) parseIP parseJson rqs
      ((pr_app s)\<lparr>mActiveSessions := cache_new (caches env) (session_cache_ms (live_env env s))\<rparr>) = (r, a)"
      "t = s\<lparr>pr_app := a\<rparr>"
    using assms(2) by (auto simp: serve_requests_def Let_def on_app_def within_def live_env_def split: prod.splits)
  from staysD [OF requests_steps [OF assms(1)] a(1)] a(2) show ?thesis by blast
qed

lemma main_runs:
  assumes "\<not> opt_helpRequested self"
    and "GradidoBlockchainConnector_main env st parseIP parseJson self rqs p = (Ret EXIT_OK, q)"
  shows "\<exists>s t. start_server env st self p = (Ret None, s) \<and> serve_requests env parseIP parseJson rqs s = (Ret (), t) \<and>
       q = t\<lparr>pr_listening := None, pr_server := unload (pr_server t), pr_ssl := False\<rparr>"
proof -
  from assms obtain early s where s: "start_server env st self p = (Ret early, s)"
    and rest: "(case early of Some code \<Rightarrow> ret code
      | None \<Rightarrow> bind_m (serve_requests env parseIP parseJson rqs) (\<lambda>_. bind_m stop_server (\<lambda>_. ret EXIT_OK))) s = (Ret EXIT_OK, q)"
    by (auto simp: GradidoBlockchainConnector_main_def bind_Ret_iff)
  show ?thesis
  proof (cases early)
    case None
    with s rest show ?thesis by (auto simp: bind_Ret_iff stop_server_run)
  next
    case (Some code)
    with start_refused [of env st self p code s] s rest show ?thesis by simp
  qed
qed

end
