(* ===== verification/Spec2Isabelle.thy ===== *)
theory Spec2Isabelle
  imports Accounts Connector
begin

text \<open>
  \<^bold>\<open>The Gradido Blockchain Connector\<close>

  The program is an HTTP server between a community server (Apollo), the iota network and
  the Gradido Node.  A user logs in and gets a token; with the token the server builds a
  creation, a transfer or an address registration, signs it with the user's key, sends it
  to iota (an archive transaction: to the node) and remembers it as pending.  The node
  later reports every transaction it has processed to \<^verbatim>\<open>/notify\<close>, which confirms or
  rejects the pending entry.  The sources are under \<^verbatim>\<open>src/\<close>.

  \<^bold>\<open>How the code is modelled.\<close>  A C++ function that may throw or change shared state is
  a function from a state to an outcome (returned value, exception, or undefined
  behaviour) and the state it leaves (theory Prelude: \<^verbatim>\<open>m\<close>, \<^verbatim>\<open>bind_m\<close>,
  \<^verbatim>\<open>try_m\<close>).  The shared state is the record \<^verbatim>\<open>app\<close> of theory Environment: the
  members of the singletons PasswordEncryptionRateLimiter, PendingTransactions and
  SessionManager, and the outside world.  Handler objects and Session objects are records
  that are passed along.  64-bit and 32-bit members are words; a session's group id is
  32 bits wide, so an id of the database is narrowed as in the code.  Dates are
  microseconds, mpfr numbers are of an opaque type.

  \<^bold>\<open>Parameters.\<close> What is not in the repository (gradido\_blockchain, Poco, mpfr,
  libsodium, the database, iota, the node) is the record \<^verbatim>\<open>env\<close>, an argument
  of the definitions, about which nothing is assumed; which exception class derives from which is a
  parameter too. A property that needs a law of a library names it:
  \<^verbatim>\<open>cache_law\<close>, \<^verbatim>\<open>cache_frame\<close>,
  \<^verbatim>\<open>token_law\<close>, \<^verbatim>\<open>memo_law\<close>,
  \<^verbatim>\<open>key_law\<close>, \<^verbatim>\<open>migration_db\<close>,
  \<^verbatim>\<open>accounts_db\<close>, \<^verbatim>\<open>sleeps\<close>,
  \<^verbatim>\<open>others_step\<close>. Theory Demo is one concrete environment in which the
  properties are applied. The accessors of JSON values, which the handlers use on every line, are
  theory Json; an access rapidjson asserts against is undefined.

  \<^bold>\<open>Theories and code.\<close>
  \<^item> Pending: \<^verbatim>\<open>model/PendingTransactions\<close>; the list, its bound of 100, the search
    from the end by 64 characters, the export.  The locale \<^verbatim>\<open>bounded_log\<close> is the
    contract its callers rely on, the order \<^verbatim>\<open>pending_order\<close> what every operation
    keeps.
  \<^item> RateLimiter: \<^verbatim>\<open>PasswordEncryptionRateLimiter\<close>, one thread as the code runs it
    (the other threads are \<^verbatim>\<open>yield\<close>), and all threads as the step relation
    \<^verbatim>\<open>limiter_step\<close>, one step per section between two lock operations.
  \<^item> Tables, Versions: \<^verbatim>\<open>ConnectionManager\<close>, \<^verbatim>\<open>model/table\<close>; the statements as
    texts with their bound values, the schemas, \<^verbatim>\<open>VersionsManager::migrate\<close>; the
    locale \<^verbatim>\<open>base_table\<close> is the abstract class the manager works with.
  \<^item> Shared: the threads together.  \<^verbatim>\<open>shared_step\<close> has one rule per operation the
    code makes on the shared state under a lock, \<^verbatim>\<open>reachable\<close> are the states that any
    interleaving of such steps reaches from the start.
  \<^item> Sessions, SessionManager: \<^verbatim>\<open>model/Session\<close>, \<^verbatim>\<open>SessionManager\<close>.
  \<^item> Accounts: what a login leaves in the database for the next one, over the two maps
    \<^verbatim>\<open>users\<close> and \<^verbatim>\<open>groups\<close> of the tables.
  \<^item> ExnText: \<^verbatim>\<open>getFullString\<close> of the exception classes.
  \<^item> NodeRPC: \<^verbatim>\<open>GradidoNodeRPC\<close>.
  \<^item> Transactions: \<^verbatim>\<open>JSONInterface/JsonTransaction\<close>, the base of the handlers.
  \<^item> Handlers: the interface of a handler, locales \<^verbatim>\<open>json_handler\<close> (an object as
    answer, only \<^verbatim>\<open>shared_step\<close>s on the shared state) and \<^verbatim>\<open>transaction_handler\<close> (no success
    without a session, the answer is the newest pending entry), interpreted by each
    handler in the next five theories.
  \<^item> Creation, Transfers, Register, Pack, ListTransactions, and Notify (notification, list
    of pending transactions, sending a packed transaction, unknown call): one handler
    class of \<^verbatim>\<open>JSONInterface\<close> each.
  \<^item> Logins: \<^verbatim>\<open>JsonLogin\<close>, \<^verbatim>\<open>JsonOpenConnection\<close>.
  \<^item> Server: \<^verbatim>\<open>JsonRequestHandlerFactory\<close>; \<^verbatim>\<open>serve\<close> is a request from its
    path to its answer and \<^verbatim>\<open>serve_all\<close> a run of requests.
  \<^item> ServerConfig: the namespace \<^verbatim>\<open>ServerConfig\<close>; the record
    \<^verbatim>\<open>server_config\<close> holds its globals, \<^verbatim>\<open>log_files\<close> is what \<^verbatim>\<open>writeToFile\<close>
    works on.
  \<^item> Connector: \<^verbatim>\<open>GradidoBlockchainConnector\<close> and \<^verbatim>\<open>main\<close>; the record
    \<^verbatim>\<open>process\<close> is the state of the process, \<^verbatim>\<open>start_server\<close> the part of
    \<^verbatim>\<open>main\<close> up to the listening server, \<^verbatim>\<open>live_env\<close> the globals as the handlers
    find them.
  \<^item> This theory: properties of the whole server.

  \<^bold>\<open>What is shown.\<close>  All a request does to the shared state is a run of atomic steps,
  so what holds under every interleaving of the steps holds for the server: the limiter's
  bound, the bound of the pending list, that every active session belongs to its user,
  and that confirmed entries do not change.  The pending list refines an unbounded log; a
  transaction that was answered with success is confirmed by its notification, whatever
  the threads do in between.  A transaction succeeds only with a session, within the
  month's limit (creation), covered by the balance (transfer) and for a new address
  (registration).  A session comes from a login only, with the key derived from the
  password of the request, belongs to the stored user, and is found by its token exactly
  as long as it lives; a created user can log in again, if the id of the group fits in 31
  bits.  The limiter's waiting ends.  A database is migrated or refused before the server
  listens, and a whole run of the process works with the keys of its configuration and
  leaves none behind.  Memos decrypt for their
  recipient.  Some properties state what the code does where it surprises: a limiter slot
  that leaks, a login that ignores the password, a user without a backup, a comparison
  out of bounds, a move between groups without rollback.

  \<^bold>\<open>Bounds and fuel.\<close>  \<^verbatim>\<open>wait_loop\<close> takes 501 rounds of fuel: each round sleeps for
  at least 200 ms and the loop throws after 100 s, so more rounds compute the same
  (\<^verbatim>\<open>wait_loop_fuel\<close>).  Every other loop is structural or has a termination proof.

  \<^bold>\<open>Not modelled.\<close> The lines written to the loggers and the console (the loggers and
  their channels are in theory Connector), the help text; the sockets and TLS connections
  themselves; the creation of the server's threads (what they do is in theory Shared; the
  program of one thread runs with the others as \<^verbatim>\<open>yield\<close> only where it sleeps or
  computes); the session pool of the database, which is the library's; the branches for
  Windows; the response header in which a login repeats the token of its answer; the
  release of memory, which has no effect on values; plain getters and setters; the tests.
\<close>

section \<open>The server as a whole\<close>

subsection \<open>Memos between two users\<close>

text \<open>
  What the code relies on in the crypto library and the converters: what the sender
  encrypts for the recipient's key the recipient decrypts with the sender's key, and
  base64 and hex texts convert back.
\<close>

definition memo_law :: "('tx, 'n, 'c, 'w) env \<Rightarrow> keypair \<Rightarrow> keypair \<Rightarrow> bool" where
  "memo_law env sender recipient \<longleftrightarrow>
     (\<forall>m e. authEncrypt (crypto env) (kpPrivate sender) (kpPublic recipient) m = Ret e \<longrightarrow>
        authDecrypt (crypto env) (kpPrivate recipient) (kpPublic sender) e = Some m) \<and>
     (\<forall>e. base64ToBin (conv env) (binToBase64 (conv env) e) = Ret e) \<and>
     hexToBin (conv env) (binToHex (conv env) (kpPublic sender)) = Some (kpPublic sender)"

lemma memo_round_trip:
  assumes "memo_law env sender recipient"
    and "encryptMemo env memo (kpPublic recipient) (kpPrivate sender) a = (Ret c, b)"
  shows "decryptMemo env c (kpPublic sender) (kpPrivate recipient) s = (Ret memo, s)"
proof -
  from assms(2) obtain e where "authEncrypt (crypto env) (kpPrivate sender) (kpPublic recipient) memo = Ret e"
      "c = binToBase64 (conv env) e"
    by (auto simp: encryptMemo_def bind_Ret_iff)
  with assms(1) show ?thesis by (simp add: decryptMemo_def memo_law_def)
qed

subsection \<open>Concrete inputs\<close>

definition demo_in :: "string \<Rightarrow> request \<Rightarrow> incoming" where
  "demo_in uri rq = \<lparr>in_uri = uri, in_realIp = None, in_host = ''ip'', in_request = rq,
     in_http = \<lparr>http_method = ''POST'', http_body = ''pw'', http_client = ''ip''\<rparr>\<rparr>"

text \<open>An invertible text form of a name, for a token library that keeps every name.\<close>

fun to_letters :: "string \<Rightarrow> string" where
  "to_letters [] = []"
| "to_letters (c # cs) =
     char_of (65 + of_char c div 16 :: nat) # char_of (65 + of_char c mod 16 :: nat) # to_letters cs"

fun of_letters :: "string \<Rightarrow> string" where
  "of_letters (a # b # cs) = char_of (16 * (of_char a - 65) + (of_char b - 65) :: nat) # of_letters cs"
| "of_letters _ = []"

lemma of_char_nat: "(of_char (c::char) :: nat) < 256"
  by (metis of_char_mod_256 mod_less_divisor zero_less_numeral)

lemma letters_round_trip: "of_letters (to_letters s) = s"
proof (induction s)
  case (Cons c s)
  have "(of_char c :: nat) div 16 < 16" using of_char_nat [of c] by (simp add: less_mult_imp_div_less)
  with Cons show ?case by simp
qed simp

lemma to_letters_no_nul: "CHR 0x00 \<notin> set (to_letters s)"
proof (induction s)
  case (Cons c s)
  have nz: "n < 16 \<Longrightarrow> char_of (65 + n :: nat) \<noteq> CHR 0x00" for n
    by (auto dest: arg_cong [where f = "of_char :: char \<Rightarrow> nat"])
  have "(of_char c :: nat) div 16 < 16" "(of_char c :: nat) mod 16 < 16" using of_char_nat [of c] by (simp_all add: less_mult_imp_div_less)
  from this [THEN nz] Cons show ?case
    by (simp only: to_letters.simps list.set insert_iff) metis
qed simp

definition token_env :: "(string, int, demo_cache, int) env" where
  "token_env = demo\<lparr>jwt := demo_jwt\<lparr>
     signer_sign := (\<lambda>secret t. to_letters (snd (hd (tk_payload t)))),
     signer_verify := (\<lambda>secret s. Ret \<lparr>tk_type = ''JWT'', tk_subject = ''login'',
        tk_payload = [(''name'', of_letters s)], tk_issuedAt = 0, tk_expiration = 0\<rparr>)\<rparr>\<rparr>"

lemma token_env_laws: "cache_law token_env" "token_law token_env"
  by (auto simp: cache_law_def token_law_def token_env_def demo_def demo_jwt_def demo_caches_def demo_cfg_def
      demo_cache_get_def session_life_def session_cache_ms_def update_conv signed_divide_int_def
      login_token_def letters_round_trip to_letters_no_nul split: option.splits if_splits)

subsection \<open>Properties\<close>

text \<open>
  C1. From a successful transaction request to its confirmation: whatever the request
  threads do in between and however they interleave, as long as the list of pending
  transactions has not filled up, the node's notification with the message id that was
  answered confirms the transaction, and the exported list then shows that id in the
  state confirmed.
\<close>

theorem sent_then_confirmed:
  assumes sent: "serve env parseIP parseJson rq a = (Ret (StateSuccess ms), b)"
    and cls: "sends_transaction (handler_for (extract_first_part (in_uri rq)))"
    and reach: "reachable env a" "others_step env"
    and between: "shared_steps env b c" and len: "length (mPendingTransactions c) < 100"
    and ids: "\<forall>p \<in> set (mPendingTransactions c). id_ok (iotaMessageId p)"
    and notified: "optString env (rq_params nt) ''transactionBase64'' [] \<noteq> []"
      "optString env (rq_params nt) ''error'' [] = []"
      "base64ToBinString (conv env) (optString env (rq_params nt) ''transactionBase64'' []) = Ret bin"
      "blockMessageIdHex (txs env) bin = Ret i"
    and i: "ms = [(''iotaMessageId'', JString i)]"
  shows "\<exists>d es e.
     JsonTransactionListener_handle env nt c = (Ret (StateSuccess []), d) \<and>
     JsonGetPendingTransactions_handle env rq' d = (Ret (StateSuccess [(''pendingTransactions'', JArray es)]), d) \<and>
     e \<in> set es \<and> member e ''messageId'' = Ret (JString (c_str i)) \<and>
     member e ''state'' = Ret (JString ''confirmed'')"
proof -
  let ?d = "c\<lparr>mPendingTransactions := rev (spec_update (i, True, []) (rev (mPendingTransactions c)))\<rparr>"
  from served_sender [OF sent cls] i have "last (mPendingTransactions b) \<in> set (mPendingTransactions b)"
    "i = iotaMessageId (last (mPendingTransactions b))" by auto
  then have found: "i \<in> iotaMessageId ` set (mPendingTransactions c)"
    using log_order_member [OF steps_log_order [OF between] reachable_pending] len
      reachable_steps [OF reach(1) staysD [OF request_steps [OF reach(2)] sent]]
    by (simp add: MAX_PENDING_TRANSACTIONS_IN_LIST_def)
  then have "id_ok i" using ids by blast
  then have run: "JsonTransactionListener_handle env nt c = (Ret (StateSuccess []), ?d)"
    using notified updateTransaction_spec [OF _ ids]
    by (simp add: JsonTransactionListener_handle_def Let_def update_pending_run bind_run)
  from found obtain q where "q \<in> set (mPendingTransactions ?d)" "iotaMessageId q = i" "pt_state q = CONFIRMED"
    using spec_update_confirms [of i "rev (mPendingTransactions c)" "[]"] by auto
  then have "entry_json (getTransactionTypeString (conv env)) q \<in>
        set (map (entry_json (getTransactionTypeString (conv env))) (rev (mPendingTransactions ?d)))"
    "member (entry_json (getTransactionTypeString (conv env)) q) ''messageId'' = Ret (JString (c_str i))"
    "member (entry_json (getTransactionTypeString (conv env)) q) ''state'' = Ret (JString ''confirmed'')"
    by (auto simp: entry_json_def StateToString_def)
  with run show ?thesis
    unfolding JsonGetPendingTransactions_handle_def success_with_def listAsJson_def by (simp only: bind_basic run_basic) blast
qed

theorem sent_then_confirmed_witness:
  "\<exists>b d es e.
     serve demo (\<lambda>_. Ret ()) demo_parse (demo_in ''/transfer'' demo_request) demo_state =
       (Ret (StateSuccess [(''iotaMessageId'', JString id64)]), b) \<and>
     JsonTransactionListener_handle demo demo_notify b = (Ret (StateSuccess []), d) \<and>
     JsonGetPendingTransactions_handle demo demo_request d = (Ret (StateSuccess [(''pendingTransactions'', JArray es)]), d) \<and>
     e \<in> set es \<and> member e ''state'' = Ret (JString ''confirmed'')"
proof -
  let ?sent = "serve demo (\<lambda>_. Ret ()) demo_parse (demo_in ''/transfer'' demo_request) demo_state"
  have "fst ?sent = Ret (StateSuccess [(''iotaMessageId'', JString id64)])" by code_simp
  note sent = runI [OF this]
  have cls: "sends_transaction (handler_for (extract_first_part (in_uri (demo_in ''/transfer'' demo_request))))"
    by code_simp
  have log: "map iotaMessageId (mPendingTransactions (snd ?sent)) = [id64]" by code_simp
  then have len: "length (mPendingTransactions (snd ?sent)) = 1" by (metis length_map length_Cons list.size(3) One_nat_def)
  from log have "\<forall>i \<in> set (map iotaMessageId (mPendingTransactions (snd ?sent))). id_ok i"
    by (simp add: id_ok_def id64_def)
  then have ids: "\<forall>p \<in> set (mPendingTransactions (snd ?sent)). id_ok (iotaMessageId p)" by simp
  have block: "optString demo (rq_params demo_notify) ''transactionBase64'' [] \<noteq> []"
    "optString demo (rq_params demo_notify) ''error'' [] = []"
    "base64ToBinString (conv demo) (optString demo (rq_params demo_notify) ''transactionBase64'' []) = Ret ''block''"
    "blockMessageIdHex (txs demo) ''block'' = Ret id64" by code_simp+
  from sent_then_confirmed [OF sent cls demo_reachable demo_others rtranclp.rtrancl_refl _ ids block refl, of demo_request] len sent
  show ?thesis by (simp, blast)
qed

text \<open>
  C3. Whatever a request does to the shared state, answered or not, is a run of the
  seven atomic steps: what holds in every state the steps reach holds for the server.
\<close>

theorem requests_are_steps:
  assumes "others_step env" and "serve env parseIP parseJson rq a = (r, b)"
  shows "shared_steps env a b \<and> (reachable env a \<longrightarrow> reachable env b)"
  using staysD [OF request_steps [OF assms(1)] assms(2)] reachable_steps by blast

theorem requests_are_steps_witness:
  "reachable demo (snd (serve demo (\<lambda>_. Ret ()) demo_parse (demo_in ''/transfer'' demo_request) demo_state))"
  using requests_are_steps [OF demo_others, of "\<lambda>_. Ret ()" demo_parse "demo_in ''/transfer'' demo_request" demo_state]
    demo_reachable by (metis prod.collapse)




text \<open>A pending transaction of the demo, after it was sent and settled.\<close>

definition demo_confirmed :: "(demo_cache, int) app" where
  "demo_confirmed = demo_state\<lparr>mPendingTransactions := [(PendingTransaction 0 id64 1 [] 0 0)\<lparr>pt_state := CONFIRMED\<rparr>]\<rparr>"

lemma demo_confirmed_reachable: "reachable demo demo_confirmed"
proof -
  let ?p = "PendingTransaction 0 id64 1 [] 0 0"
  let ?a = "demo_state\<lparr>mPendingTransactions := pushNewTransaction ?p (mPendingTransactions demo_state)\<rparr>"
  have "pt_state ?p = SENDED" by code_simp
  then have "shared_step demo demo_state ?a" by (rule pushes)
  moreover have "updateTransaction id64 True [] (mPendingTransactions ?a) = Ret (mPendingTransactions demo_confirmed)"
    by code_simp
  then have "shared_step demo ?a (?a\<lparr>mPendingTransactions := mPendingTransactions demo_confirmed\<rparr>)" by (rule settles)
  then have "shared_step demo ?a demo_confirmed" by (simp add: demo_confirmed_def)
  ultimately show ?thesis
    using demo_reachable by (meson reachable_steps r_into_rtranclp)
qed


text \<open>
  C5. In every state the server reaches, a creation, transfer or registration request
  succeeds only with a token that verifies under the server's secret and names an active
  session, opened from the same ip and with the key derived for that name; the answer
  then carries the message id of the newest pending transaction, in the state sent.
\<close>

theorem transaction_needs_session:
  assumes "reachable env a" and "cache_frame env"
    and "serve env parseIP parseJson rq a = (Ret (StateSuccess ms), b)"
    and "sends_transaction (handler_for (extract_first_part (in_uri rq)))"
  shows "(\<exists>token name s c.
       signer_verify (jwt env) (g_JwtVerifySecret (cfg env)) (rq_jwtToken (in_request rq)) = Ret token \<and>
       payload_getValue (jwt env) (tk_payload token) ''name'' = Ret name \<and>
       lookup_session env name a = (Some s, c) \<and> mClientIp s = rq_clientIp (in_request rq) \<and>
       session_made env name s) \<and>
     mPendingTransactions b \<noteq> [] \<and> pt_state (last (mPendingTransactions b)) = SENDED \<and>
     ms = [(''iotaMessageId'', JString (iotaMessageId (last (mPendingTransactions b))))]"
proof -
  have made: "session_made env name s" if "lookup_session env name a = (Some s, c)" for name s c
    using reachable_inv [OF assms(1,2)] that unfolding sessions_ok_def by (metis fst_conv)
  from served_sender [OF assms(3,4)] show ?thesis
    by (auto simp: getSession_def signature_guard_Ret bind_Ret_iff session_for_Ret dest: made)
qed

theorem transaction_needs_session_witness:
  "\<exists>b. serve demo (\<lambda>_. Ret ()) demo_parse (demo_in ''/creation'' demo_request) demo_state =
       (Ret (StateSuccess [(''iotaMessageId'', JString id64)]), b) \<and>
     mPendingTransactions b \<noteq> [] \<and> iotaMessageId (last (mPendingTransactions b)) = id64"
proof -
  have "fst (serve demo (\<lambda>_. Ret ()) demo_parse (demo_in ''/creation'' demo_request) demo_state) =
    Ret (StateSuccess [(''iotaMessageId'', JString id64)])" by code_simp
  note run = runI [OF this]
  have cls: "sends_transaction (handler_for (extract_first_part (in_uri (demo_in ''/creation'' demo_request))))"
    by code_simp
  from transaction_needs_session [OF demo_reachable demo_cache_frame run cls] run show ?thesis by auto
qed

text \<open>
  C17. After a successful transaction request the exported list of pending transactions
  begins with the message id that was answered, in the state sent.
\<close>

theorem sent_then_listed:
  assumes "serve env parseIP parseJson rq a = (Ret (StateSuccess ms), b)"
    and "sends_transaction (handler_for (extract_first_part (in_uri rq)))"
  shows "\<exists>i e es.
     ms = [(''iotaMessageId'', JString i)] \<and>
     JsonGetPendingTransactions_handle env rq' b = (Ret (StateSuccess [(''pendingTransactions'', JArray (e # es))]), b) \<and>
     member e ''messageId'' = Ret (JString (c_str i)) \<and>
     member e ''state'' = Ret (JString ''sended'')"
  using served_sender [OF assms] listed_newest [of b _ env rq']
  by (fastforce simp: success_with_def entry_json_def StateToString_def)

theorem sent_then_listed_witness:
  "\<exists>b e es. serve demo (\<lambda>_. Ret ()) demo_parse (demo_in ''/registerAddress'' demo_request) demo_state =
       (Ret (StateSuccess [(''iotaMessageId'', JString id64)]), b) \<and>
     JsonGetPendingTransactions_handle demo demo_request b = (Ret (StateSuccess [(''pendingTransactions'', JArray (e # es))]), b) \<and>
     member e ''state'' = Ret (JString ''sended'')"
proof -
  have "fst (serve demo (\<lambda>_. Ret ()) demo_parse (demo_in ''/registerAddress'' demo_request) demo_state) =
    Ret (StateSuccess [(''iotaMessageId'', JString id64)])" by code_simp
  note run = runI [OF this]
  have cls: "sends_transaction (handler_for (extract_first_part (in_uri (demo_in ''/registerAddress'' demo_request))))"
    by code_simp
  from sent_then_listed [OF run cls, of demo_request] run show ?thesis by fastforce
qed

text \<open>
  C10. Logging in and using the login: the token a successful login request answers with,
  sent from the same ip at a later time, finds a session with a key pair for exactly as
  long as a session lives, given the laws of the token library and of the cache.
\<close>

theorem login_then_request:
  assumes login: "JsonLogin_handleRequest env parseJson http a = (Ret (StateSuccess ms), b)"
    and laws: "cache_law env" "token_law env"
    and rq: "ms = [(''token'', JString (rq_jwtToken rq))]" "rq_clientIp rq = http_client http"
    and later: "clock (svc env) (world b) \<le> clock (svc env) w"
  shows "(\<exists>s c. find_session env rq (b\<lparr>world := w\<rparr>) = (Ret (Inr s), c) \<and>
       mClientIp s = http_client http \<and> getPublicKey s \<noteq> None) \<longleftrightarrow>
     clock (svc env) w < clock (svc env) (world b) + session_life env"
proof -
  from login_request_login [OF login] obtain u pw ga tok where
    run: "login env u pw ga (http_client http) a = (Ret tok, b)" and "ms = [(''token'', JString (c_str tok))]"
    by blast
  with rq have tok: "rq_jwtToken rq = c_str tok" by simp
  from login_stores_session [OF run laws(1)] obtain s pk now where
    s: "stored_until_expiry env u s b" "mClientIp s = http_client http" "getPublicKey s = Some pk"
      "tok = signer_sign (jwt env) (g_JwtVerifySecret (cfg env)) (login_token env u pk now)" by blast
  from laws(2) s(4) have "c_str tok = tok" by (simp add: c_str_id token_law_def)
  moreover from laws(2) obtain t where "signer_verify (jwt env) (g_JwtVerifySecret (cfg env)) tok = Ret t"
      "payload_getValue (jwt env) (tk_payload t) ''name'' = Ret u"
    unfolding token_law_def s(4) by blast
  moreover have "fst (lookup_session env u (b\<lparr>world := w\<rparr>)) =
      (if clock (svc env) w < clock (svc env) (world b) + session_life env then Some s else None)"
    using s(1) later by (simp add: stored_until_expiry_def)
  ultimately show ?thesis
    using s(2,3) tok rq(2) unfolding find_session_Inr
    by (cases "lookup_session env u (b\<lparr>world := w\<rparr>)")
      (auto simp: getSession_def signature_guard_Ret bind_Ret_iff session_for_Ret split: if_splits)
qed

theorem login_then_request_witness:
  "\<exists>b. JsonLogin_handleRequest token_env demo_parse (in_http (demo_in ''/login'' demo_request)) empty_state =
       (Ret (StateSuccess [(''token'', JString ''GBGM'')]), b) \<and>
     (\<exists>s c. find_session token_env \<lparr>rq_params = JNull, rq_jwtToken = ''GBGM'', rq_clientIp = ''ip''\<rparr>
        (b\<lparr>world := 600000999\<rparr>) = (Ret (Inr s), c)) \<and>
     \<not> (\<exists>s c. find_session token_env \<lparr>rq_params = JNull, rq_jwtToken = ''GBGM'', rq_clientIp = ''ip''\<rparr>
        (b\<lparr>world := 600001000\<rparr>) = (Ret (Inr s), c) \<and> mClientIp s = ''ip'' \<and> getPublicKey s \<noteq> None)"
proof -
  let ?http = "in_http (demo_in ''/login'' demo_request)"
  let ?rq = "\<lparr>rq_params = JNull, rq_jwtToken = ''GBGM'', rq_clientIp = ''ip''\<rparr>"
  let ?run = "JsonLogin_handleRequest token_env demo_parse ?http empty_state"
  have "fst ?run = Ret (StateSuccess [(''token'', JString ''GBGM'')])" by code_simp
  note run = runI [OF this]
  have rq: "[(''token'', JString ''GBGM'')] = [(''token'', JString (rq_jwtToken ?rq))]" "rq_clientIp ?rq = http_client ?http"
    by (simp_all add: demo_in_def)
  have now: "clock (svc token_env) (world (snd ?run)) = 1000" by code_simp
  have clk: "clock (svc token_env) w = w" for w
    by (simp add: token_env_def demo_def demo_svc_def)
  have life: "session_life token_env = 600000000" by code_simp
  have ip: "http_client ?http = ''ip''" by (simp add: demo_in_def)
  have "clock (svc token_env) (world (snd ?run)) \<le> clock (svc token_env) 600000999"
       "clock (svc token_env) (world (snd ?run)) \<le> clock (svc token_env) 600001000"
    unfolding now unfolding clk by simp_all
  note uses = this [THEN login_then_request [OF run token_env_laws rq]]
  have "\<exists>s c. find_session token_env ?rq ((snd ?run)\<lparr>world := 600000999\<rparr>) = (Ret (Inr s), c) \<and>
      mClientIp s = http_client ?http \<and> getPublicKey s \<noteq> None"
    unfolding uses(1) unfolding now life unfolding clk by simp
  moreover have "\<not> (\<exists>s c. find_session token_env ?rq ((snd ?run)\<lparr>world := 600001000\<rparr>) = (Ret (Inr s), c) \<and>
      mClientIp s = http_client ?http \<and> getPublicKey s \<noteq> None)"
    unfolding uses(2) unfolding now life unfolding clk by simp
  ultimately show ?thesis using run unfolding ip by metis
qed

text \<open>
  C38. Only the two login classes answer with the null document, and only to a method
  other than POST; every other request that is answered gets an object.
\<close>

theorem served_answers:
  assumes "serve env parseIP parseJson rq a = (Ret d, b)"
  shows "d = NullDocument \<longleftrightarrow>
     handler_for (extract_first_part (in_uri rq)) \<in> {JsonLogin, JsonOpenConnection} \<and>
     http_method (in_http rq) \<noteq> ''POST''"
proof (cases "virtual_handle env (handler_for (extract_first_part (in_uri rq)))")
  case None
  with assms show ?thesis
    by (auto simp: serve_class virtual_handle_None dest: login_request_null open_request_null split: if_splits)
next
  case (Some h)
  with assms have "d \<noteq> NullDocument" by (auto simp: serve_class dest: virtual_handle_answers)
  moreover have "handler_for (extract_first_part (in_uri rq)) \<notin> {JsonLogin, JsonOpenConnection}"
    using Some virtual_handle_None [of env] by (metis insert_iff option.distinct(1) singletonD)
  ultimately show ?thesis by blast
qed

theorem served_answers_witness:
  "\<exists>d b. serve demo (\<lambda>_. Ret ()) demo_parse (demo_in ''/listPending'' demo_request) demo_state = (Ret d, b) \<and>
     d \<noteq> NullDocument"
proof -
  let ?run = "serve demo (\<lambda>_. Ret ()) demo_parse (demo_in ''/listPending'' demo_request) demo_state"
  have "fst ?run = Ret (StateSuccess [(''pendingTransactions'', JArray [])])" by code_simp
  note run = runI [OF this]
  have "handler_for (extract_first_part (in_uri (demo_in ''/listPending'' demo_request))) = JsonGetPendingTransactions"
    by code_simp
  with served_answers [OF run] run show ?thesis by blast
qed

definition demo_reader :: config_reader where
  "demo_reader = \<lparr>cfg_getString = (\<lambda>k d. if k = ''crypto.jwt.private'' then id64
     else if k = ''db.sqlite'' then ''connector.db'' else d), cfg_getInt = (\<lambda>k d. d)\<rparr>"

definition demo_startup :: startup where
  "demo_startup = \<lparr>st_home = ''/home/'', st_loadDefaultConfiguration = ret (), st_baseInitialize = Ret (),
     st_loadConfiguration = (\<lambda>f. modify (\<lambda>_. demo_reader)), st_mapEnvironment = (\<lambda>c. c),
     st_hex2bin = (\<lambda>n s. Some (take n s)), st_loadMnemonicWordLists = Ret True, st_loadCryptoKeys = (\<lambda>_. Ret None),
     st_newContext = (\<lambda>_. Ret ()), st_uri = (\<lambda>k s. s), st_initIota = (\<lambda>_. Ret ()), st_parseUri = (\<lambda>_. Ret ()),
     st_readUnsecureFlags = (\<lambda>_. Ret ()), st_openSocket = (\<lambda>_. Ret ())\<rparr>"

definition demo_options :: app_options where
  "demo_options = \<lparr>opt_helpRequested = False, opt_ConfigPath = []\<rparr>"

text \<open>A process before its start, over the database of theory Versions.\<close>

definition demo_process :: "(demo_cache, migration_row list) process" where
  "demo_process = \<lparr>pr_app = db_state [], pr_configuration = \<lparr>cfg_getString = (\<lambda>k d. d), cfg_getInt = (\<lambda>k d. d)\<rparr>,
     pr_loggers = [], pr_server = initial_server_config, pr_connections = new_ConnectionManager,
     pr_supportKey = None, pr_ssl = False, pr_listening = None\<rparr>"





text \<open>
  C18. A memo reaches its recipient: the memo the sender encrypts for the recipient's key
  is what the recipient reads in the list of transactions, where the sender's key stands
  in the linked user, given the laws of the crypto library.
\<close>

theorem memo_reaches_recipient:
  assumes law: "memo_law env sender recipient"
    and enc: "encryptMemo env memo (kpPublic recipient) (kpPrivate sender) a = (Ret c, b)"
    and memo: "memo \<noteq> []" "CHR 0x00 \<notin> set memo"
    and listed: "base64_match c" "map_of ms ''memo'' = Some (JString c)" "map_of ms ''typeId'' = Some (JString ty)"
      "distinct (map fst ms)"
      "map_of ms ''linkedUser'' = Some (JObject user)" "map_of user ''pubkey'' = Some (JString (binToHex (conv env) (kpPublic sender)))"
    and viewer: "mUserKeyPair session = Some recipient"
  shows "\<exists>ms'. rewrite_transaction env session names (JObject ms) s = (Ret (JObject ms'), s) \<and>
     map_of ms' ''memo'' = Some (JString memo)"
proof -
  let ?pk = "binToHex (conv env) (kpPublic sender)"
  note nul = base64_match_no_nul [OF listed(1)]
  obtain user' where ren: "rename_user names ?pk (Some (JString ty)) user = Ret user'"
    by (cases "names ?pk") (auto simp: rename_user_def Let_def)
  let ?ms = "set_member ''linkedUser'' (JObject user') ms"
  have upd: "map_of ?ms = (map_of ms)(''linkedUser'' \<mapsto> JObject user')"
    using listed(5) by (intro map_of_set_member) simp
  have key: "hexToBin (conv env) ?pk = Some (kpPublic sender)" using law by (simp add: memo_law_def)
  let ?out = "add_member ''memo'' (JString memo) (remove_member ''memo'' ?ms)"
  have "clear_memo env session ?pk (Some (JString ty)) ?ms s = (Ret ?out, s)"
    using listed(1,2) memo viewer memo_round_trip [OF law enc, of s]
    by (simp add: clear_memo_def upd key c_str_id nul bind_run)
  moreover have "map_of ?out ''memo'' = Some (JString memo)"
    using listed(4) by (simp add: map_of_add_member map_of_remove_member map_add_def)
  ultimately show ?thesis
    using ren listed(3,5,6) by (simp add: rewrite_transaction_def linked_pubkey_def bind_run)
qed

theorem memo_reaches_recipient_witness:
  "\<exists>ms' c b. encryptMemo demo ''QUJD'' ''keya'' ''keyb'' demo_state = (Ret c, b) \<and>
     rewrite_transaction demo demo_session [''keyb'' \<mapsto> ''bob''] (JObject demo_listed) demo_state = (Ret (JObject ms'), demo_state) \<and>
     map_of ms' ''memo'' = Some (JString ''QUJD'')"
proof -
  have law: "memo_law demo (demo_keypair ''keyb'') (demo_keypair ''keya'')"
    by (simp add: memo_law_def demo_def demo_crypto_def demo_conv_def demo_keypair_def)
  have enc: "encryptMemo demo ''QUJD'' (kpPublic (demo_keypair ''keya'')) (kpPrivate (demo_keypair ''keyb'')) demo_state =
      (Ret ''QUJD'', demo_state)" by code_simp
  have memo: "''QUJD'' \<noteq> []" "CHR 0x00 \<notin> set ''QUJD''" by code_simp+
  have listed: "base64_match ''QUJD''" "map_of demo_listed ''memo'' = Some (JString ''QUJD'')"
    "map_of demo_listed ''typeId'' = Some (JString ''SEND'')" "distinct (map fst demo_listed)"
    "map_of demo_listed ''linkedUser'' = Some (JObject [(''pubkey'', JString ''keyb''), (''firstName'', JString ''unknown'')])"
    "map_of [(''pubkey'', JString ''keyb''), (''firstName'', JString ''unknown'')] ''pubkey'' =
       Some (JString (binToHex (conv demo) (kpPublic (demo_keypair ''keyb''))))" by code_simp+
  have viewer: "mUserKeyPair demo_session = Some (demo_keypair ''keya'')" by code_simp
  from memo_reaches_recipient [OF law enc memo listed viewer, of "[''keyb'' \<mapsto> ''bob'']" demo_state] enc
  show ?thesis by (auto simp: demo_keypair_def)
qed

end
